(* ===== verification/Mercury_Prelude.thy ===== *)
theory Mercury_Prelude
  imports Main "HOL-Library.Word" "HOL-Library.List_Lexorder"
begin

text \<open>
  Shared vocabulary of the development.  Rust's \<^verbatim>\<open>Result<T,E>\<close> is the sum type
  \<open>'e + 'a\<close> (\<open>Err\<close> on the left, \<open>Ok\<close> on the right); the combinators the sources call on
  results and on completed futures (\<^verbatim>\<open>and_then\<close>, \<^verbatim>\<open>map\<close>, \<^verbatim>\<open>map_err\<close>,
  \<^verbatim>\<open>ok_or\<close>, \<^verbatim>\<open>ok\<close>) are defined once here.  Code that can panic has the result type
  \<open>'a run\<close>, so a panic is a value that a theorem can exclude or exhibit.  The string
  functions are the ones of \<^verbatim>\<open>std::str\<close> the sources use, on bytes.  Lists of bytes are ordered
  lexicographically (\<^verbatim>\<open>PartialOrd for Vec<u8>\<close>), which is the library's list order.
\<close>

section \<open>Results, options and panics\<close>

type_synonym u8 = "8 word"
type_synonym bytes = "u8 list"
type_synonym ('a, 'e) result = "'e + 'a"

abbreviation Ok :: "'a \<Rightarrow> ('a, 'e) result" where "Ok \<equiv> Inr"
abbreviation Err :: "'e \<Rightarrow> ('a, 'e) result" where "Err \<equiv> Inl"

fun and_then :: "('a, 'e) result \<Rightarrow> ('a \<Rightarrow> ('b, 'e) result) \<Rightarrow> ('b, 'e) result" where
  "and_then (Inl e) f = Inl e"
| "and_then (Inr a) f = f a"

fun map_ok :: "('a \<Rightarrow> 'b) \<Rightarrow> ('a, 'e) result \<Rightarrow> ('b, 'e) result" where
  "map_ok f (Inl e) = Inl e"
| "map_ok f (Inr a) = Inr (f a)"

fun map_err :: "('e \<Rightarrow> 'f) \<Rightarrow> ('a, 'e) result \<Rightarrow> ('a, 'f) result" where
  "map_err f (Inl e) = Inl (f e)"
| "map_err f (Inr a) = Inr a"

fun ok_or :: "'e \<Rightarrow> 'a option \<Rightarrow> ('a, 'e) result" where
  "ok_or e None = Inl e"
| "ok_or e (Some a) = Inr a"

fun ok :: "('a, 'e) result \<Rightarrow> 'a option" where
  "ok (Inl e) = None"
| "ok (Inr a) = Some a"

fun is_ok :: "('a, 'e) result \<Rightarrow> bool" where
  "is_ok (Inl e) = False"
| "is_ok (Inr a) = True"

abbreviation is_err :: "('a, 'e) result \<Rightarrow> bool" where "is_err r \<equiv> \<not> is_ok r"

lemma and_then_eq_Ok [simp]:
  "and_then r f = Inr b \<longleftrightarrow> (\<exists>a. r = Inr a \<and> f a = Inr b)"
  by (cases r) auto

lemma and_then_eq_Err [simp]:
  "and_then r f = Inl e \<longleftrightarrow> r = Inl e \<or> (\<exists>a. r = Inr a \<and> f a = Inl e)"
  by (cases r) auto

lemma map_err_eq_Ok [simp]: "map_err f r = Inr a \<longleftrightarrow> r = Inr a"
  by (cases r) auto

lemma map_err_eq_Err [simp]: "map_err f r = Inl e \<longleftrightarrow> (\<exists>d. r = Inl d \<and> e = f d)"
  by (cases r) auto

lemma map_ok_eq_Ok [simp]: "map_ok f r = Inr b \<longleftrightarrow> (\<exists>a. r = Inr a \<and> b = f a)"
  by (cases r) auto

lemma map_ok_eq_Err [simp]: "map_ok f r = Inl e \<longleftrightarrow> r = Inl e"
  by (cases r) auto

lemma map_ok_ident [simp]: "map_ok (\<lambda>x. x) r = r"
  by (cases r) auto

lemma map_ok_unit [simp]: "map_ok (\<lambda>_. ()) r = r"
  by (cases r) auto

lemma ok_or_eq_Ok [simp]: "ok_or e x = Inr a \<longleftrightarrow> x = Some a"
  by (cases x) auto

lemma ok_or_eq_Err [simp]: "ok_or e x = Inl d \<longleftrightarrow> x = None \<and> d = e"
  by (cases x) auto

lemma is_ok_iff: "is_ok r \<longleftrightarrow> (\<exists>a. r = Inr a)"
  by (cases r) auto

lemma is_err_iff: "is_err r \<longleftrightarrow> (\<exists>e. r = Inl e)"
  by (cases r) auto

lemma is_ok_map_err [simp]: "is_ok (map_err f r) = is_ok r"
  by (cases r) auto

lemma is_ok_map_ok [simp]: "is_ok (map_ok f r) = is_ok r"
  by (cases r) auto

text \<open>Closes the impossible case that splitting a result leaves under a binder.\<close>

lemma neither_ok_nor_err: "\<forall>e. r \<noteq> Inl e \<Longrightarrow> \<forall>a. r \<noteq> Inr a \<Longrightarrow> P"
  by (cases r) auto

text \<open>A computation that may panic, as \<^verbatim>\<open>unwrap()\<close>, an out-of-range slice or
  \<^verbatim>\<open>panic!\<close> do.\<close>

datatype 'a run = Panic | Return 'a

fun run_bind :: "'a run \<Rightarrow> ('a \<Rightarrow> 'b run) \<Rightarrow> 'b run" where
  "run_bind Panic f = Panic"
| "run_bind (Return a) f = f a"

lemma run_bind_eq_Return [simp]:
  "run_bind r f = Return b \<longleftrightarrow> (\<exists>a. r = Return a \<and> f a = Return b)"
  by (cases r) auto

lemma run_bind_eq_Panic [simp]:
  "run_bind r f = Panic \<longleftrightarrow> r = Panic \<or> (\<exists>a. r = Return a \<and> f a = Panic)"
  by (cases r) auto

section \<open>Lists\<close>

lemma distinct_count_list_one: "distinct xs \<Longrightarrow> x \<in> set xs \<Longrightarrow> count_list xs x = 1"
  by (induction xs) auto

section \<open>Strings\<close>

text \<open>\<^verbatim>\<open>str::find(char)\<close>: the byte index of the first occurrence.\<close>

fun str_find :: "char \<Rightarrow> string \<Rightarrow> nat option" where
  "str_find c [] = None"
| "str_find c (x # xs) = (if x = c then Some 0 else map_option Suc (str_find c xs))"

text \<open>\<^verbatim>\<open>str::split_at\<close>; every caller passes an index within the string.\<close>

definition str_split_at :: "nat \<Rightarrow> string \<Rightarrow> string \<times> string" where
  "str_split_at n s = (take n s, drop n s)"

text \<open>The slice \<^verbatim>\<open>&s[n..]\<close> panics when \<open>n\<close> is past the end.\<close>

definition str_from :: "nat \<Rightarrow> string \<Rightarrow> string run" where
  "str_from n s = (if n \<le> length s then Return (drop n s) else Panic)"

text \<open>\<^verbatim>\<open>str::split(char)\<close>: always at least one (possibly empty) piece.\<close>

fun str_split :: "char \<Rightarrow> string \<Rightarrow> string list" where
  "str_split c [] = [[]]"
| "str_split c (x # xs) =
     (if x = c then [] # str_split c xs
      else (case str_split c xs of [] \<Rightarrow> [[x]] | p # ps \<Rightarrow> (x # p) # ps))"

fun str_join :: "char \<Rightarrow> string list \<Rightarrow> string" where
  "str_join c [] = []"
| "str_join c [p] = p"
| "str_join c (p # q # ps) = p @ c # str_join c (q # ps)"

lemma str_find_None: "str_find c s = None \<longleftrightarrow> c \<notin> set s"
  by (induction s) auto

lemma str_find_append: "c \<notin> set p \<Longrightarrow> str_find c (p @ c # s) = Some (length p)"
  by (induction p) auto

lemma str_find_Some:
  "str_find c s = Some n \<Longrightarrow> n < length s \<and> s ! n = c \<and> c \<notin> set (take n s)"
proof (induction s arbitrary: n)
  case Nil
  then show ?case by simp
next
  case (Cons x xs)
  then show ?case by (cases n) (auto split: if_splits)
qed

lemma str_find_SomeE:
  assumes "str_find c s = Some n"
  obtains p q where "s = p @ c # q" "c \<notin> set p" "length p = n"
proof
  from str_find_Some [OF assms]
  have n: "n < length s" "s ! n = c" "c \<notin> set (take n s)" by auto
  then show "s = take n s @ c # drop (Suc n) s"
    by (metis id_take_nth_drop)
  show "c \<notin> set (take n s)" by (rule n(3))
  show "length (take n s) = n" using n(1) by simp
qed

lemma str_split_not_Nil [simp]: "str_split c s \<noteq> []"
  by (induction s) (auto split: list.splits)

lemma str_split_no_sep: "c \<notin> set s \<Longrightarrow> str_split c s = [s]"
  by (induction s) auto

lemma str_split_append: "c \<notin> set p \<Longrightarrow> str_split c (p @ c # s) = p # str_split c s"
  by (induction p) auto

lemma str_split_join:
  assumes "ps \<noteq> []" and "\<forall>p \<in> set ps. c \<notin> set p"
  shows "str_split c (str_join c ps) = ps"
  using assms by (induction c ps rule: str_join.induct)
    (auto simp: str_split_no_sep str_split_append)

lemma str_split_pieces: "p \<in> set (str_split c s) \<Longrightarrow> c \<notin> set p"
  by (induction s arbitrary: p) (auto split: if_splits list.splits)

lemma str_from_eq_Return [simp]: "str_from n s = Return t \<longleftrightarrow> n \<le> length s \<and> t = drop n s"
  by (auto simp: str_from_def)

lemma str_from_eq_Panic [simp]: "str_from n s = Panic \<longleftrightarrow> length s < n"
  by (auto simp: str_from_def)

end
