(* ===== verification/Storage_Errors.thy ===== *)
theory Storage_Errors
  imports Mercury_Prelude
begin

text \<open>
  The error types of the storage crate (\<^verbatim>\<open>storage/src/error.rs\<close>) with their
  \<^verbatim>\<open>Error::description\<close> texts.  A boxed foreign error (\<^verbatim>\<open>Box<Error>\<close>) is represented by
  the only thing the crate ever reads from it, its description string.
\<close>

datatype HashError = UnsupportedType | BadInputLength | UnknownCode | HashError_Other string

fun HashError_description :: "HashError \<Rightarrow> string" where
  "HashError_description UnsupportedType = ''This type is not supported yet''"
| "HashError_description BadInputLength = ''Not matching input length''"
| "HashError_description UnknownCode = ''Found unknown code''"
| "HashError_description (HashError_Other e) = e"

datatype SerializerError =
  SerializationError string | DeserializationError string | SerializerError_Other string

fun SerializerError_description :: "SerializerError \<Rightarrow> string" where
  "SerializerError_description (SerializationError e) = e"
| "SerializerError_description (DeserializationError e) = e"
| "SerializerError_description (SerializerError_Other e) = e"

datatype StorageError = OutOfDiskSpace | InvalidKey | StringError string

fun StorageError_description :: "StorageError \<Rightarrow> string" where
  "StorageError_description OutOfDiskSpace = ''Run out of disk space''"
| "StorageError_description InvalidKey = ''The given key holds no value''"
| "StorageError_description (StringError s) = s"

datatype StringCoderError = StringCoderError_Other string

fun StringCoderError_description :: "StringCoderError \<Rightarrow> string" where
  "StringCoderError_description (StringCoderError_Other e) = e"

datatype HashSpaceError =
    HashSpace_HashError HashError
  | HashSpace_StorageError StorageError
  | HashSpace_StringCoderError StringCoderError
  | LinkFormatError string
  | UnknownHashSpace string
  | UnsupportedHashSpace string
  | HashSpace_Other string

fun HashSpaceError_description :: "HashSpaceError \<Rightarrow> string" where
  "HashSpaceError_description (HashSpace_HashError e) = HashError_description e"
| "HashSpaceError_description (HashSpace_StorageError e) = StorageError_description e"
| "HashSpaceError_description (HashSpace_StringCoderError e) = StringCoderError_description e"
| "HashSpaceError_description (LinkFormatError s) = s"
| "HashSpaceError_description (UnknownHashSpace s) = s"
| "HashSpaceError_description (UnsupportedHashSpace s) = s"
| "HashSpaceError_description (HashSpace_Other e) = e"

datatype FormatParserError = FormatParserError_TODO

datatype AddressResolutionError =
    Address_HashSpaceError HashSpaceError
  | AttributeNotFound string
  | WrongAttributeType
  | UnknownFormat string
  | Address_FormatParserError FormatParserError

end
