(* ===== verification/Key_Value_Store.thy ===== *)
theory Key_Value_Store
  imports Storage_Errors
begin

text \<open>
  The key-value stores of the storage crate.  The trait
  \<^verbatim>\<open>async::KeyValueStore\<close> is a record of its three operations over an explicit store state;
  a completed future is its result.  \<^verbatim>\<open>InMemoryStore\<close> (asynchronous and synchronous),
  \<^verbatim>\<open>KeyAdapter\<close> and \<^verbatim>\<open>BlockingFileStore\<close> (over a model of the \<^verbatim>\<open>std::fs\<close> calls
  it makes) are its implementations.  The locale \<open>kv_store\<close> is the contract clients rely on,
  \<open>total_kv_store\<close> the stronger one of a store that never fails; both are interpreted on the
  implementations.
\<close>

section \<open>The trait\<close>

record ('s, 'k, 'v) KeyValueStore =
  kv_set :: "'s \<Rightarrow> 'k \<Rightarrow> 'v \<Rightarrow> (unit, StorageError) result \<times> 's"
  kv_get :: "'s \<Rightarrow> 'k \<Rightarrow> ('v, StorageError) result"
  kv_clear_local :: "'s \<Rightarrow> 'k \<Rightarrow> (unit, StorageError) result \<times> 's"

section \<open>InMemoryStore\<close>

record ('k, 'v) InMemoryStore =
  imap :: "'k \<rightharpoonup> 'v"

definition InMemoryStore_new :: "('k, 'v) InMemoryStore" where
  "InMemoryStore_new = \<lparr>imap = Map.empty\<rparr>"

definition InMemoryStore_set ::
  "('k, 'v) InMemoryStore \<Rightarrow> 'k \<Rightarrow> 'v \<Rightarrow> (unit, StorageError) result \<times> ('k, 'v) InMemoryStore" where
  "InMemoryStore_set s key object = (Ok (), s\<lparr>imap := (imap s)(key \<mapsto> object)\<rparr>)"

definition InMemoryStore_get ::
  "('k, 'v) InMemoryStore \<Rightarrow> 'k \<Rightarrow> ('v, StorageError) result" where
  "InMemoryStore_get s key = (case imap s key of Some val \<Rightarrow> Ok val | None \<Rightarrow> Err InvalidKey)"

definition InMemoryStore_clear_local ::
  "('k, 'v) InMemoryStore \<Rightarrow> 'k \<Rightarrow> (unit, StorageError) result \<times> ('k, 'v) InMemoryStore" where
  "InMemoryStore_clear_local s key =
     (ok_or InvalidKey (map_option (\<lambda>_. ()) (imap s key)), s\<lparr>imap := (imap s)(key := None)\<rparr>)"

definition InMemoryStore_ops :: "(('k, 'v) InMemoryStore, 'k, 'v) KeyValueStore" where
  "InMemoryStore_ops = \<lparr>kv_set = InMemoryStore_set, kv_get = InMemoryStore_get,
     kv_clear_local = InMemoryStore_clear_local\<rparr>"

text \<open>The synchronous crate has its own trait with \<^verbatim>\<open>store\<close> and \<^verbatim>\<open>lookup\<close> only.\<close>

definition sync_InMemoryStore_store ::
  "('k, 'v) InMemoryStore \<Rightarrow> 'k \<Rightarrow> 'v \<Rightarrow> (unit, StorageError) result \<times> ('k, 'v) InMemoryStore" where
  "sync_InMemoryStore_store s key object = (Ok (), s\<lparr>imap := (imap s)(key \<mapsto> object)\<rparr>)"

definition sync_InMemoryStore_lookup ::
  "('k, 'v) InMemoryStore \<Rightarrow> 'k \<Rightarrow> ('v, StorageError) result" where
  "sync_InMemoryStore_lookup s key = ok_or InvalidKey (imap s key)"

section \<open>KeyAdapter\<close>

text \<open>\<^verbatim>\<open>KeyAdapter\<close> converts the preferred key with \<^verbatim>\<open>Into\<close> and delegates; it has no
  state beside the wrapped store.\<close>

definition KeyAdapter_set ::
  "('p \<Rightarrow> 'a) \<Rightarrow> ('s, 'a, 'v) KeyValueStore \<Rightarrow> 's \<Rightarrow> 'p \<Rightarrow> 'v \<Rightarrow> (unit, StorageError) result \<times> 's" where
  "KeyAdapter_set into store s key value = kv_set store s (into key) value"

definition KeyAdapter_get ::
  "('p \<Rightarrow> 'a) \<Rightarrow> ('s, 'a, 'v) KeyValueStore \<Rightarrow> 's \<Rightarrow> 'p \<Rightarrow> ('v, StorageError) result" where
  "KeyAdapter_get into store s key = kv_get store s (into key)"

definition KeyAdapter_clear_local ::
  "('p \<Rightarrow> 'a) \<Rightarrow> ('s, 'a, 'v) KeyValueStore \<Rightarrow> 's \<Rightarrow> 'p \<Rightarrow> (unit, StorageError) result \<times> 's" where
  "KeyAdapter_clear_local into store s key = kv_clear_local store s (into key)"

definition KeyAdapter_ops ::
  "('p \<Rightarrow> 'a) \<Rightarrow> ('s, 'a, 'v) KeyValueStore \<Rightarrow> ('s, 'p, 'v) KeyValueStore" where
  "KeyAdapter_ops into store = \<lparr>kv_set = KeyAdapter_set into store,
     kv_get = KeyAdapter_get into store, kv_clear_local = KeyAdapter_clear_local into store\<rparr>"

section \<open>BlockingFileStore\<close>

text \<open>
  \<^verbatim>\<open>std::fs\<close> as the store uses it: the files by path, the directories that exist, and
  what the operating system will refuse.  \<open>fail_write p = Some (n, e)\<close> means that writing to
  \<open>p\<close> stops with the error \<open>e\<close> after \<open>n\<close> bytes.
\<close>

record fs =
  files :: "string \<rightharpoonup> bytes"
  dirs :: "string set"
  fail_mkdir :: "string \<rightharpoonup> string"
  fail_create :: "string \<rightharpoonup> string"
  fail_write :: "string \<rightharpoonup> nat \<times> string"
  fail_read :: "string \<rightharpoonup> string"
  fail_remove :: "string \<rightharpoonup> string"

text \<open>\<^verbatim>\<open>Path::join\<close> on Unix: an absolute argument replaces the base path.\<close>

definition path_join :: "string \<Rightarrow> string \<Rightarrow> string" where
  "path_join base key =
     (if key \<noteq> [] \<and> hd key = CHR ''/'' then key
      else if base = [] \<or> last base = CHR ''/'' then base @ key
      else base @ CHR ''/'' # key)"

definition fs_create_dir_all :: "fs \<Rightarrow> string \<Rightarrow> (unit, string) result \<times> fs" where
  "fs_create_dir_all w p = (case fail_mkdir w p of
     Some e \<Rightarrow> (Err e, w) | None \<Rightarrow> (Ok (), w\<lparr>dirs := insert p (dirs w)\<rparr>))"

definition fs_create :: "fs \<Rightarrow> string \<Rightarrow> (unit, string) result \<times> fs" where
  "fs_create w p = (case fail_create w p of
     Some e \<Rightarrow> (Err e, w) | None \<Rightarrow> (Ok (), w\<lparr>files := (files w)(p \<mapsto> [])\<rparr>))"

definition fs_write_all :: "fs \<Rightarrow> string \<Rightarrow> bytes \<Rightarrow> (unit, string) result \<times> fs" where
  "fs_write_all w p bs = (case fail_write w p of
     Some (n, e) \<Rightarrow> (Err e, w\<lparr>files := (files w)(p \<mapsto> take n bs)\<rparr>)
   | None \<Rightarrow> (Ok (), w\<lparr>files := (files w)(p \<mapsto> bs)\<rparr>))"

definition fs_read :: "fs \<Rightarrow> string \<Rightarrow> (bytes, string) result" where
  "fs_read w p = (case fail_read w p of
     Some e \<Rightarrow> Err e | None \<Rightarrow> ok_or ''entity not found'' (files w p))"

definition fs_remove_file :: "fs \<Rightarrow> string \<Rightarrow> (unit, string) result \<times> fs" where
  "fs_remove_file w p = (case fail_remove w p of
     Some e \<Rightarrow> (Err e, w)
   | None \<Rightarrow> (case files w p of None \<Rightarrow> (Err ''entity not found'', w)
       | Some _ \<Rightarrow> (Ok (), w\<lparr>files := (files w)(p := None)\<rparr>)))"

text \<open>The store: \<^verbatim>\<open>set_bytes\<close> and \<^verbatim>\<open>get_bytes\<close>, then the trait over the two
  conversions of \<^verbatim>\<open>serde_json\<close>, which are parameters.\<close>

definition set_bytes :: "string \<Rightarrow> fs \<Rightarrow> string \<Rightarrow> bytes \<Rightarrow> (unit, string) result \<times> fs" where
  "set_bytes base_path w key value =
     (let file_path = path_join base_path key in
      case fs_create_dir_all w base_path of
        (Inl e, w1) \<Rightarrow> (Err e, w1)
      | (Inr _, w1) \<Rightarrow> (case fs_create w1 file_path of
          (Inl e, w2) \<Rightarrow> (Err e, w2)
        | (Inr _, w2) \<Rightarrow> (case fs_write_all w2 file_path value of
            (Inl e, w3) \<Rightarrow> (Err e, w3)
          | (Inr _, w3) \<Rightarrow> (Ok (), w3))))"

definition get_bytes :: "string \<Rightarrow> fs \<Rightarrow> string \<Rightarrow> (bytes, string) result" where
  "get_bytes base_path w key = fs_read w (path_join base_path key)"

definition BlockingFileStore_set ::
  "('v \<Rightarrow> (bytes, string) result) \<Rightarrow> string \<Rightarrow> fs \<Rightarrow> string \<Rightarrow> 'v \<Rightarrow> (unit, StorageError) result \<times> fs" where
  "BlockingFileStore_set to_vec base_path w key value =
     (case to_vec value of
        Inl e \<Rightarrow> (Err (StringError e), w)
      | Inr bs \<Rightarrow> (case set_bytes base_path w key bs of (res, w') \<Rightarrow> (map_err StringError res, w')))"

definition BlockingFileStore_get ::
  "(bytes \<Rightarrow> ('v, string) result) \<Rightarrow> string \<Rightarrow> fs \<Rightarrow> string \<Rightarrow> ('v, StorageError) result" where
  "BlockingFileStore_get from_slice base_path w key =
     (case get_bytes base_path w key of
        Inl e \<Rightarrow> Err (StringError e)
      | Inr bs \<Rightarrow> map_err StringError (from_slice bs))"

definition BlockingFileStore_clear_local ::
  "string \<Rightarrow> fs \<Rightarrow> string \<Rightarrow> (unit, StorageError) result \<times> fs" where
  "BlockingFileStore_clear_local base_path w key =
     (case fs_remove_file w (path_join base_path key) of (res, w') \<Rightarrow> (map_err StringError res, w'))"

definition BlockingFileStore_ops ::
  "('v \<Rightarrow> (bytes, string) result) \<Rightarrow> (bytes \<Rightarrow> ('v, string) result) \<Rightarrow> string
     \<Rightarrow> (fs, string, 'v) KeyValueStore" where
  "BlockingFileStore_ops to_vec from_slice base_path =
     \<lparr>kv_set = BlockingFileStore_set to_vec base_path,
      kv_get = BlockingFileStore_get from_slice base_path,
      kv_clear_local = BlockingFileStore_clear_local base_path\<rparr>"

lemma InMemoryStore_ops_sel [simp]:
  "kv_set InMemoryStore_ops = InMemoryStore_set"
  "kv_get InMemoryStore_ops = InMemoryStore_get"
  "kv_clear_local InMemoryStore_ops = InMemoryStore_clear_local"
  by (simp_all add: InMemoryStore_ops_def)

lemma KeyAdapter_ops_sel [simp]:
  "kv_set (KeyAdapter_ops into store) = KeyAdapter_set into store"
  "kv_get (KeyAdapter_ops into store) = KeyAdapter_get into store"
  "kv_clear_local (KeyAdapter_ops into store) = KeyAdapter_clear_local into store"
  by (simp_all add: KeyAdapter_ops_def)

lemma BlockingFileStore_ops_sel [simp]:
  "kv_set (BlockingFileStore_ops tv fsl base) = BlockingFileStore_set tv base"
  "kv_get (BlockingFileStore_ops tv fsl base) = BlockingFileStore_get fsl base"
  "kv_clear_local (BlockingFileStore_ops tv fsl base) = BlockingFileStore_clear_local base"
  by (simp_all add: BlockingFileStore_ops_def)

section \<open>The contract\<close>

text \<open>
  \<open>abs\<close> is the map a store state stands for and \<open>valid\<close> the keys the contract speaks about.
  A failed \<open>set\<close> may damage the entry it was writing, never another one.
\<close>

locale kv_store =
  fixes ops :: "('s, 'k, 'v) KeyValueStore"
    and abs :: "'s \<Rightarrow> 'k \<Rightarrow> 'v option"
    and valid :: "'k \<Rightarrow> bool"
  assumes get_sound: "valid k \<Longrightarrow> kv_get ops s k = Inr v \<Longrightarrow> abs s k = Some v"
    and set_ok: "valid k \<Longrightarrow> kv_set ops s k v = (Inr (), s') \<Longrightarrow> abs s' k = Some v"
    and set_frame: "valid k \<Longrightarrow> valid k' \<Longrightarrow> k' \<noteq> k \<Longrightarrow> kv_set ops s k v = (r, s') \<Longrightarrow> abs s' k' = abs s k'"
    and clear_ok: "valid k \<Longrightarrow> kv_clear_local ops s k = (Inr (), s') \<Longrightarrow> abs s' k = None"
    and clear_err: "valid k \<Longrightarrow> valid k' \<Longrightarrow> kv_clear_local ops s k = (Inl e, s') \<Longrightarrow> abs s' k' = abs s k'"
    and clear_frame: "valid k \<Longrightarrow> valid k' \<Longrightarrow> k' \<noteq> k \<Longrightarrow> kv_clear_local ops s k = (r, s') \<Longrightarrow> abs s' k' = abs s k'"
begin

lemma get_set_other:
  assumes "valid k" "valid k'" "k' \<noteq> k" "kv_set ops s k v = (r, s')" "kv_get ops s' k' = Inr u"
  shows "abs s k' = Some u"
  using get_sound [OF assms(2,5)] set_frame [OF assms(1-4)] by simp

lemma no_get_after_clear:
  assumes "valid k" "kv_clear_local ops s k = (Inr (), s')"
  shows "is_err (kv_get ops s' k)"
  using clear_ok [OF assms] get_sound [OF assms(1), of s'] by (cases "kv_get ops s' k") auto

end

locale total_kv_store = kv_store +
  assumes get_complete: "valid k \<Longrightarrow> abs s k = Some v \<Longrightarrow> kv_get ops s k = Inr v"
    and set_total: "valid k \<Longrightarrow> fst (kv_set ops s k v) = Inr ()"
    and clear_total: "valid k \<Longrightarrow> abs s k \<noteq> None \<Longrightarrow> fst (kv_clear_local ops s k) = Inr ()"
begin

lemma get_iff: "valid k \<Longrightarrow> kv_get ops s k = Inr v \<longleftrightarrow> abs s k = Some v"
  using get_sound get_complete by blast

lemma set_eqE:
  assumes "valid k"
  obtains s' where "kv_set ops s k v = (Inr (), s')" "abs s' k = Some v"
    "\<And>k'. valid k' \<Longrightarrow> k' \<noteq> k \<Longrightarrow> abs s' k' = abs s k'"
proof
  show "kv_set ops s k v = (Inr (), snd (kv_set ops s k v))"
    using set_total [OF assms, of s v] by (metis prod.collapse)
  then show "abs (snd (kv_set ops s k v)) k = Some v" by (rule set_ok [OF assms])
  fix k' assume "valid k'" "k' \<noteq> k"
  then show "abs (snd (kv_set ops s k v)) k' = abs s k'"
    using set_frame [OF assms] by (metis prod.collapse)
qed

lemma clear_abs:
  assumes "valid k" "valid k'" "kv_clear_local ops s k = (r, s')"
  shows "abs s' k' = (if k' = k then None else abs s k')"
proof (cases "k' = k")
  case True
  show ?thesis
  proof (cases r)
    case (Inl e)
    with assms clear_total [OF assms(1), of s] have "abs s k = None" by force
    with Inl True assms clear_err [OF assms(1,2)] show ?thesis by auto
  next
    case (Inr u)
    with True assms clear_ok [OF assms(1)] show ?thesis by (cases u) auto
  qed
qed (use clear_frame [OF assms(1,2) _ assms(3)] in simp)

lemma get_after_set: "valid k \<Longrightarrow> kv_get ops (snd (kv_set ops s k v)) k = Inr v"
  by (metis get_complete set_eqE snd_conv)

end

lemma InMemoryStore_get_iff: "InMemoryStore_get s k = Inr v \<longleftrightarrow> imap s k = Some v"
  by (simp add: InMemoryStore_get_def split: option.split)

interpretation mem: total_kv_store InMemoryStore_ops imap "\<lambda>_. True"
proof
  show "kv_set InMemoryStore_ops s k v = (Inr (), s') \<Longrightarrow> imap s' k = Some v"
    for s s' :: "('k, 'v) InMemoryStore" and k :: 'k and v :: 'v
    by (auto simp: InMemoryStore_set_def)
qed (auto simp: InMemoryStore_get_iff InMemoryStore_set_def InMemoryStore_clear_local_def
       split: option.splits)

text \<open>The adapter keeps the contract when the key conversion is injective.\<close>

locale keyed_kv_store = kv_store ops abs valid
  for ops :: "('s, 'a, 'v) KeyValueStore" and abs and valid +
  fixes into :: "'p \<Rightarrow> 'a"
  assumes inj_into: "inj into"
begin

lemma into_neq: "k \<noteq> k' \<Longrightarrow> into k \<noteq> into k'"
  using inj_into by (auto dest: injD)

sublocale adapted: kv_store "KeyAdapter_ops into ops" "\<lambda>s k. abs s (into k)" "\<lambda>k. valid (into k)"
proof unfold_locales
qed (auto simp: KeyAdapter_get_def KeyAdapter_set_def KeyAdapter_clear_local_def into_neq
       intro: get_sound set_ok set_frame clear_ok clear_err clear_frame)

end

interpretation mem_adapted: keyed_kv_store InMemoryStore_ops imap "\<lambda>_. True" "\<lambda>k. k"
  by unfold_locales (simp add: inj_def)

text \<open>
  The file store keeps the contract for relative keys, for any pair of conversions where
  \<open>from_slice\<close> reads back what \<open>to_vec\<close> wrote.
\<close>

definition relative_key :: "string \<Rightarrow> bool" where
  "relative_key k \<longleftrightarrow> \<not> (k \<noteq> [] \<and> hd k = CHR ''/'')"

lemma path_join_inj:
  "relative_key k \<Longrightarrow> relative_key k' \<Longrightarrow> path_join base k = path_join base k' \<longleftrightarrow> k = k'"
  by (auto simp: path_join_def relative_key_def)

definition file_abs ::
  "(bytes \<Rightarrow> ('v, string) result) \<Rightarrow> string \<Rightarrow> fs \<Rightarrow> string \<Rightarrow> 'v option" where
  "file_abs from_slice base w k = Option.bind (files w (path_join base k)) (\<lambda>bs. ok (from_slice bs))"

lemma set_bytes_files:
  "set_bytes base w key bs = (r, w') \<Longrightarrow> p \<noteq> path_join base key \<Longrightarrow> files w' p = files w p"
  by (auto simp: set_bytes_def Let_def fs_create_dir_all_def fs_create_def fs_write_all_def
      split: option.splits prod.splits)

lemma set_bytes_Ok:
  "set_bytes base w key bs = (Inr (), w') \<Longrightarrow> files w' (path_join base key) = Some bs"
  by (auto simp: set_bytes_def Let_def fs_create_dir_all_def fs_create_def fs_write_all_def
      split: option.splits prod.splits)

lemma BlockingFileStore_set_Ok:
  "BlockingFileStore_set tv base w k v = (Inr (), w') \<longleftrightarrow>
     (\<exists>bs. tv v = Inr bs \<and> set_bytes base w k bs = (Inr (), w'))"
  by (auto simp: BlockingFileStore_set_def split: sum.splits prod.splits)

lemma BlockingFileStore_set_files:
  "BlockingFileStore_set tv base w k v = (r, w') \<Longrightarrow> p \<noteq> path_join base k \<Longrightarrow> files w' p = files w p"
  by (auto simp: BlockingFileStore_set_def set_bytes_files split: sum.splits prod.splits)

lemma BlockingFileStore_clear_cases:
  "BlockingFileStore_clear_local base w k = (r, w') \<Longrightarrow>
     (r = Inr () \<and> files w' = (files w)(path_join base k := None)) \<or> (\<exists>e. r = Inl e \<and> w' = w)"
  by (auto simp: BlockingFileStore_clear_local_def fs_remove_file_def split: option.splits)

lemma BlockingFileStore_kv_store:
  fixes to_vec :: "'v \<Rightarrow> (bytes, string) result"
  assumes codec: "\<And>v bs. to_vec v = Inr bs \<Longrightarrow> from_slice bs = Inr v"
  shows "kv_store (BlockingFileStore_ops to_vec from_slice base) (file_abs from_slice base) relative_key"
proof unfold_locales
  show "kv_get (BlockingFileStore_ops to_vec from_slice base) s k = Inr v \<Longrightarrow> file_abs from_slice base s k = Some v"
    for s k v
    by (auto simp: BlockingFileStore_get_def get_bytes_def fs_read_def file_abs_def
        split: sum.splits option.splits)
  show "kv_set (BlockingFileStore_ops to_vec from_slice base) s k v = (Inr (), s')
      \<Longrightarrow> file_abs from_slice base s' k = Some v" for s k v s'
    by (auto simp: BlockingFileStore_set_Ok file_abs_def codec dest!: set_bytes_Ok)
  show "relative_key k \<Longrightarrow> relative_key k' \<Longrightarrow> k' \<noteq> k
      \<Longrightarrow> kv_set (BlockingFileStore_ops to_vec from_slice base) s k v = (r, s')
      \<Longrightarrow> file_abs from_slice base s' k' = file_abs from_slice base s k'" for s k k' v r s'
    by (simp add: file_abs_def BlockingFileStore_set_files path_join_inj)
qed (auto simp: file_abs_def path_join_inj dest!: BlockingFileStore_clear_cases)

text \<open>
  On a disk that refuses nothing under the base directory the file store is also total, whenever
  every value can be serialised.
\<close>

definition healthy :: "fs \<Rightarrow> bool" where
  "healthy w \<longleftrightarrow> fail_mkdir w = Map.empty \<and> fail_create w = Map.empty \<and> fail_write w = Map.empty
     \<and> fail_read w = Map.empty \<and> fail_remove w = Map.empty"

lemma healthy_set:
  "healthy w \<Longrightarrow> to_vec v = Inr bs \<Longrightarrow> \<exists>w'. BlockingFileStore_set to_vec base w k v = (Inr (), w')
     \<and> healthy w' \<and> files w' = (files w)(path_join base k \<mapsto> bs)"
  by (simp add: healthy_def BlockingFileStore_set_def set_bytes_def Let_def fs_create_dir_all_def
      fs_create_def fs_write_all_def)

lemma healthy_get:
  "healthy w \<Longrightarrow> files w (path_join base k) = Some bs \<Longrightarrow> from_slice bs = Inr v
     \<Longrightarrow> BlockingFileStore_get from_slice base w k = Inr v"
  by (simp add: healthy_def BlockingFileStore_get_def get_bytes_def fs_read_def)

section \<open>Properties\<close>

text \<open>On a disk that refuses nothing, a value written by the file store under a relative key
  is read back by \<^verbatim>\<open>get\<close>, a second key keeps the value it had, and after
  \<^verbatim>\<open>clear_local\<close> the key is gone and a second \<^verbatim>\<open>clear_local\<close> fails; the only
  assumption on \<^verbatim>\<open>serde_json\<close> is that it parses what it printed.\<close>

lemma BlockingFileStore_roundtrip:
  assumes codec: "\<And>v bs. to_vec v = Inr bs \<Longrightarrow> from_slice bs = Inr v"
    and disk: "healthy w" and ser: "to_vec v = Inr bs"
    and keys: "relative_key k" "relative_key k'" "k' \<noteq> k"
  shows "\<exists>w1 w2. BlockingFileStore_set to_vec base w k v = (Inr (), w1)
     \<and> BlockingFileStore_get from_slice base w1 k = Inr v
     \<and> BlockingFileStore_get from_slice base w1 k' = BlockingFileStore_get from_slice base w k'
     \<and> BlockingFileStore_clear_local base w1 k = (Inr (), w2)
     \<and> is_err (BlockingFileStore_get from_slice base w2 k)
     \<and> BlockingFileStore_get from_slice base w2 k' = BlockingFileStore_get from_slice base w k'
     \<and> is_err (fst (BlockingFileStore_clear_local base w2 k))"
proof -
  obtain w1 where w1: "BlockingFileStore_set to_vec base w k v = (Inr (), w1)" "healthy w1"
    "files w1 = (files w)(path_join base k \<mapsto> bs)"
    using healthy_set [of w to_vec v bs base k, OF disk ser] by blast
  let ?w2 = "w1\<lparr>files := (files w1)(path_join base k := None)\<rparr>"
  have clear: "BlockingFileStore_clear_local base w1 k = (Inr (), ?w2)"
    using w1 by (simp add: BlockingFileStore_clear_local_def fs_remove_file_def healthy_def)
  have other: "BlockingFileStore_get from_slice base u k' = BlockingFileStore_get from_slice base w k'"
    if "healthy u" "files u (path_join base k') = files w (path_join base k')" for u
    using that disk by (simp add: BlockingFileStore_get_def get_bytes_def fs_read_def healthy_def)
  have neq: "path_join base k' \<noteq> path_join base k"
    using keys by (simp add: path_join_inj)
  have h2: "healthy ?w2" using w1(2) by (simp add: healthy_def)
  show ?thesis
    using w1 clear neq h2 codec [OF ser]
    by (intro exI [of _ w1] exI [of _ ?w2])
      (auto simp: healthy_get intro!: other, simp_all add: BlockingFileStore_get_def get_bytes_def
        fs_read_def healthy_def BlockingFileStore_clear_local_def fs_remove_file_def)
qed

definition empty_disk :: fs where
  "empty_disk = \<lparr>files = Map.empty, dirs = {}, fail_mkdir = Map.empty, fail_create = Map.empty,
     fail_write = Map.empty, fail_read = Map.empty, fail_remove = Map.empty\<rparr>"

end
