(* ===== verification/Hash_Space.thy ===== *)
theory Hash_Space
  imports Key_Value_Store
begin

text \<open>
  Content-addressed storage: the \<^verbatim>\<open>Hasher\<close>, \<^verbatim>\<open>HashCoder\<close> and
  \<^verbatim>\<open>Serializer\<close> traits and their implementations (\<^verbatim>\<open>common/imp.rs\<close>), the
  asynchronous and synchronous \<^verbatim>\<open>ModularHashSpace\<close>, and \<^verbatim>\<open>Ipfs\<close> over its client.
  The functions of the \<^verbatim>\<open>multihash\<close>, \<^verbatim>\<open>multibase\<close> and \<^verbatim>\<open>ipfs_api\<close>
  packages are parameters.  The locale \<open>hash_space\<close> states what the trait promises: what was
  stored resolves to the same object, and nothing resolves that its hash does not validate.
\<close>

section \<open>Hashers and coders\<close>

record ('o, 'h) Hasher =
  get_hash :: "'o \<Rightarrow> ('h, HashError) result"
  validate_hash :: "'o \<Rightarrow> 'h \<Rightarrow> (bool, HashError) result"

record ('b, 'r) HashCoder =
  encode_hash :: "'b \<Rightarrow> ('r, StringCoderError) result"
  decode_hash :: "'r \<Rightarrow> ('b, StringCoderError) result"

text \<open>The error codes of the \<^verbatim>\<open>multihash\<close> package, as \<^verbatim>\<open>to_hasher_error\<close> matches them.\<close>

datatype multihash_error = MH_BadInputLength | MH_UnknownCode | MH_UnsupportedType

fun to_hasher_error :: "multihash_error \<Rightarrow> HashError" where
  "to_hasher_error MH_BadInputLength = BadInputLength"
| "to_hasher_error MH_UnknownCode = UnknownCode"
| "to_hasher_error MH_UnsupportedType = UnsupportedType"

definition get_hash_bytes ::
  "('alg \<Rightarrow> bytes \<Rightarrow> (bytes, multihash_error) result) \<Rightarrow> 'alg \<Rightarrow> bytes \<Rightarrow> (bytes, HashError) result" where
  "get_hash_bytes multihash_encode hash_algorithm data =
     map_err to_hasher_error (multihash_encode hash_algorithm data)"

definition MultiHasher_validate ::
  "('alg \<Rightarrow> bytes \<Rightarrow> (bytes, multihash_error) result) \<Rightarrow> 'alg \<Rightarrow> bytes \<Rightarrow> bytes \<Rightarrow> (bool, HashError) result" where
  "MultiHasher_validate multihash_encode hash_algorithm data expected_hash =
     and_then (get_hash_bytes multihash_encode hash_algorithm data)
       (\<lambda>calculated_hash. Ok (expected_hash = calculated_hash))"

definition MultiHasher_new ::
  "('alg \<Rightarrow> bytes \<Rightarrow> (bytes, multihash_error) result) \<Rightarrow> 'alg \<Rightarrow> (bytes, bytes) Hasher" where
  "MultiHasher_new multihash_encode hash_algorithm =
     \<lparr>get_hash = get_hash_bytes multihash_encode hash_algorithm,
      validate_hash = MultiHasher_validate multihash_encode hash_algorithm\<rparr>"

definition MultiBaseHashCoder_encode ::
  "('base \<Rightarrow> bytes \<Rightarrow> string) \<Rightarrow> 'base \<Rightarrow> bytes \<Rightarrow> (string, StringCoderError) result" where
  "MultiBaseHashCoder_encode multibase_encode base_algorithm hash_bytes =
     (let hash_str = multibase_encode base_algorithm hash_bytes in Ok hash_str)"

definition MultiBaseHashCoder_decode ::
  "(string \<Rightarrow> ('base \<times> bytes, string) result) \<Rightarrow> string \<Rightarrow> (bytes, StringCoderError) result" where
  "MultiBaseHashCoder_decode multibase_decode hash_str =
     map_err StringCoderError_Other (map_ok snd (multibase_decode hash_str))"

definition MultiBaseHashCoder_new ::
  "('base \<Rightarrow> bytes \<Rightarrow> string) \<Rightarrow> (string \<Rightarrow> ('base \<times> bytes, string) result) \<Rightarrow> 'base
     \<Rightarrow> (bytes, string) HashCoder" where
  "MultiBaseHashCoder_new multibase_encode multibase_decode base_algorithm =
     \<lparr>encode_hash = MultiBaseHashCoder_encode multibase_encode base_algorithm,
      decode_hash = MultiBaseHashCoder_decode multibase_decode\<rparr>"

definition IdentitySerializer_serialize :: "bytes \<Rightarrow> (bytes, SerializerError) result" where
  "IdentitySerializer_serialize object = Ok object"

definition IdentitySerializer_deserialize :: "bytes \<Rightarrow> (bytes, SerializerError) result" where
  "IdentitySerializer_deserialize serialized_object = Ok serialized_object"

text \<open>\<^verbatim>\<open>SerdeJsonSerializer\<close> over \<^verbatim>\<open>serde_json\<close>'s string conversions.
  A deserialisation failure of the JSON parser is reported as a \<^emph>\<open>serialisation\<close> error: both
  directions use \<^verbatim>\<open>to_serializer_error\<close>.\<close>

definition to_serializer_error :: "string \<Rightarrow> SerializerError" where
  "to_serializer_error e = SerializationError e"

definition SerdeJsonSerializer_serialize ::
  "('o \<Rightarrow> (string, string) result) \<Rightarrow> (string \<Rightarrow> bytes) \<Rightarrow> 'o \<Rightarrow> (bytes, SerializerError) result" where
  "SerdeJsonSerializer_serialize json_to_string into_bytes object =
     map_err to_serializer_error (map_ok into_bytes (json_to_string object))"

definition SerdeJsonSerializer_deserialize ::
  "(string \<Rightarrow> ('o, string) result) \<Rightarrow> (bytes \<Rightarrow> (string, string) result) \<Rightarrow> bytes \<Rightarrow> ('o, SerializerError) result" where
  "SerdeJsonSerializer_deserialize json_from_str from_utf8 serialized_object =
     and_then (map_err DeserializationError (from_utf8 serialized_object))
       (\<lambda>json_string. map_err to_serializer_error (json_from_str json_string))"

section \<open>The HashSpace trait and ModularHashSpace\<close>

record ('s, 'o, 'r) HashSpace =
  hs_store :: "'s \<Rightarrow> 'o \<Rightarrow> ('r, HashSpaceError) result \<times> 's"
  hs_resolve :: "'s \<Rightarrow> 'r \<Rightarrow> ('o, HashSpaceError) result"
  hs_validate :: "'s \<Rightarrow> 'o \<Rightarrow> 'r \<Rightarrow> (bool, HashSpaceError) result"

text \<open>The struct holds three trait objects; only the storage has state, passed explicitly.\<close>

record ('s, 'o, 'b, 'r) ModularHashSpace =
  hasher :: "('o, 'b) Hasher"
  storage :: "('s, 'b, 'o) KeyValueStore"
  hash_coder :: "('b, 'r) HashCoder"

definition ModularHashSpace_new ::
  "('o, 'b) Hasher \<Rightarrow> ('s, 'b, 'o) KeyValueStore \<Rightarrow> ('b, 'r) HashCoder
     \<Rightarrow> ('s, 'o, 'b, 'r) ModularHashSpace" where
  "ModularHashSpace_new hashr stor coder = \<lparr>hasher = hashr, storage = stor, hash_coder = coder\<rparr>"

definition sync_validate ::
  "('s, 'o, 'b, 'r) ModularHashSpace \<Rightarrow> 'o \<Rightarrow> 'r \<Rightarrow> (bool, HashSpaceError) result" where
  "sync_validate m serialized_obj readable_hash =
     and_then (map_err HashSpace_StringCoderError (decode_hash (hash_coder m) readable_hash))
       (\<lambda>hash_bytes. map_err HashSpace_HashError
          (validate_hash (hasher m) serialized_obj hash_bytes))"

definition ModularHashSpace_store ::
  "('s, 'o, 'b, 'r) ModularHashSpace \<Rightarrow> 's \<Rightarrow> 'o \<Rightarrow> ('r, HashSpaceError) result \<times> 's" where
  "ModularHashSpace_store m s serialized_obj =
     (case get_hash (hasher m) serialized_obj of
        Inl e \<Rightarrow> (Err (HashSpace_HashError e), s)
      | Inr hash_bytes \<Rightarrow>
          (case encode_hash (hash_coder m) hash_bytes of
             Inl e \<Rightarrow> (Err (HashSpace_StringCoderError e), s)
           | Inr hash_str \<Rightarrow>
               (case kv_set (storage m) s hash_bytes serialized_obj of
                  (r, s') \<Rightarrow> (map_err HashSpace_StorageError (map_ok (\<lambda>_. hash_str) r), s'))))"

definition ModularHashSpace_resolve ::
  "('s, 'o, 'b, 'r) ModularHashSpace \<Rightarrow> 's \<Rightarrow> 'r \<Rightarrow> ('o, HashSpaceError) result" where
  "ModularHashSpace_resolve m s hash_str =
     (case decode_hash (hash_coder m) hash_str of
        Inl e \<Rightarrow> Err (HashSpace_StringCoderError e)
      | Inr hash_bytes \<Rightarrow>
          and_then (map_err HashSpace_StorageError (kv_get (storage m) s hash_bytes))
            (\<lambda>serialized_obj. case validate_hash (hasher m) serialized_obj hash_bytes of
               Inl e \<Rightarrow> Err (HashSpace_HashError e)
             | Inr v \<Rightarrow> (if v then Ok serialized_obj
                         else Err (HashSpace_StorageError InvalidKey))))"

definition ModularHashSpace_validate ::
  "('s, 'o, 'b, 'r) ModularHashSpace \<Rightarrow> 's \<Rightarrow> 'o \<Rightarrow> 'r \<Rightarrow> (bool, HashSpaceError) result" where
  "ModularHashSpace_validate m s object hash_str = sync_validate m object hash_str"

definition ModularHashSpace_ops ::
  "('s, 'o, 'b, 'r) ModularHashSpace \<Rightarrow> ('s, 'o, 'r) HashSpace" where
  "ModularHashSpace_ops m = \<lparr>hs_store = ModularHashSpace_store m,
     hs_resolve = ModularHashSpace_resolve m, hs_validate = ModularHashSpace_validate m\<rparr>"

text \<open>
  The synchronous module (\<^verbatim>\<open>sync/mod.rs\<close>) writes to the storage \<^emph>\<open>before\<close> it encodes
  the hash, the asynchronous one after.
\<close>

definition sync_ModularHashSpace_store ::
  "('s, 'o, 'b, 'r) ModularHashSpace \<Rightarrow> 's \<Rightarrow> 'o \<Rightarrow> ('r, HashSpaceError) result \<times> 's" where
  "sync_ModularHashSpace_store m s serialized_obj =
     (case get_hash (hasher m) serialized_obj of
        Inl e \<Rightarrow> (Err (HashSpace_HashError e), s)
      | Inr hash_bytes \<Rightarrow>
          (case kv_set (storage m) s hash_bytes serialized_obj of
             (Inl e, s') \<Rightarrow> (Err (HashSpace_StorageError e), s')
           | (Inr _, s') \<Rightarrow>
               (map_err HashSpace_StringCoderError (encode_hash (hash_coder m) hash_bytes), s')))"

definition sync_ModularHashSpace_resolve ::
  "('s, 'o, 'b, 'r) ModularHashSpace \<Rightarrow> 's \<Rightarrow> 'r \<Rightarrow> ('o, HashSpaceError) result" where
  "sync_ModularHashSpace_resolve m s hash_str =
     and_then (map_err HashSpace_StringCoderError (decode_hash (hash_coder m) hash_str))
       (\<lambda>hash_bytes. and_then (map_err HashSpace_StorageError (kv_get (storage m) s hash_bytes))
         (\<lambda>serialized_obj. and_then
            (map_err HashSpace_HashError (validate_hash (hasher m) serialized_obj hash_bytes))
            (\<lambda>valid_hash. if \<not> valid_hash then Err (HashSpace_StorageError InvalidKey)
               else Ok serialized_obj)))"

definition sync_ModularHashSpace_validate ::
  "('s, 'o, 'b, 'r) ModularHashSpace \<Rightarrow> 's \<Rightarrow> 'o \<Rightarrow> 'r \<Rightarrow> (bool, HashSpaceError) result" where
  "sync_ModularHashSpace_validate m s serialized_obj hash_str =
     and_then (map_err HashSpace_StringCoderError (decode_hash (hash_coder m) hash_str))
       (\<lambda>hash_bytes. map_err HashSpace_HashError
          (validate_hash (hasher m) serialized_obj hash_bytes))"

section \<open>Ipfs\<close>

text \<open>The IPFS client: \<^verbatim>\<open>add\<close> returns the hash of the stored data, \<^verbatim>\<open>cat\<close> streams
  the data back in chunks, which \<^verbatim>\<open>concat2\<close> joins.\<close>

record 's IpfsClient =
  ipfs_add :: "'s \<Rightarrow> bytes \<Rightarrow> (string, string) result \<times> 's"
  ipfs_cat :: "'s \<Rightarrow> string \<Rightarrow> (bytes list, string) result"

definition Ipfs_store :: "'s IpfsClient \<Rightarrow> 's \<Rightarrow> bytes \<Rightarrow> (string, HashSpaceError) result \<times> 's" where
  "Ipfs_store client s object =
     (case ipfs_add client s object of (r, s') \<Rightarrow> (map_err HashSpace_Other r, s'))"

definition Ipfs_resolve :: "'s IpfsClient \<Rightarrow> 's \<Rightarrow> string \<Rightarrow> (bytes, HashSpaceError) result" where
  "Ipfs_resolve client s hash = map_err HashSpace_Other (map_ok concat (ipfs_cat client s hash))"

definition Ipfs_validate ::
  "'s IpfsClient \<Rightarrow> 's \<Rightarrow> bytes \<Rightarrow> string \<Rightarrow> (bool, HashSpaceError) result" where
  "Ipfs_validate client s object hash = map_ok (\<lambda>bytes. bytes = object) (Ipfs_resolve client s hash)"

definition Ipfs_ops :: "'s IpfsClient \<Rightarrow> ('s, bytes, string) HashSpace" where
  "Ipfs_ops client = \<lparr>hs_store = Ipfs_store client, hs_resolve = Ipfs_resolve client,
     hs_validate = Ipfs_validate client\<rparr>"

section \<open>The contract of a hash space\<close>

text \<open>Integrity alone: what resolves, validates.\<close>

locale checked_hash_space =
  fixes ops :: "('s, 'o, 'r) HashSpace"
  assumes resolve_validates: "hs_resolve ops s h = Inr x \<Longrightarrow> hs_validate ops s x h = Inr True"

locale hash_space = checked_hash_space ops
  for ops :: "('s, 'o, 'r) HashSpace" +
  assumes store_resolve: "hs_store ops s x = (Inr h, s') \<Longrightarrow> hs_resolve ops s' h = Inr x"
begin

lemma store_validates: "hs_store ops s x = (Inr h, s') \<Longrightarrow> hs_validate ops s' x h = Inr True"
  using resolve_validates store_resolve by blast

end

lemma ModularHashSpace_resolve_Ok:
  "ModularHashSpace_resolve m s h = Inr x \<longleftrightarrow>
     (\<exists>b. decode_hash (hash_coder m) h = Inr b \<and> kv_get (storage m) s b = Inr x
        \<and> validate_hash (hasher m) x b = Inr True)"
proof (cases "decode_hash (hash_coder m) h")
  case (Inr b)
  show ?thesis
  proof (cases "kv_get (storage m) s b")
    case get: (Inr y)
    show ?thesis
      by (cases "validate_hash (hasher m) y b") (auto simp: ModularHashSpace_resolve_def Inr get)
  qed (simp add: ModularHashSpace_resolve_def Inr)
qed (simp add: ModularHashSpace_resolve_def)

lemma ModularHashSpace_store_Ok:
  "ModularHashSpace_store m s x = (Inr h, s') \<longleftrightarrow>
     (\<exists>b. get_hash (hasher m) x = Inr b \<and> encode_hash (hash_coder m) b = Inr h
        \<and> kv_set (storage m) s b x = (Inr (), s'))"
  by (cases "get_hash (hasher m) x"; cases "encode_hash (hash_coder m) (projr (get_hash (hasher m) x))")
    (auto simp: ModularHashSpace_store_def split: prod.splits)

text \<open>Whatever its parts do, a modular hash space never resolves to an object its hasher rejects.\<close>

interpretation modular_checked: checked_hash_space "ModularHashSpace_ops m" for m
  by unfold_locales
    (auto simp: ModularHashSpace_ops_def ModularHashSpace_resolve_Ok ModularHashSpace_validate_def
       sync_validate_def)

text \<open>With a total store, a hasher that accepts its own hashes and a coder that decodes what it
  encoded, it is a hash space.\<close>

locale modular_parts = total_kv_store "storage m" abs "\<lambda>_. True"
  for m :: "('s, 'o, 'b, 'r) ModularHashSpace" and abs +
  assumes hasher_accepts: "get_hash (hasher m) x = Inr b \<Longrightarrow> validate_hash (hasher m) x b = Inr True"
    and coder_decodes: "encode_hash (hash_coder m) b = Inr h \<Longrightarrow> decode_hash (hash_coder m) h = Inr b"
begin

sublocale modular: hash_space "ModularHashSpace_ops m"
proof unfold_locales
  fix s x h s'
  assume "hs_store (ModularHashSpace_ops m) s x = (Inr h, s')"
  then obtain b where "get_hash (hasher m) x = Inr b" "encode_hash (hash_coder m) b = Inr h"
    and "kv_set (storage m) s b x = (Inr (), s')"
    by (auto simp: ModularHashSpace_ops_def ModularHashSpace_store_Ok)
  then show "hs_resolve (ModularHashSpace_ops m) s' h = Inr x"
    using get_after_set [where k = b and s = s and v = x]
    by (auto simp: ModularHashSpace_ops_def ModularHashSpace_resolve_Ok hasher_accepts coder_decodes)
qed

text \<open>An object stays resolvable until another one with the same hash is stored.\<close>

lemma resolve_after_store:
  assumes res: "ModularHashSpace_resolve m s h = Inr x" and dec: "decode_hash (hash_coder m) h = Inr b"
    and store: "ModularHashSpace_store m s y = (r, s')" and other: "get_hash (hasher m) y \<noteq> Inr b"
  shows "ModularHashSpace_resolve m s' h = Inr x"
proof -
  from res dec have b: "abs s b = Some x" "validate_hash (hasher m) x b = Inr True"
    by (auto simp: ModularHashSpace_resolve_Ok get_iff)
  have "s' = s \<or> (\<exists>c q. c \<noteq> b \<and> kv_set (storage m) s c y = (q, s'))"
    using store other
    by (cases "get_hash (hasher m) y"; cases "encode_hash (hash_coder m) (projr (get_hash (hasher m) y))")
      (auto simp: ModularHashSpace_store_def split: prod.splits)
  then have "abs s' b = Some x"
    using b(1) set_frame [where k' = b] by (metis)
  with b dec show ?thesis by (auto simp: ModularHashSpace_resolve_Ok get_iff)
qed

end

text \<open>
  The hash space of the crate's own tests: a \<^verbatim>\<open>MultiHasher\<close>, an in-memory store and a
  \<^verbatim>\<open>MultiBaseHashCoder\<close>.  All it needs of the packages is that \<^verbatim>\<open>multibase::decode\<close>
  reads back what \<^verbatim>\<open>multibase::encode\<close> wrote.
\<close>

definition multi_hash_space ::
  "('alg \<Rightarrow> bytes \<Rightarrow> (bytes, multihash_error) result) \<Rightarrow> 'alg
     \<Rightarrow> ('base \<Rightarrow> bytes \<Rightarrow> string) \<Rightarrow> (string \<Rightarrow> ('base \<times> bytes, string) result) \<Rightarrow> 'base
     \<Rightarrow> ((bytes, bytes) InMemoryStore, bytes, bytes, string) ModularHashSpace" where
  "multi_hash_space mh alg mb_enc mb_dec base =
     ModularHashSpace_new (MultiHasher_new mh alg) InMemoryStore_ops
       (MultiBaseHashCoder_new mb_enc mb_dec base)"

lemma multi_hash_space_sel [simp]:
  "hasher (multi_hash_space mh alg mb_enc mb_dec base) = MultiHasher_new mh alg"
  "storage (multi_hash_space mh alg mb_enc mb_dec base) = InMemoryStore_ops"
  "hash_coder (multi_hash_space mh alg mb_enc mb_dec base) = MultiBaseHashCoder_new mb_enc mb_dec base"
  by (simp_all add: multi_hash_space_def ModularHashSpace_new_def)

lemma MultiHasher_accepts:
  "get_hash (MultiHasher_new mh alg) x = Inr b \<Longrightarrow> validate_hash (MultiHasher_new mh alg) x b = Inr True"
  by (auto simp: MultiHasher_new_def MultiHasher_validate_def)

lemma MultiHasher_validate_iff:
  "validate_hash (MultiHasher_new mh alg) x b = Inr True \<longleftrightarrow> mh alg x = Inr b"
  by (auto simp: MultiHasher_new_def MultiHasher_validate_def get_hash_bytes_def)

lemma multi_hash_space_parts:
  assumes mb: "\<And>b x. mb_dec (mb_enc b x) = Inr (b, x)"
  shows "modular_parts (multi_hash_space mh alg mb_enc mb_dec base) imap"
proof (rule modular_parts.intro)
  show "total_kv_store (storage (multi_hash_space mh alg mb_enc mb_dec base)) imap (\<lambda>_. True)"
    by (simp add: mem.total_kv_store_axioms)
  show "modular_parts_axioms (multi_hash_space mh alg mb_enc mb_dec base)"
    by (auto simp: modular_parts_axioms_def MultiHasher_accepts MultiBaseHashCoder_new_def
        MultiBaseHashCoder_encode_def MultiBaseHashCoder_decode_def mb)
qed

text \<open>One instance of the \<^verbatim>\<open>multibase\<close> parameter, its documented \<^verbatim>\<open>base16\<close>: the
  prefix \<open>f\<close> and two hexadecimal digits per byte.\<close>

definition hex_digits :: string where
  "hex_digits = ''0123456789abcdef''"

definition base16_encode :: "unit \<Rightarrow> bytes \<Rightarrow> string" where
  "base16_encode _ bs =
     CHR ''f'' # concat (map (\<lambda>b. [hex_digits ! (unat b div 16), hex_digits ! (unat b mod 16)]) bs)"

fun hex_value :: "char \<Rightarrow> string \<Rightarrow> nat option" where
  "hex_value c [] = None"
| "hex_value c (d # ds) = (if c = d then Some 0 else map_option Suc (hex_value c ds))"

fun hex_bytes :: "string \<Rightarrow> bytes option" where
  "hex_bytes [] = Some []"
| "hex_bytes [c] = None"
| "hex_bytes (c # d # cs) = Option.bind (hex_value c hex_digits) (\<lambda>h.
     Option.bind (hex_value d hex_digits) (\<lambda>l.
       map_option (\<lambda>bs. of_nat (16 * h + l) # bs) (hex_bytes cs)))"

definition base16_decode :: "string \<Rightarrow> (unit \<times> bytes, string) result" where
  "base16_decode s = (case s of
     c # cs \<Rightarrow> (if c = CHR ''f'' then map_ok (Pair ()) (ok_or ''invalid base string'' (hex_bytes cs))
       else Err ''unknown base'')
   | [] \<Rightarrow> Err ''invalid base string'')"

lemma hex_value_nth: "distinct ds \<Longrightarrow> n < length ds \<Longrightarrow> hex_value (ds ! n) ds = Some n"
proof (induction ds arbitrary: n)
  case (Cons d ds)
  then show ?case by (cases n) auto
qed simp

lemma hex_value_digit: "n < 16 \<Longrightarrow> hex_value (hex_digits ! n) hex_digits = Some n"
  by (rule hex_value_nth) (simp_all add: hex_digits_def)

lemma hex_byte: "(of_nat (16 * (unat b div 16) + unat b mod 16) :: u8) = b"
  by (metis mult_div_mod_eq of_nat_unat ucast_id)

lemma unat_u8_less: "unat (b :: u8) < 256"
  by (rule order_less_le_trans [OF unsigned_less]) simp

lemma hex_bytes_encode:
  "hex_bytes (concat (map (\<lambda>b. [hex_digits ! (unat b div 16), hex_digits ! (unat b mod 16)]) bs)) = Some bs"
proof (induction bs)
  case (Cons b bs)
  have "unat b div 16 < 16" using unat_u8_less [of b] by simp
  with Cons show ?case by (simp add: hex_value_digit hex_byte del: of_nat_add of_nat_mult)
qed simp

lemma base16_decode_encode: "base16_decode (base16_encode b x) = Inr (b, x)"
  by (simp add: base16_decode_def base16_encode_def hex_bytes_encode)

interpretation multi16: modular_parts "multi_hash_space mh alg base16_encode base16_decode ()" imap
  for mh alg
  by (rule multi_hash_space_parts) (rule base16_decode_encode)

section \<open>Properties\<close>

text \<open>Several objects stored one after the other.\<close>

fun store_all :: "('s, 'o, 'r) HashSpace \<Rightarrow> 's \<Rightarrow> 'o list \<Rightarrow> 's" where
  "store_all ops s [] = s"
| "store_all ops s (x # xs) = store_all ops (snd (hs_store ops s x)) xs"

context modular_parts
begin

lemma resolve_stored:
  "ModularHashSpace_store m s x = (Inr h, s') \<Longrightarrow> ModularHashSpace_resolve m s' h = Inr x"
  using modular.store_resolve by (simp add: ModularHashSpace_ops_def)

lemma resolve_after_store_all:
  assumes "ModularHashSpace_resolve m s h = Inr x" and dec: "decode_hash (hash_coder m) h = Inr b"
    and "\<forall>y \<in> set ys. get_hash (hasher m) y \<noteq> Inr b"
  shows "ModularHashSpace_resolve m (store_all (ModularHashSpace_ops m) s ys) h = Inr x"
  using assms(1,3)
proof (induction ys arbitrary: s)
  case (Cons y ys)
  have "ModularHashSpace_resolve m (snd (ModularHashSpace_store m s y)) h = Inr x"
    using resolve_after_store [OF Cons.prems(1) dec] Cons.prems(2)
    by (metis list.set_intros(1) prod.collapse)
  with Cons show ?case by (simp add: ModularHashSpace_ops_def)
qed simp

end

text \<open>C29: in a hash space built from a \<^verbatim>\<open>MultiHasher\<close>, an in-memory store and a
  \<^verbatim>\<open>MultiBaseHashCoder\<close>, every stored object is found again under the returned hash string,
  and validates against it, however many objects with another multihash are stored afterwards;
  the only assumption on the packages is that \<^verbatim>\<open>multibase::decode\<close> inverts
  \<^verbatim>\<open>multibase::encode\<close>.\<close>

theorem multi_hash_space_store_resolve:
  assumes mb: "\<And>b x. mb_dec (mb_enc b x) = Inr (b, x)"
    and store: "ModularHashSpace_store (multi_hash_space mh alg mb_enc mb_dec base) s x = (Inr h, s')"
    and others: "\<forall>y \<in> set ys. mh alg y \<noteq> mh alg x"
  shows "let m = multi_hash_space mh alg mb_enc mb_dec base;
             s'' = store_all (ModularHashSpace_ops m) s' ys
         in ModularHashSpace_resolve m s'' h = Inr x \<and> ModularHashSpace_validate m s'' x h = Inr True"
proof -
  let ?m = "multi_hash_space mh alg mb_enc mb_dec base"
  note parts = multi_hash_space_parts [of mb_dec mb_enc mh alg base, OF mb]
  obtain b where b: "get_hash (hasher ?m) x = Inr b" "encode_hash (hash_coder ?m) b = Inr h"
    using store unfolding ModularHashSpace_store_Ok by auto
  have dec: "decode_hash (hash_coder ?m) h = Inr b"
    using modular_parts.coder_decodes [OF parts b(2)] .
  have "ModularHashSpace_resolve ?m s' h = Inr x"
    by (rule modular_parts.resolve_stored [OF parts store])
  moreover have "\<forall>y \<in> set ys. get_hash (hasher ?m) y \<noteq> Inr b"
    using others b(1) by (auto simp: MultiHasher_new_def get_hash_bytes_def)
  ultimately have res: "ModularHashSpace_resolve ?m (store_all (ModularHashSpace_ops ?m) s' ys) h = Inr x"
    by (rule modular_parts.resolve_after_store_all [OF parts _ dec])
  then show ?thesis
    using modular_checked.resolve_validates [of ?m _ h x]
    by (simp add: Let_def ModularHashSpace_ops_def)
qed

lemmas multi_hash_space_eval =
  ModularHashSpace_store_def MultiHasher_new_def get_hash_bytes_def MultiBaseHashCoder_new_def
  MultiBaseHashCoder_encode_def InMemoryStore_set_def InMemoryStore_new_def
  base16_encode_def hex_digits_def

theorem multi_hash_space_store_resolve_witness:
  "let m = multi_hash_space (\<lambda>_ x. Inr x) () base16_encode base16_decode ();
       s'' = store_all (ModularHashSpace_ops m) \<lparr>imap = [[1, 172] \<mapsto> [1, 172]]\<rparr> [[3], []]
   in ModularHashSpace_store m InMemoryStore_new [1, 172] = (Inr ''f01ac'', \<lparr>imap = [[1, 172] \<mapsto> [1, 172]]\<rparr>)
      \<and> ModularHashSpace_resolve m s'' ''f01ac'' = Inr [1, 172]"
proof -
  let ?m = "multi_hash_space (\<lambda>_ x. Inr x) () base16_encode base16_decode ()"
  have store: "ModularHashSpace_store ?m InMemoryStore_new [1, 172]
      = (Inr ''f01ac'', \<lparr>imap = [[1, 172] \<mapsto> [1, 172]]\<rparr>)"
    by (simp add: multi_hash_space_eval)
  show ?thesis
    using multi_hash_space_store_resolve [OF base16_decode_encode store, of "[[3], []]"] store
    by (simp add: Let_def)
qed

text \<open>C30: whatever the storage under it returns, a modular hash space over a
  \<^verbatim>\<open>MultiHasher\<close> resolves a hash string only to an object whose multihash is exactly the
  decoded hash: if one hash string resolves to two objects, in two states of the storage, they
  have the same multihash.\<close>

theorem ModularHashSpace_integrity:
  assumes "hasher m = MultiHasher_new mh alg"
    and "ModularHashSpace_resolve m s1 h = Inr x"
    and "ModularHashSpace_resolve m s2 h = Inr y"
  shows "mh alg x = mh alg y \<and> (\<exists>b. mh alg x = Inr b \<and> decode_hash (hash_coder m) h = Inr b)"
  using assms by (auto simp: ModularHashSpace_resolve_Ok MultiHasher_validate_iff)

theorem ModularHashSpace_integrity_witness:
  "let m = multi_hash_space (\<lambda>_ x. Inr (take 1 x)) () base16_encode base16_decode ();
       s1 = \<lparr>imap = [[1] \<mapsto> [1, 2]]\<rparr>; s2 = \<lparr>imap = [[1] \<mapsto> [1, 3]]\<rparr>
   in ModularHashSpace_resolve m s1 ''f01'' = Inr [1, 2] \<and> ModularHashSpace_resolve m s2 ''f01'' = Inr [1, 3]
     \<and> (\<exists>b. decode_hash (hash_coder m) ''f01'' = Inr b)"
proof -
  let ?mh = "\<lambda>_ x. Inr (take 1 x)"
  let ?m = "multi_hash_space ?mh () base16_encode base16_decode ()"
  have dec: "base16_decode ''f01'' = Inr ((), [1])"
    by (simp add: base16_decode_def hex_digits_def)
  have r: "ModularHashSpace_resolve ?m \<lparr>imap = [[1] \<mapsto> [1, k]]\<rparr> ''f01'' = Inr [1, k]" for k
    by (simp add: ModularHashSpace_resolve_Ok MultiHasher_validate_iff MultiBaseHashCoder_new_def
        MultiBaseHashCoder_decode_def dec InMemoryStore_get_def)
  show ?thesis
    using ModularHashSpace_integrity [of ?m ?mh "()", OF _ r r, of 2 3] r by (auto simp: Let_def)
qed

text \<open>The asynchronous and the synchronous hash space resolve and validate alike on every
  input, and store alike whenever the storage accepts the write or the hash can be encoded; they
  differ only in which of the two errors wins and in whether the object was already written when
  the encoding fails.\<close>

lemma sync_async_agree:
  "ModularHashSpace_resolve m s h = sync_ModularHashSpace_resolve m s h \<and>
   ModularHashSpace_validate m s x h = sync_ModularHashSpace_validate m s x h \<and>
   (ModularHashSpace_store m s x = sync_ModularHashSpace_store m s x \<or>
     (\<exists>b e. get_hash (hasher m) x = Inr b \<and> encode_hash (hash_coder m) b = Inl e
        \<and> ModularHashSpace_store m s x = (Inl (HashSpace_StringCoderError e), s)
        \<and> is_err (fst (sync_ModularHashSpace_store m s x))
        \<and> snd (sync_ModularHashSpace_store m s x) = snd (kv_set (storage m) s b x)))"
proof (intro conjI)
  show "ModularHashSpace_resolve m s h = sync_ModularHashSpace_resolve m s h"
    by (cases "decode_hash (hash_coder m) h"; cases "kv_get (storage m) s (projr (decode_hash (hash_coder m) h))")
      (auto simp: ModularHashSpace_resolve_def sync_ModularHashSpace_resolve_def split: sum.split)
  show "ModularHashSpace_validate m s x h = sync_ModularHashSpace_validate m s x h"
    by (simp add: ModularHashSpace_validate_def sync_ModularHashSpace_validate_def sync_validate_def)
qed (cases "get_hash (hasher m) x"; cases "encode_hash (hash_coder m) (projr (get_hash (hasher m) x))";
     auto simp: ModularHashSpace_store_def sync_ModularHashSpace_store_def split: prod.split sum.split)

end
