(* ===== verification/Hash_Web.thy ===== *)
theory Hash_Web
  imports Hash_Space
begin

text \<open>
  The hash web of \<^verbatim>\<open>storage/src/async/imp.rs\<close>: links \<^verbatim>\<open>hashspaceId/hash\<close> and the
  dispatch of the \<^verbatim>\<open>HashSpace\<close> operations to the space a link names.  The web keeps the
  contract \<open>hash_space\<close> of its member spaces, with links in place of hashes, as long as the id
  of the default space can be read back from a link.
\<close>

section \<open>Links\<close>

record HashWebLink =
  hashspace :: string
  hash :: string

definition HashWebLink_new :: "string \<Rightarrow> string \<Rightarrow> HashWebLink" where
  "HashWebLink_new hs h = \<lparr>hashspace = hs, hash = h\<rparr>"

text \<open>The slice \<^verbatim>\<open>&slashed_hash[1..]\<close> is in range: \<open>slashed_hash\<close> starts with the slash
  that was found.\<close>

definition HashWebLink_parse :: "string \<Rightarrow> (HashWebLink, HashSpaceError) result" where
  "HashWebLink_parse address_str =
     (let address = (if address_str \<noteq> [] \<and> hd address_str = CHR ''/'' then drop 1 address_str
                     else address_str) in
      and_then (ok_or (LinkFormatError address_str) (str_find (CHR ''/'') address))
        (\<lambda>slash_pos. let (hashspace_id, slashed_hash) = str_split_at slash_pos address;
             hsh = drop 1 slashed_hash
         in Ok (HashWebLink_new hashspace_id hsh)))"

section \<open>The web\<close>

text \<open>The boxed hash spaces of the map have one state each: the state of the web is a function
  from space ids.\<close>

record ('s, 'o) HashWeb =
  hashspaces :: "string \<rightharpoonup> ('s, 'o, string) HashSpace"
  default_id :: string

definition HashWeb_new :: "(string \<rightharpoonup> ('s, 'o, string) HashSpace) \<Rightarrow> string \<Rightarrow> ('s, 'o) HashWeb" where
  "HashWeb_new spaces dflt = \<lparr>hashspaces = spaces, default_id = dflt\<rparr>"

definition HashWeb_store ::
  "('s, 'o) HashWeb \<Rightarrow> (string \<Rightarrow> 's) \<Rightarrow> 'o \<Rightarrow> (string, HashSpaceError) result \<times> (string \<Rightarrow> 's)" where
  "HashWeb_store hw st object =
     (case ok_or (UnsupportedHashSpace (default_id hw)) (hashspaces hw (default_id hw)) of
        Inl e \<Rightarrow> (Err e, st)
      | Inr space \<Rightarrow>
          (case hs_store space (st (default_id hw)) object of (r, s') \<Rightarrow>
             (map_ok (\<lambda>h. default_id hw @ ''/'' @ h) r, st(default_id hw := s'))))"

definition HashWeb_resolve ::
  "('s, 'o) HashWeb \<Rightarrow> (string \<Rightarrow> 's) \<Rightarrow> string \<Rightarrow> ('o, HashSpaceError) result" where
  "HashWeb_resolve hw st hashlink_str =
     and_then (HashWebLink_parse hashlink_str)
       (\<lambda>hashlink. and_then (ok_or (UnsupportedHashSpace (hashspace hashlink))
             (hashspaces hw (hashspace hashlink)))
         (\<lambda>space. hs_resolve space (st (hashspace hashlink)) (hash hashlink)))"

definition HashWeb_validate ::
  "('s, 'o) HashWeb \<Rightarrow> (string \<Rightarrow> 's) \<Rightarrow> 'o \<Rightarrow> string \<Rightarrow> (bool, HashSpaceError) result" where
  "HashWeb_validate hw st object hashlink_str =
     and_then (HashWebLink_parse hashlink_str)
       (\<lambda>hashlink. and_then (ok_or (UnsupportedHashSpace (hashspace hashlink))
             (hashspaces hw (hashspace hashlink)))
         (\<lambda>space. hs_validate space (st (hashspace hashlink)) object (hash hashlink)))"

definition HashWeb_ops :: "('s, 'o) HashWeb \<Rightarrow> (string \<Rightarrow> 's, 'o, string) HashSpace" where
  "HashWeb_ops hw = \<lparr>hs_store = HashWeb_store hw, hs_resolve = HashWeb_resolve hw,
     hs_validate = HashWeb_validate hw\<rparr>"

lemma HashWeb_ops_sel [simp]:
  "hs_store (HashWeb_ops hw) = HashWeb_store hw"
  "hs_resolve (HashWeb_ops hw) = HashWeb_resolve hw"
  "hs_validate (HashWeb_ops hw) = HashWeb_validate hw"
  by (simp_all add: HashWeb_ops_def)

section \<open>Parsing and the contract\<close>

definition link_id :: "string \<Rightarrow> bool" where
  "link_id i \<longleftrightarrow> i \<noteq> [] \<and> CHR ''/'' \<notin> set i"

lemma HashWebLink_parse_print:
  assumes "link_id i"
  shows "HashWebLink_parse (i @ ''/'' @ h) = Inr \<lparr>hashspace = i, hash = h\<rparr>"
    and "HashWebLink_parse (''/'' @ i @ ''/'' @ h) = Inr \<lparr>hashspace = i, hash = h\<rparr>"
proof -
  have "i \<noteq> []" "CHR ''/'' \<notin> set i" using assms by (auto simp: link_id_def)
  moreover from this have "hd i \<noteq> CHR ''/''" by (metis hd_in_set)
  ultimately show "HashWebLink_parse (i @ ''/'' @ h) = Inr \<lparr>hashspace = i, hash = h\<rparr>"
    and "HashWebLink_parse (''/'' @ i @ ''/'' @ h) = Inr \<lparr>hashspace = i, hash = h\<rparr>"
    by (simp_all add: HashWebLink_parse_def str_find_append str_split_at_def HashWebLink_new_def)
qed

lemma HashWebLink_parse_Ok:
  assumes "HashWebLink_parse a = Inr l"
  shows "CHR ''/'' \<notin> set (hashspace l)"
    and "a = hashspace l @ ''/'' @ hash l \<or> a = ''/'' @ hashspace l @ ''/'' @ hash l"
proof -
  define b where "b = (if a \<noteq> [] \<and> hd a = CHR ''/'' then drop 1 a else a)"
  obtain n where n: "str_find (CHR ''/'') b = Some n"
    using assms by (auto simp: HashWebLink_parse_def b_def Let_def)
  obtain p q where pq: "b = p @ CHR ''/'' # q" "CHR ''/'' \<notin> set p" "length p = n"
    using str_find_SomeE [OF n] .
  have l: "l = \<lparr>hashspace = p, hash = q\<rparr>"
    using assms n pq unfolding HashWebLink_parse_def b_def [symmetric]
    by (simp add: str_split_at_def HashWebLink_new_def)
  show "CHR ''/'' \<notin> set (hashspace l)" using l pq by simp
  have "a = b \<or> a = CHR ''/'' # b" by (cases a) (auto simp: b_def)
  then show "a = hashspace l @ ''/'' @ hash l \<or> a = ''/'' @ hashspace l @ ''/'' @ hash l"
    using l pq by auto
qed

lemma HashWeb_store_Ok:
  "HashWeb_store hw st x = (Inr l, st') \<longleftrightarrow>
     (\<exists>space h s'. hashspaces hw (default_id hw) = Some space
        \<and> hs_store space (st (default_id hw)) x = (Inr h, s')
        \<and> l = default_id hw @ ''/'' @ h \<and> st' = st(default_id hw := s'))"
  by (cases "hashspaces hw (default_id hw)") (auto simp: HashWeb_store_def split: prod.splits)

locale checked_web =
  fixes hw :: "('s, 'o) HashWeb"
  assumes member_checked: "hashspaces hw i = Some space \<Longrightarrow> checked_hash_space space"
begin

sublocale web_checked: checked_hash_space "HashWeb_ops hw"
  by unfold_locales
    (auto simp: HashWeb_resolve_def HashWeb_validate_def
      intro: checked_hash_space.resolve_validates [OF member_checked])

end

locale hash_web = checked_web hw for hw :: "('s, 'o) HashWeb" +
  assumes default_space: "hashspaces hw (default_id hw) = Some space \<Longrightarrow> hash_space space"
    and default_link: "link_id (default_id hw)"
begin

sublocale web: hash_space "HashWeb_ops hw"
  by unfold_locales
    (auto simp: HashWeb_store_Ok HashWeb_resolve_def HashWebLink_parse_print(1) [OF default_link, simplified]
      intro: hash_space.store_resolve [OF default_space])

lemma web_store_resolve: "HashWeb_store hw st x = (Inr l, st') \<Longrightarrow> HashWeb_resolve hw st' l = Inr x"
  using web.store_resolve by simp

end

text \<open>The web of the crate's tests: in-memory modular hash spaces, here any number of them, each
  with a \<^verbatim>\<open>MultiHasher\<close> of its own.\<close>

definition memory_web ::
  "('alg \<Rightarrow> bytes \<Rightarrow> (bytes, multihash_error) result) \<Rightarrow> (string \<rightharpoonup> 'alg) \<Rightarrow> string
     \<Rightarrow> ((bytes, bytes) InMemoryStore, bytes) HashWeb" where
  "memory_web mh algs dflt = HashWeb_new
     (\<lambda>i. map_option (\<lambda>alg. ModularHashSpace_ops
        (multi_hash_space mh alg base16_encode base16_decode ())) (algs i)) dflt"

interpretation memory: hash_web "memory_web mh algs ''mem''" for mh algs
  by unfold_locales
    (auto simp: memory_web_def HashWeb_new_def link_id_def
      intro: modular_checked.resolve_validates multi16.modular.store_resolve)

section \<open>Properties\<close>

text \<open>Link syntax round trip.  \<^verbatim>\<open>HashWebLink::parse\<close> accepts exactly the strings
  \<^verbatim>\<open>id/hash\<close>, optionally with one leading slash, whose id has no slash (the hash may have
  some), and returns these parts; an empty id can only be written with the leading slash.\<close>

lemma HashWebLink_parse_iff:
  "HashWebLink_parse a = Inr l \<longleftrightarrow>
     CHR ''/'' \<notin> set (hashspace l) \<and>
     (a = ''/'' @ hashspace l @ ''/'' @ hash l \<or>
      a = hashspace l @ ''/'' @ hash l \<and> hashspace l \<noteq> [])"
  (is "?parse \<longleftrightarrow> ?slash \<and> (?lead \<or> ?plain \<and> _)")
proof
  assume parse: ?parse
  have "hashspace l \<noteq> []" if "?plain" "\<not> ?lead"
  proof
    assume e: "hashspace l = []"
    with that(1) have "a = CHR ''/'' # hash l" by simp
    with parse obtain n where "str_find (CHR ''/'') (hash l) = Some n"
      by (auto simp: HashWebLink_parse_def Let_def)
    then obtain p q where "hash l = p @ CHR ''/'' # q" "CHR ''/'' \<notin> set p" "length p = n"
      by (rule str_find_SomeE)
    with parse \<open>a = CHR ''/'' # hash l\<close> have "l = \<lparr>hashspace = p, hash = q\<rparr>"
      by (auto simp: HashWebLink_parse_def str_find_append str_split_at_def HashWebLink_new_def)
    with e \<open>hash l = p @ CHR ''/'' # q\<close> show False by auto
  qed
  with HashWebLink_parse_Ok [OF parse] show "?slash \<and> (?lead \<or> ?plain \<and> hashspace l \<noteq> [])" by blast
next
  assume r: "?slash \<and> (?lead \<or> ?plain \<and> hashspace l \<noteq> [])"
  show ?parse
  proof (cases "hashspace l = []")
    case True
    with r show ?thesis
      by (cases l) (auto simp: HashWebLink_parse_def str_split_at_def HashWebLink_new_def)
  next
    case False
    with r have "link_id (hashspace l)" by (simp add: link_id_def)
    from HashWebLink_parse_print [OF this] r show ?thesis by auto
  qed
qed

text \<open>An object stored in a hash web resolves under the returned link, with or without a
  leading slash, and validates there, provided the default space keeps the hash space contract
  and its id is non-empty and without a slash; the other spaces of the web are not touched.\<close>

lemma HashWeb_store_resolve:
  assumes "\<forall>space. hashspaces hw (default_id hw) = Some space \<longrightarrow> hash_space space"
    and "link_id (default_id hw)"
    and store: "HashWeb_store hw st x = (Inr l, st')"
  shows "HashWeb_resolve hw st' l = Inr x \<and> HashWeb_resolve hw st' (CHR ''/'' # l) = Inr x
    \<and> HashWeb_validate hw st' x l = Inr True \<and> (\<forall>i. i \<noteq> default_id hw \<longrightarrow> st' i = st i)"
proof -
  let ?d = "default_id hw"
  obtain space h s' where sp: "hashspaces hw ?d = Some space" "hs_store space (st ?d) x = (Inr h, s')"
    and l: "l = ?d @ ''/'' @ h" and st': "st' = st(?d := s')"
    using store by (auto simp: HashWeb_store_Ok)
  note hs = assms(1) [rule_format, OF sp(1)]
  note parse = HashWebLink_parse_print [OF assms(2), of h, folded l]
  show ?thesis
    using hash_space.store_resolve [OF hs sp(2)] hash_space.store_validates [OF hs sp(2)] parse sp(1)
    by (simp add: HashWeb_resolve_def HashWeb_validate_def st')
qed

end
