(* ===== verification/Address_Resolver.thy ===== *)
theory Address_Resolver
  imports Hash_Web
begin

text \<open>
  Attributes (\<^verbatim>\<open>storage/src/meta\<close>), the format registry (\<^verbatim>\<open>storage/src/format\<close>)
  and \<^verbatim>\<open>AddressResolver::resolve_blob\<close>, which follows a chain of links through parsed
  blobs.  Slices that can be out of range make these operations \<open>run\<close>s.  The inductive relation
  \<open>follows\<close> is the specification of an address: which blob it denotes.
\<close>

section \<open>Attributes\<close>

text \<open>Floats are never computed with; they are kept as their bit pattern.  Boxed iterators over
  values and attributes are the lists they range over, an \<^verbatim>\<open>Attribute\<close> trait object is its
  name and value.\<close>

type_synonym f64 = "64 word"

record GpsLocation =
  latitude :: f64
  longitude :: f64

datatype AttributeValue =
    Boolean bool
  | Integer "64 word"
  | Float f64
  | Timestamp int
  | Location GpsLocation
  | StringValue string
  | Blob bytes
  | Link string
  | Array "AttributeValue list"
  | Object "(string \<times> AttributeValue) list"

type_synonym Attribute = "string \<times> AttributeValue"

definition iter_first_attrval_by_name :: "Attribute list \<Rightarrow> string \<Rightarrow> AttributeValue option" where
  "iter_first_attrval_by_name iter name =
     (case filter (\<lambda>attr. fst attr = name) iter of [] \<Rightarrow> None | attr # _ \<Rightarrow> Some (snd attr))"

fun iter_first_attrval_by_path :: "Attribute list \<Rightarrow> string list \<Rightarrow> AttributeValue option" where
  "iter_first_attrval_by_path iter [] = None"
| "iter_first_attrval_by_path iter [p] = iter_first_attrval_by_name iter p"
| "iter_first_attrval_by_path iter (p # q # path) =
     (case iter_first_attrval_by_name iter p of
        Some (Object attrs) \<Rightarrow> iter_first_attrval_by_path attrs (q # path)
      | _ \<Rightarrow> None)"

text \<open>The trait \<^verbatim>\<open>Data\<close>: a blob and its attributes, with the two convenience accessors.\<close>

record Data =
  blob :: bytes
  attributes :: "Attribute list"

definition first_attrval_by_name :: "Data \<Rightarrow> string \<Rightarrow> AttributeValue option" where
  "first_attrval_by_name d name = iter_first_attrval_by_name (attributes d) name"

definition first_attrval_by_path :: "Data \<Rightarrow> string list \<Rightarrow> AttributeValue option" where
  "first_attrval_by_path d path = iter_first_attrval_by_path (attributes d) path"

section \<open>Formats\<close>

record FormatRegistry =
  formats :: "string \<rightharpoonup> (bytes \<Rightarrow> (Data, FormatParserError) result)"

definition FormatRegistry_new ::
  "(string \<rightharpoonup> (bytes \<Rightarrow> (Data, FormatParserError) result)) \<Rightarrow> FormatRegistry" where
  "FormatRegistry_new fs = \<lparr>formats = fs\<rparr>"

definition resolve_format ::
  "FormatRegistry \<Rightarrow> string \<Rightarrow> bytes \<Rightarrow> (Data, AddressResolutionError) result" where
  "resolve_format reg format_id data =
     and_then (ok_or (UnknownFormat format_id) (formats reg format_id))
       (\<lambda>parser. map_err Address_FormatParserError (parser data))"

text \<open>\<^verbatim>\<open>find(..).unwrap_or(len)\<close> followed by \<^verbatim>\<open>split_at\<close>.\<close>

definition split_before :: "char \<Rightarrow> string \<Rightarrow> string \<times> string" where
  "split_before c s = str_split_at (case str_find c s of Some i \<Rightarrow> i | None \<Rightarrow> length s) s"

definition attr_link ::
  "FormatRegistry \<Rightarrow> bytes \<Rightarrow> string \<Rightarrow> string \<Rightarrow> (string, AddressResolutionError) result" where
  "attr_link reg data format_id attr_path_str =
     and_then (resolve_format reg format_id data)
       (\<lambda>parsed_data. and_then (ok_or (AttributeNotFound attr_path_str)
            (first_attrval_by_path parsed_data (str_split (CHR ''/'') attr_path_str)))
          (\<lambda>attr. case attr of Link v \<Rightarrow> Ok v | _ \<Rightarrow> Err WrongAttributeType))"

definition resolve_attr_link ::
  "FormatRegistry \<Rightarrow> bytes \<Rightarrow> string \<Rightarrow> (string, AddressResolutionError) result run" where
  "resolve_attr_link reg data attr_spec =
     (let (format_id, prefixed_attr_path_str) = split_before (CHR ''@'') attr_spec in
      run_bind (str_from 1 prefixed_attr_path_str)
        (\<lambda>attr_path_str. Return (attr_link reg data format_id attr_path_str)))"

section \<open>Addresses\<close>

record 's AddressResolver =
  hashweb :: "('s, bytes) HashWeb"
  format_registry :: FormatRegistry

definition AddressResolver_new :: "FormatRegistry \<Rightarrow> ('s, bytes) HashWeb \<Rightarrow> 's AddressResolver" where
  "AddressResolver_new fs hw = \<lparr>hashweb = hw, format_registry = fs\<rparr>"

text \<open>One iteration of the loop chains \<^verbatim>\<open>and_then\<close> onto the blob future.\<close>

definition resolve_next ::
  "'s AddressResolver \<Rightarrow> (string \<Rightarrow> 's) \<Rightarrow> string \<Rightarrow> bytes \<Rightarrow> (bytes, AddressResolutionError) result run" where
  "resolve_next r st attr_spec data =
     run_bind (resolve_attr_link (format_registry r) data attr_spec)
       (\<lambda>hashlink_res. case hashlink_res of
          Inl e \<Rightarrow> Return (Err e)
        | Inr hashlink \<Rightarrow> Return (map_err Address_HashSpaceError (HashWeb_resolve (hashweb r) st hashlink)))"

fun resolve_attributes ::
  "'s AddressResolver \<Rightarrow> (string \<Rightarrow> 's) \<Rightarrow> string list \<Rightarrow> (bytes, AddressResolutionError) result
     \<Rightarrow> (bytes, AddressResolutionError) result run" where
  "resolve_attributes r st [] blob_fut = Return blob_fut"
| "resolve_attributes r st (spec # specs) blob_fut =
     run_bind (case blob_fut of Inl e \<Rightarrow> Return (Err e) | Inr b \<Rightarrow> resolve_next r st spec b)
       (resolve_attributes r st specs)"

definition resolve_blob ::
  "'s AddressResolver \<Rightarrow> (string \<Rightarrow> 's) \<Rightarrow> string \<Rightarrow> (bytes, AddressResolutionError) result run" where
  "resolve_blob r st address =
     (let (hashlink_str, hashed_attr_specs_str) = split_before (CHR ''#'') address;
          blob_fut = map_err Address_HashSpaceError (HashWeb_resolve (hashweb r) st hashlink_str)
      in run_bind (str_from 1 hashed_attr_specs_str)
           (\<lambda>attr_specs_str. resolve_attributes r st (str_split (CHR ''&'') attr_specs_str) blob_fut))"

section \<open>Specification\<close>

text \<open>An address in abstract form: the first link and the (format, path) steps; \<open>follows\<close> says
  which blob the steps lead to.\<close>

inductive follows ::
  "'s AddressResolver \<Rightarrow> (string \<Rightarrow> 's) \<Rightarrow> bytes \<Rightarrow> (string \<times> string list) list \<Rightarrow> bytes \<Rightarrow> bool"
  for r :: "'s AddressResolver" and st :: "string \<Rightarrow> 's" where
  follows_here: "follows r st b [] b"
| follows_link: "formats (format_registry r) fmt = Some parser \<Longrightarrow> parser b = Inr d
    \<Longrightarrow> iter_first_attrval_by_path (attributes d) path = Some (Link l)
    \<Longrightarrow> HashWeb_resolve (hashweb r) st l = Inr b' \<Longrightarrow> follows r st b' steps c
    \<Longrightarrow> follows r st b ((fmt, path) # steps) c"

inductive_simps follows_Nil [simp]: "follows r st b [] c"
inductive_simps follows_Cons: "follows r st b ((fmt, path) # steps) c"

definition show_step :: "string \<times> string list \<Rightarrow> string" where
  "show_step s = fst s @ CHR ''@'' # str_join (CHR ''/'') (snd s)"

definition show_address :: "string \<Rightarrow> (string \<times> string list) list \<Rightarrow> string" where
  "show_address link steps = link @ CHR ''#'' # str_join (CHR ''&'') (map show_step steps)"

definition clean_step :: "string \<times> string list \<Rightarrow> bool" where
  "clean_step s \<longleftrightarrow> CHR ''@'' \<notin> set (fst s) \<and> CHR ''&'' \<notin> set (show_step s)
     \<and> snd s \<noteq> [] \<and> (\<forall>p \<in> set (snd s). CHR ''/'' \<notin> set p)"

definition clean_address :: "string \<Rightarrow> (string \<times> string list) list \<Rightarrow> bool" where
  "clean_address link steps \<longleftrightarrow> CHR ''#'' \<notin> set link \<and> steps \<noteq> [] \<and> (\<forall>s \<in> set steps. clean_step s)"

lemma split_before_found: "c \<notin> set p \<Longrightarrow> split_before c (p @ c # q) = (p, c # q)"
  by (simp add: split_before_def str_find_append str_split_at_def)

lemma split_before_none: "c \<notin> set s \<Longrightarrow> split_before c s = (s, [])"
  by (simp add: split_before_def str_split_at_def str_find_None [THEN iffD2])

lemma split_before_mem: "c \<in> set s \<Longrightarrow> \<exists>p q. s = p @ c # q \<and> split_before c s = (p, c # q)"
  by (metis split_before_found split_list_first)

lemma resolve_attr_link_found:
  "CHR ''@'' \<notin> set fmt \<Longrightarrow>
     resolve_attr_link reg d (fmt @ CHR ''@'' # p) = Return (attr_link reg d fmt p)"
  by (simp add: resolve_attr_link_def split_before_found str_from_def)

lemma resolve_attr_link_panics: "resolve_attr_link reg d s = Panic \<longleftrightarrow> CHR ''@'' \<notin> set s"
  by (cases "CHR ''@'' \<in> set s")
    (auto simp: resolve_attr_link_def split_before_none dest!: split_before_mem)

lemma link_value_Ok:
  "(case a of Link v \<Rightarrow> Ok v | _ \<Rightarrow> Err WrongAttributeType) = Inr l \<longleftrightarrow> a = Link l"
  by (cases a) auto

lemma attr_link_Ok:
  "attr_link reg b fmt p = Inr l \<longleftrightarrow>
     (\<exists>parser d. formats reg fmt = Some parser \<and> parser b = Inr d
        \<and> iter_first_attrval_by_path (attributes d) (str_split (CHR ''/'') p) = Some (Link l))"
  by (auto simp: attr_link_def resolve_format_def first_attrval_by_path_def link_value_Ok)

lemma resolve_next_Ok:
  assumes "clean_step (fmt, path)"
  shows "resolve_next r st (show_step (fmt, path)) b = Return (Inr c) \<longleftrightarrow> follows r st b [(fmt, path)] c"
    and "resolve_next r st (show_step (fmt, path)) b \<noteq> Panic"
proof -
  have at: "CHR ''@'' \<notin> set fmt" and path: "str_split (CHR ''/'') (str_join (CHR ''/'') path) = path"
    using assms by (auto simp: clean_step_def intro!: str_split_join)
  note link = resolve_attr_link_found [OF at]
  have nxt: "resolve_next r st (show_step (fmt, path)) b = Return (Inr c) \<longleftrightarrow>
      (\<exists>l. attr_link (format_registry r) b fmt (str_join (CHR ''/'') path) = Inr l
        \<and> HashWeb_resolve (hashweb r) st l = Inr c)" for c
    by (cases "attr_link (format_registry r) b fmt (str_join (CHR ''/'') path)")
      (simp_all add: resolve_next_def show_step_def link)
  show "resolve_next r st (show_step (fmt, path)) b = Return (Inr c) \<longleftrightarrow> follows r st b [(fmt, path)] c"
    unfolding nxt by (auto simp: attr_link_Ok follows_Cons path)
  show "resolve_next r st (show_step (fmt, path)) b \<noteq> Panic"
    by (auto simp: resolve_next_def show_step_def link split: sum.splits)
qed

lemma resolve_attributes_err: "resolve_attributes r st specs (Inl e) = Return (Inl e)"
  by (induction specs) auto

lemma resolve_attributes_follows:
  assumes "\<forall>s \<in> set steps. clean_step s"
  shows "resolve_attributes r st (map show_step steps) (Inr b) = Return (Inr c) \<longleftrightarrow> follows r st b steps c"
  using assms
proof (induction steps arbitrary: b)
  case (Cons s steps)
  obtain fmt path where s: "s = (fmt, path)" by (cases s)
  note step = resolve_next_Ok [OF Cons.prems [rule_format, of "(fmt, path)"]]
  have "resolve_attributes r st (map show_step (s # steps)) (Inr b) = Return (Inr c) \<longleftrightarrow>
      (\<exists>b'. resolve_next r st (show_step s) b = Return (Inr b')
        \<and> resolve_attributes r st (map show_step steps) (Inr b') = Return (Inr c))"
    by (cases "resolve_next r st (show_step s) b")
      (auto simp: resolve_attributes_err split: sum.splits, metis Inr_not_Inl obj_sumE resolve_attributes_err run.inject)
  also have "\<dots> \<longleftrightarrow> (\<exists>b'. follows r st b [(fmt, path)] b' \<and> follows r st b' steps c)"
    using Cons by (simp add: s step)
  also have "\<dots> \<longleftrightarrow> follows r st b (s # steps) c"
    by (auto simp: s follows_Cons)
  finally show ?case .
qed auto

lemma resolve_blob_eq:
  "CHR ''#'' \<notin> set link \<Longrightarrow> resolve_blob r st (link @ CHR ''#'' # specs) =
     resolve_attributes r st (str_split (CHR ''&'') specs)
       (map_err Address_HashSpaceError (HashWeb_resolve (hashweb r) st link))"
  by (simp add: resolve_blob_def split_before_found str_from_def)

lemma show_address_split:
  assumes "clean_address link steps"
  shows "str_split (CHR ''&'') (str_join (CHR ''&'') (map show_step steps)) = map show_step steps"
  using assms by (intro str_split_join) (auto simp: clean_address_def clean_step_def)

lemma resolve_attributes_no_panic:
  "\<forall>spec \<in> set specs. CHR ''@'' \<in> set spec \<Longrightarrow> resolve_attributes r st specs b \<noteq> Panic"
proof (induction specs arbitrary: b)
  case (Cons spec specs)
  then have "resolve_next r st spec x \<noteq> Panic" for x
    by (auto simp: resolve_next_def resolve_attr_link_panics split: sum.splits)
  with Cons show ?case by (cases b) (auto simp: resolve_attributes_err)
qed simp

section \<open>Properties\<close>

text \<open>C31: an address \<^verbatim>\<open>link#format@path&format@path\<close> whose parts do not contain the
  separators resolves to a blob exactly when following its links, in order, leads to that blob:
  the first link resolves in the hash web, each blob parses in the format of its step, the path
  leads to a link attribute, and that link resolves to the next blob.\<close>

theorem resolve_blob_follows:
  assumes "clean_address link steps"
  shows "resolve_blob r st (show_address link steps) = Return (Inr c) \<longleftrightarrow>
     (\<exists>b. HashWeb_resolve (hashweb r) st link = Inr b \<and> follows r st b steps c)"
proof -
  have "CHR ''#'' \<notin> set link" "\<forall>s \<in> set steps. clean_step s"
    using assms by (auto simp: clean_address_def)
  then show ?thesis
    by (cases "HashWeb_resolve (hashweb r) st link")
      (simp_all add: show_address_def resolve_blob_eq show_address_split [OF assms]
        resolve_attributes_err resolve_attributes_follows)
qed

definition sample_web :: "((bytes, bytes) InMemoryStore, bytes) HashWeb" where
  "sample_web = memory_web (\<lambda>_ x. Inr x) [''mem'' \<mapsto> ()] ''mem''"

definition sample_resolver :: "(bytes, bytes) InMemoryStore AddressResolver" where
  "sample_resolver = AddressResolver_new (FormatRegistry_new
     [''meta'' \<mapsto> (\<lambda>b. Inr \<lparr>blob = b, attributes = [(''to'', Object [(''next'', Link ''mem/f02'')])]\<rparr>)])
     sample_web"

theorem resolve_blob_follows_witness:
  "resolve_blob sample_resolver (\<lambda>_. \<lparr>imap = [[1] \<mapsto> [1], [2] \<mapsto> [2]]\<rparr>)
     (show_address ''mem/f01'' [(''meta'', [''to'', ''next''])]) = Return (Inr [2])"
proof -
  let ?st = "\<lambda>_. \<lparr>imap = [[1] \<mapsto> [1], [2] \<mapsto> [2]]\<rparr>"
  let ?m = "multi_hash_space (\<lambda>_ x. Inr x) () base16_encode base16_decode ()"
  have clean: "clean_address ''mem/f01'' [(''meta'', [''to'', ''next''])]"
    by (simp add: clean_address_def clean_step_def show_step_def)
  have dec: "base16_decode ''f01'' = Inr ((), [1])" "base16_decode ''f02'' = Inr ((), [2])"
    by (simp_all add: base16_decode_def hex_digits_def)
  have res: "ModularHashSpace_resolve ?m (?st i) ''f01'' = Inr [1]"
    "ModularHashSpace_resolve ?m (?st i) ''f02'' = Inr [2]" for i
    by (simp_all add: ModularHashSpace_resolve_Ok MultiHasher_validate_iff MultiBaseHashCoder_new_def
        MultiBaseHashCoder_decode_def dec InMemoryStore_get_def)
  have web: "HashWeb_resolve sample_web ?st ''mem/f01'' = Inr [1]"
    "HashWeb_resolve sample_web ?st ''mem/f02'' = Inr [2]"
    using res by (simp_all add: HashWeb_resolve_def HashWebLink_parse_def str_split_at_def
        HashWebLink_new_def sample_web_def memory_web_def HashWeb_new_def ModularHashSpace_ops_def)
  have "follows sample_resolver ?st [1] [(''meta'', [''to'', ''next''])] [2]"
    using web by (simp add: follows_Cons sample_resolver_def AddressResolver_new_def
        FormatRegistry_new_def iter_first_attrval_by_name_def)
  with web resolve_blob_follows [OF clean, of sample_resolver ?st "[2]"]
  show ?thesis by (simp add: sample_resolver_def AddressResolver_new_def)
qed

text \<open>\<^verbatim>\<open>resolve_blob\<close> panics on every address without a \<^verbatim>\<open>#\<close>, so a plain
  hash link cannot be resolved by it; with a \<^verbatim>\<open>#\<close> it never panics if every attribute
  specifier has its \<^verbatim>\<open>@\<close>, and an error of the first link is returned whatever
  specifiers follow.\<close>

lemma resolve_blob_panics:
  "(CHR ''#'' \<notin> set address \<longrightarrow> resolve_blob r st address = Panic) \<and>
   (CHR ''#'' \<notin> set link \<and> (\<forall>spec \<in> set (str_split (CHR ''&'') specs). CHR ''@'' \<in> set spec)
      \<longrightarrow> resolve_blob r st (link @ CHR ''#'' # specs) \<noteq> Panic) \<and>
   (CHR ''#'' \<notin> set link \<and> HashWeb_resolve (hashweb r) st link = Inl e
      \<longrightarrow> resolve_blob r st (link @ CHR ''#'' # specs) = Return (Inl (Address_HashSpaceError e)))"
  by (simp add: resolve_blob_eq resolve_attributes_no_panic resolve_attributes_err)
    (simp add: resolve_blob_def split_before_none)

end
