(* ===== verification/Async_File_Store.thy ===== *)
theory Async_File_Store
  imports Key_Value_Store
begin

text \<open>
  \<^verbatim>\<open>AsyncFileStore\<close> (\<^verbatim>\<open>storage/src/async/fs.rs\<close>): the file operations of the
  blocking store, scheduled as tasks on a runtime of its own.  The caller gets a future that waits
  on a oneshot channel; the task runs whether or not anybody waits, and the tasks of several calls
  interleave at every file operation.  A task is the list of its operations on the disk that are
  still to come; \<open>runtime_turn\<close> performs one.  \<^verbatim>\<open>tokio_fs\<close> performs the operations of
  \<^verbatim>\<open>std::fs\<close>.
\<close>

section \<open>Tasks\<close>

datatype fs_op = CreateDirAll string | CreateFile string | WriteAll string bytes | ReadToEnd string | RemoveFile string

fun fs_perform :: "fs_op \<Rightarrow> fs \<Rightarrow> (bytes, string) result \<times> fs" where
  "fs_perform (CreateDirAll p) w = map_prod (map_ok (\<lambda>_. [])) id (fs_create_dir_all w p)"
| "fs_perform (CreateFile p) w = map_prod (map_ok (\<lambda>_. [])) id (fs_create w p)"
| "fs_perform (WriteAll p bs) w = map_prod (map_ok (\<lambda>_. [])) id (fs_write_all w p bs)"
| "fs_perform (ReadToEnd p) w = (fs_read w p, w)"
| "fs_perform (RemoveFile p) w = map_prod (map_ok (\<lambda>_. [])) id (fs_remove_file w p)"

text \<open>What a future yields: the value read, or nothing.\<close>

type_synonym 'v outcome = "('v option, StorageError) result"

record 'v file_task =
  todo :: "fs_op list"
  bytes_read :: bytes
  complete :: "(bytes, string) result \<Rightarrow> 'v outcome"

datatype 'v receiver = RxWaiting | RxReady "'v outcome" | RxCanceled | RxDropped

record 'v AsyncFileStore =
  async_base_path :: string
  disk :: fs
  runtime :: "nat \<rightharpoonup> 'v file_task"
  receivers :: "nat \<rightharpoonup> 'v receiver"
  next_task :: nat
  worker_panics :: nat

section \<open>The store\<close>

text \<open>\<open>runtime_result\<close> is the outcome of \<^verbatim>\<open>Runtime::new\<close>.\<close>

definition AsyncFileStore_new :: "(unit, string) result \<Rightarrow> string \<Rightarrow> fs \<Rightarrow> ('v AsyncFileStore, StorageError) result" where
  "AsyncFileStore_new runtime_result base_path_str w =
     and_then (map_err StringError runtime_result) (\<lambda>_.
       Ok \<lparr>async_base_path = base_path_str, disk = w, runtime = Map.empty, receivers = Map.empty, next_task = 0, worker_panics = 0\<rparr>)"

definition schedule :: "'v file_task \<Rightarrow> 'v AsyncFileStore \<Rightarrow> nat \<times> 'v AsyncFileStore" where
  "schedule future s =
     (let rx = next_task s in
      (rx, s\<lparr>runtime := (runtime s)(rx \<mapsto> future), receivers := (receivers s)(rx \<mapsto> RxWaiting), next_task := rx + 1\<rparr>))"

text \<open>The operations return the name of the scheduled future, or fail at once.\<close>

definition AsyncFileStore_set ::
  "('v \<Rightarrow> (bytes, string) result) \<Rightarrow> 'v AsyncFileStore \<Rightarrow> string \<Rightarrow> 'v \<Rightarrow> (nat, StorageError) result \<times> 'v AsyncFileStore" where
  "AsyncFileStore_set to_vec s key value =
     (case to_vec value of
        Inl e \<Rightarrow> (Err (StringError e), s)
      | Inr bs \<Rightarrow>
          let file_path = path_join (async_base_path s) key in
          map_prod Ok id (schedule \<lparr>todo = [CreateDirAll (async_base_path s), CreateFile file_path, WriteAll file_path bs],
            bytes_read = [], complete = (\<lambda>r. map_ok (\<lambda>_. None) (map_err StringError r))\<rparr> s))"

definition AsyncFileStore_get ::
  "(bytes \<Rightarrow> ('v, string) result) \<Rightarrow> 'v AsyncFileStore \<Rightarrow> string \<Rightarrow> nat \<times> 'v AsyncFileStore" where
  "AsyncFileStore_get from_slice s key =
     schedule \<lparr>todo = [ReadToEnd (path_join (async_base_path s) key)], bytes_read = [],
       complete = (\<lambda>r. and_then (map_err StringError r) (\<lambda>bs. map_ok Some (map_err StringError (from_slice bs))))\<rparr> s"

definition AsyncFileStore_clear_local :: "'v AsyncFileStore \<Rightarrow> string \<Rightarrow> nat \<times> 'v AsyncFileStore" where
  "AsyncFileStore_clear_local s key =
     schedule \<lparr>todo = [RemoveFile (path_join (async_base_path s) key)], bytes_read = [],
       complete = (\<lambda>r. map_ok (\<lambda>_. None) (map_err StringError r))\<rparr> s"

section \<open>The runtime\<close>

text \<open>The end of a task: \<^verbatim>\<open>tx.send(r).map_err(|_| unreachable!())\<close> panics in the worker when the
  receiver is gone.\<close>

definition task_send :: "nat \<Rightarrow> 'v outcome \<Rightarrow> 'v AsyncFileStore \<Rightarrow> 'v AsyncFileStore" where
  "task_send i r s =
     (case receivers s i of
        Some RxWaiting \<Rightarrow> s\<lparr>receivers := (receivers s)(i \<mapsto> RxReady r), runtime := (runtime s)(i := None)\<rparr>
      | _ \<Rightarrow> s\<lparr>worker_panics := worker_panics s + 1, runtime := (runtime s)(i := None)\<rparr>)"

definition runtime_turn :: "nat \<Rightarrow> 'v AsyncFileStore \<Rightarrow> 'v AsyncFileStore" where
  "runtime_turn i s =
     (case runtime s i of
        None \<Rightarrow> s
      | Some t \<Rightarrow>
          (case todo t of
             [] \<Rightarrow> task_send i (complete t (Inr (bytes_read t))) s
           | step # steps \<Rightarrow>
               (case fs_perform step (disk s) of
                  (Inl e, w) \<Rightarrow> task_send i (complete t (Inl e)) (s\<lparr>disk := w\<rparr>)
                | (Inr bs, w) \<Rightarrow> s\<lparr>disk := w, runtime := (runtime s)(i \<mapsto> t\<lparr>todo := steps, bytes_read := bs\<rparr>)\<rparr>)))"

text \<open>Polling the future, dropping it, and dropping the store, which shuts its runtime down and cancels
  what still waits.\<close>

definition future_poll :: "nat \<Rightarrow> 'v AsyncFileStore \<Rightarrow> 'v outcome option" where
  "future_poll i s =
     (case receivers s i of
        Some (RxReady val) \<Rightarrow> Some val
      | Some RxCanceled \<Rightarrow> Some (Err (StringError ''oneshot canceled''))
      | _ \<Rightarrow> None)"

definition runtime_shutdown :: "'v AsyncFileStore \<Rightarrow> 'v AsyncFileStore" where
  "runtime_shutdown s = s\<lparr>runtime := Map.empty,
     receivers := (\<lambda>i. map_option (\<lambda>r. if r = RxWaiting then RxCanceled else r) (receivers s i))\<rparr>"

definition drop_future :: "nat \<Rightarrow> 'v AsyncFileStore \<Rightarrow> 'v AsyncFileStore" where
  "drop_future i s = s\<lparr>receivers := (receivers s)(i \<mapsto> RxDropped)\<rparr>"

text \<open>A schedule: the tasks in the order in which they get their turns.\<close>

fun turns :: "nat list \<Rightarrow> 'v AsyncFileStore \<Rightarrow> 'v AsyncFileStore" where
  "turns [] s = s"
| "turns (i # is) s = turns is (runtime_turn i s)"

section \<open>One task at a time\<close>

lemma turns_replicate: "turns (replicate n i) s = (runtime_turn i ^^ n) s"
  by (induction n arbitrary: s) (simp_all add: funpow_swap1)

text \<open>The operations of a task, one after the other.\<close>

fun run_ops :: "fs_op list \<Rightarrow> bytes \<Rightarrow> fs \<Rightarrow> (bytes, string) result \<times> fs" where
  "run_ops [] bs w = (Inr bs, w)"
| "run_ops (step # steps) bs w = (case fs_perform step w of (Inl e, w) \<Rightarrow> (Inl e, w) | (Inr bs, w) \<Rightarrow> run_ops steps bs w)"

lemma turn_done: "runtime s i = None \<Longrightarrow> runtime_turn i s = s"
  by (simp add: runtime_turn_def)

lemma turns_done: "runtime s i = None \<Longrightarrow> turns (replicate n i) s = s"
  by (induction n) (simp_all add: turn_done)

lemma task_send_waiting:
  "receivers s i = Some RxWaiting \<Longrightarrow>
     task_send i r s = s\<lparr>receivers := (receivers s)(i \<mapsto> RxReady r), runtime := (runtime s)(i := None)\<rparr>"
  by (simp add: task_send_def)

lemma task_runs:
  assumes "runtime s i = Some t" and "receivers s i = Some RxWaiting" and "run_ops (todo t) (bytes_read t) (disk s) = (r, w)"
  shows "let s' = turns (replicate (Suc (length (todo t))) i) s in disk s' = w \<and> future_poll i s' = Some (complete t r)"
  using assms
proof (induction "todo t" arbitrary: s t)
  case Nil
  then show ?case by (simp add: runtime_turn_def task_send_waiting future_poll_def)
next
  case (Cons step steps)
  from Cons.hyps(2) have todo: "todo t = step # steps" by simp
  obtain q w1 where step: "fs_perform step (disk s) = (q, w1)" by fastforce
  show ?case
  proof (cases q)
    case (Inl e)
    let ?s1 = "runtime_turn i s"
    have s1: "?s1 = s\<lparr>disk := w1, receivers := (receivers s)(i \<mapsto> RxReady (complete t (Inl e))), runtime := (runtime s)(i := None)\<rparr>"
      using Cons.prems(1,2) todo step Inl by (simp add: runtime_turn_def task_send_waiting)
    have "turns (replicate (length (todo t)) i) ?s1 = ?s1" by (rule turns_done) (simp add: s1)
    with Cons.prems(3) todo step Inl show ?thesis by (simp add: s1 future_poll_def)
  next
    case (Inr bs)
    let ?t = "t\<lparr>todo := steps, bytes_read := bs\<rparr>"
    have s1: "runtime_turn i s = s\<lparr>disk := w1, runtime := (runtime s)(i \<mapsto> ?t)\<rparr>"
      using Cons.prems(1) todo step Inr by (simp add: runtime_turn_def)
    have "let s' = turns (replicate (Suc (length (todo ?t))) i) (runtime_turn i s) in disk s' = w \<and> future_poll i s' = Some (complete ?t r)"
      by (rule Cons.hyps(1)) (use Cons.prems todo step Inr in \<open>simp_all add: s1\<close>)
    then show ?thesis using todo by simp
  qed
qed

lemma scheduled_runs:
  assumes "schedule t s = (i, s')" and "run_ops (todo t) (bytes_read t) (disk s) = (r, w)"
  shows "disk (turns (replicate (Suc (length (todo t))) i) s') = w
    \<and> future_poll i (turns (replicate (Suc (length (todo t))) i) s') = Some (complete t r)"
proof -
  have "runtime s' i = Some t" "receivers s' i = Some RxWaiting" "disk s' = disk s"
    using assms(1) by (auto simp: schedule_def Let_def)
  with task_runs [of s' i t r w] assms(2) show ?thesis by (simp add: Let_def)
qed

lemma run_set_ops:
  "run_ops [CreateDirAll base, CreateFile (path_join base key), WriteAll (path_join base key) bs] [] w
     = map_prod (map_ok (\<lambda>_. [])) id (set_bytes base w key bs)"
  by (simp add: set_bytes_def Let_def split: prod.split sum.split)

lemma async_set_runs:
  fixes s :: "'v AsyncFileStore"
  shows "case AsyncFileStore_set to_vec s key v of
      (Inl e, s') \<Rightarrow> s' = s \<and> BlockingFileStore_set to_vec (async_base_path s) (disk s) key v = (Inl e, disk s)
    | (Inr i, s') \<Rightarrow> (case BlockingFileStore_set to_vec (async_base_path s) (disk s) key v of (r, w) \<Rightarrow>
        future_poll i (turns (replicate 4 i) s') = Some (map_ok (\<lambda>_. None) r) \<and> disk (turns (replicate 4 i) s') = w)"
  proof (cases "to_vec v")
    case (Inr bs)
    let ?p = "path_join (async_base_path s) key"
    let ?t = "\<lparr>todo = [CreateDirAll (async_base_path s), CreateFile ?p, WriteAll ?p bs], bytes_read = [],
        complete = (\<lambda>r. map_ok (\<lambda>_. None) (map_err StringError r))\<rparr>"
    obtain i s' where sch: "schedule ?t s = (i, s')" by fastforce
    obtain r w where set: "set_bytes (async_base_path s) (disk s) key bs = (r, w)" by fastforce
    have ops: "run_ops (todo ?t) (bytes_read ?t) (disk s) = (map_ok (\<lambda>_. []) r, w)"
      using run_set_ops [of "async_base_path s" key bs "disk s"] set by simp
    from scheduled_runs [OF sch ops] show ?thesis
      by (cases r) (simp_all add: AsyncFileStore_set_def Inr Let_def sch BlockingFileStore_set_def set numeral_eq_Suc)
  qed (simp add: AsyncFileStore_set_def BlockingFileStore_set_def)

lemma async_get_runs:
  fixes s :: "'v AsyncFileStore"
  shows "case AsyncFileStore_get from_slice s key of (i, s') \<Rightarrow>
      future_poll i (turns (replicate 2 i) s') = Some (map_ok Some (BlockingFileStore_get from_slice (async_base_path s) (disk s) key))
      \<and> disk (turns (replicate 2 i) s') = disk s"
  proof -
    let ?t = "\<lparr>todo = [ReadToEnd (path_join (async_base_path s) key)], bytes_read = [],
       complete = (\<lambda>r. and_then (map_err StringError r) (\<lambda>bs. map_ok Some (map_err StringError (from_slice bs))))\<rparr>"
    obtain i s' where sch: "schedule ?t s = (i, s')" by fastforce
    have "run_ops (todo ?t) (bytes_read ?t) (disk s) = (get_bytes (async_base_path s) (disk s) key, disk s)"
      by (simp add: get_bytes_def split: sum.split)
    from scheduled_runs [OF sch this] show ?thesis
      by (cases "get_bytes (async_base_path s) (disk s) key") (simp_all add: AsyncFileStore_get_def sch BlockingFileStore_get_def numeral_eq_Suc)
  qed

lemma async_clear_runs:
  fixes s :: "'v AsyncFileStore"
  shows "case AsyncFileStore_clear_local s key of (i, s') \<Rightarrow>
      (case BlockingFileStore_clear_local (async_base_path s) (disk s) key of (r, w) \<Rightarrow>
      future_poll i (turns (replicate 2 i) s') = Some (map_ok (\<lambda>_. None) r) \<and> disk (turns (replicate 2 i) s') = w)"
  proof -
    let ?t = "\<lparr>todo = [RemoveFile (path_join (async_base_path s) key)], bytes_read = [],
       complete = (\<lambda>r. map_ok (\<lambda>_. None) (map_err StringError r))\<rparr>"
    obtain i s' where sch: "schedule ?t s = (i, s')" by fastforce
    obtain r w where rem: "fs_remove_file (disk s) (path_join (async_base_path s) key) = (r, w)" by fastforce
    have "run_ops (todo ?t) (bytes_read ?t) (disk s) = (map_ok (\<lambda>_. []) r, w)"
      using rem by (cases r) simp_all
    from scheduled_runs [OF sch this] show ?thesis
      by (cases r) (simp_all add: AsyncFileStore_clear_local_def sch BlockingFileStore_clear_local_def rem numeral_eq_Suc)
  qed

text \<open>C32: run on its own, every operation of the asynchronous store leaves the same disk and yields the
  same result as the operation of the blocking store, errors included, after at most four turns of
  its task; an unserialisable value fails at once in both.\<close>

theorem async_file_store_equiv:
  fixes s :: "'v AsyncFileStore"
  shows "(case AsyncFileStore_set to_vec s key v of
      (Inl e, s') \<Rightarrow> s' = s \<and> BlockingFileStore_set to_vec (async_base_path s) (disk s) key v = (Inl e, disk s)
    | (Inr i, s') \<Rightarrow> (case BlockingFileStore_set to_vec (async_base_path s) (disk s) key v of (r, w) \<Rightarrow>
        future_poll i (turns (replicate 4 i) s') = Some (map_ok (\<lambda>_. None) r) \<and> disk (turns (replicate 4 i) s') = w))
    \<and> (case AsyncFileStore_get from_slice s key of (i, s') \<Rightarrow>
        future_poll i (turns (replicate 2 i) s') = Some (map_ok Some (BlockingFileStore_get from_slice (async_base_path s) (disk s) key))
        \<and> disk (turns (replicate 2 i) s') = disk s)
    \<and> (case AsyncFileStore_clear_local s key of (i, s') \<Rightarrow>
        (case BlockingFileStore_clear_local (async_base_path s) (disk s) key of (r, w) \<Rightarrow>
        future_poll i (turns (replicate 2 i) s') = Some (map_ok (\<lambda>_. None) r) \<and> disk (turns (replicate 2 i) s') = w))"
  by (intro conjI async_set_runs async_get_runs async_clear_runs)

section \<open>Interleaved tasks\<close>

text \<open>Task \<open>i\<close> is writing \<open>bs\<close> to the file \<open>p\<close>, or has done so.\<close>

definition writing :: "'v AsyncFileStore \<Rightarrow> nat \<Rightarrow> string \<Rightarrow> bytes \<Rightarrow> bool" where
  "writing s i p bs \<longleftrightarrow>
     (case runtime s i of
        None \<Rightarrow> receivers s i = Some (RxReady (Inr None)) \<and> files (disk s) p = Some bs
      | Some t \<Rightarrow> receivers s i = Some RxWaiting \<and> complete t = (\<lambda>r. map_ok (\<lambda>_. None) (map_err StringError r))
          \<and> (todo t = [] \<and> files (disk s) p = Some bs \<or> todo t = [WriteAll p bs] \<or> todo t = [CreateFile p, WriteAll p bs]
             \<or> (\<exists>base. todo t = [CreateDirAll base, CreateFile p, WriteAll p bs])))"

definition turns_left :: "'v AsyncFileStore \<Rightarrow> nat \<Rightarrow> nat" where
  "turns_left s i = (case runtime s i of None \<Rightarrow> 0 | Some t \<Rightarrow> Suc (length (todo t)))"

lemmas fs_steps = fs_create_dir_all_def fs_create_def fs_write_all_def

lemma turn_writing:
  assumes h: "healthy (disk s)" and "writing s i p bs"
  shows "healthy (disk (runtime_turn i s))" "writing (runtime_turn i s) i p bs"
    "turns_left (runtime_turn i s) i = turns_left s i - 1"
    "\<And>q. q \<noteq> p \<Longrightarrow> files (disk (runtime_turn i s)) q = files (disk s) q"
    "\<And>j. j \<noteq> i \<Longrightarrow> runtime (runtime_turn i s) j = runtime s j \<and> receivers (runtime_turn i s) j = receivers s j"
proof -
  let ?t = "runtime_turn i s"
  have "healthy (disk ?t) \<and> writing ?t i p bs \<and> turns_left ?t i = turns_left s i - 1
      \<and> (\<forall>q. q \<noteq> p \<longrightarrow> files (disk ?t) q = files (disk s) q)
      \<and> (\<forall>j. j \<noteq> i \<longrightarrow> runtime ?t j = runtime s j \<and> receivers ?t j = receivers s j)"
  proof (cases "runtime s i")
    case None
    with assms show ?thesis by (simp add: turn_done turns_left_def)
  next
    case (Some t)
    with assms(2) have rx: "receivers s i = Some RxWaiting" and "complete t = (\<lambda>r. map_ok (\<lambda>_. None) (map_err StringError r))"
      and "todo t = [] \<and> files (disk s) p = Some bs \<or> todo t = [WriteAll p bs] \<or> todo t = [CreateFile p, WriteAll p bs]
             \<or> (\<exists>base. todo t = [CreateDirAll base, CreateFile p, WriteAll p bs])"
      by (simp_all add: writing_def)
    then show ?thesis using Some h
      by (elim disjE exE conjE) (simp_all add: writing_def runtime_turn_def turns_left_def healthy_def fs_steps task_send_waiting)
  qed
  then show "healthy (disk ?t)" "writing ?t i p bs" "turns_left ?t i = turns_left s i - 1"
    "\<And>q. q \<noteq> p \<Longrightarrow> files (disk ?t) q = files (disk s) q"
    "\<And>j. j \<noteq> i \<Longrightarrow> runtime ?t j = runtime s j \<and> receivers ?t j = receivers s j" by blast+
qed

lemma turn_writing_other:
  assumes "healthy (disk s)" and "writing s i p bs" and "writing s j q cs" and "j \<noteq> i" "q \<noteq> p"
  shows "writing (runtime_turn i s) j q cs" "turns_left (runtime_turn i s) j = turns_left s j"
  using turn_writing(4,5) [OF assms(1,2)] assms(3-5) by (simp_all add: writing_def turns_left_def split: option.splits)

text \<open>Every turn of a task that is not done brings it one operation nearer to its end, whatever the
  operation and its outcome; the turns of other tasks change neither the task nor its future.\<close>

lemma turn_progress:
  "turns_left (runtime_turn i s) i \<le> turns_left s i - 1"
  "j \<noteq> i \<Longrightarrow> runtime (runtime_turn j s) i = runtime s i \<and> receivers (runtime_turn j s) i = receivers s i"
  by (auto simp: turns_left_def runtime_turn_def task_send_def split: option.splits list.splits prod.splits sum.splits receiver.splits)

definition settled :: "nat \<Rightarrow> 'v AsyncFileStore \<Rightarrow> bool" where
  "settled i s \<longleftrightarrow> (if runtime s i = None then future_poll i s \<noteq> None else receivers s i = Some RxWaiting)"

lemma turn_settled: "settled i s \<Longrightarrow> settled i (runtime_turn j s)"
proof (cases "j = i")
  case True
  assume "settled i s"
  with True show ?thesis
    by (auto simp: settled_def runtime_turn_def task_send_def future_poll_def
        split: option.splits list.splits prod.splits sum.splits receiver.splits if_splits)
next
  case False
  assume "settled i s"
  with turn_progress(2) [OF False, of s] show ?thesis by (auto simp: settled_def future_poll_def split: if_splits)
qed

lemma turns_progress:
  "turns_left s i \<le> count_list is i \<Longrightarrow> runtime (turns is s) i = None"
  "settled i s \<Longrightarrow> settled i (turns is s)"
proof (induction "is" arbitrary: s)
  case (Cons j "is")
  case 1
  have "turns_left (runtime_turn j s) i \<le> count_list is i"
  proof (cases "j = i")
    case True
    with turn_progress(1) [of i s] 1 show ?thesis by simp
  next
    case False
    with turn_progress(2) [OF False, of s] 1 show ?thesis by (simp add: turns_left_def)
  qed
  then show ?case using Cons.IH(1) by simp
next
  case (Cons j "is")
  case 2
  then have "settled i (runtime_turn j s)" by (rule turn_settled)
  then show ?case using Cons.IH(2) by simp
qed (simp_all add: turns_left_def split: option.splits)

text \<open>C34: every scheduled operation ends.  However the turns of all tasks are interleaved and
  whatever the disk answers, a task is done as soon as it has had one turn for each of its file
  operations and one to report; its future, if nobody dropped it, is then ready.\<close>

theorem scheduled_tasks_end:
  assumes "runtime s i = Some t" and "length (todo t) < count_list is i"
  shows "runtime (turns is s) i = None \<and> (receivers s i = Some RxWaiting \<longrightarrow> future_poll i (turns is s) \<noteq> None)"
proof -
  have "runtime (turns is s) i = None"
    using assms by (intro turns_progress(1)) (simp add: turns_left_def)
  moreover have "settled i (turns is s)" if "receivers s i = Some RxWaiting"
    using that assms(1) by (intro turns_progress(2)) (simp add: settled_def)
  ultimately show ?thesis by (auto simp: settled_def)
qed

text \<open>A family of writers on different files, with no other task around.\<close>

definition writers :: "'v AsyncFileStore \<Rightarrow> (nat \<times> string \<times> bytes) list \<Rightarrow> bool" where
  "writers s ws \<longleftrightarrow> healthy (disk s) \<and> distinct (map fst ws) \<and> distinct (map (fst \<circ> snd) ws)
     \<and> dom (runtime s) \<subseteq> set (map fst ws) \<and> (\<forall>(i, p, bs) \<in> set ws. writing s i p bs)"

lemma distinct_map_neq: "distinct (map f xs) \<Longrightarrow> x \<in> set xs \<Longrightarrow> y \<in> set xs \<Longrightarrow> x \<noteq> y \<Longrightarrow> f x \<noteq> f y"
  by (metis distinct_map inj_onD)

text \<open>A turn of one of the tasks leaves the others alone.\<close>

lemma writers_task_turn:
  assumes "writers s ws" and k: "(k, pk, bk) \<in> set ws"
  shows "(i, p, bs) \<in> set ws \<Longrightarrow> writing (runtime_turn k s) i p bs \<and> turns_left (runtime_turn k s) i = turns_left s i - (if i = k then 1 else 0)"
    and "writers (runtime_turn k s) ws"
proof -
  have w: "healthy (disk s)" "distinct (map fst ws)" "distinct (map (fst \<circ> snd) ws)" "dom (runtime s) \<subseteq> set (map fst ws)"
    and each: "\<And>i p bs. (i, p, bs) \<in> set ws \<Longrightarrow> writing s i p bs"
    using assms(1) by (auto simp: writers_def)
  note wk = w(1) each [OF k]
  have turn: "writing (runtime_turn k s) i p bs \<and> turns_left (runtime_turn k s) i = turns_left s i - (if i = k then 1 else 0)"
    if i: "(i, p, bs) \<in> set ws" for i p bs
  proof (cases "(i, p, bs) = (k, pk, bk)")
    case False
    then have "i \<noteq> k" "p \<noteq> pk"
      using distinct_map_neq [OF w(2) i k] distinct_map_neq [OF w(3) i k] by simp_all
    then show ?thesis using turn_writing_other [OF wk each [OF i]] by simp
  qed (use turn_writing(2,3) [OF wk] in simp)
  then show "(i, p, bs) \<in> set ws \<Longrightarrow> writing (runtime_turn k s) i p bs \<and> turns_left (runtime_turn k s) i = turns_left s i - (if i = k then 1 else 0)" .
  have "j \<in> set (map fst ws)" if "j \<in> dom (runtime (runtime_turn k s))" for j
  proof (cases "j = k")
    case False
    then have "j \<in> dom (runtime s)" using turn_writing(5) [OF wk, of j] that by (simp add: dom_def)
    with w(4) show ?thesis by blast
  qed (use imageI [OF k, of fst] in simp)
  then show "writers (runtime_turn k s) ws" using turn turn_writing(1) [OF wk] w(2,3) unfolding writers_def by blast
qed

lemma writers_turn:
  assumes "writers s ws"
  shows "writers (runtime_turn k s) ws"
    and "(i, p, bs) \<in> set ws \<Longrightarrow> turns_left (runtime_turn k s) i = turns_left s i - (if i = k then 1 else 0)"
    and "q \<notin> set (map (fst \<circ> snd) ws) \<Longrightarrow> files (disk (runtime_turn k s)) q = files (disk s) q"
proof -
  consider (idle) "runtime s k = None" | (task) pk bk where "(k, pk, bk) \<in> set ws"
    using assms by (cases "runtime s k") (auto simp: writers_def)
  then have all: "writers (runtime_turn k s) ws
      \<and> ((i, p, bs) \<in> set ws \<longrightarrow> turns_left (runtime_turn k s) i = turns_left s i - (if i = k then 1 else 0))
      \<and> (q \<notin> set (map (fst \<circ> snd) ws) \<longrightarrow> files (disk (runtime_turn k s)) q = files (disk s) q)" for i p bs q
  proof cases
    case idle
    then show ?thesis using assms by (simp add: turn_done turns_left_def)
  next
    case task
    have "files (disk (runtime_turn k s)) q = files (disk s) q" if "q \<notin> set (map (fst \<circ> snd) ws)"
    proof (rule turn_writing(4))
      show "healthy (disk s)" "writing s k pk bk" using assms task by (auto simp: writers_def)
      show "q \<noteq> pk" using that imageI [OF task, of "fst \<circ> snd"] by auto
    qed
    with writers_task_turn [OF assms task] show ?thesis by blast
  qed
  show "writers (runtime_turn k s) ws" using all by simp
  show "(i, p, bs) \<in> set ws \<Longrightarrow> turns_left (runtime_turn k s) i = turns_left s i - (if i = k then 1 else 0)"
    using all [of i p bs] by simp
  show "q \<notin> set (map (fst \<circ> snd) ws) \<Longrightarrow> files (disk (runtime_turn k s)) q = files (disk s) q"
    using all [of _ _ _ q] by simp
qed

lemma writers_turns:
  assumes "writers s ws"
  shows "writers (turns sch s) ws"
    and "(i, p, bs) \<in> set ws \<Longrightarrow> turns_left (turns sch s) i = turns_left s i - count_list sch i"
    and "q \<notin> set (map (fst \<circ> snd) ws) \<Longrightarrow> files (disk (turns sch s)) q = files (disk s) q"
  using assms by (induction sch arbitrary: s) (auto simp: writers_turn)

lemma writers_finish:
  assumes "writers s ws" and "(i, p, bs) \<in> set ws" and "4 \<le> count_list sch i"
  shows "future_poll i (turns sch s) = Some (Inr None) \<and> files (disk (turns sch s)) p = Some bs"
proof -
  have w: "writing s i p bs" "writing (turns sch s) i p bs"
    using assms(1,2) writers_turns(1) [OF assms(1), of sch] by (auto simp: writers_def)
  have "turns_left s i \<le> 4" using w(1) by (auto simp: writing_def turns_left_def split: option.splits)
  then have "turns_left (turns sch s) i = 0" using writers_turns(2) [OF assms(1,2), of sch] assms(3) by simp
  then have "runtime (turns sch s) i = None" by (simp add: turns_left_def split: option.splits)
  with w(2) show ?thesis by (simp add: writing_def future_poll_def)
qed

text \<open>Several values are set without waiting.\<close>

fun set_all ::
  "('v \<Rightarrow> (bytes, string) result) \<Rightarrow> (string \<times> 'v) list \<Rightarrow> 'v AsyncFileStore \<Rightarrow> (nat, StorageError) result list \<times> 'v AsyncFileStore" where
  "set_all to_vec [] s = ([], s)"
| "set_all to_vec ((k, v) # kvs) s =
     (case AsyncFileStore_set to_vec s k v of (r, s) \<Rightarrow> (case set_all to_vec kvs s of (rs, s) \<Rightarrow> (r # rs, s)))"

lemma set_writers:
  assumes "writers s ws" and "\<forall>x \<in> set ws. fst x < next_task s" and "to_vec v = Inr bs"
    and "path_join (async_base_path s) k \<notin> set (map (fst \<circ> snd) ws)"
  shows "\<exists>s'. AsyncFileStore_set to_vec s k v = (Inr (next_task s), s') \<and> disk s' = disk s \<and> async_base_path s' = async_base_path s
    \<and> next_task s' = Suc (next_task s) \<and> writers s' (ws @ [(next_task s, path_join (async_base_path s) k, bs)])"
proof -
  obtain s' where s': "AsyncFileStore_set to_vec s k v = (Inr (next_task s), s')" "disk s' = disk s" "async_base_path s' = async_base_path s"
    "next_task s' = Suc (next_task s)" "receivers s' = (receivers s)(next_task s \<mapsto> RxWaiting)"
    and rt: "runtime s' = (runtime s)(next_task s \<mapsto> \<lparr>todo = [CreateDirAll (async_base_path s), CreateFile (path_join (async_base_path s) k),
      WriteAll (path_join (async_base_path s) k) bs], bytes_read = [], complete = (\<lambda>r. map_ok (\<lambda>_. None) (map_err StringError r))\<rparr>)"
    using assms(3) by (simp add: AsyncFileStore_set_def schedule_def Let_def)
  have old: "writing s' i p cs" if "(i, p, cs) \<in> set ws" for i p cs
  proof -
    have "i < next_task s" using assms(2) that by fastforce
    moreover have "writing s i p cs" using assms(1) that by (auto simp: writers_def)
    ultimately show ?thesis by (cases "runtime s i") (simp_all add: writing_def s' rt)
  qed
  have new: "writing s' (next_task s) (path_join (async_base_path s) k) bs" by (simp add: writing_def s' rt)
  have "next_task s \<notin> fst ` set ws" using assms(2) by fastforce
  moreover have "dom (runtime s') \<subseteq> insert (next_task s) (fst ` set ws)"
    using assms(1) by (auto simp: writers_def rt)
  moreover have "healthy (disk s)" "distinct (map fst ws)" "distinct (map (fst \<circ> snd) ws)" using assms(1) by (simp_all add: writers_def)
  ultimately have "writers s' (ws @ [(next_task s, path_join (async_base_path s) k, bs)])"
    using assms(4) old new unfolding writers_def by (simp add: s'(2)) blast
  with s' show ?thesis by blast
qed

lemma set_all_writers:
  assumes "writers s ws" and "\<forall>x \<in> set ws. fst x < next_task s" and "\<forall>(k, v) \<in> set kvs. relative_key k \<and> to_vec v = Inr (enc v)"
    and "distinct (map fst kvs)" and "\<forall>(k, v) \<in> set kvs. path_join (async_base_path s) k \<notin> set (map (fst \<circ> snd) ws)"
    and "set_all to_vec kvs s = (rs, s')"
  shows "rs = map Inr [next_task s..<next_task s + length kvs] \<and> disk s' = disk s \<and> async_base_path s' = async_base_path s
    \<and> writers s' (ws @ zip [next_task s..<next_task s + length kvs] (map (\<lambda>(k, v). (path_join (async_base_path s) k, enc v)) kvs))"
  using assms
proof (induction kvs arbitrary: s ws rs)
  case (Cons kv kvs)
  obtain k v where kv: "kv = (k, v)" by (cases kv)
  let ?p = "path_join (async_base_path s) k"
  have prem: "to_vec v = Inr (enc v)" "?p \<notin> set (map (fst \<circ> snd) ws)" "relative_key k" using Cons.prems(3,5) by (simp_all add: kv)
  obtain s1 where s1: "AsyncFileStore_set to_vec s k v = (Inr (next_task s), s1)" "disk s1 = disk s" "async_base_path s1 = async_base_path s"
    "next_task s1 = Suc (next_task s)" "writers s1 (ws @ [(next_task s, ?p, enc v)])"
    using set_writers [of s ws to_vec v, OF Cons.prems(1,2) prem(1,2)] by blast
  obtain rs' where rs': "set_all to_vec kvs s1 = (rs', s')" "rs = Inr (next_task s) # rs'"
    using Cons.prems(6) s1(1) by (auto simp: kv split: prod.splits)
  have "path_join (async_base_path s) k' \<noteq> ?p" if "(k', v') \<in> set kvs" for k' v'
    using that Cons.prems(3,4) prem(3) by (force simp: kv path_join_inj)
  then have "\<forall>(k', v') \<in> set kvs. path_join (async_base_path s1) k' \<notin> set (map (fst \<circ> snd) (ws @ [(next_task s, ?p, enc v)]))"
    using Cons.prems(5) by (auto simp: kv s1(3))
  moreover have "\<forall>x \<in> set (ws @ [(next_task s, ?p, enc v)]). fst x < next_task s1"
    using Cons.prems(2) by (auto simp: s1(4))
  ultimately have "rs' = map Inr [next_task s1..<next_task s1 + length kvs] \<and> disk s' = disk s1 \<and> async_base_path s' = async_base_path s1
    \<and> writers s' ((ws @ [(next_task s, ?p, enc v)]) @ zip [next_task s1..<next_task s1 + length kvs]
        (map (\<lambda>(k, v). (path_join (async_base_path s1) k, enc v)) kvs))"
    using Cons.IH [OF s1(5) _ _ _ _ rs'(1)] Cons.prems(3,4) by simp
  moreover have "[next_task s..<next_task s + length (kv # kvs)] = next_task s # [next_task s1..<next_task s1 + length kvs]"
    using upt_conv_Cons [of "next_task s" "next_task s + length (kv # kvs)"] by (simp add: s1(4) del: upt_Suc)
  ultimately show ?case by (simp add: kv s1 rs'(2))
qed simp


definition sample_store :: "bytes AsyncFileStore" where
  "sample_store = \<lparr>async_base_path = ''d'', disk = empty_disk, runtime = Map.empty, receivers = Map.empty, next_task = 0, worker_panics = 0\<rparr>"


text \<open>A future of the asynchronous store must not be dropped while its task runs: the task finishes
  its work on the disk, but then the worker thread panics, because the result is sent into a channel
  whose receiver is gone, which the code declares unreachable.\<close>

lemma dropped_future_panics:
  assumes "AsyncFileStore_set to_vec s key v = (Inr i, s')" and "healthy (disk s)"
  shows "worker_panics (turns (replicate 4 i) (drop_future i s')) = worker_panics s + 1
    \<and> disk (turns (replicate 4 i) (drop_future i s')) = snd (BlockingFileStore_set to_vec (async_base_path s) (disk s) key v)"
proof -
  obtain bs where "to_vec v = Inr bs" using assms(1) by (auto simp: AsyncFileStore_set_def split: sum.splits)
  with assms show ?thesis
    by (auto simp: AsyncFileStore_set_def schedule_def Let_def drop_future_def runtime_turn_def task_send_def numeral_eq_Suc
        healthy_def fs_steps BlockingFileStore_set_def set_bytes_def)
qed

theorem scheduled_tasks_end_witness:
  "future_poll 0 (turns [0, 1, 0] (snd (AsyncFileStore_clear_local (snd (AsyncFileStore_get (\<lambda>bs. Inr bs) sample_store ''a'')) ''b''))) \<noteq> None"
  using scheduled_tasks_end [of "snd (AsyncFileStore_clear_local (snd (AsyncFileStore_get (\<lambda>bs. Inr bs) sample_store ''a'')) ''b'')" 0
      _ "[0, 1, 0]"]
  by (simp add: AsyncFileStore_clear_local_def AsyncFileStore_get_def schedule_def sample_store_def)

end
