(* ===== verification/Home_Types.thy ===== *)
theory Home_Types
  imports Mercury_Prelude
begin

text \<open>
  The data of the home protocol (\<^verbatim>\<open>home-protocol/src/lib.rs\<close>, \<^verbatim>\<open>error.rs\<close>):
  identifiers and keys as wrapped bytes, facets and profiles, relation proofs, invitations, calls
  and events.  An \<^verbatim>\<open>Error\<close> is a \<^verbatim>\<open>failure::Context\<close> around its kind; equality and
  \<^verbatim>\<open>kind()\<close> only look at the kind, and \<^verbatim>\<open>e.context(K)\<close> replaces it, so an error is
  represented by its kind.
\<close>

section \<open>Errors\<close>

datatype ErrorKind =
    ProfileLookupFailed
  | ProfileUpdateFailed
  | HashDecodeFailed
  | HashEncodeFailed
  | SignerCreationFailed
  | SignatureValidationFailed
  | TlsHandshakeFailed
  | RelationSigningFailed
  | RelationValidationFailed
  | ProfileValidationFailed
  | MultiaddrSerializationFailed
  | MultiaddrDeserializationFailed
  | PeerIdRetreivalFailed
  | FailedToClaimProfile
  | PersonaExpected
  | AlreadyRegistered
  | HomeIdMismatch
  | RelationTypeMismatch
  | InvalidSignature
  | StorageFailed
  | ProfileMismatch
  | PublicKeyMismatch
  | SignerMismatch
  | PeerNotHostedHere
  | InvalidRelationProof
  | TimeoutFailed
  | FailedToReadResponse
  | ProfileDeregistered
  | FailedToLoadProfile
  | CallFailed
  | FailedToPushEvent
  | ConnectionToHomeFailed
  | FailedToSend
  | ContextValidationFailed
  | FailedToGetSession
  | FailedToResolveUrl
  | PairRequestFailed
  | PairResponseFailed
  | RegisterFailed
  | UnregisterFailed
  | FailedToCreateSession
  | DhtLookupFailed
  | PingFailed
  | LoginFailed

fun ErrorKind_display :: "ErrorKind \<Rightarrow> string" where
  "ErrorKind_display ProfileLookupFailed = ''profile lookup failed''"
| "ErrorKind_display ProfileUpdateFailed = ''profile update failed''"
| "ErrorKind_display HashDecodeFailed = ''hash decode failed''"
| "ErrorKind_display HashEncodeFailed = ''hash encode failed''"
| "ErrorKind_display SignerCreationFailed = ''signer creation failed''"
| "ErrorKind_display SignatureValidationFailed = ''signature validation failed''"
| "ErrorKind_display TlsHandshakeFailed = ''handshake failed''"
| "ErrorKind_display RelationSigningFailed = ''relation signing failed''"
| "ErrorKind_display RelationValidationFailed = ''relation validation failed''"
| "ErrorKind_display ProfileValidationFailed = ''profile validation failed''"
| "ErrorKind_display MultiaddrSerializationFailed = ''multiaddress serialization failed''"
| "ErrorKind_display MultiaddrDeserializationFailed = ''multiaddress deserialization failed''"
| "ErrorKind_display PeerIdRetreivalFailed = ''failed to fetch peer id''"
| "ErrorKind_display FailedToClaimProfile = ''profile claim failed''"
| "ErrorKind_display PersonaExpected = ''persona expected''"
| "ErrorKind_display AlreadyRegistered = ''already registered''"
| "ErrorKind_display HomeIdMismatch = ''home id mismatch''"
| "ErrorKind_display RelationTypeMismatch = ''relation type mismatch''"
| "ErrorKind_display InvalidSignature = ''invalid signature''"
| "ErrorKind_display StorageFailed = ''storage failed''"
| "ErrorKind_display ProfileMismatch = ''profile mismatch''"
| "ErrorKind_display PublicKeyMismatch = ''public key mismatch''"
| "ErrorKind_display SignerMismatch = ''signer mismatch''"
| "ErrorKind_display PeerNotHostedHere = ''peer not hosted here''"
| "ErrorKind_display InvalidRelationProof = ''invalid relation proof''"
| "ErrorKind_display TimeoutFailed = ''timeout failed''"
| "ErrorKind_display FailedToReadResponse = ''failed to read response''"
| "ErrorKind_display ProfileDeregistered = ''deregistered''"
| "ErrorKind_display FailedToLoadProfile = ''profile load failed''"
| "ErrorKind_display CallFailed = ''call failed''"
| "ErrorKind_display FailedToPushEvent = ''failed to push event''"
| "ErrorKind_display ConnectionToHomeFailed = ''connection to home failed''"
| "ErrorKind_display FailedToSend = ''failed to send''"
| "ErrorKind_display ContextValidationFailed = ''context validation failed''"
| "ErrorKind_display FailedToGetSession = ''failed to get session''"
| "ErrorKind_display FailedToResolveUrl = ''failed to resolve URL''"
| "ErrorKind_display PairRequestFailed = ''pair request failed''"
| "ErrorKind_display PairResponseFailed = ''pair response failed''"
| "ErrorKind_display RegisterFailed = ''profile registration failed''"
| "ErrorKind_display UnregisterFailed = ''profile deregistration failed''"
| "ErrorKind_display FailedToCreateSession = ''failed to create session''"
| "ErrorKind_display DhtLookupFailed = ''DHT lookup failed''"
| "ErrorKind_display PingFailed = ''ping failed''"
| "ErrorKind_display LoginFailed = ''login failed''"

section \<open>Identifiers and keys\<close>

datatype ProfileId = ProfileId (id_bytes: bytes)
datatype PublicKey = PublicKey (key_bytes: bytes)
datatype PrivateKey = PrivateKey (secret_bytes: bytes)
datatype Signature = Signature (signature_bytes: bytes)
datatype ApplicationId = ApplicationId (app_name: string)
datatype AppMessageFrame = AppMessageFrame (frame_bytes: bytes)

text \<open>\<^verbatim>\<open>PartialOrd\<close> is derived: identifiers are compared by their bytes.\<close>

instantiation ProfileId :: linorder
begin

definition less_eq_ProfileId :: "ProfileId \<Rightarrow> ProfileId \<Rightarrow> bool" where
  "less_eq_ProfileId a b \<longleftrightarrow> id_bytes a \<le> id_bytes b"

definition less_ProfileId :: "ProfileId \<Rightarrow> ProfileId \<Rightarrow> bool" where
  "less_ProfileId a b \<longleftrightarrow> id_bytes a < id_bytes b"

instance
  by intro_classes
    (auto simp: less_eq_ProfileId_def less_ProfileId_def intro: ProfileId.expand)

end

text \<open>Conversions between profile ids and strings over the \<^verbatim>\<open>multibase\<close> package.\<close>

definition ProfileId_to_string :: "('base \<Rightarrow> bytes \<Rightarrow> string) \<Rightarrow> 'base \<Rightarrow> ProfileId \<Rightarrow> string" where
  "ProfileId_to_string multibase_encode base64url src = multibase_encode base64url (id_bytes src)"

definition ProfileId_try_from ::
  "(string \<Rightarrow> ('base \<times> bytes, string) result) \<Rightarrow> string \<Rightarrow> (ProfileId, string) result" where
  "ProfileId_try_from multibase_decode src =
     and_then (multibase_decode src) (\<lambda>(base, binary). Ok (ProfileId binary))"

definition PublicKey_to_string :: "('base \<Rightarrow> bytes \<Rightarrow> string) \<Rightarrow> 'base \<Rightarrow> PublicKey \<Rightarrow> string" where
  "PublicKey_to_string multibase_encode base64url src = multibase_encode base64url (key_bytes src)"

section \<open>Relation proofs\<close>

record RelationSignablePart =
  sp_relation_type :: string
  sp_signer_id :: ProfileId
  sp_peer_id :: ProfileId

record RelationHalfProof =
  hp_relation_type :: string
  hp_signer_id :: ProfileId
  hp_peer_id :: ProfileId
  hp_signature :: Signature

record RelationProof =
  relation_type :: string
  a_id :: ProfileId
  a_signature :: Signature
  b_id :: ProfileId
  b_signature :: Signature

section \<open>Profiles\<close>

text \<open>A \<^verbatim>\<open>Multiaddr\<close> is the list of components its \<^verbatim>\<open>iter()\<close> yields; only IP and
  port components are ever inspected.\<close>

datatype AddrComponent = IP4 bytes | IP6 bytes | TCP "16 word" | UDP "16 word" | OtherComponent bytes

type_synonym Multiaddr = "AddrComponent list"

record PersonaFacet =
  homes :: "RelationProof list"
  persona_data :: bytes

record HomeFacet =
  addrs :: "Multiaddr list"
  home_data :: bytes

record ApplicationFacet =
  app_facet_id :: ApplicationId
  app_facet_data :: bytes

record RawFacet =
  raw_data :: bytes

datatype ProfileFacet =
    Home HomeFacet
  | Persona PersonaFacet
  | Application ApplicationFacet
  | UnknownFacet RawFacet

record Profile =
  profile_id :: ProfileId
  public_key :: PublicKey
  facet :: ProfileFacet

definition Profile_new :: "ProfileId \<Rightarrow> PublicKey \<Rightarrow> ProfileFacet \<Rightarrow> Profile" where
  "Profile_new i pk f = \<lparr>profile_id = i, public_key = pk, facet = f\<rparr>"

definition Profile_new_home :: "ProfileId \<Rightarrow> PublicKey \<Rightarrow> Multiaddr \<Rightarrow> Profile" where
  "Profile_new_home i pk address =
     \<lparr>profile_id = i, public_key = pk, facet = Home \<lparr>addrs = [address], home_data = []\<rparr>\<rparr>"

record OwnProfile =
  profile :: Profile
  priv_data :: bytes

definition OwnProfile_new :: "Profile \<Rightarrow> bytes \<Rightarrow> OwnProfile" where
  "OwnProfile_new p private_data = \<lparr>profile = p, priv_data = private_data\<rparr>"

text \<open>The serde helpers for address lists: every address is written as a string; reading stops at
  the first string that is not an address.\<close>

definition serialize_multiaddr_vec :: "(Multiaddr \<Rightarrow> string) \<Rightarrow> Multiaddr list \<Rightarrow> string list" where
  "serialize_multiaddr_vec to_str x = map to_str x"

fun deserialize_multiaddr_vec ::
  "(string \<Rightarrow> (Multiaddr, 'e) result) \<Rightarrow> string list \<Rightarrow> (Multiaddr list, 'e) result" where
  "deserialize_multiaddr_vec to_multiaddr [] = Ok []"
| "deserialize_multiaddr_vec to_multiaddr (str_ma # mapped) =
     (case to_multiaddr str_ma of
        Inl e \<Rightarrow> Err e
      | Inr multi \<Rightarrow> map_ok (Cons multi) (deserialize_multiaddr_vec to_multiaddr mapped))"

section \<open>Invitations, calls and events\<close>

record HomeInvitation =
  invitation_home_id :: ProfileId
  voucher :: string
  invitation_signature :: Signature

definition HomeInvitation_new :: "ProfileId \<Rightarrow> string \<Rightarrow> Signature \<Rightarrow> HomeInvitation" where
  "HomeInvitation_new i v s = \<lparr>invitation_home_id = i, voucher = v, invitation_signature = s\<rparr>"

text \<open>A sink of application messages is the sending end of a channel, named by the channel.\<close>

type_synonym channel_id = nat
type_synonym AppMsgSink = channel_id

record CallRequestDetails =
  relation :: RelationProof
  init_payload :: AppMessageFrame
  to_caller :: "AppMsgSink option"

datatype ProfileEvent =
    UnknownEvent bytes
  | PairingRequest RelationHalfProof
  | PairingResponse RelationProof

text \<open>Relation types are plain strings; these two are fixed by the protocol.\<close>

definition RELATION_TYPE_HOSTED_ON_HOME :: string where
  "RELATION_TYPE_HOSTED_ON_HOME = ''hosted_on_home''"

definition RELATION_TYPE_ENABLE_CALLS_BETWEEN :: string where
  "RELATION_TYPE_ENABLE_CALLS_BETWEEN = ''enable_call_between''"

section \<open>Conversions\<close>

lemma deserialize_serialize_multiaddr_vec:
  "(\<And>m. to_multiaddr (to_str m) = Inr m) \<Longrightarrow>
     deserialize_multiaddr_vec to_multiaddr (serialize_multiaddr_vec to_str ms) = Inr ms"
  by (induction ms) (simp_all add: serialize_multiaddr_vec_def)

lemma deserialize_multiaddr_vec_Ok:
  "deserialize_multiaddr_vec to_multiaddr strs = Inr ms \<longleftrightarrow>
     list_all2 (\<lambda>s m. to_multiaddr s = Inr m) strs ms"
proof (induction strs arbitrary: ms)
  case (Cons s strs)
  then show ?case
    by (cases "to_multiaddr s"; cases ms) (auto simp: list_all2_Cons1 list_all2_Cons2)
qed auto

lemma ProfileId_string_roundtrip:
  "(\<And>b x. mb_dec (mb_enc b x) = Inr (b, x)) \<Longrightarrow>
     ProfileId_try_from mb_dec (ProfileId_to_string mb_enc b i) = Inr i"
  by (simp add: ProfileId_try_from_def ProfileId_to_string_def)

lemma inj_ProfileId_to_string:
  fixes mb_dec :: "string \<Rightarrow> ('base \<times> bytes, string) result"
  assumes "\<And>b x. mb_dec (mb_enc b x) = Inr (b, x)"
  shows "inj (ProfileId_to_string mb_enc b)"
proof (rule injI)
  fix i j assume "ProfileId_to_string mb_enc b i = ProfileId_to_string mb_enc b j"
  then have "(Inr i :: (ProfileId, string) result) = Inr j"
    using ProfileId_string_roundtrip [of mb_dec mb_enc, OF assms] by metis
  then show "i = j" by simp
qed

end
