(* ===== verification/Relations.thy ===== *)
theory Relations
  imports Home_Types
begin

text \<open>
  Relation proofs between two profiles: how they are signed, completed, read and validated
  (\<^verbatim>\<open>home-protocol/src/lib.rs\<close>, lines 142 to 148 and 506 to 675).  A \<^verbatim>\<open>Signer\<close> and a
  \<^verbatim>\<open>Validator\<close> are records of their trait methods; the \<^verbatim>\<open>bincode\<close> encoding of the
  signable part is the parameter \<open>ser\<close>, total because the call is unwrapped and, as the source
  notes, cannot fail for this type.
\<close>

section \<open>Signers, validators and contexts\<close>

record Signer =
  signer_profile_id :: ProfileId
  signer_public_key :: PublicKey
  sign :: "bytes \<Rightarrow> Signature"

record Validator =
  validate_profile :: "PublicKey \<Rightarrow> ProfileId \<Rightarrow> (bool, ErrorKind) result"
  validate_signature :: "PublicKey \<Rightarrow> bytes \<Rightarrow> Signature \<Rightarrow> (bool, ErrorKind) result"

record PeerContext =
  my_signer :: Signer
  peer_pubkey :: PublicKey
  ctx_peer_id :: ProfileId

definition PeerContext_new :: "Signer \<Rightarrow> PublicKey \<Rightarrow> ProfileId \<Rightarrow> PeerContext" where
  "PeerContext_new s pk i = \<lparr>my_signer = s, peer_pubkey = pk, ctx_peer_id = i\<rparr>"

definition PeerContext_new_from_profile :: "Signer \<Rightarrow> Profile \<Rightarrow> PeerContext" where
  "PeerContext_new_from_profile s peer = PeerContext_new s (public_key peer) (profile_id peer)"

definition PeerContext_validate :: "PeerContext \<Rightarrow> Validator \<Rightarrow> (unit, ErrorKind) result" where
  "PeerContext_validate ctx validator =
     and_then (validate_profile validator (peer_pubkey ctx) (ctx_peer_id ctx))
       (\<lambda>valid. if valid then Ok () else Err ProfileValidationFailed)"

section \<open>Signing\<close>

type_synonym bincode = "RelationSignablePart \<Rightarrow> bytes"

definition RelationSignablePart_new :: "string \<Rightarrow> ProfileId \<Rightarrow> ProfileId \<Rightarrow> RelationSignablePart" where
  "RelationSignablePart_new rel_type signer_id peer =
     \<lparr>sp_relation_type = rel_type, sp_signer_id = signer_id, sp_peer_id = peer\<rparr>"

definition serialized :: "bincode \<Rightarrow> RelationSignablePart \<Rightarrow> bytes" where
  "serialized ser part = ser part"

definition RelationSignablePart_sign :: "bincode \<Rightarrow> RelationSignablePart \<Rightarrow> Signer \<Rightarrow> Signature" where
  "RelationSignablePart_sign ser part signer = sign signer (serialized ser part)"

definition RelationSignablePart_from :: "RelationHalfProof \<Rightarrow> RelationSignablePart" where
  "RelationSignablePart_from src = \<lparr>sp_relation_type = hp_relation_type src,
     sp_signer_id = hp_signer_id src, sp_peer_id = hp_peer_id src\<rparr>"

definition RelationHalfProof_new :: "bincode \<Rightarrow> string \<Rightarrow> ProfileId \<Rightarrow> Signer \<Rightarrow> RelationHalfProof" where
  "RelationHalfProof_new ser rel_type peer signer =
     (let result = \<lparr>hp_relation_type = rel_type, hp_signer_id = signer_profile_id signer,
            hp_peer_id = peer, hp_signature = Signature []\<rparr>
      in result\<lparr>hp_signature := RelationSignablePart_sign ser (RelationSignablePart_from result) signer\<rparr>)"

definition RelationProof_new ::
  "string \<Rightarrow> ProfileId \<Rightarrow> Signature \<Rightarrow> ProfileId \<Rightarrow> Signature \<Rightarrow> RelationProof" where
  "RelationProof_new rel_type a sig_a b sig_b =
     (if a < b
      then \<lparr>relation_type = rel_type, a_id = a, a_signature = sig_a, b_id = b, b_signature = sig_b\<rparr>
      else \<lparr>relation_type = rel_type, a_id = b, a_signature = sig_b, b_id = a, b_signature = sig_a\<rparr>)"

definition sign_remaining_half ::
  "bincode \<Rightarrow> RelationHalfProof \<Rightarrow> Signer \<Rightarrow> (RelationProof, ErrorKind) result" where
  "sign_remaining_half ser half_proof signer =
     (let my_profile_id = signer_profile_id signer in
      if hp_peer_id half_proof \<noteq> my_profile_id then Err RelationSigningFailed
      else
        let signable = RelationSignablePart_new (hp_relation_type half_proof) my_profile_id
              (hp_signer_id half_proof)
        in Ok (RelationProof_new (hp_relation_type half_proof) (hp_signer_id half_proof)
             (hp_signature half_proof) my_profile_id (RelationSignablePart_sign ser signable signer)))"

section \<open>Reading\<close>

definition accessible_by :: "RelationProof \<Rightarrow> ApplicationId \<Rightarrow> bool" where
  "accessible_by proof app \<longleftrightarrow> relation_type proof = app_name app"

definition peer_id :: "RelationProof \<Rightarrow> ProfileId \<Rightarrow> (ProfileId, ErrorKind) result" where
  "peer_id proof my_id =
     (if a_id proof = my_id then Ok (b_id proof)
      else if b_id proof = my_id then Ok (a_id proof)
      else Err PeerIdRetreivalFailed)"

definition peer_signature :: "RelationProof \<Rightarrow> ProfileId \<Rightarrow> (Signature, ErrorKind) result" where
  "peer_signature proof my_id =
     (if a_id proof = my_id then Ok (b_signature proof)
      else if b_id proof = my_id then Ok (a_signature proof)
      else Err PeerIdRetreivalFailed)"

section \<open>Validation\<close>

definition validate_half_proof ::
  "bincode \<Rightarrow> Validator \<Rightarrow> RelationHalfProof \<Rightarrow> PublicKey \<Rightarrow> (unit, ErrorKind) result" where
  "validate_half_proof ser v half_proof signer_pubkey =
     and_then (validate_signature v signer_pubkey
         (serialized ser (RelationSignablePart_from half_proof)) (hp_signature half_proof))
       (\<lambda>_. Ok ())"

definition validate_relation_proof ::
  "bincode \<Rightarrow> Validator \<Rightarrow> RelationProof \<Rightarrow> ProfileId \<Rightarrow> PublicKey \<Rightarrow> ProfileId \<Rightarrow> PublicKey
     \<Rightarrow> (unit, ErrorKind) result" where
  "validate_relation_proof ser v proof id_1 public_key_1 id_2 public_key_2 =
     (let signable_a = serialized ser
            (RelationSignablePart_new (relation_type proof) (a_id proof) (b_id proof));
          signable_b = serialized ser
            (RelationSignablePart_new (relation_type proof) (b_id proof) (a_id proof))
      in and_then (peer_id proof id_1)
        (\<lambda>peer_of_id_1.
           if peer_of_id_1 \<noteq> id_2 then Err RelationValidationFailed
           else if peer_of_id_1 = b_id proof
           then and_then (validate_signature v public_key_1 signable_a (a_signature proof))
             (\<lambda>_. and_then (validate_signature v public_key_2 signable_b (b_signature proof))
               (\<lambda>_. Ok ()))
           else and_then (validate_signature v public_key_1 signable_b (b_signature proof))
             (\<lambda>_. and_then (validate_signature v public_key_2 signable_a (a_signature proof))
               (\<lambda>_. Ok ()))))"

section \<open>Lemmas\<close>

lemma RelationProof_new_sym:
  "a \<noteq> b \<Longrightarrow> RelationProof_new t a sa b sb = RelationProof_new t b sb a sa"
  by (auto simp: RelationProof_new_def)

lemma RelationProof_new_ordered:
  "a_id (RelationProof_new t a sa b sb) \<le> b_id (RelationProof_new t a sa b sb)"
  by (auto simp: RelationProof_new_def)

lemma relation_type_new [simp]: "relation_type (RelationProof_new t a sa b sb) = t"
  by (simp add: RelationProof_new_def)

lemma peer_id_new [simp]:
  "peer_id (RelationProof_new t a sa b sb) a = Inr b"
  "peer_id (RelationProof_new t a sa b sb) b = Inr a"
  by (auto simp: RelationProof_new_def peer_id_def)

lemma peer_signature_new:
  "a \<noteq> b \<Longrightarrow> peer_signature (RelationProof_new t a sa b sb) a = Inr sb"
  "a \<noteq> b \<Longrightarrow> peer_signature (RelationProof_new t a sa b sb) b = Inr sa"
  by (auto simp: RelationProof_new_def peer_signature_def)

lemma peer_id_Ok:
  "peer_id p i = Inr j \<longleftrightarrow> a_id p = i \<and> b_id p = j \<or> a_id p \<noteq> i \<and> b_id p = i \<and> a_id p = j"
  by (auto simp: peer_id_def)

lemma peer_id_involutive: "peer_id p i = Inr j \<Longrightarrow> peer_id p j = Inr i"
  by (auto simp: peer_id_Ok)

lemma peer_id_Err: "peer_id p i = Inl e \<longleftrightarrow> a_id p \<noteq> i \<and> b_id p \<noteq> i \<and> e = PeerIdRetreivalFailed"
  by (auto simp: peer_id_def)

text \<open>What the signer \<open>s\<close> of a proof has to have signed.\<close>

definition signable :: "RelationProof \<Rightarrow> ProfileId \<Rightarrow> ProfileId \<Rightarrow> RelationSignablePart" where
  "signable p s peer = RelationSignablePart_new (relation_type p) s peer"

lemma validate_half_proof_Ok:
  "validate_half_proof ser v h pk = Inr () \<longleftrightarrow>
     is_ok (validate_signature v pk (ser (RelationSignablePart_from h)) (hp_signature h))"
  by (simp add: validate_half_proof_def serialized_def is_ok_iff)

lemma validate_relation_proof_Ok:
  assumes "id1 \<noteq> id2"
  shows "validate_relation_proof ser v p id1 pk1 id2 pk2 = Inr () \<longleftrightarrow>
    (\<exists>s1 s2. peer_id p id1 = Inr id2 \<and> peer_signature p id2 = Inr s1 \<and> peer_signature p id1 = Inr s2
       \<and> is_ok (validate_signature v pk1 (ser (signable p id1 id2)) s1)
       \<and> is_ok (validate_signature v pk2 (ser (signable p id2 id1)) s2))"
  using assms
  by (auto simp: validate_relation_proof_def Let_def serialized_def peer_id_def peer_signature_def
      signable_def RelationSignablePart_new_def is_ok_iff split: if_splits)

lemma validate_relation_proof_swap:
  assumes "id1 \<noteq> id2"
  shows "validate_relation_proof ser v p id1 pk1 id2 pk2 = Inr () \<longleftrightarrow>
     validate_relation_proof ser v p id2 pk2 id1 pk1 = Inr ()"
  unfolding validate_relation_proof_Ok [OF assms] validate_relation_proof_Ok [OF assms [symmetric]]
  using peer_id_involutive by blast

text \<open>
  The contract of a signature scheme: \<open>owns pk s\<close> says that the signer \<open>s\<close> holds the private
  half of \<open>pk\<close>.  A validator that never answers \<^verbatim>\<open>Ok(false)\<close> is strict.
\<close>

locale signature_scheme =
  fixes v :: Validator and owns :: "PublicKey \<Rightarrow> Signer \<Rightarrow> bool"
  assumes accepts: "owns pk s \<Longrightarrow> validate_signature v pk d (sign s d) = Inr True"
begin

lemma half_proof_valid:
  "owns pk s \<Longrightarrow> validate_half_proof ser v (RelationHalfProof_new ser t i s) pk = Inr ()"
  by (simp add: validate_half_proof_Ok RelationHalfProof_new_def RelationSignablePart_sign_def
      serialized_def RelationSignablePart_from_def accepts)

lemma completed_valid:
  assumes "owns pk1 s1" "owns pk2 s2" and ne: "signer_profile_id s1 \<noteq> signer_profile_id s2"
  shows "\<exists>p. sign_remaining_half ser (RelationHalfProof_new ser t (signer_profile_id s2) s1) s2 = Inr p
    \<and> relation_type p = t \<and> peer_id p (signer_profile_id s1) = Inr (signer_profile_id s2)
    \<and> validate_relation_proof ser v p (signer_profile_id s1) pk1 (signer_profile_id s2) pk2 = Inr ()"
  using ne by (simp add: sign_remaining_half_def Let_def RelationHalfProof_new_def
      validate_relation_proof_Ok peer_signature_new RelationSignablePart_sign_def serialized_def
      signable_def RelationSignablePart_from_def RelationSignablePart_new_def accepts assms)

end

locale strict_validator =
  fixes v :: Validator
  assumes never_false: "validate_signature v pk d s \<noteq> Inr False"
begin

lemma ok_is_true: "is_ok (validate_signature v pk d s) \<Longrightarrow> validate_signature v pk d s = Inr True"
  using never_false by (metis (full_types) is_ok_iff)

lemma half_proof_signed:
  "validate_half_proof ser v h pk = Inr () \<Longrightarrow>
     validate_signature v pk (ser (RelationSignablePart_from h)) (hp_signature h) = Inr True"
  by (simp add: validate_half_proof_Ok ok_is_true)

lemma relation_signed:
  assumes "id1 \<noteq> id2" "validate_relation_proof ser v p id1 pk1 id2 pk2 = Inr ()"
  shows "\<exists>s1 s2. peer_signature p id2 = Inr s1 \<and> peer_signature p id1 = Inr s2
    \<and> validate_signature v pk1 (ser (signable p id1 id2)) s1 = Inr True
    \<and> validate_signature v pk2 (ser (signable p id2 id1)) s2 = Inr True"
  using assms(2) unfolding validate_relation_proof_Ok [OF assms(1)]
  using ok_is_true by blast

end

end
