(* ===== verification/Home_Server.thy ===== *)
theory Home_Server
  imports Relations Key_Value_Store "HOL-Library.AList"
begin

text \<open>
  The home node (\<^verbatim>\<open>home-node/src/server.rs\<close>): the state shared by all connections, the
  operations of \<^verbatim>\<open>Home\<close> on a connection and of \<^verbatim>\<open>HomeSession\<close> on a session.

  All of this runs on one reactor thread and every store future is complete when it is created, so
  an operation is one function on the state that returns its result and the new state.  What really
  happens later is explicit: futures handed to \<^verbatim>\<open>handle.spawn\<close> are kept in \<open>spawned\<close> and run
  by \<open>reactor_step\<close>, and the answer to a call is awaited with \<open>await_answer\<close>.

  Reference counting is a heap: \<open>session_heap\<close> holds the sessions some client still owns, a
  \<^verbatim>\<open>Weak\<close> pointer is the address, and \<^verbatim>\<open>upgrade\<close> succeeds while the address is live.
  The hash map of applications is an association list.  A channel is its queue of accepted messages; \<^verbatim>\<open>sender.clone().send(m)\<close> accepts at once
  because a fresh clone is never parked, and fails when the receiver is gone; the capacity of a
  channel (\<^verbatim>\<open>CHANNEL_CAPACITY\<close>) only delays when the sending future completes.
\<close>

section \<open>Channels and calls\<close>

record 'a channel =
  queue :: "('a, string) result list"
  closed :: bool

definition new_channel :: "'a channel" where
  "new_channel = \<lparr>queue = [], closed = False\<rparr>"

definition chan_send ::
  "(channel_id \<rightharpoonup> 'a channel) \<Rightarrow> channel_id \<Rightarrow> ('a, string) result \<Rightarrow> bool \<times> (channel_id \<rightharpoonup> 'a channel)" where
  "chan_send chans c item = (case chans c of
     None \<Rightarrow> (False, chans)
   | Some ch \<Rightarrow> if closed ch then (False, chans)
       else (True, chans(c \<mapsto> ch\<lparr>queue := queue ch @ [item]\<rparr>)))"

text \<open>A \<^verbatim>\<open>Call\<close> carries the sending end of a oneshot channel, named by a number.\<close>

datatype oneshot = Pending | Answered "AppMsgSink option" | Cancelled

record Call =
  request :: CallRequestDetails
  answer_to :: nat

definition Call_new :: "CallRequestDetails \<Rightarrow> nat \<Rightarrow> Call" where
  "Call_new req sender = \<lparr>request = req, answer_to = sender\<rparr>"

datatype 'a ServerSink = Buffer "('a, string) result list" | Sender channel_id

datatype task =
    SendEvents channel_id "(ProfileEvent, string) result list"
  | SendCalls channel_id "(Call, string) result list"

section \<open>State\<close>

record HomeSessionServer =
  ss_context :: PeerContext
  events_sink :: "ProfileEvent ServerSink"
  apps :: "(ApplicationId \<times> Call ServerSink) list"

record ('d, 'b) HomeServer =
  public_profile_dht :: 'd
  hosted_profile_db :: 'b
  sessions :: "ProfileId \<rightharpoonup> nat"
  session_heap :: "nat \<rightharpoonup> HomeSessionServer"
  event_chans :: "channel_id \<rightharpoonup> ProfileEvent channel"
  call_chans :: "channel_id \<rightharpoonup> Call channel"
  oneshots :: "nat \<rightharpoonup> oneshot"
  spawned :: "task list"
  next_id :: nat

text \<open>What a server is built with and never changes.\<close>

record ('d, 'b) HomeEnv =
  bincode_ser :: bincode
  validator :: Validator
  dht_ops :: "('d, ProfileId, Profile) KeyValueStore"
  db_ops :: "('b, ProfileId, OwnProfile) KeyValueStore"

definition HomeServer_new :: "'d \<Rightarrow> 'b \<Rightarrow> ('d, 'b) HomeServer" where
  "HomeServer_new public_dht private_db =
     \<lparr>public_profile_dht = public_dht, hosted_profile_db = private_db, sessions = Map.empty,
      session_heap = Map.empty, event_chans = Map.empty, call_chans = Map.empty,
      oneshots = Map.empty, spawned = [], next_id = 0\<rparr>"

section \<open>Connections\<close>

text \<open>A \<^verbatim>\<open>HomeConnectionServer\<close> is its context; creating one validates the context.\<close>

definition HomeConnectionServer_new ::
  "('d, 'b) HomeEnv \<Rightarrow> PeerContext \<Rightarrow> (PeerContext, ErrorKind) result" where
  "HomeConnectionServer_new env ctx =
     and_then (map_err (\<lambda>_. ContextValidationFailed) (PeerContext_validate ctx (validator env)))
       (\<lambda>_. Ok ctx)"

definition get_live_session ::
  "('d, 'b) HomeEnv \<Rightarrow> ('d, 'b) HomeServer \<Rightarrow> ProfileId \<Rightarrow> (nat option, ErrorKind) result" where
  "get_live_session env st to_profile =
     map_err (\<lambda>_. FailedToGetSession)
       (and_then (kv_get (db_ops env) (hosted_profile_db st) to_profile)
         (\<lambda>_. Ok (Option.bind (sessions st to_profile)
            (\<lambda>weak. if session_heap st weak = None then None else Some weak))))"

definition session_push_event ::
  "nat \<Rightarrow> HomeSessionServer \<Rightarrow> ProfileEvent \<Rightarrow> ('d, 'b) HomeServer \<Rightarrow> (unit, ErrorKind) result \<times> ('d, 'b) HomeServer" where
  "session_push_event sid s event st =
     (case events_sink s of
        Buffer bufvec \<Rightarrow>
          (Ok (), st\<lparr>session_heap := (session_heap st)(sid \<mapsto> s\<lparr>events_sink := Buffer (bufvec @ [Inr event])\<rparr>)\<rparr>)
      | Sender c \<Rightarrow>
          (case chan_send (event_chans st) c (Inr event) of (sent, chans) \<Rightarrow>
             (if sent then Ok () else Err FailedToSend, st\<lparr>event_chans := chans\<rparr>)))"

text \<open>Dropping a call without answering it cancels its oneshot channel.\<close>

definition drop_call :: "Call \<Rightarrow> ('d, 'b) HomeServer \<Rightarrow> ('d, 'b) HomeServer" where
  "drop_call c st = st\<lparr>oneshots := (oneshots st)(answer_to c \<mapsto> Cancelled)\<rparr>"

definition session_push_call ::
  "nat \<Rightarrow> HomeSessionServer \<Rightarrow> ApplicationId \<Rightarrow> Call \<Rightarrow> ('d, 'b) HomeServer
     \<Rightarrow> (unit, ErrorKind) result \<times> ('d, 'b) HomeServer" where
  "session_push_call sid s app call st =
     (case (case map_of (apps s) app of Some sink \<Rightarrow> sink | None \<Rightarrow> Buffer []) of
        Buffer bufvec \<Rightarrow>
          (Ok (), st\<lparr>session_heap := (session_heap st)(sid \<mapsto>
             s\<lparr>apps := AList.update app (Buffer (bufvec @ [Inr call])) (apps s)\<rparr>)\<rparr>)
      | Sender c \<Rightarrow>
          (case chan_send (call_chans st) c (Inr call) of (sent, chans) \<Rightarrow>
             if sent then (Ok (), st\<lparr>call_chans := chans\<rparr>)
             else (Err FailedToSend, drop_call call st)))"

definition push_event ::
  "('d, 'b) HomeEnv \<Rightarrow> ProfileId \<Rightarrow> ProfileEvent \<Rightarrow> ('d, 'b) HomeServer
     \<Rightarrow> (unit, ErrorKind) result \<times> ('d, 'b) HomeServer" where
  "push_event env to_profile event st =
     (case get_live_session env st to_profile of
        Inl e \<Rightarrow> (Err e, st)
      | Inr session_rc_opt \<Rightarrow>
          (case Option.bind session_rc_opt (\<lambda>sid. map_option (Pair sid) (session_heap st sid)) of
             Some (sid, session) \<Rightarrow> session_push_event sid session event st
           | None \<Rightarrow> (Ok (), st)))"

definition push_call ::
  "('d, 'b) HomeEnv \<Rightarrow> ProfileId \<Rightarrow> ApplicationId \<Rightarrow> Call \<Rightarrow> ('d, 'b) HomeServer
     \<Rightarrow> (unit, ErrorKind) result \<times> ('d, 'b) HomeServer" where
  "push_call env to_profile to_app call st =
     (case get_live_session env st to_profile of
        Inl e \<Rightarrow> (Err e, drop_call call st)
      | Inr session_rc_opt \<Rightarrow>
          (case Option.bind session_rc_opt (\<lambda>sid. map_option (Pair sid) (session_heap st sid)) of
             Some (sid, session) \<Rightarrow> session_push_call sid session to_app call st
           | None \<Rightarrow> (Ok (), drop_call call st)))"

section \<open>The Home interface\<close>

definition load ::
  "('d, 'b) HomeEnv \<Rightarrow> ('d, 'b) HomeServer \<Rightarrow> ProfileId \<Rightarrow> (Profile, ErrorKind) result" where
  "load env st i = map_err (\<lambda>_. DhtLookupFailed) (kv_get (dht_ops env) (public_profile_dht st) i)"

definition claim ::
  "('d, 'b) HomeEnv \<Rightarrow> PeerContext \<Rightarrow> ('d, 'b) HomeServer \<Rightarrow> ProfileId \<Rightarrow> (OwnProfile, ErrorKind) result" where
  "claim env ctx st prof =
     (if prof \<noteq> ctx_peer_id ctx then Err FailedToClaimProfile
      else map_err (\<lambda>_. FailedToClaimProfile) (kv_get (db_ops env) (hosted_profile_db st) prof))"

text \<open>The stored future of \<^verbatim>\<open>register\<close>: look the profile up, then store the public part in
  the DHT, then the whole in the local database.\<close>

definition register_store ::
  "('d, 'b) HomeEnv \<Rightarrow> OwnProfile \<Rightarrow> OwnProfile \<Rightarrow> ('d, 'b) HomeServer
     \<Rightarrow> (OwnProfile, OwnProfile \<times> ErrorKind) result \<times> ('d, 'b) HomeServer" where
  "register_store env own_prof own_prof_modified st =
     (case kv_get (db_ops env) (hosted_profile_db st) (profile_id (profile own_prof)) of
        Inr _ \<Rightarrow> (Err (own_prof, AlreadyRegistered), st)
      | Inl _ \<Rightarrow>
          let pub = profile own_prof_modified in
          (case kv_set (dht_ops env) (public_profile_dht st) (profile_id pub) pub of
             (Inl _, d) \<Rightarrow> (Err (own_prof, StorageFailed), st\<lparr>public_profile_dht := d\<rparr>)
           | (Inr _, d) \<Rightarrow>
               (case kv_set (db_ops env) (hosted_profile_db st) (profile_id pub) own_prof_modified of
                  (Inl _, b) \<Rightarrow> (Err (own_prof, StorageFailed), st\<lparr>public_profile_dht := d, hosted_profile_db := b\<rparr>)
                | (Inr _, b) \<Rightarrow> (Ok own_prof_modified, st\<lparr>public_profile_dht := d, hosted_profile_db := b\<rparr>))))"

definition register ::
  "('d, 'b) HomeEnv \<Rightarrow> PeerContext \<Rightarrow> OwnProfile \<Rightarrow> RelationHalfProof \<Rightarrow> HomeInvitation option
     \<Rightarrow> ('d, 'b) HomeServer \<Rightarrow> (OwnProfile, OwnProfile \<times> ErrorKind) result \<times> ('d, 'b) HomeServer" where
  "register env ctx own_prof half_proof invite st =
     (if profile_id (profile own_prof) \<noteq> ctx_peer_id ctx then (Err (own_prof, ProfileMismatch), st)
      else if public_key (profile own_prof) \<noteq> peer_pubkey ctx then (Err (own_prof, PublicKeyMismatch), st)
      else if hp_signer_id half_proof \<noteq> ctx_peer_id ctx then (Err (own_prof, SignerMismatch), st)
      else if hp_peer_id half_proof \<noteq> signer_profile_id (my_signer ctx) then (Err (own_prof, HomeIdMismatch), st)
      else if hp_relation_type half_proof \<noteq> RELATION_TYPE_HOSTED_ON_HOME
        then (Err (own_prof, RelationTypeMismatch), st)
      else if is_err (validate_half_proof (bincode_ser env) (validator env) half_proof (peer_pubkey ctx))
        then (Err (own_prof, InvalidSignature), st)
      else (case sign_remaining_half (bincode_ser env) half_proof (my_signer ctx) of
          Inl e \<Rightarrow> (Err (own_prof, e), st)
        | Inr home_proof \<Rightarrow>
            (case facet (profile own_prof) of
               Persona persona \<Rightarrow>
                 register_store env own_prof
                   (own_prof\<lparr>profile := (profile own_prof)\<lparr>facet :=
                      Persona (persona\<lparr>homes := homes persona @ [home_proof]\<rparr>)\<rparr>\<rparr>) st
             | _ \<Rightarrow> (Err (own_prof, PersonaExpected), st))))"

definition HomeSessionServer_new :: "PeerContext \<Rightarrow> HomeSessionServer" where
  "HomeSessionServer_new ctx = \<lparr>ss_context = ctx, events_sink = Buffer [], apps = []\<rparr>"

definition login ::
  "('d, 'b) HomeEnv \<Rightarrow> PeerContext \<Rightarrow> RelationProof \<Rightarrow> ('d, 'b) HomeServer
     \<Rightarrow> (nat, ErrorKind) result \<times> ('d, 'b) HomeServer" where
  "login env ctx proof_of_home st =
     (if relation_type proof_of_home \<noteq> RELATION_TYPE_HOSTED_ON_HOME then (Err RelationTypeMismatch, st)
      else (case peer_id proof_of_home (signer_profile_id (my_signer ctx)) of
          Inl _ \<Rightarrow> (Err ProfileMismatch, st)
        | Inr prof \<Rightarrow>
            (case kv_get (db_ops env) (hosted_profile_db st) prof of
               Inl _ \<Rightarrow> (Err FailedToLoadProfile, st)
             | Inr _ \<Rightarrow>
                 (Ok (next_id st),
                  st\<lparr>session_heap := (session_heap st)(next_id st \<mapsto> HomeSessionServer_new ctx),
                     sessions := (case sessions st prof of
                         Some _ \<Rightarrow> sessions st
                       | None \<Rightarrow> (sessions st)(prof \<mapsto> next_id st)),
                     next_id := next_id st + 1\<rparr>))))"

definition pair_request ::
  "('d, 'b) HomeEnv \<Rightarrow> PeerContext \<Rightarrow> RelationHalfProof \<Rightarrow> ('d, 'b) HomeServer
     \<Rightarrow> (unit, ErrorKind) result \<times> ('d, 'b) HomeServer" where
  "pair_request env ctx half_proof st =
     (if hp_signer_id half_proof \<noteq> ctx_peer_id ctx then (Err ProfileMismatch, st)
      else if is_err (validate_half_proof (bincode_ser env) (validator env) half_proof (peer_pubkey ctx))
        then (Err PublicKeyMismatch, st)
      else push_event env (hp_peer_id half_proof) (PairingRequest half_proof) st)"

text \<open>The check shared by \<^verbatim>\<open>pair_response\<close> and \<^verbatim>\<open>call\<close>: the addressee is hosted here
  and the proof relates it to the peer of the connection.\<close>

definition check_relation ::
  "('d, 'b) HomeEnv \<Rightarrow> PeerContext \<Rightarrow> RelationProof \<Rightarrow> ProfileId \<Rightarrow> ('d, 'b) HomeServer \<Rightarrow> (unit, ErrorKind) result" where
  "check_relation env ctx rel to_profile st =
     and_then (map_err (\<lambda>_. PeerNotHostedHere) (kv_get (db_ops env) (hosted_profile_db st) to_profile))
       (\<lambda>profile_data. map_err (\<lambda>_. InvalidRelationProof)
          (validate_relation_proof (bincode_ser env) (validator env) rel (ctx_peer_id ctx) (peer_pubkey ctx)
             (profile_id (profile profile_data)) (public_key (profile profile_data))))"

definition pair_response ::
  "('d, 'b) HomeEnv \<Rightarrow> PeerContext \<Rightarrow> RelationProof \<Rightarrow> ('d, 'b) HomeServer
     \<Rightarrow> (unit, ErrorKind) result \<times> ('d, 'b) HomeServer" where
  "pair_response env ctx rel st =
     (case peer_id rel (ctx_peer_id ctx) of
        Inl _ \<Rightarrow> (Err ProfileMismatch, st)
      | Inr to_profile \<Rightarrow>
          (case check_relation env ctx rel to_profile st of
             Inl e \<Rightarrow> (Err e, st)
           | Inr _ \<Rightarrow> push_event env to_profile (PairingResponse rel) st))"

text \<open>\<^verbatim>\<open>call\<close> either fails or returns the oneshot it waits on; \<open>timer\<close> is the outcome of
  \<^verbatim>\<open>Timeout::new\<close>.\<close>

definition call ::
  "('d, 'b) HomeEnv \<Rightarrow> PeerContext \<Rightarrow> ApplicationId \<Rightarrow> CallRequestDetails \<Rightarrow> (unit, string) result
     \<Rightarrow> ('d, 'b) HomeServer \<Rightarrow> (nat, ErrorKind) result \<times> ('d, 'b) HomeServer" where
  "call env ctx app call_req timer st =
     (case peer_id (relation call_req) (ctx_peer_id ctx) of
        Inl _ \<Rightarrow> (Err ProfileMismatch, st)
      | Inr to_profile \<Rightarrow>
          let recv = next_id st;
              st1 = st\<lparr>oneshots := (oneshots st)(recv \<mapsto> Pending), next_id := recv + 1\<rparr>;
              c = Call_new call_req recv
          in (case timer of
                Inl _ \<Rightarrow> (Err TimeoutFailed, drop_call c st1)
              | Inr _ \<Rightarrow>
                  (case check_relation env ctx (relation call_req) to_profile st1 of
                     Inl e \<Rightarrow> (Err e, drop_call c st1)
                   | Inr _ \<Rightarrow>
                       (case push_call env to_profile app c st1 of
                          (Inl _, st2) \<Rightarrow> (Err CallFailed, st2)
                        | (Inr _, st2) \<Rightarrow> (Ok recv, st2)))))"

text \<open>\<^verbatim>\<open>recv.select(timeout)\<close>: the answer if there is one, an error if the call was dropped,
  nothing when the time is up first; \<open>None\<close> while it still waits.\<close>

definition await_answer ::
  "('d, 'b) HomeServer \<Rightarrow> nat \<Rightarrow> bool \<Rightarrow> (AppMsgSink option, ErrorKind) result option" where
  "await_answer st recv timed_out =
     (case oneshots st recv of
        Some (Answered to_callee) \<Rightarrow> Some (Ok to_callee)
      | Some Cancelled \<Rightarrow> Some (Err FailedToReadResponse)
      | _ \<Rightarrow> if timed_out then Some (Ok None) else None)"

definition answer ::
  "Call \<Rightarrow> AppMsgSink option \<Rightarrow> ('d, 'b) HomeServer \<Rightarrow> CallRequestDetails \<times> ('d, 'b) HomeServer" where
  "answer c to_callee st =
     (request c, st\<lparr>oneshots := (oneshots st)(answer_to c \<mapsto> Answered to_callee)\<rparr>)"

section \<open>The HomeSession interface\<close>

definition update ::
  "('d, 'b) HomeEnv \<Rightarrow> PeerContext \<Rightarrow> OwnProfile \<Rightarrow> ('d, 'b) HomeServer
     \<Rightarrow> (unit, ErrorKind) result \<times> ('d, 'b) HomeServer" where
  "update env ctx own_prof st =
     (if profile_id (profile own_prof) \<noteq> ctx_peer_id ctx then (Err ProfileMismatch, st)
      else if public_key (profile own_prof) \<noteq> peer_pubkey ctx then (Err PublicKeyMismatch, st)
      else (case kv_get (db_ops env) (hosted_profile_db st) (profile_id (profile own_prof)) of
          Inl _ \<Rightarrow> (Err ProfileUpdateFailed, st)
        | Inr _ \<Rightarrow>
            (case kv_set (dht_ops env) (public_profile_dht st) (profile_id (profile own_prof)) (profile own_prof) of
               (Inl _, d) \<Rightarrow> (Err ProfileUpdateFailed, st\<lparr>public_profile_dht := d\<rparr>)
             | (Inr _, d) \<Rightarrow>
                 (case kv_set (db_ops env) (hosted_profile_db st) (profile_id (profile own_prof)) own_prof of
                    (Inl _, b) \<Rightarrow> (Err ProfileUpdateFailed, st\<lparr>public_profile_dht := d, hosted_profile_db := b\<rparr>)
                  | (Inr _, b) \<Rightarrow> (Ok (), st\<lparr>public_profile_dht := d, hosted_profile_db := b\<rparr>)))))"

text \<open>Both \<^verbatim>\<open>clear_local\<close> calls are made before their futures are joined.\<close>

definition unregister ::
  "('d, 'b) HomeEnv \<Rightarrow> PeerContext \<Rightarrow> Profile option \<Rightarrow> ('d, 'b) HomeServer
     \<Rightarrow> (unit, ErrorKind) result \<times> ('d, 'b) HomeServer" where
  "unregister env ctx newhome st =
     (let prof = ctx_peer_id ctx;
          (local_fut, b) = kv_clear_local (db_ops env) (hosted_profile_db st) prof;
          (dht_fut, d) = kv_clear_local (dht_ops env) (public_profile_dht st) prof
      in (map_err (\<lambda>_. UnregisterFailed) (and_then dht_fut (\<lambda>_. local_fut)),
          st\<lparr>sessions := (sessions st)(prof := None), hosted_profile_db := b, public_profile_dht := d\<rparr>))"

definition checkin_app_warning :: string where
  "checkin_app_warning = ''WARNING: Repeated call of HomeSession::checkin_app() detected, this channel is dropped, using the new one''"

definition events_warning :: string where
  "events_warning = ''WARNING: Repeated call of HomeSession::events() detected, this channel is dropped, using the new one''"

definition checkin_app ::
  "nat \<Rightarrow> HomeSessionServer \<Rightarrow> ApplicationId \<Rightarrow> ('d, 'b) HomeServer \<Rightarrow> channel_id \<times> ('d, 'b) HomeServer" where
  "checkin_app sid s app st =
     (let c = next_id st;
          st1 = st\<lparr>call_chans := (call_chans st)(c \<mapsto> new_channel), next_id := c + 1,
                   session_heap := (session_heap st)(sid \<mapsto> s\<lparr>apps := AList.update app (Sender c) (apps s)\<rparr>)\<rparr>
      in (c, case map_of (apps s) app of
           Some (Sender old) \<Rightarrow> st1\<lparr>spawned := spawned st1 @ [SendCalls old [Inl checkin_app_warning]]\<rparr>
         | Some (Buffer call_vec) \<Rightarrow> st1\<lparr>spawned := spawned st1 @ [SendCalls c call_vec]\<rparr>
         | None \<Rightarrow> st1))"

definition events ::
  "nat \<Rightarrow> HomeSessionServer \<Rightarrow> ('d, 'b) HomeServer \<Rightarrow> channel_id \<times> ('d, 'b) HomeServer" where
  "events sid s st =
     (let c = next_id st;
          st1 = st\<lparr>event_chans := (event_chans st)(c \<mapsto> new_channel), next_id := c + 1,
                   session_heap := (session_heap st)(sid \<mapsto> s\<lparr>events_sink := Sender c\<rparr>)\<rparr>
      in (c, case events_sink s of
           Sender old \<Rightarrow> st1\<lparr>spawned := spawned st1 @ [SendEvents old [Inl events_warning]]\<rparr>
         | Buffer msg_vec \<Rightarrow> st1\<lparr>spawned := spawned st1 @ [SendEvents c msg_vec]\<rparr>))"

definition ping :: "string \<Rightarrow> (string, ErrorKind) result" where
  "ping txt = Ok txt"

text \<open>Dropping the last reference to a session runs its \<^verbatim>\<open>Drop\<close> and drops the calls that
  were still buffered in it.\<close>

definition buffered_calls :: "HomeSessionServer \<Rightarrow> (Call, string) result list" where
  "buffered_calls s = concat (map (\<lambda>(app, sink). case sink of Buffer buf \<Rightarrow> buf | Sender _ \<Rightarrow> []) (apps s))"

fun drop_calls :: "(Call, string) result list \<Rightarrow> ('d, 'b) HomeServer \<Rightarrow> ('d, 'b) HomeServer" where
  "drop_calls [] st = st"
| "drop_calls (Inl _ # cs) st = drop_calls cs st"
| "drop_calls (Inr c # cs) st = drop_calls cs (drop_call c st)"

definition drop_session :: "nat \<Rightarrow> HomeSessionServer \<Rightarrow> ('d, 'b) HomeServer \<Rightarrow> ('d, 'b) HomeServer" where
  "drop_session sid s st =
     drop_calls (buffered_calls s)
       (st\<lparr>sessions := (sessions st)(ctx_peer_id (ss_context s) := None),
           session_heap := (session_heap st)(sid := None)\<rparr>)"

section \<open>The reactor\<close>

text \<open>One poll of a spawned task: it sends its next item, and is finished when it has none left or
  the receiver is gone.  Calls that can no longer be sent are dropped.\<close>

fun run_task :: "task \<Rightarrow> ('d, 'b) HomeServer \<Rightarrow> task list \<times> ('d, 'b) HomeServer" where
  "run_task (SendEvents c []) st = ([], st)"
| "run_task (SendEvents c (m # ms)) st =
     (case chan_send (event_chans st) c m of
        (True, chans) \<Rightarrow> ([SendEvents c ms], st\<lparr>event_chans := chans\<rparr>)
      | (False, _) \<Rightarrow> ([], st))"
| "run_task (SendCalls c []) st = ([], st)"
| "run_task (SendCalls c (m # ms)) st =
     (case chan_send (call_chans st) c m of
        (True, chans) \<Rightarrow> ([SendCalls c ms], st\<lparr>call_chans := chans\<rparr>)
      | (False, _) \<Rightarrow> ([], drop_calls (m # ms) st))"

definition reactor_poll :: "nat \<Rightarrow> ('d, 'b) HomeServer \<Rightarrow> ('d, 'b) HomeServer" where
  "reactor_poll i st =
     (if i < length (spawned st) then
        (case run_task (spawned st ! i) st of (rest, st1) \<Rightarrow>
           st1\<lparr>spawned := take i (spawned st) @ rest @ drop (Suc i) (spawned st)\<rparr>)
      else st)"

text \<open>A client receives from its event channel, or drops the receiver.\<close>

definition receive_event ::
  "channel_id \<Rightarrow> ('d, 'b) HomeServer \<Rightarrow> (ProfileEvent, string) result option \<times> ('d, 'b) HomeServer" where
  "receive_event c st = (case event_chans st c of
     Some ch \<Rightarrow> (case queue ch of
         m # ms \<Rightarrow> (Some m, st\<lparr>event_chans := (event_chans st)(c \<mapsto> ch\<lparr>queue := ms\<rparr>)\<rparr>)
       | [] \<Rightarrow> (None, st))
   | None \<Rightarrow> (None, st))"

definition close_events :: "channel_id \<Rightarrow> ('d, 'b) HomeServer \<Rightarrow> ('d, 'b) HomeServer" where
  "close_events c st = (case event_chans st c of
     Some ch \<Rightarrow> st\<lparr>event_chans := (event_chans st)(c \<mapsto> ch\<lparr>closed := True\<rparr>)\<rparr>
   | None \<Rightarrow> st)"

end
