(* ===== verification/Home_Invariants.thy ===== *)
theory Home_Invariants
  imports Home_Server
begin

text \<open>
  The step relation of a home node and what holds in every reachable state.  The part of the state
  the invariant speaks about is \<open>core\<close>: the two stores, the session table and the contexts of the
  live sessions; most operations only touch the rest.  The locale \<open>home_node\<close> is the contract the
  node has with its stores, interpreted on in-memory ones, with which the crate's tests run it.
\<close>

section \<open>The core of the state\<close>

definition core ::
  "('d, 'b) HomeServer \<Rightarrow> 'd \<times> 'b \<times> (ProfileId \<rightharpoonup> nat) \<times> (nat \<rightharpoonup> PeerContext)" where
  "core st = (public_profile_dht st, hosted_profile_db st, sessions st,
     \<lambda>sid. map_option ss_context (session_heap st sid))"

lemma core_eqD:
  assumes "core st' = core st"
  shows "public_profile_dht st' = public_profile_dht st" "hosted_profile_db st' = hosted_profile_db st"
    "sessions st' = sessions st"
    "map_option ss_context (session_heap st' sid) = map_option ss_context (session_heap st sid)"
  using assms by (auto simp: core_def dest: fun_cong)

lemma core_drop_call [simp]: "core (drop_call c st) = core st"
  by (simp add: core_def drop_call_def)

lemma core_drop_calls [simp]: "core (drop_calls cs st) = core st"
  by (induction cs st rule: drop_calls.induct) simp_all

lemma core_session_push_event:
  "session_heap st sid = Some s \<Longrightarrow> core (snd (session_push_event sid s ev st)) = core st"
  by (auto simp: session_push_event_def core_def split: ServerSink.split prod.split)

lemma core_session_push_call:
  assumes "session_heap st sid = Some s"
  shows "core (snd (session_push_call sid s app c st)) = core st"
proof (cases "case map_of (apps s) app of Some sink \<Rightarrow> sink | None \<Rightarrow> Buffer []")
  case (Buffer buf)
  with assms show ?thesis by (auto simp: session_push_call_def core_def)
next
  case (Sender ch)
  then show ?thesis
    by (cases "chan_send (call_chans st) ch (Inr c)") (auto simp: session_push_call_def core_def drop_call_def)
qed

lemma core_push_event: "core (snd (push_event env p ev st)) = core st"
  by (auto simp: push_event_def bind_eq_Some_conv intro: core_session_push_event
      split: sum.split option.split)

lemma core_push_call: "core (snd (push_call env p app c st)) = core st"
  by (auto simp: push_call_def bind_eq_Some_conv intro: core_session_push_call
      split: sum.split option.split)

lemma core_pair_request: "core (snd (pair_request env ctx h st)) = core st"
  by (simp add: pair_request_def core_push_event)

lemma core_pair_response: "core (snd (pair_response env ctx rel st)) = core st"
  by (auto simp: pair_response_def core_push_event split: sum.split)

lemma core_oneshots [simp]: "core (st\<lparr>oneshots := os, next_id := n\<rparr>) = core st"
  by (simp add: core_def)

lemma core_call: "core (snd (call env ctx app req timer st)) = core st"
proof (cases "peer_id (relation req) (ctx_peer_id ctx)")
  case (Inr p)
  let ?st1 = "st\<lparr>oneshots := (oneshots st)(next_id st \<mapsto> Pending), next_id := next_id st + 1\<rparr>"
  let ?c = "Call_new req (next_id st)"
  have "core (snd (push_call env p app ?c ?st1)) = core st"
    by (simp only: core_push_call core_oneshots)
  then show ?thesis
    by (cases "push_call env p app ?c ?st1") (auto simp: call_def Inr Let_def split: sum.split)
qed (simp add: call_def)

lemma core_answer: "core (snd (answer c a st)) = core st"
  by (simp add: answer_def core_def)

lemma core_events:
  "session_heap st sid = Some s \<Longrightarrow> core (snd (events sid s st)) = core st"
  by (auto simp: events_def core_def Let_def split: ServerSink.split)

lemma core_checkin_app:
  "session_heap st sid = Some s \<Longrightarrow> core (snd (checkin_app sid s app st)) = core st"
  by (auto simp: checkin_app_def core_def Let_def split: ServerSink.split option.split)

lemma core_run_task: "core (snd (run_task t st)) = core st"
proof (induction t st rule: run_task.induct)
  case (2 c m ms st)
  then show ?case by (auto simp: core_def split: prod.split bool.split)
next
  case (4 c m ms st)
  have "core (st\<lparr>call_chans := x\<rparr>) = core st" for x by (simp add: core_def)
  then show ?case by (auto split: prod.split bool.split simp del: drop_calls.simps)
qed simp_all

lemma core_reactor_poll: "core (reactor_poll i st) = core st"
proof (cases "i < length (spawned st)")
  case True
  have "core (st1\<lparr>spawned := x\<rparr>) = core st1" for st1 :: "('a, 'b) HomeServer" and x
    by (simp add: core_def)
  with True core_run_task [of "spawned st ! i" st] show ?thesis
    by (auto simp: reactor_poll_def split: prod.split)
qed (simp add: reactor_poll_def)

lemma core_receive_event: "core (snd (receive_event c st)) = core st"
  by (auto simp: receive_event_def core_def split: option.split list.split)

lemma core_close_events: "core (close_events c st) = core st"
  by (auto simp: close_events_def core_def split: option.split)

lemmas core_simps = core_pair_request core_pair_response core_call core_answer core_events
  core_checkin_app core_reactor_poll core_receive_event core_close_events

section \<open>Steps\<close>

text \<open>Requests come in on validated connections and on live sessions, in any order; spawned tasks
  run, receivers receive or go away, and sessions are dropped at any time in between.\<close>

inductive home_step :: "('d, 'b) HomeEnv \<Rightarrow> ('d, 'b) HomeServer \<Rightarrow> ('d, 'b) HomeServer \<Rightarrow> bool"
  for env :: "('d, 'b) HomeEnv" where
  step_register: "HomeConnectionServer_new env ctx = Inr conn
    \<Longrightarrow> home_step env st (snd (register env conn own half invite st))"
| step_login: "HomeConnectionServer_new env ctx = Inr conn
    \<Longrightarrow> home_step env st (snd (login env conn rel st))"
| step_pair_request: "HomeConnectionServer_new env ctx = Inr conn
    \<Longrightarrow> home_step env st (snd (pair_request env conn half st))"
| step_pair_response: "HomeConnectionServer_new env ctx = Inr conn
    \<Longrightarrow> home_step env st (snd (pair_response env conn rel st))"
| step_call: "HomeConnectionServer_new env ctx = Inr conn
    \<Longrightarrow> home_step env st (snd (call env conn app req timer st))"
| step_answer: "home_step env st (snd (answer c to_callee st))"
| step_update: "session_heap st sid = Some s
    \<Longrightarrow> home_step env st (snd (update env (ss_context s) own st))"
| step_unregister: "session_heap st sid = Some s
    \<Longrightarrow> home_step env st (snd (unregister env (ss_context s) newhome st))"
| step_checkin_app: "session_heap st sid = Some s
    \<Longrightarrow> home_step env st (snd (checkin_app sid s app st))"
| step_events: "session_heap st sid = Some s \<Longrightarrow> home_step env st (snd (events sid s st))"
| step_drop: "session_heap st sid = Some s \<Longrightarrow> home_step env st (drop_session sid s st)"
| step_poll: "home_step env st (reactor_poll i st)"
| step_receive: "home_step env st (snd (receive_event c st))"
| step_close: "home_step env st (close_events c st)"

definition reachable :: "('d, 'b) HomeEnv \<Rightarrow> 'd \<Rightarrow> 'b \<Rightarrow> ('d, 'b) HomeServer \<Rightarrow> bool" where
  "reachable env d b st \<longleftrightarrow> (home_step env)\<^sup>*\<^sup>* (HomeServer_new d b) st"

section \<open>The invariant\<close>

text \<open>Every stored profile is stored under its own id and carries a key the validator accepts for
  it; a hosted profile is published exactly as it is hosted; only hosted profiles have an entry in
  the session table; every live session has a validated context.\<close>

definition genuine :: "Validator \<Rightarrow> ProfileId \<Rightarrow> Profile \<Rightarrow> bool" where
  "genuine v i p \<longleftrightarrow> profile_id p = i \<and> validate_profile v (public_key p) i = Inr True"

definition home_inv ::
  "('d, 'b) HomeEnv \<Rightarrow> ('d \<Rightarrow> ProfileId \<Rightarrow> Profile option) \<Rightarrow> ('b \<Rightarrow> ProfileId \<Rightarrow> OwnProfile option)
     \<Rightarrow> ('d, 'b) HomeServer \<Rightarrow> bool" where
  "home_inv env da ba st \<longleftrightarrow>
     (\<forall>i p. da (public_profile_dht st) i = Some p \<longrightarrow> genuine (validator env) i p) \<and>
     (\<forall>i own. ba (hosted_profile_db st) i = Some own \<longrightarrow>
        da (public_profile_dht st) i = Some (profile own)) \<and>
     (\<forall>i. sessions st i \<noteq> None \<longrightarrow> ba (hosted_profile_db st) i \<noteq> None) \<and>
     (\<forall>sid s. session_heap st sid = Some s \<longrightarrow> PeerContext_validate (ss_context s) (validator env) = Inr ())"

lemma home_inv_core:
  assumes "core st' = core st" and "home_inv env da ba st"
  shows "home_inv env da ba st'"
proof -
  have "\<exists>s0. session_heap st sid = Some s0 \<and> ss_context s0 = ss_context s"
    if "session_heap st' sid = Some s" for sid s
    using that core_eqD(4) [OF assms(1), of sid] by (cases "session_heap st sid") auto
  then show ?thesis
    using assms(2) unfolding home_inv_def core_eqD(1-3) [OF assms(1)] by metis
qed

lemma PeerContext_validate_iff:
  "PeerContext_validate ctx v = Inr () \<longleftrightarrow> validate_profile v (peer_pubkey ctx) (ctx_peer_id ctx) = Inr True"
  by (auto simp: PeerContext_validate_def)

lemma HomeConnectionServer_new_Ok:
  "HomeConnectionServer_new env ctx = Inr conn \<longleftrightarrow>
     conn = ctx \<and> PeerContext_validate ctx (validator env) = Inr ()"
  by (auto simp: HomeConnectionServer_new_def)

text \<open>The state after a successful login.\<close>

definition logged_in :: "PeerContext \<Rightarrow> ProfileId \<Rightarrow> ('d, 'b) HomeServer \<Rightarrow> ('d, 'b) HomeServer" where
  "logged_in ctx prof st =
     st\<lparr>session_heap := (session_heap st)(next_id st \<mapsto> HomeSessionServer_new ctx),
        sessions := (case sessions st prof of Some _ \<Rightarrow> sessions st | None \<Rightarrow> (sessions st)(prof \<mapsto> next_id st)),
        next_id := next_id st + 1\<rparr>"

lemma login_cases:
  "(\<exists>e. login env ctx rel st = (Inl e, st)) \<or>
   (\<exists>prof x. relation_type rel = RELATION_TYPE_HOSTED_ON_HOME
      \<and> peer_id rel (signer_profile_id (my_signer ctx)) = Inr prof
      \<and> kv_get (db_ops env) (hosted_profile_db st) prof = Inr x
      \<and> login env ctx rel st = (Inr (next_id st), logged_in ctx prof st))"
proof (cases "peer_id rel (signer_profile_id (my_signer ctx))")
  case (Inr prof)
  then show ?thesis
    by (cases "kv_get (db_ops env) (hosted_profile_db st) prof")
      (simp_all add: login_def logged_in_def)
qed (simp add: login_def)

section \<open>Contract with the stores\<close>

text \<open>What \<^verbatim>\<open>register\<close> and \<^verbatim>\<open>update\<close> do when they succeed: the same id in both stores.\<close>

definition publish ::
  "('d \<Rightarrow> ProfileId \<Rightarrow> Profile option) \<Rightarrow> ('b \<Rightarrow> ProfileId \<Rightarrow> OwnProfile option) \<Rightarrow> OwnProfile
     \<Rightarrow> ('d, 'b) HomeServer \<Rightarrow> ('d, 'b) HomeServer \<Rightarrow> bool" where
  "publish da ba own st st' \<longleftrightarrow>
     da (public_profile_dht st') = (da (public_profile_dht st))(profile_id (profile own) \<mapsto> profile own) \<and>
     ba (hosted_profile_db st') = (ba (hosted_profile_db st))(profile_id (profile own) \<mapsto> own) \<and>
     st' = st\<lparr>public_profile_dht := public_profile_dht st', hosted_profile_db := hosted_profile_db st'\<rparr>"

text \<open>The conditions under which \<^verbatim>\<open>register\<close> stores anything.\<close>

definition registrable ::
  "('d, 'b) HomeEnv \<Rightarrow> PeerContext \<Rightarrow> OwnProfile \<Rightarrow> RelationHalfProof \<Rightarrow> bool" where
  "registrable env ctx own half \<longleftrightarrow>
     profile_id (profile own) = ctx_peer_id ctx \<and> public_key (profile own) = peer_pubkey ctx \<and>
     hp_signer_id half = ctx_peer_id ctx \<and> hp_peer_id half = signer_profile_id (my_signer ctx) \<and>
     hp_relation_type half = RELATION_TYPE_HOSTED_ON_HOME \<and>
     validate_half_proof (bincode_ser env) (validator env) half (peer_pubkey ctx) = Inr () \<and>
     (\<exists>persona. facet (profile own) = Persona persona)"

text \<open>The home proof \<^verbatim>\<open>register\<close> adds, and the profile with it.\<close>

definition home_proof_of :: "('d, 'b) HomeEnv \<Rightarrow> PeerContext \<Rightarrow> RelationHalfProof \<Rightarrow> RelationProof" where
  "home_proof_of env ctx half = RelationProof_new (hp_relation_type half) (hp_signer_id half) (hp_signature half)
     (signer_profile_id (my_signer ctx))
     (sign (my_signer ctx) (bincode_ser env (RelationSignablePart_new (hp_relation_type half)
        (signer_profile_id (my_signer ctx)) (hp_signer_id half))))"

fun add_home :: "RelationProof \<Rightarrow> OwnProfile \<Rightarrow> OwnProfile" where
  "add_home p own = (case facet (profile own) of
     Persona persona \<Rightarrow> own\<lparr>profile := (profile own)\<lparr>facet := Persona (persona\<lparr>homes := homes persona @ [p]\<rparr>)\<rparr>\<rparr>
   | _ \<Rightarrow> own)"

lemma add_home_id [simp]: "profile_id (profile (add_home p own)) = profile_id (profile own)"
  "public_key (profile (add_home p own)) = public_key (profile own)"
  by (simp_all split: ProfileFacet.split)

lemma register_eq:
  assumes "registrable env ctx own half"
  shows "register env ctx own half invite st = register_store env own (add_home (home_proof_of env ctx half) own) st"
  using assms
  by (auto simp: registrable_def register_def sign_remaining_half_def Let_def home_proof_of_def
      RelationSignablePart_sign_def serialized_def)

lemma is_err_unit: "is_err (r :: (unit, 'e) result) \<longleftrightarrow> r \<noteq> Inr ()"
  by (cases r) auto

lemma register_refused:
  assumes "\<not> registrable env ctx own half"
  shows "\<exists>e. register env ctx own half invite st = (Inl (own, e), st) \<and> e \<in> {ProfileMismatch, PublicKeyMismatch,
    SignerMismatch, HomeIdMismatch, RelationTypeMismatch, InvalidSignature, PersonaExpected}"
  using assms
  by (auto simp: registrable_def register_def sign_remaining_half_def Let_def is_err_unit
      split: ProfileFacet.split)

locale home_node =
  dht: total_kv_store "dht_ops env" da "\<lambda>_. True" + db: total_kv_store "db_ops env" ba "\<lambda>_. True"
  for env :: "('d, 'b) HomeEnv" and da :: "'d \<Rightarrow> ProfileId \<Rightarrow> Profile option"
    and ba :: "'b \<Rightarrow> ProfileId \<Rightarrow> OwnProfile option"
begin

lemma not_hosted: "is_err (kv_get (db_ops env) b i) \<longleftrightarrow> ba b i = None"
  using db.get_iff [OF TrueI, of b i] by (auto simp: is_ok_iff)

lemma set_both:
  obtains d b where
    "kv_set (dht_ops env) (public_profile_dht st) (profile_id (profile own)) (profile own) = (Inr (), d)"
    "kv_set (db_ops env) (hosted_profile_db st) (profile_id (profile own)) own = (Inr (), b)"
    "publish da ba own st (st\<lparr>public_profile_dht := d, hosted_profile_db := b\<rparr>)"
proof -
  let ?i = "profile_id (profile own)"
  obtain d where d: "kv_set (dht_ops env) (public_profile_dht st) ?i (profile own) = (Inr (), d)"
    "da d = (da (public_profile_dht st))(?i \<mapsto> profile own)"
    by (rule dht.set_eqE [OF TrueI, of "public_profile_dht st" ?i "profile own"]) fastforce
  obtain b where "kv_set (db_ops env) (hosted_profile_db st) ?i own = (Inr (), b)"
    "ba b = (ba (hosted_profile_db st))(?i \<mapsto> own)"
    by (rule db.set_eqE [OF TrueI, of "hosted_profile_db st" ?i own]) fastforce
  with d show ?thesis by (intro that [of d b]) (auto simp: publish_def)
qed

lemma register_store_cases:
  assumes "profile_id (profile own') = profile_id (profile own)"
  shows "ba (hosted_profile_db st) (profile_id (profile own)) \<noteq> None
      \<and> register_store env own own' st = (Inl (own, AlreadyRegistered), st)
    \<or> (\<exists>st'. ba (hosted_profile_db st) (profile_id (profile own)) = None
      \<and> register_store env own own' st = (Inr own', st') \<and> publish da ba own' st st')"
proof (cases "kv_get (db_ops env) (hosted_profile_db st) (profile_id (profile own))")
  case (Inl e)
  with not_hosted have "ba (hosted_profile_db st) (profile_id (profile own)) = None"
    by (metis is_ok.simps(1))
  moreover from set_both obtain d b where
    "kv_set (dht_ops env) (public_profile_dht st) (profile_id (profile own')) (profile own') = (Inr (), d)"
    "kv_set (db_ops env) (hosted_profile_db st) (profile_id (profile own')) own' = (Inr (), b)"
    "publish da ba own' st (st\<lparr>public_profile_dht := d, hosted_profile_db := b\<rparr>)" by blast
  ultimately show ?thesis using Inl by (simp add: register_store_def Let_def)
next
  case (Inr x)
  with not_hosted [of "hosted_profile_db st" "profile_id (profile own)"] show ?thesis
    by (simp add: register_store_def)
qed

lemma register_cases:
  "\<not> registrable env ctx own half \<and> (\<exists>e. register env ctx own half invite st = (Inl (own, e), st))
   \<or> registrable env ctx own half \<and> ba (hosted_profile_db st) (ctx_peer_id ctx) \<noteq> None
      \<and> register env ctx own half invite st = (Inl (own, AlreadyRegistered), st)
   \<or> registrable env ctx own half \<and> ba (hosted_profile_db st) (ctx_peer_id ctx) = None
      \<and> (\<exists>st'. register env ctx own half invite st = (Inr (add_home (home_proof_of env ctx half) own), st')
           \<and> publish da ba (add_home (home_proof_of env ctx half) own) st st')"
proof (cases "registrable env ctx own half")
  case True
  then have "profile_id (profile own) = ctx_peer_id ctx" by (simp add: registrable_def)
  with True register_store_cases [OF add_home_id(1), of st own "home_proof_of env ctx half"]
  show ?thesis by (auto simp: register_eq [OF True])
next
  case False
  from register_refused [OF this, of invite st] False show ?thesis by blast
qed

lemma update_cases:
  "(\<exists>e. update env ctx own st = (Inl e, st)) \<or>
   (\<exists>st'. update env ctx own st = (Inr (), st') \<and> publish da ba own st st'
      \<and> profile_id (profile own) = ctx_peer_id ctx \<and> public_key (profile own) = peer_pubkey ctx
      \<and> ba (hosted_profile_db st) (ctx_peer_id ctx) \<noteq> None)"
proof (cases "profile_id (profile own) = ctx_peer_id ctx \<and> public_key (profile own) = peer_pubkey ctx")
  case guards: True
  show ?thesis
  proof (cases "kv_get (db_ops env) (hosted_profile_db st) (ctx_peer_id ctx)")
    case (Inr x)
    from set_both obtain d b where
      "kv_set (dht_ops env) (public_profile_dht st) (profile_id (profile own)) (profile own) = (Inr (), d)"
      "kv_set (db_ops env) (hosted_profile_db st) (profile_id (profile own)) own = (Inr (), b)"
      "publish da ba own st (st\<lparr>public_profile_dht := d, hosted_profile_db := b\<rparr>)" by blast
    with guards Inr not_hosted [of "hosted_profile_db st" "ctx_peer_id ctx"]
    show ?thesis by (auto simp: update_def)
  qed (use guards in \<open>simp add: update_def\<close>)
qed (auto simp: update_def)

lemma unregister_cases:
  "\<exists>r st'. unregister env ctx newhome st = (r, st')
     \<and> ba (hosted_profile_db st') = (ba (hosted_profile_db st))(ctx_peer_id ctx := None)
     \<and> da (public_profile_dht st') = (da (public_profile_dht st))(ctx_peer_id ctx := None)
     \<and> st' = st\<lparr>sessions := (sessions st)(ctx_peer_id ctx := None),
          hosted_profile_db := hosted_profile_db st', public_profile_dht := public_profile_dht st'\<rparr>
     \<and> (ba (hosted_profile_db st) (ctx_peer_id ctx) \<noteq> None \<longrightarrow>
        da (public_profile_dht st) (ctx_peer_id ctx) \<noteq> None \<longrightarrow> r = Inr ())"
proof -
  let ?i = "ctx_peer_id ctx"
  obtain rb b where b: "kv_clear_local (db_ops env) (hosted_profile_db st) ?i = (rb, b)" by fastforce
  obtain rd d where d: "kv_clear_local (dht_ops env) (public_profile_dht st) ?i = (rd, d)" by fastforce
  have "ba b = (ba (hosted_profile_db st))(?i := None)" "da d = (da (public_profile_dht st))(?i := None)"
    using db.clear_abs [OF TrueI TrueI b] dht.clear_abs [OF TrueI TrueI d] by auto
  moreover have "ba (hosted_profile_db st) ?i \<noteq> None \<Longrightarrow> rb = Inr ()"
    "da (public_profile_dht st) ?i \<noteq> None \<Longrightarrow> rd = Inr ()"
    using db.clear_total [OF TrueI, of "hosted_profile_db st" ?i] b
      dht.clear_total [OF TrueI, of "public_profile_dht st" ?i] d by auto
  ultimately show ?thesis using b d by (auto simp: unregister_def)
qed

lemma inv_publish:
  assumes inv: "home_inv env da ba st" and pub: "publish da ba own st st'"
    and gen: "genuine (validator env) (profile_id (profile own)) (profile own)"
  shows "home_inv env da ba st'"
proof -
  have st': "st' = st\<lparr>public_profile_dht := public_profile_dht st', hosted_profile_db := hosted_profile_db st'\<rparr>"
    and stores: "da (public_profile_dht st') = (da (public_profile_dht st))(profile_id (profile own) \<mapsto> profile own)"
      "ba (hosted_profile_db st') = (ba (hosted_profile_db st))(profile_id (profile own) \<mapsto> own)"
    using pub unfolding publish_def by blast+
  have "sessions st' = sessions st" "session_heap st' = session_heap st"
    using arg_cong [OF st', of sessions] arg_cong [OF st', of session_heap] by simp_all
  with inv gen show ?thesis unfolding home_inv_def stores by simp
qed

lemma inv_register:
  assumes inv: "home_inv env da ba st" and ctx: "PeerContext_validate ctx (validator env) = Inr ()"
  shows "home_inv env da ba (snd (register env ctx own half invite st))"
proof -
  let ?own = "add_home (home_proof_of env ctx half) own"
  have "genuine (validator env) (profile_id (profile ?own)) (profile ?own)" if "registrable env ctx own half"
    using that ctx by (auto simp: genuine_def registrable_def PeerContext_validate_iff simp del: add_home.simps)
  then show ?thesis
    using register_cases [of ctx own half invite st] inv inv_publish by auto
qed

lemma inv_update:
  assumes inv: "home_inv env da ba st" and ctx: "PeerContext_validate ctx (validator env) = Inr ()"
  shows "home_inv env da ba (snd (update env ctx own st))"
  using update_cases [of ctx own st] inv ctx inv_publish [OF inv]
  by (auto simp: genuine_def PeerContext_validate_iff)

lemma inv_unregister:
  assumes inv: "home_inv env da ba st"
  shows "home_inv env da ba (snd (unregister env ctx newhome st))"
proof -
  obtain r st' where u: "unregister env ctx newhome st = (r, st')"
    and st': "ba (hosted_profile_db st') = (ba (hosted_profile_db st))(ctx_peer_id ctx := None)"
      "da (public_profile_dht st') = (da (public_profile_dht st))(ctx_peer_id ctx := None)"
      "st' = st\<lparr>sessions := (sessions st)(ctx_peer_id ctx := None),
          hosted_profile_db := hosted_profile_db st', public_profile_dht := public_profile_dht st'\<rparr>"
    using unregister_cases [of ctx newhome st] by blast
  have "sessions st' = (sessions st)(ctx_peer_id ctx := None)" "session_heap st' = session_heap st"
    using arg_cong [OF st'(3), of sessions] arg_cong [OF st'(3), of session_heap] by simp_all
  with inv show ?thesis by (auto simp: u home_inv_def st'(1,2))
qed

lemma inv_logged_in:
  assumes inv: "home_inv env da ba st" and ctx: "PeerContext_validate ctx (validator env) = Inr ()"
    and host: "ba (hosted_profile_db st) prof \<noteq> None"
  shows "home_inv env da ba (logged_in ctx prof st)"
  using assms unfolding home_inv_def logged_in_def
  by (cases "sessions st prof") (simp_all add: HomeSessionServer_new_def)

lemma inv_login:
  assumes inv: "home_inv env da ba st" and ctx: "PeerContext_validate ctx (validator env) = Inr ()"
  shows "home_inv env da ba (snd (login env ctx rel st))"
  using login_cases [of env ctx rel st]
proof (elim disjE exE conjE)
  fix prof x assume get: "kv_get (db_ops env) (hosted_profile_db st) prof = Inr x"
    and l: "login env ctx rel st = (Inr (next_id st), logged_in ctx prof st)"
  from get have "ba (hosted_profile_db st) prof \<noteq> None" using db.get_iff by auto
  then show ?thesis using inv_logged_in [OF inv ctx] by (simp add: l)
qed (simp add: inv)

lemma inv_drop:
  assumes "home_inv env da ba st"
  shows "home_inv env da ba (drop_session sid s st)"
  unfolding drop_session_def
  by (rule home_inv_core [OF core_drop_calls]) (use assms in \<open>auto simp: home_inv_def\<close>)

lemma inv_step:
  assumes "home_step env st st'" and inv: "home_inv env da ba st"
  shows "home_inv env da ba st'"
proof -
  have ctx: "session_heap st sid = Some s \<Longrightarrow> PeerContext_validate (ss_context s) (validator env) = Inr ()"
    for sid s using inv by (simp add: home_inv_def)
  have same: "core st' = core st \<Longrightarrow> ?thesis" by (rule home_inv_core [OF _ inv])
  from assms(1) show ?thesis
  proof cases
    case step_register then show ?thesis using inv_register [OF inv] by (simp add: HomeConnectionServer_new_Ok)
  next
    case step_login then show ?thesis using inv_login [OF inv] by (simp add: HomeConnectionServer_new_Ok)
  next
    case step_update then show ?thesis using inv_update [OF inv] ctx by simp
  next
    case step_unregister then show ?thesis using inv_unregister [OF inv] by simp
  next
    case step_drop then show ?thesis using inv_drop [OF inv] by simp
  qed (rule same, simp add: core_simps)+
qed

lemma inv_reachable:
  assumes "reachable env d b st" and "ba b = Map.empty" and "\<forall>i p. da d i = Some p \<longrightarrow> genuine (validator env) i p"
  shows "home_inv env da ba st"
  using assms(1) unfolding reachable_def
proof (induction rule: rtranclp_induct)
  case base
  show ?case using assms(2,3) by (simp add: home_inv_def HomeServer_new_def)
next
  case (step st st')
  then show ?case using inv_step by blast
qed

end

text \<open>The node on in-memory stores, with any validator and encoding.\<close>

definition memory_env ::
  "bincode \<Rightarrow> Validator \<Rightarrow> ((ProfileId, Profile) InMemoryStore, (ProfileId, OwnProfile) InMemoryStore) HomeEnv" where
  "memory_env ser v = \<lparr>bincode_ser = ser, validator = v, dht_ops = InMemoryStore_ops, db_ops = InMemoryStore_ops\<rparr>"

lemma memory_env_sel [simp]:
  "bincode_ser (memory_env ser v) = ser" "validator (memory_env ser v) = v"
  "dht_ops (memory_env ser v) = InMemoryStore_ops" "db_ops (memory_env ser v) = InMemoryStore_ops"
  by (simp_all add: memory_env_def)

interpretation memory_home: home_node "memory_env ser v" imap imap for ser v
  unfolding home_node_def by (simp add: mem.total_kv_store_axioms)

end
