(* ===== verification/Home_Events.thy ===== *)
theory Home_Events
  imports Home_Invariants "HOL-Library.Multiset"
begin

text \<open>
  The way of an event through a home node: from \<^verbatim>\<open>push_event\<close> into the buffer or the channel
  of a session, through the task that flushes a buffer, to the receiver.  \<open>backlog\<close> is everything
  on its way to one session.  The central fact is that no step of the node loses any of it, as long
  as the receiver is there and \<^verbatim>\<open>events()\<close> is not called a second time.
\<close>

section \<open>Backlog\<close>

fun task_events :: "channel_id \<Rightarrow> task \<Rightarrow> (ProfileEvent, string) result list" where
  "task_events c (SendEvents c' ms) = (if c' = c then ms else [])"
| "task_events c (SendCalls _ _) = []"

definition pending :: "('d, 'b) HomeServer \<Rightarrow> channel_id \<Rightarrow> (ProfileEvent, string) result list" where
  "pending st c = concat (map (task_events c) (spawned st))"

definition sink_of :: "('d, 'b) HomeServer \<Rightarrow> nat \<Rightarrow> ProfileEvent ServerSink option" where
  "sink_of st sid = map_option events_sink (session_heap st sid)"

definition queued :: "('d, 'b) HomeServer \<Rightarrow> channel_id \<Rightarrow> (ProfileEvent, string) result list" where
  "queued st c = (case event_chans st c of Some ch \<Rightarrow> queue ch | None \<Rightarrow> [])"

definition backlog :: "('d, 'b) HomeServer \<Rightarrow> nat \<Rightarrow> (ProfileEvent, string) result list" where
  "backlog st sid = (case sink_of st sid of
     None \<Rightarrow> []
   | Some (Buffer buf) \<Rightarrow> buf
   | Some (Sender c) \<Rightarrow> queued st c @ pending st c)"

definition open_for :: "('d, 'b) HomeServer \<Rightarrow> ProfileEvent ServerSink \<Rightarrow> bool" where
  "open_for st sink = (case sink of
     Buffer _ \<Rightarrow> True
   | Sender c \<Rightarrow> (case event_chans st c of Some ch \<Rightarrow> \<not> closed ch | None \<Rightarrow> False))"

text \<open>Channel and session numbers in use are below the counter.\<close>

definition ids_ok :: "('d, 'b) HomeServer \<Rightarrow> bool" where
  "ids_ok st \<longleftrightarrow> (\<forall>sid. sink_of st sid \<noteq> None \<longrightarrow> sid < next_id st) \<and>
     (\<forall>sid c. sink_of st sid = Some (Sender c) \<longrightarrow> c < next_id st)"

section \<open>Operations that do not touch events\<close>

definition ev_same :: "('d, 'b) HomeServer \<Rightarrow> ('d, 'b) HomeServer \<Rightarrow> bool" where
  "ev_same st st' \<longleftrightarrow> event_chans st' = event_chans st \<and> pending st' = pending st
     \<and> next_id st \<le> next_id st' \<and> sink_of st' = sink_of st"

lemma ev_same_refl [simp]: "ev_same st st"
  by (simp add: ev_same_def)

lemma ev_same_trans: "ev_same s t \<Longrightarrow> ev_same t u \<Longrightarrow> ev_same s u"
  by (auto simp: ev_same_def)

lemma ev_sameI:
  "event_chans st' = event_chans st \<Longrightarrow> spawned st' = spawned st \<Longrightarrow> next_id st \<le> next_id st'
     \<Longrightarrow> session_heap st' = session_heap st \<Longrightarrow> ev_same st st'"
  by (auto simp: ev_same_def pending_def sink_of_def)

lemma ev_same_ids: "ev_same st st' \<Longrightarrow> ids_ok st \<Longrightarrow> ids_ok st'"
  by (fastforce simp: ev_same_def ids_ok_def)

lemma ev_same_backlog: "ev_same st st' \<Longrightarrow> backlog st' sid = backlog st sid"
  by (auto simp: ev_same_def backlog_def queued_def split: option.split ServerSink.split)

lemma ev_register: "ev_same st (snd (register env ctx own half invite st))"
  by (rule ev_sameI; simp add: register_def register_store_def Let_def
      split: sum.split prod.split ProfileFacet.split)

lemma ev_update: "ev_same st (snd (update env ctx own st))"
  by (rule ev_sameI; simp add: update_def split: sum.split prod.split)

lemma ev_unregister: "ev_same st (snd (unregister env ctx newhome st))"
  by (rule ev_sameI; simp add: unregister_def Let_def split: prod.split)

lemma ev_answer: "ev_same st (snd (answer c a st))"
  by (rule ev_sameI; simp add: answer_def)

lemma ev_drop_call [simp]: "ev_same st (drop_call c st)"
  by (rule ev_sameI; simp add: drop_call_def)

lemma ev_drop_calls [simp]: "ev_same st (drop_calls cs st)"
  by (induction cs st rule: drop_calls.induct) (auto intro: ev_same_trans [OF ev_drop_call])

lemma ev_session_push_call:
  assumes "session_heap st sid = Some s"
  shows "ev_same st (snd (session_push_call sid s app c st))"
proof (cases "case map_of (apps s) app of Some sink \<Rightarrow> sink | None \<Rightarrow> Buffer []")
  case (Buffer buf)
  with assms show ?thesis
    by (auto simp: session_push_call_def ev_same_def sink_of_def pending_def)
next
  case (Sender ch)
  then show ?thesis
    by (cases "chan_send (call_chans st) ch (Inr c)")
      (auto simp: session_push_call_def intro!: ev_sameI ev_drop_call)
qed

lemma ev_push_call: "ev_same st (snd (push_call env p app c st))"
  by (auto simp: push_call_def bind_eq_Some_conv intro: ev_session_push_call
      split: sum.split option.split)

lemma ev_call: "ev_same st (snd (call env ctx app req timer st))"
proof (cases "peer_id (relation req) (ctx_peer_id ctx)")
  case (Inr p)
  let ?st1 = "st\<lparr>oneshots := (oneshots st)(next_id st \<mapsto> Pending), next_id := next_id st + 1\<rparr>"
  let ?c = "Call_new req (next_id st)"
  have 1: "ev_same st ?st1" by (rule ev_sameI) simp_all
  then have "ev_same st (snd (push_call env p app ?c ?st1))" "ev_same st (drop_call ?c ?st1)"
    by (blast intro: ev_same_trans ev_push_call ev_drop_call)+
  then show ?thesis
    by (cases "push_call env p app ?c ?st1") (auto simp: call_def Inr Let_def split: sum.split)
qed (simp add: call_def)

lemma ev_checkin_app:
  assumes "session_heap st sid = Some s"
  shows "ev_same st (snd (checkin_app sid s app st))"
  using assms
  by (auto simp: checkin_app_def ev_same_def sink_of_def pending_def Let_def
      split: option.split ServerSink.split)

lemmas ev_simps = ev_register ev_update ev_unregister ev_answer ev_call ev_checkin_app

section \<open>Operations that do\<close>

text \<open>\<open>ev_grow\<close> is the effect of an operation that only adds to backlogs and closes nothing;
  sessions may disappear.\<close>

definition ev_grow :: "('d, 'b) HomeServer \<Rightarrow> ('d, 'b) HomeServer \<Rightarrow> bool" where
  "ev_grow st st' \<longleftrightarrow> next_id st \<le> next_id st' \<and>
     (\<forall>sid sink'. sink_of st' sid = Some sink' \<longrightarrow> sink_of st sid \<noteq> None \<longrightarrow>
        mset (backlog st sid) \<subseteq># mset (backlog st' sid))"

lemma ev_same_grow: "ev_same st st' \<Longrightarrow> ev_grow st st'"
  by (simp add: ev_grow_def ev_same_backlog) (simp add: ev_same_def)

lemma queued_send:
  "chan_send (event_chans st) c m = (sent, chans) \<Longrightarrow>
     queued (st\<lparr>event_chans := chans\<rparr>) c' = queued st c' @ (if sent \<and> c' = c then [m] else [])"
  by (auto simp: chan_send_def queued_def split: option.splits if_splits)

lemma pending_update [simp]:
  "pending (st\<lparr>event_chans := x\<rparr>) = pending st" "pending (st\<lparr>session_heap := y\<rparr>) = pending st"
  by (simp_all add: pending_def fun_eq_iff)

lemma queued_update [simp]:
  "queued (st\<lparr>session_heap := y\<rparr>) = queued st" "queued (st\<lparr>spawned := z\<rparr>) = queued st"
  "queued (st\<lparr>next_id := n\<rparr>) = queued st" "queued (st\<lparr>call_chans := x\<rparr>) = queued st"
  by (simp_all add: queued_def fun_eq_iff)

lemma backlog_cong:
  "sink_of st' sid = sink_of st sid \<Longrightarrow> queued st' = queued st \<Longrightarrow> pending st' = pending st
     \<Longrightarrow> backlog st' sid = backlog st sid"
  by (auto simp: backlog_def split: option.split ServerSink.split)

lemma backlog_mono:
  assumes "sink_of st' sid = sink_of st sid"
    and "\<And>c. sink_of st sid = Some (Sender c) \<Longrightarrow>
      mset (queued st c) + mset (pending st c) \<subseteq># mset (queued st' c) + mset (pending st' c)"
  shows "mset (backlog st sid) \<subseteq># mset (backlog st' sid)"
  using assms by (auto simp: backlog_def split: option.split ServerSink.split)

lemma session_push_event_backlog:
  assumes heap: "session_heap st sid = Some s" and push: "session_push_event sid s ev st = (r, st')"
  shows "mset (backlog st' sid) = mset (backlog st sid) + (if r = Inr () then {#Inr ev#} else {#})"
    and "mset (backlog st sid') \<subseteq># mset (backlog st' sid')"
proof -
  show own: "mset (backlog st' sid) = mset (backlog st sid) + (if r = Inr () then {#Inr ev#} else {#})"
  proof (cases "events_sink s")
    case (Buffer buf)
    with assms show ?thesis by (auto simp: session_push_event_def backlog_def sink_of_def)
  next
    case (Sender ch)
    obtain sent chans where send: "chan_send (event_chans st) ch (Inr ev) = (sent, chans)" by fastforce
    from assms Sender send show ?thesis
      by (auto simp: session_push_event_def backlog_def sink_of_def queued_send [OF send] split: if_splits)
  qed
  show "mset (backlog st sid') \<subseteq># mset (backlog st' sid')"
  proof (cases "sid' = sid")
    case True
    then show ?thesis by (simp add: own)
  next
    case False
    have sink: "sink_of st' sid' = sink_of st sid'"
      using False push
      by (auto simp: session_push_event_def sink_of_def split: ServerSink.splits prod.splits)
    have "mset (queued st c) + mset (pending st c) \<subseteq># mset (queued st' c) + mset (pending st' c)" for c
      using push queued_send [of st]
      by (auto simp: session_push_event_def split: ServerSink.splits prod.splits)
    with sink show ?thesis by (rule backlog_mono)
  qed
qed

lemma session_push_event_ids:
  assumes "session_heap st sid = Some s" "session_push_event sid s ev st = (r, st')" "ids_ok st"
  shows "ids_ok st'" and "next_id st' = next_id st"
  using assms
  by (fastforce simp: session_push_event_def ids_ok_def sink_of_def split: ServerSink.splits prod.splits if_splits)+

lemma push_event_cases:
  "snd (push_event env p ev st) = st \<or>
   (\<exists>sid s. sessions st p = Some sid \<and> session_heap st sid = Some s
      \<and> push_event env p ev st = session_push_event sid s ev st)"
  by (auto simp: push_event_def get_live_session_def bind_eq_Some_conv split: sum.splits option.splits if_splits)

lemma push_event_grow:
  "mset (backlog st sid) \<subseteq># mset (backlog (snd (push_event env p ev st)) sid)"
  using push_event_cases [of env p ev st] session_push_event_backlog(2)
  by (metis prod.collapse subset_mset.order_refl)

lemma push_event_ids: "ids_ok st \<Longrightarrow> ids_ok (snd (push_event env p ev st))"
  using push_event_cases [of env p ev st] session_push_event_ids(1) by (metis prod.collapse)

lemma pair_request_push:
  "snd (pair_request env ctx h st) \<in> {st, snd (push_event env (hp_peer_id h) (PairingRequest h) st)}"
  by (simp add: pair_request_def)

lemma pair_response_push:
  "\<exists>p. snd (pair_response env ctx rel st) \<in> {st, snd (push_event env p (PairingResponse rel) st)}"
  by (auto simp: pair_response_def split: sum.split)

lemma login_sinks:
  assumes "ids_ok st" and "sink_of st sid \<noteq> None"
  shows "sink_of (snd (login env ctx rel st)) sid = sink_of st sid"
    and "backlog (snd (login env ctx rel st)) sid = backlog st sid"
proof -
  have "sid \<noteq> next_id st" using assms by (auto simp: ids_ok_def)
  then show *: "sink_of (snd (login env ctx rel st)) sid = sink_of st sid"
    using login_cases [of env ctx rel st] by (auto simp: logged_in_def sink_of_def)
  have "queued (snd (login env ctx rel st)) = queued st" "pending (snd (login env ctx rel st)) = pending st"
    using login_cases [of env ctx rel st] by (auto simp: logged_in_def queued_def pending_def fun_eq_iff)
  with * show "backlog (snd (login env ctx rel st)) sid = backlog st sid" by (rule backlog_cong)
qed

lemma login_ids: "ids_ok st \<Longrightarrow> ids_ok (snd (login env ctx rel st))"
  using login_cases [of env ctx rel st]
  by (fastforce simp: ids_ok_def sink_of_def logged_in_def HomeSessionServer_new_def less_Suc_eq split: if_splits)

lemma events_spec:
  assumes "session_heap st sid = Some s" and "events sid s st = (c, st')"
  shows "c = next_id st" "next_id st' = next_id st + 1" "event_chans st' = (event_chans st)(c \<mapsto> new_channel)"
    "sink_of st' = (sink_of st)(sid \<mapsto> Sender c)"
    "spawned st' = spawned st @ [case events_sink s of Sender old \<Rightarrow> SendEvents old [Inl events_warning]
       | Buffer buf \<Rightarrow> SendEvents c buf]"
  using assms by (auto simp: events_def Let_def sink_of_def fun_eq_iff split: ServerSink.splits)

lemma events_backlog:
  assumes heap: "session_heap st sid = Some s" and ev: "events sid s st = (c, st')" and ids: "ids_ok st"
    and kept: "sid' \<noteq> sid \<or> (\<exists>buf. events_sink s = Buffer buf)" and live: "sink_of st sid' \<noteq> None"
  shows "mset (backlog st sid') \<subseteq># mset (backlog st' sid')"
proof (cases "sid' = sid")
  case True
  with kept obtain buf where "events_sink s = Buffer buf" by blast
  with True heap events_spec [OF heap ev] show ?thesis
    by (simp add: backlog_def sink_of_def queued_def new_channel_def pending_def)
next
  case False
  have "mset (queued st d) + mset (pending st d) \<subseteq># mset (queued st' d) + mset (pending st' d)"
    if "sink_of st sid' = Some (Sender d)" for d
  proof -
    have "d \<noteq> c" using that ids events_spec(1) [OF heap ev] by (auto simp: ids_ok_def)
    then show ?thesis using events_spec(3,5) [OF heap ev] by (simp add: queued_def pending_def)
  qed
  with False events_spec(4) [OF heap ev] show ?thesis by (intro backlog_mono) auto
qed

lemma events_ids:
  assumes "session_heap st sid = Some s" and "ids_ok st"
  shows "ids_ok (snd (events sid s st))"
proof -
  obtain c st' where ev: "events sid s st = (c, st')" by fastforce
  have "sid < next_id st" using assms by (auto simp: ids_ok_def sink_of_def)
  then show ?thesis
    using assms(2) events_spec(1,2,4) [OF assms(1) ev] by (auto simp: ev ids_ok_def less_Suc_eq)
qed

lemma drop_session_view:
  "event_chans (drop_session sid s st) = event_chans st" "pending (drop_session sid s st) = pending st"
  "next_id (drop_session sid s st) \<ge> next_id st"
  "sink_of (drop_session sid s st) = (sink_of st)(sid := None)"
proof -
  let ?st1 = "st\<lparr>sessions := (sessions st)(ctx_peer_id (ss_context s) := None),
           session_heap := (session_heap st)(sid := None)\<rparr>"
  have "ev_same ?st1 (drop_session sid s st)" by (simp add: drop_session_def)
  then show "event_chans (drop_session sid s st) = event_chans st" "pending (drop_session sid s st) = pending st"
    "next_id (drop_session sid s st) \<ge> next_id st"
    "sink_of (drop_session sid s st) = (sink_of st)(sid := None)"
    by (auto simp: ev_same_def pending_def sink_of_def fun_eq_iff)
qed

lemma drop_session_backlog:
  "sid' \<noteq> sid \<Longrightarrow> backlog (drop_session sid s st) sid' = backlog st sid'"
  by (rule backlog_cong) (simp_all add: drop_session_view queued_def fun_eq_iff)

lemma drop_session_ids: "ids_ok st \<Longrightarrow> ids_ok (drop_session sid s st)"
  using drop_session_view(3,4) [where sid = sid and s = s and st = st] by (fastforce simp: ids_ok_def split: if_splits)

section \<open>The reactor\<close>

lemma run_task_view:
  "sink_of (snd (run_task t st)) = sink_of st" "next_id st \<le> next_id (snd (run_task t st))"
proof -
  have d: "sink_of (drop_calls cs st) = sink_of st" "next_id st \<le> next_id (drop_calls cs st)" for cs
    using ev_drop_calls [of st cs] by (auto simp: ev_same_def)
  show "sink_of (snd (run_task t st)) = sink_of st" "next_id st \<le> next_id (snd (run_task t st))"
    using d by (induction t st rule: run_task.induct)
      (auto simp: sink_of_def fun_eq_iff simp del: drop_calls.simps split: prod.split bool.split)
qed

lemma run_task_backlog:
  assumes "case event_chans st c of Some ch \<Rightarrow> \<not> closed ch | None \<Rightarrow> False"
  shows "mset (queued (snd (run_task t st)) c) + mset (concat (map (task_events c) (fst (run_task t st))))
    = mset (queued st c) + mset (task_events c t)"
proof -
  have d: "queued (drop_calls cs st) = queued st" for cs
    using ev_drop_calls [of st cs] by (auto simp: ev_same_def queued_def fun_eq_iff)
  show ?thesis
    using assms d
  proof (induction t st rule: run_task.induct)
    case (2 c' m ms st)
    obtain sent chans where send: "chan_send (event_chans st) c' m = (sent, chans)" by fastforce
    with 2 show ?case
      by (cases sent) (auto simp: queued_send [OF send] chan_send_def split: option.splits if_splits)
  next
    case (4 c' m ms st)
    then show ?case
      by (auto simp del: drop_calls.simps split: prod.split bool.split)
  qed simp_all
qed

lemma reactor_poll_backlog:
  assumes "case event_chans st c of Some ch \<Rightarrow> \<not> closed ch | None \<Rightarrow> False"
  shows "mset (queued (reactor_poll i st) c) + mset (pending (reactor_poll i st) c)
    = mset (queued st c) + mset (pending st c)"
proof (cases "i < length (spawned st)")
  case True
  obtain rest st1 where run: "run_task (spawned st ! i) st = (rest, st1)" by fastforce
  have "pending st c = concat (map (task_events c) (take i (spawned st))) @ task_events c (spawned st ! i)
      @ concat (map (task_events c) (drop (Suc i) (spawned st)))"
    unfolding pending_def by (subst id_take_nth_drop [OF True]) simp
  with run_task_backlog [OF assms, of "spawned st ! i"] True show ?thesis
    by (simp add: reactor_poll_def run pending_def add_ac)
qed (simp add: reactor_poll_def)

lemma reactor_poll_view: "sink_of (reactor_poll i st) = sink_of st" "next_id st \<le> next_id (reactor_poll i st)"
  using run_task_view [where t = "spawned st ! i" and st = st]
  by (auto simp: reactor_poll_def sink_of_def fun_eq_iff split: prod.split)

lemma receive_event_view:
  "sink_of (snd (receive_event c st)) = sink_of st" "next_id (snd (receive_event c st)) = next_id st"
  "pending (snd (receive_event c st)) = pending st"
  "queued st d = (if d = c then (case fst (receive_event c st) of None \<Rightarrow> [] | Some m \<Rightarrow> [m]) else [])
     @ queued (snd (receive_event c st)) d"
  by (auto simp: receive_event_def sink_of_def pending_def queued_def split: option.split list.split)

lemma close_events_view:
  "sink_of (close_events c st) = sink_of st" "next_id (close_events c st) = next_id st"
  "pending (close_events c st) = pending st" "queued (close_events c st) = queued st"
  by (auto simp: close_events_def sink_of_def pending_def queued_def fun_eq_iff split: option.split)

lemma ids_step:
  assumes "home_step env st st'" and ids: "ids_ok st"
  shows "ids_ok st'"
proof -
  have same: "ev_same st st' \<Longrightarrow> ?thesis" using ev_same_ids ids by blast
  have view: "sink_of st' = sink_of st \<Longrightarrow> next_id st \<le> next_id st' \<Longrightarrow> ?thesis"
    using ids by (fastforce simp: ids_ok_def)
  from assms(1) show ?thesis
  proof cases
    case step_login then show ?thesis using login_ids [OF ids] by simp
  next
    case (step_pair_request ctx conn half)
    then show ?thesis using pair_request_push [of env conn half st] push_event_ids [OF ids] ids by auto
  next
    case (step_pair_response ctx conn rel)
    then show ?thesis using pair_response_push [of env conn rel st] push_event_ids [OF ids] ids by auto
  next
    case step_events then show ?thesis using events_ids [OF _ ids] by simp
  next
    case step_drop then show ?thesis using drop_session_ids [OF ids] by simp
  next
    case step_poll then show ?thesis using view by (simp add: reactor_poll_view)
  next
    case step_receive then show ?thesis using view by (simp add: receive_event_view)
  next
    case step_close then show ?thesis using view by (simp add: close_events_view)
  qed (rule same, simp add: ev_simps)+
qed

lemma ids_reachable: "reachable env d b st \<Longrightarrow> ids_ok st"
  unfolding reachable_def
proof (induction rule: rtranclp_induct)
  case base
  show ?case by (simp add: ids_ok_def sink_of_def HomeServer_new_def)
next
  case (step st st')
  then show ?case using ids_step by blast
qed

end
