(* ===== verification/Home_Samples.thy ===== *)
theory Home_Samples
  imports Home_Events
begin

text \<open>
  A small concrete run of a home node on in-memory stores: profile 1 registers on home 100 and
  logs in, then profile 2 sends it a pairing request.  The validator of the run accepts
  everything; the identities are single bytes.  The states are used in closed examples.
\<close>

definition sample_env ::
  "((ProfileId, Profile) InMemoryStore, (ProfileId, OwnProfile) InMemoryStore) HomeEnv" where
  "sample_env = memory_env (\<lambda>_. [])
     \<lparr>validate_profile = (\<lambda>_ _. Inr True), validate_signature = (\<lambda>_ _ _. Inr True)\<rparr>"

definition sample_home :: Signer where
  "sample_home = \<lparr>signer_profile_id = ProfileId [100], signer_public_key = PublicKey [100],
     sign = (\<lambda>_. Signature [100])\<rparr>"

definition sample_ctx :: "u8 \<Rightarrow> PeerContext" where
  "sample_ctx k = PeerContext_new sample_home (PublicKey [k]) (ProfileId [k])"

definition sample_persona :: "u8 \<Rightarrow> RelationProof list \<Rightarrow> OwnProfile" where
  "sample_persona k hs = OwnProfile_new
     (Profile_new (ProfileId [k]) (PublicKey [k]) (Persona \<lparr>homes = hs, persona_data = []\<rparr>)) []"

definition sample_half :: RelationHalfProof where
  "sample_half = \<lparr>hp_relation_type = RELATION_TYPE_HOSTED_ON_HOME, hp_signer_id = ProfileId [1],
     hp_peer_id = ProfileId [100], hp_signature = Signature [1]\<rparr>"

definition sample_proof :: RelationProof where
  "sample_proof = \<lparr>relation_type = RELATION_TYPE_HOSTED_ON_HOME, a_id = ProfileId [1], a_signature = Signature [1],
     b_id = ProfileId [100], b_signature = Signature [100]\<rparr>"

definition sample_pairing :: RelationHalfProof where
  "sample_pairing = \<lparr>hp_relation_type = ''friend'', hp_signer_id = ProfileId [2],
     hp_peer_id = ProfileId [1], hp_signature = Signature [2]\<rparr>"

definition sample_start ::
  "((ProfileId, Profile) InMemoryStore, (ProfileId, OwnProfile) InMemoryStore) HomeServer" where
  "sample_start = HomeServer_new InMemoryStore_new InMemoryStore_new"

definition sample_registered ::
  "((ProfileId, Profile) InMemoryStore, (ProfileId, OwnProfile) InMemoryStore) HomeServer" where
  "sample_registered = sample_start
     \<lparr>public_profile_dht := \<lparr>imap = [ProfileId [1] \<mapsto> profile (sample_persona 1 [sample_proof])]\<rparr>,
      hosted_profile_db := \<lparr>imap = [ProfileId [1] \<mapsto> sample_persona 1 [sample_proof]]\<rparr>\<rparr>"

definition sample_session :: "(ProfileEvent, string) result list \<Rightarrow> HomeSessionServer" where
  "sample_session buf = \<lparr>ss_context = sample_ctx 1, events_sink = Buffer buf, apps = []\<rparr>"

definition sample_online ::
  "(ProfileEvent, string) result list
     \<Rightarrow> ((ProfileId, Profile) InMemoryStore, (ProfileId, OwnProfile) InMemoryStore) HomeServer" where
  "sample_online buf = sample_registered
     \<lparr>sessions := [ProfileId [1] \<mapsto> 0], session_heap := [0 \<mapsto> sample_session buf], next_id := 1\<rparr>"

lemma sample_env_sel [simp]:
  "bincode_ser sample_env = (\<lambda>_. [])" "dht_ops sample_env = InMemoryStore_ops" "db_ops sample_env = InMemoryStore_ops"
  "validate_profile (validator sample_env) = (\<lambda>_ _. Inr True)"
  "validate_signature (validator sample_env) = (\<lambda>_ _ _. Inr True)"
  by (simp_all add: sample_env_def)

lemma sample_ctx_sel [simp]:
  "my_signer (sample_ctx k) = sample_home" "peer_pubkey (sample_ctx k) = PublicKey [k]"
  "ctx_peer_id (sample_ctx k) = ProfileId [k]"
  by (simp_all add: sample_ctx_def PeerContext_new_def)

lemma sample_connection: "HomeConnectionServer_new sample_env (sample_ctx k) = Inr (sample_ctx k)"
  by (simp add: HomeConnectionServer_new_Ok PeerContext_validate_def)

lemma sample_less: "ProfileId [1] < ProfileId [100]"
  by (simp add: less_ProfileId_def)

lemma sample_registrable: "registrable sample_env (sample_ctx 1) (sample_persona 1 []) sample_half"
  by (simp add: registrable_def sample_persona_def sample_half_def OwnProfile_new_def Profile_new_def
      sample_home_def validate_half_proof_Ok)

lemma sample_home_proof: "home_proof_of sample_env (sample_ctx 1) sample_half = sample_proof"
  by (simp add: home_proof_of_def sample_half_def sample_home_def sample_proof_def RelationProof_new_def sample_less)

lemma sample_register:
  "register sample_env (sample_ctx 1) (sample_persona 1 []) sample_half None sample_start
     = (Inr (sample_persona 1 [sample_proof]), sample_registered)"
  unfolding register_eq [OF sample_registrable] sample_home_proof
  by (simp add: register_store_def Let_def
      sample_persona_def OwnProfile_new_def Profile_new_def sample_start_def HomeServer_new_def
      sample_registered_def InMemoryStore_get_def InMemoryStore_set_def InMemoryStore_new_def)

lemma sample_login:
  "login sample_env (sample_ctx 1) sample_proof sample_registered = (Inr 0, sample_online [])"
  by (simp add: login_def sample_proof_def peer_id_def sample_home_def sample_registered_def sample_start_def
      HomeServer_new_def InMemoryStore_get_def sample_online_def sample_session_def HomeSessionServer_new_def)

lemma sample_pair_request:
  "pair_request sample_env (sample_ctx 2) sample_pairing (sample_online buf)
     = (Inr (), sample_online (buf @ [Inr (PairingRequest sample_pairing)]))"
  by (simp add: pair_request_def sample_pairing_def validate_half_proof_def push_event_def get_live_session_def
      sample_online_def sample_registered_def sample_start_def HomeServer_new_def InMemoryStore_get_def
      session_push_event_def sample_session_def)

lemma sample_reachable:
  "reachable sample_env InMemoryStore_new InMemoryStore_new sample_registered"
  "reachable sample_env InMemoryStore_new InMemoryStore_new (sample_online [])"
  "reachable sample_env InMemoryStore_new InMemoryStore_new (sample_online [Inr (PairingRequest sample_pairing)])"
proof -
  have 1: "home_step sample_env sample_start sample_registered"
    using step_register [OF sample_connection, of sample_start 1 "sample_persona 1 []" sample_half None]
    by (simp add: sample_register)
  have 2: "home_step sample_env sample_registered (sample_online [])"
    using step_login [OF sample_connection, of sample_registered 1 sample_proof] by (simp add: sample_login)
  have 3: "home_step sample_env (sample_online []) (sample_online [Inr (PairingRequest sample_pairing)])"
    using step_pair_request [OF sample_connection, of "sample_online []" 2 sample_pairing]
    by (simp add: sample_pair_request)
  show r1: "reachable sample_env InMemoryStore_new InMemoryStore_new sample_registered"
    using 1 by (simp add: reachable_def sample_start_def r_into_rtranclp)
  show r2: "reachable sample_env InMemoryStore_new InMemoryStore_new (sample_online [])"
    using r1 2 unfolding reachable_def by (rule rtranclp.rtrancl_into_rtrancl)
  show "reachable sample_env InMemoryStore_new InMemoryStore_new (sample_online [Inr (PairingRequest sample_pairing)])"
    using r2 3 unfolding reachable_def by (rule rtranclp.rtrancl_into_rtrancl)
qed

end
