(* ===== verification/Crypto.thy ===== *)
theory Crypto
  imports Relations Hash_Space
begin

text \<open>
  The cryptographic implementations of \<^verbatim>\<open>home-protocol/src/crypto.rs\<close>.  The
  \<^verbatim>\<open>multihash\<close> package and the Ed25519 packages (\<^verbatim>\<open>signatory\<close>,
  \<^verbatim>\<open>signatory_dalek\<close>) are parameters, collected in two records; what the code relies on is
  stated in \<open>multihash_ok\<close> (decoding a multihash gives back its algorithm) and \<open>ed25519_ok\<close>
  (a signature verifies under the public key of the signer that made it).
\<close>

section \<open>The packages\<close>

record 'alg multihash_lib =
  mh_encode :: "'alg \<Rightarrow> bytes \<Rightarrow> (bytes, multihash_error) result"
  mh_decode_alg :: "bytes \<Rightarrow> ('alg, multihash_error) result"
  mh_Keccak256 :: 'alg

record ('seed, 'edsigner, 'edkey, 'edsig) ed25519_lib =
  Seed_from_slice :: "bytes \<Rightarrow> ('seed, string) result"
  ed_from_seed :: "'seed \<Rightarrow> 'edsigner"
  ed_public_key :: "'edsigner \<Rightarrow> (bytes, string) result"
  ed_sign :: "'edsigner \<Rightarrow> bytes \<Rightarrow> (bytes, string) result"
  PublicKey_from_bytes :: "bytes \<Rightarrow> ('edkey, string) result"
  Signature_from_bytes :: "bytes \<Rightarrow> ('edsig, string) result"
  ed_verify :: "'edkey \<Rightarrow> bytes \<Rightarrow> 'edsig \<Rightarrow> (unit, string) result"

section \<open>Profile ids from keys\<close>

definition MultiHashProfileValidator_validate_profile ::
  "'alg multihash_lib \<Rightarrow> PublicKey \<Rightarrow> ProfileId \<Rightarrow> (bool, ErrorKind) result" where
  "MultiHashProfileValidator_validate_profile mh pk i =
     and_then (map_err (\<lambda>_. HashDecodeFailed) (mh_decode_alg mh (id_bytes i)))
       (\<lambda>id_hashalgo. and_then (map_err (\<lambda>_. HashEncodeFailed) (mh_encode mh id_hashalgo (key_bytes pk)))
         (\<lambda>key_hash. Ok (key_hash = id_bytes i)))"

definition ProfileId_from_public_key :: "'alg multihash_lib \<Rightarrow> PublicKey \<Rightarrow> ProfileId run" where
  "ProfileId_from_public_key mh pk =
     (case mh_encode mh (mh_Keccak256 mh) (key_bytes pk) of
        Inr h \<Rightarrow> Return (ProfileId h)
      | Inl e \<Rightarrow> Panic)"

section \<open>Ed25519\<close>

record 'edsigner Ed25519Signer =
  es_profile_id :: ProfileId
  es_public_key :: PublicKey
  es_signer :: 'edsigner

definition Ed25519Signer_new ::
  "'alg multihash_lib \<Rightarrow> ('seed, 'edsigner, 'edkey, 'edsig) ed25519_lib \<Rightarrow> PrivateKey
     \<Rightarrow> ('edsigner Ed25519Signer, ErrorKind) result run" where
  "Ed25519Signer_new mh ed private_key =
     (case Seed_from_slice ed (secret_bytes private_key) of
        Inl e \<Rightarrow> Return (Err SignerCreationFailed)
      | Inr seed \<Rightarrow>
          let signer = ed_from_seed ed seed in
          case ed_public_key ed signer of
            Inl e \<Rightarrow> Return (Err SignerCreationFailed)
          | Inr ed_pk \<Rightarrow>
              let pk = PublicKey ed_pk in
              run_bind (ProfileId_from_public_key mh pk)
                (\<lambda>profile_hash. Return (Ok \<lparr>es_profile_id = profile_hash, es_public_key = pk,
                   es_signer = signer\<rparr>)))"

definition Ed25519Signer_sign ::
  "('seed, 'edsigner, 'edkey, 'edsig) ed25519_lib \<Rightarrow> 'edsigner Ed25519Signer \<Rightarrow> bytes \<Rightarrow> Signature run" where
  "Ed25519Signer_sign ed es data =
     (case ed_sign ed (es_signer es) data of
        Inr signature \<Rightarrow> Return (Signature signature)
      | Inl e \<Rightarrow> Panic)"

definition Ed25519Validator_validate_signature ::
  "('seed, 'edsigner, 'edkey, 'edsig) ed25519_lib \<Rightarrow> PublicKey \<Rightarrow> bytes \<Rightarrow> Signature \<Rightarrow> (bool, ErrorKind) result" where
  "Ed25519Validator_validate_signature ed pk data signature =
     and_then (map_err (\<lambda>_. SignatureValidationFailed) (PublicKey_from_bytes ed (key_bytes pk)))
       (\<lambda>pubkey. and_then
          (map_err (\<lambda>_. SignatureValidationFailed) (Signature_from_bytes ed (signature_bytes signature)))
          (\<lambda>sig. and_then (map_err (\<lambda>_. SignatureValidationFailed) (ed_verify ed pubkey data sig))
             (\<lambda>_. Ok True)))"

section \<open>The composite validator\<close>

record CompositeValidator =
  profile_validator :: "PublicKey \<Rightarrow> ProfileId \<Rightarrow> (bool, ErrorKind) result"
  signature_validator :: "PublicKey \<Rightarrow> bytes \<Rightarrow> Signature \<Rightarrow> (bool, ErrorKind) result"

definition CompositeValidator_compose ::
  "(PublicKey \<Rightarrow> ProfileId \<Rightarrow> (bool, ErrorKind) result)
     \<Rightarrow> (PublicKey \<Rightarrow> bytes \<Rightarrow> Signature \<Rightarrow> (bool, ErrorKind) result) \<Rightarrow> CompositeValidator" where
  "CompositeValidator_compose pv sv = \<lparr>profile_validator = pv, signature_validator = sv\<rparr>"

definition CompositeValidator_validator :: "CompositeValidator \<Rightarrow> Validator" where
  "CompositeValidator_validator c = \<lparr>validate_profile = (\<lambda>pk i. profile_validator c pk i),
     validate_signature = (\<lambda>pk data signature. signature_validator c pk data signature)\<rparr>"

text \<open>\<^verbatim>\<open>CompositeValidator::default()\<close>.\<close>

definition default_validator ::
  "'alg multihash_lib \<Rightarrow> ('seed, 'edsigner, 'edkey, 'edsig) ed25519_lib \<Rightarrow> Validator" where
  "default_validator mh ed = CompositeValidator_validator (CompositeValidator_compose
     (MultiHashProfileValidator_validate_profile mh) (Ed25519Validator_validate_signature ed))"

lemma default_validator_sel [simp]:
  "validate_profile (default_validator mh ed) = MultiHashProfileValidator_validate_profile mh"
  "validate_signature (default_validator mh ed) = Ed25519Validator_validate_signature ed"
  by (simp_all add: default_validator_def CompositeValidator_validator_def CompositeValidator_compose_def)

section \<open>What is relied on\<close>

definition multihash_ok :: "'alg multihash_lib \<Rightarrow> bool" where
  "multihash_ok mh \<longleftrightarrow> (\<forall>alg x h. mh_encode mh alg x = Inr h \<longrightarrow> mh_decode_alg mh h = Inr alg)"

definition ed25519_ok :: "('seed, 'edsigner, 'edkey, 'edsig) ed25519_lib \<Rightarrow> bool" where
  "ed25519_ok ed \<longleftrightarrow> (\<forall>seed d pk sig.
     ed_public_key ed (ed_from_seed ed seed) = Inr pk \<and> ed_sign ed (ed_from_seed ed seed) d = Inr sig \<longrightarrow>
     (\<exists>k s. PublicKey_from_bytes ed pk = Inr k \<and> Signature_from_bytes ed sig = Inr s
        \<and> ed_verify ed k d s = Inr ()))"

text \<open>A \<^verbatim>\<open>Signer\<close> object backed by an \<^verbatim>\<open>Ed25519Signer\<close> that never panics.\<close>

definition backed_by ::
  "('seed, 'edsigner, 'edkey, 'edsig) ed25519_lib \<Rightarrow> 'edsigner Ed25519Signer \<Rightarrow> Signer \<Rightarrow> bool" where
  "backed_by ed es s \<longleftrightarrow> signer_profile_id s = es_profile_id es \<and> signer_public_key s = es_public_key es
     \<and> (\<forall>d. Ed25519Signer_sign ed es d = Return (sign s d))"

definition ed_owns ::
  "'alg multihash_lib \<Rightarrow> ('seed, 'edsigner, 'edkey, 'edsig) ed25519_lib \<Rightarrow> PublicKey \<Rightarrow> Signer \<Rightarrow> bool" where
  "ed_owns mh ed pk s \<longleftrightarrow> ed25519_ok ed \<and> (\<exists>private_key es.
     Ed25519Signer_new mh ed private_key = Return (Inr es) \<and> backed_by ed es s \<and> es_public_key es = pk)"

lemma Ed25519Signer_new_Ok:
  "Ed25519Signer_new mh ed private_key = Return (Inr es) \<longleftrightarrow>
     (\<exists>seed pk. Seed_from_slice ed (secret_bytes private_key) = Inr seed
        \<and> ed_public_key ed (ed_from_seed ed seed) = Inr pk
        \<and> ProfileId_from_public_key mh (PublicKey pk) = Return (es_profile_id es)
        \<and> es_public_key es = PublicKey pk \<and> es_signer es = ed_from_seed ed seed)"
proof (cases "Seed_from_slice ed (secret_bytes private_key)")
  case (Inr seed)
  then show ?thesis
    by (cases "ed_public_key ed (ed_from_seed ed seed)"; cases es)
      (auto simp: Ed25519Signer_new_def Let_def)
qed (simp add: Ed25519Signer_new_def)

lemma Ed25519Signer_sign_Return:
  "Ed25519Signer_sign ed es d = Return s \<longleftrightarrow> ed_sign ed (es_signer es) d = Inr (signature_bytes s)"
  by (cases "ed_sign ed (es_signer es) d"; cases s) (auto simp: Ed25519Signer_sign_def)

lemma Ed25519Validator_Ok:
  "Ed25519Validator_validate_signature ed pk d sig = Inr b \<longleftrightarrow> b \<and>
     (\<exists>k s. PublicKey_from_bytes ed (key_bytes pk) = Inr k \<and> Signature_from_bytes ed (signature_bytes sig) = Inr s
        \<and> ed_verify ed k d s = Inr ())"
  by (auto simp: Ed25519Validator_validate_signature_def)

interpretation ed25519: signature_scheme "default_validator mh ed" "ed_owns mh ed" for mh ed
proof
  fix pk s d assume "ed_owns mh ed pk s"
  then obtain private_key es where ok: "ed25519_ok ed" "backed_by ed es s" "es_public_key es = pk"
    and new: "Ed25519Signer_new mh ed private_key = Return (Inr es)"
    by (auto simp: ed_owns_def)
  from new obtain seed k where "ed_public_key ed (ed_from_seed ed seed) = Inr k" "es_public_key es = PublicKey k"
    and "es_signer es = ed_from_seed ed seed"
    by (auto simp: Ed25519Signer_new_Ok)
  moreover have "ed_sign ed (es_signer es) d = Inr (signature_bytes (sign s d))"
    using ok(2) by (simp add: backed_by_def Ed25519Signer_sign_Return)
  ultimately show "validate_signature (default_validator mh ed) pk d (sign s d) = Inr True"
    using ok(1,3) by (auto simp: ed25519_ok_def Ed25519Validator_Ok)
qed

interpretation ed25519_strict: strict_validator "default_validator mh ed" for mh ed
  by unfold_locales (simp add: Ed25519Validator_Ok)

lemma MultiHashProfileValidator_True:
  "MultiHashProfileValidator_validate_profile mh pk i = Inr True \<longleftrightarrow>
     (\<exists>alg. mh_decode_alg mh (id_bytes i) = Inr alg \<and> mh_encode mh alg (key_bytes pk) = Inr (id_bytes i))"
  by (auto simp: MultiHashProfileValidator_validate_profile_def)

lemma ProfileId_from_public_key_valid:
  "multihash_ok mh \<Longrightarrow> ProfileId_from_public_key mh pk = Return i
     \<Longrightarrow> MultiHashProfileValidator_validate_profile mh pk i = Inr True"
  by (cases "mh_encode mh (mh_Keccak256 mh) (key_bytes pk)")
    (auto simp: ProfileId_from_public_key_def MultiHashProfileValidator_True multihash_ok_def)

section \<open>A concrete instance\<close>

text \<open>Small packages that satisfy both assumptions, for closed examples: the hash is a tag byte and the data, a signature is the key
  followed by the data.\<close>

definition sample_multihash :: "u8 multihash_lib" where
  "sample_multihash = \<lparr>mh_encode = (\<lambda>alg x. Inr (alg # x)),
     mh_decode_alg = (\<lambda>h. case h of [] \<Rightarrow> Inl MH_BadInputLength | a # _ \<Rightarrow> Inr a), mh_Keccak256 = 27\<rparr>"

definition sample_ed25519 :: "(bytes, bytes, bytes, bytes) ed25519_lib" where
  "sample_ed25519 = \<lparr>Seed_from_slice = (\<lambda>x. if x = [] then Inl ''empty'' else Inr x),
     ed_from_seed = (\<lambda>x. x), ed_public_key = (\<lambda>x. Inr x), ed_sign = (\<lambda>x d. Inr (x @ d)),
     PublicKey_from_bytes = (\<lambda>x. Inr x), Signature_from_bytes = (\<lambda>x. Inr x),
     ed_verify = (\<lambda>k d s. if s = k @ d then Inr () else Inl ''bad signature'')\<rparr>"

definition sample_signer :: "bytes \<Rightarrow> Signer" where
  "sample_signer k = \<lparr>signer_profile_id = ProfileId (27 # k), signer_public_key = PublicKey k,
     sign = (\<lambda>d. Signature (k @ d))\<rparr>"

definition sample_bincode :: bincode where
  "sample_bincode p = map (\<lambda>c. of_nat (of_char c)) (sp_relation_type p)
     @ id_bytes (sp_signer_id p) @ id_bytes (sp_peer_id p)"

lemma sample_ok: "multihash_ok sample_multihash" "ed25519_ok sample_ed25519"
  by (auto simp: multihash_ok_def ed25519_ok_def sample_multihash_def sample_ed25519_def)

lemma sample_new: "k \<noteq> [] \<Longrightarrow> Ed25519Signer_new sample_multihash sample_ed25519 (PrivateKey k)
    = Return (Inr \<lparr>es_profile_id = ProfileId (27 # k), es_public_key = PublicKey k, es_signer = k\<rparr>)"
  by (simp add: Ed25519Signer_new_Ok ProfileId_from_public_key_def sample_multihash_def sample_ed25519_def)

lemma sample_backed:
  "backed_by sample_ed25519 \<lparr>es_profile_id = ProfileId (27 # k), es_public_key = PublicKey k, es_signer = k\<rparr>
     (sample_signer k)"
  by (simp add: backed_by_def sample_signer_def Ed25519Signer_sign_def sample_ed25519_def)

lemma sample_owns: "k \<noteq> [] \<Longrightarrow> ed_owns sample_multihash sample_ed25519 (PublicKey k) (sample_signer k)"
  using sample_new [of k] sample_ok(2) sample_backed
  by (auto simp: ed_owns_def intro!: exI [of _ "PrivateKey k"])

section \<open>Properties\<close>

text \<open>C10: completing a relation half proof.  If two signers with different profile ids are backed
  by Ed25519 keys, the half proof signed by the first for the second passes
  \<^verbatim>\<open>validate_half_proof\<close>, the second can complete it, and the resulting relation proof has the
  requested type, names each side as the peer of the other, and passes
  \<^verbatim>\<open>validate_relation_proof\<close> from both sides.\<close>

theorem relation_proof_completes:
  assumes own: "ed_owns mh ed pk1 s1" "ed_owns mh ed pk2 s2"
    and ne: "signer_profile_id s1 \<noteq> signer_profile_id s2"
  shows "let id1 = signer_profile_id s1; id2 = signer_profile_id s2; v = default_validator mh ed;
             half = RelationHalfProof_new ser t id2 s1
         in validate_half_proof ser v half pk1 = Inr () \<and>
            (\<exists>p. sign_remaining_half ser half s2 = Inr p \<and> relation_type p = t
               \<and> peer_id p id1 = Inr id2 \<and> peer_id p id2 = Inr id1
               \<and> validate_relation_proof ser v p id1 pk1 id2 pk2 = Inr ()
               \<and> validate_relation_proof ser v p id2 pk2 id1 pk1 = Inr ())"
proof -
  obtain p where p: "sign_remaining_half ser (RelationHalfProof_new ser t (signer_profile_id s2) s1) s2 = Inr p"
    "relation_type p = t" "peer_id p (signer_profile_id s1) = Inr (signer_profile_id s2)"
    "validate_relation_proof ser (default_validator mh ed) p
       (signer_profile_id s1) pk1 (signer_profile_id s2) pk2 = Inr ()"
    using ed25519.completed_valid [OF own ne] by blast
  with peer_id_involutive [OF p(3)] show ?thesis
    using ed25519.half_proof_valid [OF own(1)] validate_relation_proof_swap [OF ne]
    by (auto simp: Let_def)
qed

theorem relation_proof_completes_witness:
  "\<exists>p. sign_remaining_half sample_bincode
      (RelationHalfProof_new sample_bincode ''friend'' (ProfileId [27, 2]) (sample_signer [1])) (sample_signer [2]) = Inr p
    \<and> validate_relation_proof sample_bincode (default_validator sample_multihash sample_ed25519) p
        (ProfileId [27, 2]) (PublicKey [2]) (ProfileId [27, 1]) (PublicKey [1]) = Inr ()"
  using relation_proof_completes [OF sample_owns [of "[1]"] sample_owns [of "[2]"], where ser = sample_bincode and t = "''friend''"]
  by (auto simp: Let_def sample_signer_def)

text \<open>C11: under the default validator an accepted relation proof is signed by both parties: if
  \<^verbatim>\<open>validate_relation_proof\<close> accepts it for two different ids and their keys, these are exactly
  the two ids of the proof, and each party's signature verifies over the relation type, its own id
  and the id of the other.\<close>

theorem relation_proof_sound:
  assumes "id1 \<noteq> id2"
    and "validate_relation_proof ser (default_validator mh ed) p id1 pk1 id2 pk2 = Inr ()"
  shows "{a_id p, b_id p} = {id1, id2} \<and>
    (\<exists>s1 s2 k1 k2 g1 g2. peer_signature p id2 = Inr s1 \<and> peer_signature p id1 = Inr s2
       \<and> PublicKey_from_bytes ed (key_bytes pk1) = Inr k1 \<and> PublicKey_from_bytes ed (key_bytes pk2) = Inr k2
       \<and> Signature_from_bytes ed (signature_bytes s1) = Inr g1 \<and> Signature_from_bytes ed (signature_bytes s2) = Inr g2
       \<and> ed_verify ed k1 (ser (signable p id1 id2)) g1 = Inr ()
       \<and> ed_verify ed k2 (ser (signable p id2 id1)) g2 = Inr ())"
proof -
  have "peer_id p id1 = Inr id2"
    using assms(2) unfolding validate_relation_proof_Ok [OF assms(1)] by blast
  then have "{a_id p, b_id p} = {id1, id2}" by (auto simp: peer_id_Ok)
  then show ?thesis
    using ed25519_strict.relation_signed [OF assms] by (auto simp: Ed25519Validator_Ok)
qed

theorem relation_proof_sound_witness:
  "\<exists>p k1. validate_relation_proof sample_bincode (default_validator sample_multihash sample_ed25519) p
        (ProfileId [27, 1]) (PublicKey [1]) (ProfileId [27, 2]) (PublicKey [2]) = Inr ()
    \<and> {a_id p, b_id p} = {ProfileId [27, 1], ProfileId [27, 2]}
    \<and> PublicKey_from_bytes sample_ed25519 [1] = Inr k1"
proof -
  obtain p where p: "validate_relation_proof sample_bincode (default_validator sample_multihash sample_ed25519) p
        (ProfileId [27, 1]) (PublicKey [1]) (ProfileId [27, 2]) (PublicKey [2]) = Inr ()"
    using ed25519.completed_valid [OF sample_owns [of "[1]"] sample_owns [of "[2]"], where ser = sample_bincode]
    by (auto simp: sample_signer_def)
  with relation_proof_sound [OF _ p] show ?thesis by auto
qed

text \<open>The two checks of the \<^verbatim>\<open>Validator\<close> trait accept a proof as soon as
  \<^verbatim>\<open>validate_signature\<close> returns without an error, whatever boolean it returns: a validator that
  answers \<^verbatim>\<open>Ok(false)\<close> for a bad signature has every half proof, and every relation proof
  between the right ids, accepted.\<close>

lemma validators_ignore_false:
  "(validate_half_proof ser v half pk = Inr () \<longleftrightarrow>
     is_ok (validate_signature v pk (ser (RelationSignablePart_from half)) (hp_signature half))) \<and>
   (\<forall>p id1 pk1 id2 pk2. validate_signature v = (\<lambda>_ _ _. Inr False) \<longrightarrow>
     (validate_relation_proof ser v p id1 pk1 id2 pk2 = Inr () \<longleftrightarrow> peer_id p id1 = Inr id2))"
proof (intro conjI allI impI)
  fix p id1 pk1 id2 pk2 assume "validate_signature v = (\<lambda>_ _ _. Inr False)"
  then show "validate_relation_proof ser v p id1 pk1 id2 pk2 = Inr () \<longleftrightarrow> peer_id p id1 = Inr id2"
    by (auto simp: validate_relation_proof_def Let_def)
qed (rule validate_half_proof_Ok)

text \<open>A created Ed25519 signer has a consistent identity: its profile id is accepted for its
  public key by the default validator, so a peer context with these two validates, and any other
  key accepted for the same id has the same multihash.\<close>

lemma Ed25519Signer_identity:
  assumes mh: "multihash_ok mh" and new: "Ed25519Signer_new mh ed private_key = Return (Inr es)"
  shows "PeerContext_validate (PeerContext_new s (es_public_key es) (es_profile_id es)) (default_validator mh ed)
      = Inr () \<and>
    (\<forall>pk. PeerContext_validate (PeerContext_new s pk (es_profile_id es)) (default_validator mh ed) = Inr ()
       \<longrightarrow> mh_encode mh (mh_Keccak256 mh) (key_bytes pk) = mh_encode mh (mh_Keccak256 mh) (key_bytes (es_public_key es)))"
proof -
  have id: "ProfileId_from_public_key mh (es_public_key es) = Return (es_profile_id es)"
    using new by (auto simp: Ed25519Signer_new_Ok)
  then have h: "mh_encode mh (mh_Keccak256 mh) (key_bytes (es_public_key es)) = Inr (id_bytes (es_profile_id es))"
    by (cases "es_profile_id es") (auto simp: ProfileId_from_public_key_def split: sum.splits)
  with mh have "mh_decode_alg mh (id_bytes (es_profile_id es)) = Inr (mh_Keccak256 mh)"
    by (auto simp: multihash_ok_def)
  with ProfileId_from_public_key_valid [OF mh id] h show ?thesis
    by (auto simp: PeerContext_validate_def PeerContext_new_def MultiHashProfileValidator_True)
qed

end
