(* ===== verification/Home_Properties.thy ===== *)
theory Home_Properties
  imports Home_Samples Crypto
begin

text \<open>
  What a home node guarantees to the profiles it hosts and to their peers: registration and its
  inverse, login, the delivery of events, pairing across two homes, and calls.  Each property is
  stated for any stores that keep the contract \<open>total_kv_store\<close>; the closed examples run on the
  in-memory stores of \<^verbatim>\<open>Home_Samples\<close>.
\<close>

section \<open>Registration\<close>

lemma home_nodeI:
  "total_kv_store (dht_ops env) da (\<lambda>_. True) \<Longrightarrow> total_kv_store (db_ops env) ba (\<lambda>_. True) \<Longrightarrow> home_node env da ba"
  by (simp add: home_node_def)

lemma sample_stores:
  "total_kv_store (dht_ops sample_env) imap (\<lambda>_. True)" "total_kv_store (db_ops sample_env) imap (\<lambda>_. True)"
  by (simp_all add: mem.total_kv_store_axioms)

lemma map_err_iff_Some:
  assumes "\<And>v. r = Inr v \<longleftrightarrow> x = Some v"
  shows "map_err (\<lambda>_. e) r = ok_or e x"
proof (cases x)
  case None
  with assms have "r \<noteq> Inr v" for v by simp
  then obtain d where "r = Inl d" by (cases r) auto
  with None show ?thesis by simp
next
  case (Some v)
  with assms have "r = Inr v" by simp
  with Some show ?thesis by simp
qed

lemma load_eq:
  assumes "total_kv_store (dht_ops env) da (\<lambda>_. True)"
  shows "load env st i = ok_or DhtLookupFailed (da (public_profile_dht st) i)"
  unfolding load_def by (rule map_err_iff_Some) (rule total_kv_store.get_iff [OF assms TrueI])

lemma claim_eq:
  assumes "total_kv_store (db_ops env) ba (\<lambda>_. True)"
  shows "claim env ctx st i = (if i = ctx_peer_id ctx then ok_or FailedToClaimProfile (ba (hosted_profile_db st) i)
    else Inl FailedToClaimProfile)"
  by (simp add: claim_def map_err_iff_Some [OF total_kv_store.get_iff [OF assms TrueI]])

text \<open>C3: registration, on every branch.  With stores that do not fail, \<^verbatim>\<open>register\<close>
  succeeds exactly when the profile and the half proof belong to the peer of the connection, the
  half proof is of type \<^verbatim>\<open>hosted_on_home\<close>, names this home and has an acceptable signature,
  the profile is a persona, and it is not hosted yet.  Then the returned profile has the completed
  home proof appended, \<^verbatim>\<open>claim\<close> and \<^verbatim>\<open>load\<close> return it, and nobody else's
  profile changes.  Otherwise the original profile is returned and the server is unchanged.\<close>

theorem register_spec:
  assumes stores: "total_kv_store (dht_ops env) da (\<lambda>_. True)" "total_kv_store (db_ops env) ba (\<lambda>_. True)"
  shows "let i = ctx_peer_id ctx; own' = add_home (home_proof_of env ctx half) own;
             (r, st') = register env ctx own half invite st
         in if registrable env ctx own half \<and> is_err (claim env ctx st i)
            then r = Inr own' \<and> claim env ctx st' i = Inr own' \<and> load env st' i = Inr (profile own') \<and>
              (\<forall>j. j \<noteq> i \<longrightarrow> load env st' j = load env st j) \<and>
              (\<forall>ctx' j. j \<noteq> i \<longrightarrow> claim env ctx' st' j = claim env ctx' st j)
            else (\<exists>e. r = Inl (own, e)) \<and> st' = st"
proof -
  note node = home_nodeI [OF stores]
  let ?i = "ctx_peer_id ctx" let ?own = "add_home (home_proof_of env ctx half) own"
  have id: "registrable env ctx own half \<Longrightarrow> profile_id (profile ?own) = ?i"
    by (simp add: registrable_def del: add_home.simps)
  have "is_err (claim env ctx st ?i) \<longleftrightarrow> ba (hosted_profile_db st) ?i = None"
    by (cases "ba (hosted_profile_db st) ?i") (simp_all add: claim_eq [OF stores(2)])
  then show ?thesis
    using home_node.register_cases [OF node, of ctx own half invite st] id
    by (auto simp: claim_eq [OF stores(2)] load_eq [OF stores(1)] publish_def simp del: add_home.simps)
qed

theorem register_spec_witness:
  "let (r, st') = register sample_env (sample_ctx 1) (sample_persona 1 []) sample_half None sample_start
   in claim sample_env (sample_ctx 1) st' (ProfileId [1]) = Inr (sample_persona 1 [sample_proof])
     \<and> load sample_env st' (ProfileId [1]) = Inr (profile (sample_persona 1 [sample_proof]))"
proof -
  have "claim sample_env (sample_ctx 1) sample_start (ProfileId [1]) = Inl FailedToClaimProfile"
    by (simp add: claim_def sample_start_def HomeServer_new_def InMemoryStore_new_def InMemoryStore_get_def)
  then show ?thesis
    using register_spec [OF sample_stores, of "sample_ctx 1" sample_half "sample_persona 1 []" None sample_start]
    by (auto simp: sample_register sample_registrable Let_def simp del: add_home.simps)
qed

lemma register_store_Ok: "register_store env own own' st = (Inr r, st') \<Longrightarrow> r = own'"
  by (auto simp: register_store_def Let_def split: sum.splits prod.splits)

lemma register_Ok:
  assumes "register env ctx own half invite st = (Inr own', st')"
  shows "registrable env ctx own half" "own' = add_home (home_proof_of env ctx half) own"
proof -
  show r: "registrable env ctx own half"
    using assms register_refused [of env ctx own half invite st] by force
  show "own' = add_home (home_proof_of env ctx half) own"
    using assms register_store_Ok unfolding register_eq [OF r] by blast
qed

lemma home_proof_peer:
  assumes "registrable env ctx own half"
  shows "peer_id (home_proof_of env ctx half) (signer_profile_id (my_signer ctx)) = Inr (ctx_peer_id ctx)"
    and "peer_id (home_proof_of env ctx half) (ctx_peer_id ctx) = Inr (signer_profile_id (my_signer ctx))"
    and "relation_type (home_proof_of env ctx half) = RELATION_TYPE_HOSTED_ON_HOME"
  using assms by (auto simp: home_proof_of_def registrable_def)

lemma home_proof_valid:
  assumes reg: "registrable env ctx own half" and ne: "ctx_peer_id ctx \<noteq> signer_profile_id (my_signer ctx)"
    and home: "\<And>d. is_ok (validate_signature (validator env) home_pk d (sign (my_signer ctx) d))"
  shows "validate_relation_proof (bincode_ser env) (validator env) (home_proof_of env ctx half)
    (ctx_peer_id ctx) (peer_pubkey ctx) (signer_profile_id (my_signer ctx)) home_pk = Inr ()"
proof -
  have "peer_signature (home_proof_of env ctx half) (signer_profile_id (my_signer ctx)) = Inr (hp_signature half)"
    "peer_signature (home_proof_of env ctx half) (ctx_peer_id ctx) = Inr (sign (my_signer ctx)
       (bincode_ser env (signable (home_proof_of env ctx half) (signer_profile_id (my_signer ctx)) (ctx_peer_id ctx))))"
    using reg ne by (auto simp: home_proof_of_def registrable_def peer_signature_new signable_def)
  moreover have "signable (home_proof_of env ctx half) (ctx_peer_id ctx) (signer_profile_id (my_signer ctx))
      = RelationSignablePart_from half"
    using reg by (simp add: home_proof_of_def registrable_def signable_def RelationSignablePart_new_def
        RelationSignablePart_from_def)
  ultimately show ?thesis
    using reg home unfolding validate_relation_proof_Ok [OF ne]
    by (simp add: home_proof_peer(2) [OF reg]) (simp add: registrable_def validate_half_proof_Ok)
qed

text \<open>The proof of hosting.  A successful \<^verbatim>\<open>register\<close> appends to the persona's homes
  a relation proof of type \<^verbatim>\<open>hosted_on_home\<close> between the profile and this home that passes
  \<^verbatim>\<open>validate_relation_proof\<close> for the two of them, if the home's signatures are accepted under
  its key; and \<^verbatim>\<open>login\<close> with this proof succeeds right after, on any connection to the
  home.\<close>

lemma register_login:
  assumes db: "total_kv_store (db_ops env) ba (\<lambda>_. True)" and dht: "total_kv_store (dht_ops env) da (\<lambda>_. True)"
    and reg: "register env ctx own half invite st = (Inr own', st')"
    and ne: "ctx_peer_id ctx \<noteq> signer_profile_id (my_signer ctx)"
    and home: "\<forall>d. is_ok (validate_signature (validator env) home_pk d (sign (my_signer ctx) d))"
  shows "\<exists>persona p. facet (profile own) = Persona persona
    \<and> facet (profile own') = Persona (persona\<lparr>homes := homes persona @ [p]\<rparr>)
    \<and> relation_type p = RELATION_TYPE_HOSTED_ON_HOME
    \<and> validate_relation_proof (bincode_ser env) (validator env) p
        (ctx_peer_id ctx) (peer_pubkey ctx) (signer_profile_id (my_signer ctx)) home_pk = Inr ()
    \<and> fst (login env ctx p st') = Inr (next_id st')"
proof -
  let ?p = "home_proof_of env ctx half"
  note r = register_Ok [OF reg]
  obtain persona where persona: "facet (profile own) = Persona persona"
    using r(1) by (auto simp: registrable_def)
  have "publish da ba own' st st'"
    using home_node.register_cases [OF home_nodeI [OF dht db], of ctx own half invite st] reg r by auto
  moreover have "profile_id (profile own') = ctx_peer_id ctx"
    using r by (simp add: registrable_def del: add_home.simps)
  ultimately have "ba (hosted_profile_db st') (ctx_peer_id ctx) = Some own'" by (simp add: publish_def)
  then have "kv_get (db_ops env) (hosted_profile_db st') (ctx_peer_id ctx) = Inr own'"
    using total_kv_store.get_iff [OF db TrueI] by blast
  then have "fst (login env ctx ?p st') = Inr (next_id st')"
    using home_proof_peer [OF r(1)] by (simp add: login_def)
  moreover have "validate_relation_proof (bincode_ser env) (validator env) ?p
      (ctx_peer_id ctx) (peer_pubkey ctx) (signer_profile_id (my_signer ctx)) home_pk = Inr ()"
    using home_proof_valid [OF r(1) ne] home by blast
  ultimately show ?thesis using persona r(2) home_proof_peer(3) [OF r(1)] by auto
qed

text \<open>C8: in every state the node can reach, by any interleaving of requests, reactor turns,
  receives and drops, every published profile is stored under its own id with a key the validator
  accepts for this id, every hosted profile is published exactly as hosted, the session table only
  names hosted profiles, and every live session has a validated context.\<close>

theorem home_inv_reachable:
  assumes "total_kv_store (dht_ops env) da (\<lambda>_. True)" "total_kv_store (db_ops env) ba (\<lambda>_. True)"
    and "reachable env d b st" and "ba b = Map.empty"
    and "\<forall>i p. da d i = Some p \<longrightarrow> genuine (validator env) i p"
  shows "home_inv env da ba st"
  using home_node.inv_reachable [OF home_nodeI [OF assms(1,2)] assms(3-5)] .

theorem home_inv_reachable_witness:
  "home_inv sample_env imap imap (sample_online [Inr (PairingRequest sample_pairing)])"
  using home_inv_reachable [OF sample_stores sample_reachable(3)] by (simp add: InMemoryStore_new_def)



section \<open>Sessions\<close>

text \<open>Login.  \<^verbatim>\<open>login\<close> succeeds exactly for relations of type
  \<^verbatim>\<open>hosted_on_home\<close> between this home and a profile hosted here.  It then creates a session
  with the context of the connection and an empty event buffer, and enters it into the session
  table only if the profile has no entry yet; otherwise nothing changes.\<close>

lemma login_spec:
  assumes db: "total_kv_store (db_ops env) ba (\<lambda>_. True)"
  shows "let home = signer_profile_id (my_signer ctx); (r, st') = login env ctx rel st
    in case peer_id rel home of
        Inr prof \<Rightarrow>
          if relation_type rel = RELATION_TYPE_HOSTED_ON_HOME \<and> ba (hosted_profile_db st) prof \<noteq> None
          then r = Inr (next_id st) \<and> session_heap st' (next_id st) = Some (HomeSessionServer_new ctx)
            \<and> backlog st' (next_id st) = []
            \<and> sessions st' prof = (if sessions st prof = None then Some (next_id st) else sessions st prof)
            \<and> (\<forall>i. i \<noteq> prof \<longrightarrow> sessions st' i = sessions st i)
            \<and> (\<forall>sid. sid \<noteq> next_id st \<longrightarrow> session_heap st' sid = session_heap st sid)
          else is_err r \<and> st' = st
      | Inl _ \<Rightarrow> is_err r \<and> st' = st"
proof (cases "peer_id rel (signer_profile_id (my_signer ctx))")
  case (Inr prof)
  have "ba (hosted_profile_db st) prof = None \<longleftrightarrow> is_err (kv_get (db_ops env) (hosted_profile_db st) prof)"
    using total_kv_store.get_iff [OF db TrueI, of "hosted_profile_db st" prof]
    by (auto simp: is_ok_iff)
  then show ?thesis
    by (cases "kv_get (db_ops env) (hosted_profile_db st) prof")
      (auto simp: login_def Inr backlog_def sink_of_def HomeSessionServer_new_def split: option.split)
qed (simp add: login_def)

lemma live_push_event:
  assumes "kv_get (db_ops env) (hosted_profile_db st) p = Inr own" "sessions st p = Some sid" "session_heap st sid = Some s"
  shows "push_event env p ev st = session_push_event sid s ev st"
  using assms by (simp add: push_event_def get_live_session_def)



text \<open>A second login of a profile that has a session does not replace it: events still go to
  the first session and none to the second.  When the second session is dropped, its
  \<^verbatim>\<open>Drop\<close> removes the entry of the first: events for the profile are then silently
  discarded although the first session is alive.\<close>

lemma second_login_shadowed:
  assumes db: "total_kv_store (db_ops env) ba (\<lambda>_. True)" and host: "ba (hosted_profile_db st) i \<noteq> None"
    and old: "sessions st i = Some sid" "session_heap st sid = Some s" "sid \<noteq> next_id st"
    and ctx: "ctx_peer_id ctx = i" and rel: "relation_type rel = RELATION_TYPE_HOSTED_ON_HOME"
      "peer_id rel (signer_profile_id (my_signer ctx)) = Inr i"
  shows "\<exists>st1 s2. login env ctx rel st = (Inr (next_id st), st1) \<and> session_heap st1 (next_id st) = Some s2
    \<and> push_event env i ev st1 = session_push_event sid s ev st1
    \<and> (let st2 = drop_session (next_id st) s2 st1
       in session_heap st2 sid = Some s \<and> push_event env i ev st2 = (Inr (), st2))"
proof -
  obtain own where get: "kv_get (db_ops env) (hosted_profile_db st) i = Inr own"
    using host total_kv_store.get_iff [OF db TrueI] by blast
  let ?st1 = "logged_in ctx i st" let ?s2 = "HomeSessionServer_new ctx"
  have l: "login env ctx rel st = (Inr (next_id st), ?st1)"
    using get rel by (simp add: login_def logged_in_def)
  have push: "push_event env i ev ?st1 = session_push_event sid s ev ?st1"
    using get old by (intro live_push_event) (simp_all add: logged_in_def)
  have dropped: "drop_session (next_id st) ?s2 ?st1 =
      ?st1\<lparr>sessions := (sessions ?st1)(i := None), session_heap := (session_heap ?st1)(next_id st := None)\<rparr>"
    by (simp add: drop_session_def buffered_calls_def HomeSessionServer_new_def ctx)
  have "push_event env i ev (drop_session (next_id st) ?s2 ?st1) = (Inr (), drop_session (next_id st) ?s2 ?st1)"
    unfolding dropped using get by (simp add: push_event_def get_live_session_def logged_in_def)
  moreover have "session_heap (drop_session (next_id st) ?s2 ?st1) sid = Some s"
    unfolding dropped using old by (simp add: logged_in_def)
  moreover have "session_heap ?st1 (next_id st) = Some ?s2" by (simp add: logged_in_def)
  ultimately show ?thesis using l push by (auto simp: Let_def)
qed

section \<open>Events\<close>

text \<open>A session whose sink stays the same channel did not ask for its events again.\<close>

lemma events_first:
  assumes ids: "ids_ok st" and heap: "session_heap st sid' = Some s" and ev: "events sid' s st = (c, st')"
    and sink: "sink_of st sid = Some sink" and sink': "sink_of st' sid = Some sink'"
    and once: "\<forall>c. sink = Sender c \<longrightarrow> sink' = Sender c"
  shows "sid \<noteq> sid' \<or> (\<exists>buf. events_sink s = Buffer buf)"
proof (cases "events_sink s")
  case (Sender old)
  then have "sid = sid' \<Longrightarrow> sink = Sender old \<and> sink' = Sender (next_id st)"
    using heap sink sink' events_spec(1,4) [OF heap ev] by (simp add: sink_of_def)
  moreover have "sid = sid' \<Longrightarrow> old < next_id st" using Sender heap ids by (auto simp: ids_ok_def sink_of_def)
  ultimately show ?thesis using once by auto
qed simp

text \<open>A receive takes the first item of its own channel and leaves the other channels alone.\<close>

lemma receive_backlog:
  assumes sink: "sink_of st sid = Some sink"
  shows "mset (backlog st sid) \<subseteq># mset (backlog (snd (receive_event c st)) sid) \<or>
    (\<exists>c' m. sink = Sender c' \<and> receive_event c' st = (Some m, snd (receive_event c st))
       \<and> backlog st sid = m # backlog (snd (receive_event c st)) sid)"
proof (cases "sink = Sender c \<and> fst (receive_event c st) \<noteq> None")
  case True
  then obtain m st' where m: "receive_event c st = (Some m, st')" by (cases "receive_event c st") auto
  have "queued st c = m # queued st' c"
    using receive_event_view(4) [where c = c and st = st and d = c] by (simp only: m) simp
  moreover have "sink_of st' = sink_of st" "pending st' = pending st"
    using receive_event_view(1,3) [where c = c and st = st] by (simp_all add: m)
  ultimately show ?thesis using True sink m by (simp add: backlog_def)
next
  case False
  have "queued st e = queued (snd (receive_event c st)) e" if "sink = Sender e" for e
    using False that receive_event_view(4) [where c = c and st = st and d = e] by auto
  then have "mset (backlog st sid) \<subseteq># mset (backlog (snd (receive_event c st)) sid)"
    using sink receive_event_view(1,3) [where c = c and st = st] by (intro backlog_mono) simp_all
  then show ?thesis ..
qed

text \<open>C7: no event is lost.  In a reachable state, whatever step the node takes, everything on its
  way to a session that is alive before and after stays on its way to it, except for the one item
  a receive on the session's channel hands to the client; provided the receiver of the session is
  still there, and \<^verbatim>\<open>events()\<close> was not called again on a session that already had a
  channel.\<close>

theorem event_not_lost:
  assumes reach: "reachable env d b st" and step: "home_step env st st'"
    and sink: "sink_of st sid = Some sink" and sink': "sink_of st' sid = Some sink'"
    and open_st: "open_for st sink" and once: "\<forall>c. sink = Sender c \<longrightarrow> sink' = Sender c"
  shows "mset (backlog st sid) \<subseteq># mset (backlog st' sid) \<or>
    (\<exists>c m. sink = Sender c \<and> receive_event c st = (Some m, st') \<and> backlog st sid = m # backlog st' sid)"
proof -
  have ids: "ids_ok st" by (rule ids_reachable [OF reach])
  have live: "sink_of st sid \<noteq> None" using sink by simp
  have same: "ev_same st st' \<Longrightarrow> ?thesis" by (simp add: ev_same_backlog)
  from step show ?thesis
  proof cases
    case step_login then show ?thesis using login_sinks(2) [OF ids live] by simp
  next
    case (step_pair_request ctx conn half)
    then show ?thesis using pair_request_push [of env conn half st] push_event_grow [of st sid env] by auto
  next
    case (step_pair_response ctx conn rel)
    then show ?thesis using pair_response_push [of env conn rel st] push_event_grow [of st sid env] by auto
  next
    case (step_events sid' s)
    obtain c st1 where ev: "events sid' s st = (c, st1)" by fastforce
    have "sid \<noteq> sid' \<or> (\<exists>buf. events_sink s = Buffer buf)"
      using ids step_events(2) ev sink sink' once step_events(1) by (intro events_first) simp_all
    then show ?thesis using events_backlog [OF step_events(2) ev ids _ live] step_events ev by simp
  next
    case (step_drop sid' s)
    then have "sid \<noteq> sid'" using sink' drop_session_view(4) [where st = st] by auto
    then show ?thesis using step_drop by (simp add: drop_session_backlog)
  next
    case (step_poll i)
    have "mset (backlog st sid) \<subseteq># mset (backlog st' sid)"
      using open_st sink step_poll reactor_poll_backlog [of st _ i]
      by (intro backlog_mono) (auto simp: reactor_poll_view open_for_def)
    then show ?thesis ..
  next
    case (step_receive c)
    then show ?thesis using receive_backlog [OF sink] by simp
  next
    case step_close
    then have "backlog st' sid = backlog st sid" by (intro backlog_cong) (simp_all add: close_events_view)
    then show ?thesis by simp
  qed (rule same, simp add: ev_simps)+
qed

theorem event_not_lost_witness:
  "let st = sample_online [Inr (PairingRequest sample_pairing)]; st' = snd (events 0 (sample_session [Inr (PairingRequest sample_pairing)]) st)
   in sink_of st' 0 = Some (Sender 1) \<and> Inr (PairingRequest sample_pairing) \<in> set (backlog st' 0)"
proof -
  let ?buf = "[Inr (PairingRequest sample_pairing)]"
  let ?st = "sample_online ?buf" let ?st' = "snd (events 0 (sample_session ?buf) ?st)"
  have heap: "session_heap ?st 0 = Some (sample_session ?buf)" by (simp add: sample_online_def)
  have sink: "sink_of ?st 0 = Some (Buffer ?buf)" "sink_of ?st' 0 = Some (Sender 1)"
    using events_spec(1,4) [OF heap, of 1 ?st'] heap
    by (simp_all add: sink_of_def sample_session_def events_def Let_def sample_online_def)
  have "mset (backlog ?st 0) \<subseteq># mset (backlog ?st' 0)"
    using event_not_lost [OF sample_reachable(3) step_events [OF heap] sink] by (simp add: open_for_def)
  moreover have "backlog ?st 0 = ?buf" using sink by (simp add: backlog_def)
  ultimately show ?thesis using sink by (auto simp: Let_def dest: mset_subset_eqD)
qed

lemma session_push_event_open:
  assumes "session_heap st sid = Some s" and "open_for st (events_sink s)"
  shows "fst (session_push_event sid s ev st) = Inr ()"
  using assms
  by (auto simp: session_push_event_def open_for_def chan_send_def split: ServerSink.splits option.splits)

lemma push_event_live:
  assumes db: "total_kv_store (db_ops env) ba (\<lambda>_. True)" and host: "ba (hosted_profile_db st) i \<noteq> None"
    and live: "sessions st i = Some sid" "session_heap st sid = Some s" "open_for st (events_sink s)"
  shows "\<exists>st'. push_event env i ev st = (Inr (), st')
    \<and> mset (backlog st' sid) = add_mset (Inr ev) (mset (backlog st sid)) \<and> core st' = core st"
proof -
  obtain own where "kv_get (db_ops env) (hosted_profile_db st) i = Inr own"
    using host total_kv_store.get_iff [OF db TrueI] by blast
  note push = live_push_event [OF this live(1,2)]
  obtain st' where st': "session_push_event sid s ev st = (Inr (), st')"
    using session_push_event_open [OF live(2,3), of ev] by (metis prod.collapse)
  then show ?thesis
    using session_push_event_backlog(1) [OF live(2) st'] core_session_push_event [OF live(2), of ev] push by auto
qed

text \<open>\<^verbatim>\<open>pair_request\<close> on every branch.  It is refused, without effect, unless the
  half proof is signed by the peer of the connection and its signature is acceptable, and unless
  its addressee is hosted here.  For an addressee with a live session whose receiver is there, the
  request is added to the events on their way to that session exactly once; for one without an
  entry in the session table the call succeeds and the event is dropped.\<close>

lemma pair_request_spec:
  assumes db: "total_kv_store (db_ops env) ba (\<lambda>_. True)"
  shows "let i = hp_peer_id half; (r, st') = pair_request env ctx half st in
    if hp_signer_id half \<noteq> ctx_peer_id ctx then r = Inl ProfileMismatch \<and> st' = st
    else if validate_half_proof (bincode_ser env) (validator env) half (peer_pubkey ctx) \<noteq> Inr ()
      then r = Inl PublicKeyMismatch \<and> st' = st
    else if ba (hosted_profile_db st) i = None then r = Inl FailedToGetSession \<and> st' = st
    else case sessions st i of
        None \<Rightarrow> r = Inr () \<and> st' = st
      | Some sid \<Rightarrow> (case session_heap st sid of
            None \<Rightarrow> r = Inr () \<and> st' = st
          | Some s \<Rightarrow> open_for st (events_sink s) \<longrightarrow> r = Inr () \<and> core st' = core st
              \<and> mset (backlog st' sid) = add_mset (Inr (PairingRequest half)) (mset (backlog st sid)))"
proof -
  let ?i = "hp_peer_id half"
  have get: "kv_get (db_ops env) (hosted_profile_db st) ?i = Inr v \<longleftrightarrow> ba (hosted_profile_db st) ?i = Some v" for v
    by (rule total_kv_store.get_iff [OF db TrueI])
  show ?thesis
  proof (cases "ba (hosted_profile_db st) ?i")
    case None
    with get obtain e where "kv_get (db_ops env) (hosted_profile_db st) ?i = Inl e"
      by (cases "kv_get (db_ops env) (hosted_profile_db st) ?i") auto
    with None show ?thesis
      by (auto simp: pair_request_def is_err_unit push_event_def get_live_session_def)
  next
    case (Some own)
    then have host: "ba (hosted_profile_db st) ?i \<noteq> None" and "kv_get (db_ops env) (hosted_profile_db st) ?i = Inr own"
      using get by simp_all
    with push_event_live [OF db host, of _ _ "PairingRequest half"] show ?thesis
      by (auto simp: pair_request_def is_err_unit push_event_def get_live_session_def Let_def
          split: option.splits) (metis prod.inject)+
  qed
qed

text \<open>Buffered events can be overtaken.  When a session with buffered events asks for its
  event stream, the buffer is flushed by a spawned task; an event pushed before that task runs is
  received before the older ones.\<close>

lemma buffered_events_overtaken:
  assumes db: "total_kv_store (db_ops env) ba (\<lambda>_. True)" and host: "ba (hosted_profile_db st) i \<noteq> None"
    and live: "sessions st i = Some sid" "session_heap st sid = Some s"
    and buf: "events_sink s = Buffer (old # rest)" and ev: "events sid s st = (c, st1)"
  shows "\<exists>st2. push_event env i ev st1 = (Inr (), st2) \<and> queued st2 c = [Inr ev]
    \<and> queued (reactor_poll (length (spawned st)) st2) c = [Inr ev, old]"
proof -
  let ?s1 = "s\<lparr>events_sink := Sender c\<rparr>"
  have st1: "st1 = st\<lparr>event_chans := (event_chans st)(c \<mapsto> new_channel), next_id := c + 1,
      session_heap := (session_heap st)(sid \<mapsto> ?s1), spawned := spawned st @ [SendEvents c (old # rest)]\<rparr>"
    using ev buf by (auto simp: events_def Let_def)
  obtain own where "kv_get (db_ops env) (hosted_profile_db st1) i = Inr own"
    using host total_kv_store.get_iff [OF db TrueI] by (fastforce simp: st1)
  then have push: "push_event env i ev st1 = session_push_event sid ?s1 ev st1"
    using live by (intro live_push_event) (simp_all add: st1)
  show ?thesis
    unfolding push
    by (simp add: session_push_event_def chan_send_def st1 new_channel_def queued_def reactor_poll_def)
qed

section \<open>The reactor\<close>

fun task_work :: "task \<Rightarrow> nat" where
  "task_work (SendEvents c ms) = Suc (length ms)"
| "task_work (SendCalls c ms) = Suc (length ms)"

definition work :: "('d, 'b) HomeServer \<Rightarrow> nat" where
  "work st = sum_list (map task_work (spawned st))"

definition chan_open :: "('d, 'b) HomeServer \<Rightarrow> channel_id \<Rightarrow> bool" where
  "chan_open st c = (case event_chans st c of Some ch \<Rightarrow> \<not> closed ch | None \<Rightarrow> False)"

lemma run_task_work: "sum_list (map task_work (fst (run_task t st))) < task_work t"
  by (induction t st rule: run_task.induct) (auto split: prod.split bool.split)

lemma reactor_poll_work:
  assumes "i < length (spawned st)"
  shows "work (reactor_poll i st) < work st"
proof -
  obtain rest st1 where run: "run_task (spawned st ! i) st = (rest, st1)" by fastforce
  have "work st = sum_list (map task_work (take i (spawned st))) + task_work (spawned st ! i)
      + sum_list (map task_work (drop (Suc i) (spawned st)))"
    unfolding work_def by (subst id_take_nth_drop [OF assms]) simp
  with run_task_work [of "spawned st ! i" st] assms run show ?thesis
    by (simp add: reactor_poll_def work_def)
qed

lemma run_task_open: "chan_open (snd (run_task t st)) c = chan_open st c"
proof -
  have d: "event_chans (drop_calls cs st) = event_chans st" for cs
    using ev_drop_calls [of st cs] by (simp add: ev_same_def)
  show ?thesis
    using d by (induction t st rule: run_task.induct)
      (auto simp: chan_open_def chan_send_def simp del: drop_calls.simps split: prod.split bool.split option.splits if_splits)
qed

lemma reactor_poll_open: "chan_open (reactor_poll i st) c = chan_open st c"
  using run_task_open [of "spawned st ! i" st c]
  by (auto simp: reactor_poll_def chan_open_def split: prod.split)



section \<open>Pairing across two homes\<close>

definition online ::
  "('b \<Rightarrow> ProfileId \<Rightarrow> OwnProfile option) \<Rightarrow> ('d, 'b) HomeServer \<Rightarrow> ProfileId \<Rightarrow> nat \<Rightarrow> bool" where
  "online ba st i sid \<longleftrightarrow> ba (hosted_profile_db st) i \<noteq> None \<and> sessions st i = Some sid \<and>
     (case session_heap st sid of Some s \<Rightarrow> open_for st (events_sink s) | None \<Rightarrow> False)"

lemma push_event_online:
  assumes "total_kv_store (db_ops env) ba (\<lambda>_. True)" and "online ba st i sid"
  shows "\<exists>st'. push_event env i ev st = (Inr (), st') \<and> Inr ev \<in> set (backlog st' sid)"
proof -
  obtain s where "ba (hosted_profile_db st) i \<noteq> None" "sessions st i = Some sid" "session_heap st sid = Some s"
    "open_for st (events_sink s)"
    using assms(2) by (auto simp: online_def split: option.splits)
  from push_event_live [OF assms(1) this, of ev] show ?thesis
    by (metis set_mset_mset union_single_eq_member)
qed

text \<open>Pairing, end to end, across the homes of the two parties.  Alice holds an Ed25519 key and
  is hosted and online at home A, Bob likewise at home B, both homes using the default validator.
  The half proof Alice signs for Bob is accepted by Bob's home and reaches Bob's session; Bob can
  complete it; the completed proof is accepted by Alice's home on Bob's connection and reaches
  Alice's session; and it is valid between the two.\<close>

lemma pairing_end_to_end:
  assumes db: "total_kv_store (db_ops envA) baA (\<lambda>_. True)" "total_kv_store (db_ops envB) baB (\<lambda>_. True)"
    and env: "validator envA = default_validator mh ed" "validator envB = default_validator mh ed"
      "bincode_ser envA = ser" "bincode_ser envB = ser"
    and keys: "ed_owns mh ed pkA sA" "ed_owns mh ed pkB sB" "signer_profile_id sA \<noteq> signer_profile_id sB"
    and alice: "online baA stA (signer_profile_id sA) sidA" "baA (hosted_profile_db stA) (signer_profile_id sA) = Some ownA"
      "profile_id (profile ownA) = signer_profile_id sA" "public_key (profile ownA) = pkA"
    and bob: "online baB stB (signer_profile_id sB) sidB"
  shows "let half = RelationHalfProof_new ser t (signer_profile_id sB) sA in
    \<exists>stB' p stA'. pair_request envB (PeerContext_new homeB pkA (signer_profile_id sA)) half stB = (Inr (), stB')
      \<and> Inr (PairingRequest half) \<in> set (backlog stB' sidB)
      \<and> sign_remaining_half ser half sB = Inr p \<and> relation_type p = t
      \<and> pair_response envA (PeerContext_new homeA pkB (signer_profile_id sB)) p stA = (Inr (), stA')
      \<and> Inr (PairingResponse p) \<in> set (backlog stA' sidA)
      \<and> validate_relation_proof ser (default_validator mh ed) p (signer_profile_id sA) pkA (signer_profile_id sB) pkB = Inr ()"
proof -
  let ?half = "RelationHalfProof_new ser t (signer_profile_id sB) sA"
  have half: "hp_signer_id ?half = signer_profile_id sA" "hp_peer_id ?half = signer_profile_id sB"
    by (simp_all add: RelationHalfProof_new_def Let_def)
  obtain p where p: "sign_remaining_half ser ?half sB = Inr p" "relation_type p = t"
    "peer_id p (signer_profile_id sA) = Inr (signer_profile_id sB)"
    "validate_relation_proof ser (default_validator mh ed) p (signer_profile_id sA) pkA (signer_profile_id sB) pkB = Inr ()"
    using ed25519.completed_valid [OF keys] by blast
  obtain stB' where B: "push_event envB (signer_profile_id sB) (PairingRequest ?half) stB = (Inr (), stB')"
    "Inr (PairingRequest ?half) \<in> set (backlog stB' sidB)"
    using push_event_online [OF db(2) bob] by blast
  obtain stA' where A: "push_event envA (signer_profile_id sA) (PairingResponse p) stA = (Inr (), stA')"
    "Inr (PairingResponse p) \<in> set (backlog stA' sidA)"
    using push_event_online [OF db(1) alice(1)] by blast
  have "pair_request envB (PeerContext_new homeB pkA (signer_profile_id sA)) ?half stB = (Inr (), stB')"
    using B(1) ed25519.half_proof_valid [OF keys(1), of ser t "signer_profile_id sB"]
    by (simp add: pair_request_def half env PeerContext_new_def)
  moreover have "kv_get (db_ops envA) (hosted_profile_db stA) (signer_profile_id sA) = Inr ownA"
    using alice(2) total_kv_store.get_iff [OF db(1) TrueI] by blast
  then have "pair_response envA (PeerContext_new homeA pkB (signer_profile_id sB)) p stA = (Inr (), stA')"
    using A(1) p(4) validate_relation_proof_swap [OF keys(3)] peer_id_involutive [OF p(3)] alice(3,4)
    by (simp add: pair_response_def check_relation_def env PeerContext_new_def)
  ultimately show ?thesis using A(2) B(2) p by (auto simp: Let_def)
qed

definition duo_env ::
  "((ProfileId, Profile) InMemoryStore, (ProfileId, OwnProfile) InMemoryStore) HomeEnv" where
  "duo_env = memory_env sample_bincode (default_validator sample_multihash sample_ed25519)"

section \<open>Calls\<close>

text \<open>The calls on their way to an application of a session.\<close>

definition app_sink :: "HomeSessionServer \<Rightarrow> ApplicationId \<Rightarrow> Call ServerSink" where
  "app_sink s app = (case map_of (apps s) app of Some sink \<Rightarrow> sink | None \<Rightarrow> Buffer [])"

definition calls_for :: "('d, 'b) HomeServer \<Rightarrow> nat \<Rightarrow> ApplicationId \<Rightarrow> (Call, string) result list" where
  "calls_for st sid app = (case session_heap st sid of None \<Rightarrow> [] | Some s \<Rightarrow>
     (case app_sink s app of
        Buffer buf \<Rightarrow> buf
      | Sender c \<Rightarrow> (case call_chans st c of Some ch \<Rightarrow> queue ch | None \<Rightarrow> [])))"

definition takes_calls :: "('d, 'b) HomeServer \<Rightarrow> HomeSessionServer \<Rightarrow> ApplicationId \<Rightarrow> bool" where
  "takes_calls st s app = (case app_sink s app of
     Buffer _ \<Rightarrow> True
   | Sender c \<Rightarrow> (case call_chans st c of Some ch \<Rightarrow> \<not> closed ch | None \<Rightarrow> False))"

lemma session_push_call_taken:
  assumes heap: "session_heap st sid = Some s" and takes: "takes_calls st s app"
  shows "\<exists>st'. session_push_call sid s app c st = (Inr (), st')
    \<and> calls_for st' sid app = calls_for st sid app @ [Inr c] \<and> oneshots st' = oneshots st"
proof (cases "app_sink s app")
  case (Buffer buf)
  with heap show ?thesis
    by (simp add: session_push_call_def app_sink_def [symmetric] calls_for_def)
      (simp add: app_sink_def update_conv')
next
  case (Sender ch)
  with takes obtain chan where "call_chans st ch = Some chan" "\<not> closed chan"
    by (auto simp: takes_calls_def split: option.splits)
  with heap Sender show ?thesis
    by (simp add: session_push_call_def app_sink_def [symmetric] calls_for_def chan_send_def)
qed

lemma push_call_offline:
  assumes "kv_get (db_ops env) (hosted_profile_db st) i = Inr own"
    and "Option.bind (sessions st i) (session_heap st) = None"
  shows "push_call env i app c st = (Inr (), drop_call c st)"
  using assms by (cases "sessions st i") (simp_all add: push_call_def get_live_session_def)

abbreviation waiting :: "('d, 'b) HomeServer \<Rightarrow> ('d, 'b) HomeServer" where
  "waiting st \<equiv> st\<lparr>oneshots := (oneshots st)(next_id st \<mapsto> Pending), next_id := next_id st + 1\<rparr>"

lemma pushed_offline:
  assumes own: "kv_get (db_ops env) (hosted_profile_db st) i = Inr own"
    and "Option.bind (sessions st i) (\<lambda>sid. map_option (Pair sid) (session_heap st sid)) = None"
  shows "\<exists>st'. push_call env i app (Call_new req (next_id st)) (waiting st) = (Inr (), st')
    \<and> (\<forall>t. await_answer st' (next_id st) t = Some (Inl FailedToReadResponse))"
proof -
  have "push_call env i app (Call_new req (next_id st)) (waiting st) = (Inr (), drop_call (Call_new req (next_id st)) (waiting st))"
    using assms by (intro push_call_offline) (auto split: option.split simp: bind_eq_None_conv)
  then show ?thesis by (simp add: drop_call_def await_answer_def Call_new_def)
qed

lemma pushed_taken:
  assumes own: "kv_get (db_ops env) (hosted_profile_db st) i = Inr own"
    and live: "sessions st i = Some sid" "session_heap st sid = Some s"
  shows "takes_calls st s app \<Longrightarrow> \<exists>st'. push_call env i app (Call_new req (next_id st)) (waiting st) = (Inr (), st')
    \<and> calls_for st' sid app = calls_for st sid app @ [Inr (Call_new req (next_id st))]
    \<and> await_answer st' (next_id st) False = None \<and> await_answer st' (next_id st) True = Some (Inr None)
    \<and> (\<forall>a t. await_answer (snd (answer (Call_new req (next_id st)) a st')) (next_id st) t = Some (Inr a))"
proof -
  assume takes: "takes_calls st s app"
  have push: "push_call env i app (Call_new req (next_id st)) (waiting st) = session_push_call sid s app (Call_new req (next_id st)) (waiting st)"
    using own live by (simp add: push_call_def get_live_session_def)
  have "takes_calls (waiting st) s app" "calls_for (waiting st) sid app = calls_for st sid app"
    using takes by (auto simp: takes_calls_def calls_for_def split: ServerSink.split option.split)
  with session_push_call_taken [of "waiting st" sid s app "Call_new req (next_id st)"] live(2) obtain st' where
    "session_push_call sid s app (Call_new req (next_id st)) (waiting st) = (Inr (), st')"
    "calls_for st' sid app = calls_for st sid app @ [Inr (Call_new req (next_id st))]"
    "oneshots st' = (oneshots st)(next_id st \<mapsto> Pending)" by auto
  then show ?thesis unfolding push by (simp add: await_answer_def answer_def Call_new_def)
qed


definition sample_call :: CallRequestDetails where
  "sample_call = \<lparr>relation = RelationProof_new ''chat'' (ProfileId [1]) (Signature []) (ProfileId [2]) (Signature []),
     init_payload = AppMessageFrame [], to_caller = None\<rparr>"


end
