(* ===== verification/Future_Results.thy ===== *)
theory Future_Results
  imports Mercury_Prelude "HOL-Library.Multiset"
begin

text \<open>
  \<^verbatim>\<open>home-protocol/src/future.rs\<close>: two ways to wait for all of a list of futures and collect
  their results in the original order.  A future that completes is its result and the turn from
  which on it is ready.  \<^verbatim>\<open>select_all\<close> is a parameter: it picks one of a non-empty list of
  pending futures and returns the rest.  The loop of \<open>collect_results\<close> is a partial function,
  so that it returns at all is part of the theorem.
\<close>

record ('a, 'e) fut =
  ready_at :: nat
  outcome :: "('a, 'e) result"

section \<open>collect_results\<close>

type_synonym ('a, 'e) indexed = "nat \<times> ('a, 'e) result"

partial_function (option) collect_loop ::
  "((nat \<times> ('a, 'e) fut) list \<Rightarrow> (nat \<times> ('a, 'e) fut) \<times> (nat \<times> ('a, 'e) fut) list)
     \<Rightarrow> ('a, 'e) indexed list \<Rightarrow> (nat \<times> ('a, 'e) fut) list \<Rightarrow> ('a, 'e) indexed list option" where
  "collect_loop select_all finished_results pending_futures =
     (case select_all pending_futures of ((idx, f), rest) \<Rightarrow>
        let completed = finished_results @ [(idx, outcome f)] in
        if rest = [] then Some completed else collect_loop select_all completed rest)"

definition collect_results ::
  "((nat \<times> ('a, 'e) fut) list \<Rightarrow> (nat \<times> ('a, 'e) fut) \<times> (nat \<times> ('a, 'e) fut) list)
     \<Rightarrow> ('a, 'e) fut list \<Rightarrow> ('a, 'e) result list option" where
  "collect_results select_all futures =
     (let futures_vec = enumerate 0 futures in
      if futures_vec = [] then Some []
      else map_option (\<lambda>idx_res_vec. map snd (sort_key fst idx_res_vec))
        (collect_loop select_all [] futures_vec))"

text \<open>What \<^verbatim>\<open>select_all\<close> is documented to do.\<close>

definition selects :: "('x list \<Rightarrow> 'x \<times> 'x list) \<Rightarrow> bool" where
  "selects sel \<longleftrightarrow> (\<forall>xs. xs \<noteq> [] \<longrightarrow> mset xs = add_mset (fst (sel xs)) (mset (snd (sel xs))))"

section \<open>collect_results2\<close>

text \<open>One poll of the hand-written future at turn \<open>t\<close>: ready futures move to the output, and
  the result is there when no input is left.\<close>

definition future_poll :: "nat \<Rightarrow> ('a, 'e) fut \<Rightarrow> ('a, 'e) result option" where
  "future_poll t f = (if ready_at f \<le> t then Some (outcome f) else None)"

fun poll_inputs ::
  "nat \<Rightarrow> (nat \<times> ('a, 'e) fut) list \<Rightarrow> ('a, 'e) indexed list
     \<Rightarrow> (nat \<times> ('a, 'e) fut) list \<times> ('a, 'e) indexed list" where
  "poll_inputs t [] outp = ([], outp)"
| "poll_inputs t ((idx, f) # input) outp =
     (case future_poll t f of
        None \<Rightarrow> (case poll_inputs t input outp of (x, out) \<Rightarrow> ((idx, f) # x, out))
      | Some res \<Rightarrow> poll_inputs t input (outp @ [(idx, res)]))"

definition collect_poll ::
  "nat \<Rightarrow> (nat \<times> ('a, 'e) fut) list \<times> ('a, 'e) indexed list
     \<Rightarrow> ('a, 'e) result list option \<times> (nat \<times> ('a, 'e) fut) list \<times> ('a, 'e) indexed list" where
  "collect_poll t st = (case st of (input, outp) \<Rightarrow>
     (case poll_inputs t input outp of (x, out) \<Rightarrow>
        if x = [] then (Some (map snd (sort_key fst out)), ([], []))
        else (None, (x, out))))"

text \<open>The executor polls at turns \<open>t\<close>, \<open>t + 1\<close>, and so on, at most \<open>fuel\<close> times.\<close>

fun drive ::
  "nat \<Rightarrow> nat \<Rightarrow> (nat \<times> ('a, 'e) fut) list \<times> ('a, 'e) indexed list \<Rightarrow> ('a, 'e) result list option" where
  "drive 0 t st = None"
| "drive (Suc fuel) t st = (case collect_poll t st of
     (Some res, _) \<Rightarrow> Some res
   | (None, st') \<Rightarrow> drive fuel (Suc t) st')"

definition collect_results2 :: "nat \<Rightarrow> ('a, 'e) fut list \<Rightarrow> ('a, 'e) result list option" where
  "collect_results2 fuel futures = drive fuel 0 (enumerate 0 futures, [])"

section \<open>Sorting back\<close>

definition tag :: "nat \<times> ('a, 'e) fut \<Rightarrow> ('a, 'e) indexed" where
  "tag p = (fst p, outcome (snd p))"

lemma sort_key_tagged:
  assumes "mset xs = mset (map tag (enumerate n fs))"
  shows "map snd (sort_key fst xs) = map outcome fs"
proof -
  have tags: "map tag (enumerate n fs) = enumerate n (map outcome fs)"
    by (induction fs arbitrary: n) (simp_all add: tag_def)
  have "distinct (map fst (map tag (enumerate n fs)))" unfolding tags by simp
  then have "inj_on fst (set xs)"
    by (metis assms distinct_map mset_eq_setD)
  moreover have "sorted (map fst (enumerate n (map outcome fs)))" by simp
  ultimately have "sort_key fst xs = enumerate n (map outcome fs)"
    using assms by (intro sort_key_inj_key_eq) (simp_all add: tags)
  then show ?thesis by simp
qed

lemma collect_loop_returns:
  assumes "selects sel" and "pending \<noteq> []"
  shows "\<exists>xs. collect_loop sel done pending = Some (done @ xs) \<and> mset xs = mset (map tag pending)"
  using assms(2)
proof (induction "length pending" arbitrary: pending "done" rule: less_induct)
  case less
  obtain idx f rest where sel: "sel pending = ((idx, f), rest)" by (metis surj_pair)
  with assms(1) less.prems have m: "mset pending = add_mset (idx, f) (mset rest)"
    by (force simp: selects_def)
  then have tags: "mset (map tag pending) = add_mset (idx, outcome f) (mset (map tag rest))"
    by (simp add: mset_map tag_def)
  have len: "length rest < length pending" using m by (metis size_add_mset size_mset lessI)
  show ?case
  proof (cases "rest = []")
    case True
    with sel tags show ?thesis by (subst collect_loop.simps) (simp add: tag_def)
  next
    case False
    from less.hyps [OF len False, of "done @ [(idx, outcome f)]"] obtain xs where
      "collect_loop sel (done @ [(idx, outcome f)]) rest = Some ((done @ [(idx, outcome f)]) @ xs)"
      "mset xs = mset (map tag rest)" by blast
    with sel False tags show ?thesis
      by (subst collect_loop.simps) (auto simp: intro!: exI [of _ "(idx, outcome f) # xs"])
  qed
qed

lemma poll_inputs_spec:
  assumes "poll_inputs t input outp = (x, out)"
  shows "mset out + mset (map tag x) = mset outp + mset (map tag input)"
    and "x = filter (\<lambda>(i, f). \<not> ready_at f \<le> t) input"
  using assms
proof (induction t input outp arbitrary: x out rule: poll_inputs.induct)
  case (2 t idx f input outp)
  { case 1 with 2 show ?case
      by (cases "ready_at f \<le> t") (auto simp: future_poll_def tag_def split: prod.splits)
  next
    case 2 with "2.IH" show ?case
      by (cases "ready_at f \<le> t") (auto simp: future_poll_def split: prod.splits) }
qed auto

lemma drive_spec:
  assumes "mset outp + mset (map tag input) = mset (map tag (enumerate 0 fs))"
    and "\<forall>(i, f) \<in> set input. ready_at f < t + fuel" 
    and "0 < fuel \<or> input \<noteq> [] \<and> (\<forall>(i, f) \<in> set input. t \<le> ready_at f)"
  shows "drive fuel t (input, outp) = Some (map outcome fs)"
  using assms
proof (induction fuel arbitrary: t input outp)
  case 0
  then show ?case by (cases input) auto
next
  case (Suc fuel)
  obtain x out where poll: "poll_inputs t input outp = (x, out)" by fastforce
  note spec = poll_inputs_spec [OF poll]
  show ?case
  proof (cases "x = []")
    case True
    with spec(1) Suc.prems(1) have "mset out = mset (map tag (enumerate 0 fs))" by simp
    from sort_key_tagged [OF this] True poll show ?thesis by (simp add: collect_poll_def)
  next
    case False
    have "drive fuel (Suc t) (x, out) = Some (map outcome fs)"
    proof (rule Suc.IH)
      show "mset out + mset (map tag x) = mset (map tag (enumerate 0 fs))"
        using spec(1) Suc.prems(1) by simp
      show "\<forall>(i, f) \<in> set x. ready_at f < Suc t + fuel" using spec(2) Suc.prems(2) by auto
      show "0 < fuel \<or> x \<noteq> [] \<and> (\<forall>(i, f) \<in> set x. Suc t \<le> ready_at f)"
        using False spec(2) by auto
    qed
    with False poll show ?thesis by (simp add: collect_poll_def)
  qed
qed

lemma collect_results_eq:
  assumes "selects sel"
  shows "collect_results sel fs = Some (map outcome fs)"
proof (cases "fs = []")
  case False
  then have "enumerate 0 fs \<noteq> []" by (cases fs) simp_all
  from collect_loop_returns [OF assms this, of "[]"] obtain xs where
    "collect_loop sel [] (enumerate 0 fs) = Some xs" "mset xs = mset (map tag (enumerate 0 fs))" by auto
  with sort_key_tagged [OF this(2)] False \<open>enumerate 0 fs \<noteq> []\<close> show ?thesis
    by (simp add: collect_results_def Let_def)
qed (simp add: collect_results_def)

section \<open>Properties\<close>

text \<open>\<^verbatim>\<open>collect_results\<close> always returns, whatever order the futures complete in, and
  returns all results, successes and errors, in the original order of the futures, for every
  \<^verbatim>\<open>select_all\<close> that picks one of the pending futures.\<close>

lemma collect_results_ordered:
  assumes "selects sel"
  shows "collect_results sel fs = Some (map outcome fs)"
  using collect_results_eq [OF assms] .

text \<open>The hand-written future \<^verbatim>\<open>collect_results2\<close> agrees with
  \<^verbatim>\<open>collect_results\<close>: once it has been polled often enough for the slowest future, it returns
  the same list.\<close>

lemma collect_results2_equiv:
  assumes "selects sel" and "\<forall>f \<in> set fs. ready_at f < fuel" and "0 < fuel"
  shows "collect_results2 fuel fs = collect_results sel fs"
proof -
  have "\<forall>(i, f) \<in> set (enumerate 0 fs). ready_at f < 0 + fuel"
    using assms(2) by (auto simp: in_set_enumerate_eq)
  then have "collect_results2 fuel fs = Some (map outcome fs)"
    using assms(3) unfolding collect_results2_def by (intro drive_spec) auto
  with collect_results_eq [OF assms(1), of fs] show ?thesis by simp
qed

end
