(* ===== verification/Handshake.thy ===== *)
theory Handshake
  imports Relations
begin

text \<open>
  The temporary handshake of \<^verbatim>\<open>home-protocol/src/handshake.rs\<close>: each side sends its profile
  id and public key as JSON behind a little-endian 32-bit length, and reads the same from the peer.
  The two ends of a connection are the bytes still to be read and the bytes written; a read past
  the end fails.  \<^verbatim>\<open>serde_json\<close>'s conversions are parameters, \<open>write_fails\<close> says after
  how many bytes the connection refuses writes, if it does.
\<close>

record AuthenticationInfo =
  auth_profile_id :: ProfileId
  auth_public_key :: PublicKey

section \<open>Framing\<close>

text \<open>\<^verbatim>\<open>put_u32_le\<close> and \<^verbatim>\<open>get_u32_le\<close>.\<close>

definition put_u32_le :: "32 word \<Rightarrow> bytes" where
  "put_u32_le n = [of_nat (unat n mod 256), of_nat (unat n div 256 mod 256),
     of_nat (unat n div 65536 mod 256), of_nat (unat n div 16777216 mod 256)]"

definition get_u32_le :: "bytes \<Rightarrow> 32 word" where
  "get_u32_le bs = of_nat (unat (bs ! 0) + unat (bs ! 1) * 256 + unat (bs ! 2) * 65536 + unat (bs ! 3) * 16777216)"

definition read_exact :: "nat \<Rightarrow> bytes \<Rightarrow> (bytes \<times> bytes, unit) result" where
  "read_exact n input = (if n \<le> length input then Ok (take n input, drop n input) else Err ())"

definition write_all :: "nat option \<Rightarrow> bytes \<Rightarrow> bytes \<Rightarrow> (unit, unit) result \<times> bytes" where
  "write_all write_fails written bs = (case write_fails of
     Some n \<Rightarrow> if n < length (written @ bs) then (Err (), take n (written @ bs)) else (Ok (), written @ bs)
   | None \<Rightarrow> (Ok (), written @ bs))"

section \<open>The handshake\<close>

definition read_peer ::
  "(bytes \<Rightarrow> (AuthenticationInfo, unit) result) \<Rightarrow> Signer \<Rightarrow> bytes \<Rightarrow> (bytes \<times> PeerContext, ErrorKind) result" where
  "read_peer from_slice signer reader =
     map_err (\<lambda>_. TlsHandshakeFailed)
       (and_then (read_exact 4 reader) (\<lambda>(buf, reader).
          let size_in_bytes = get_u32_le buf in
          and_then (read_exact (unat size_in_bytes) reader) (\<lambda>(buf, reader).
            and_then (from_slice buf) (\<lambda>peer_auth.
              Ok (reader, PeerContext_new signer (auth_public_key peer_auth) (auth_profile_id peer_auth))))))"

definition temp_handshake ::
  "(AuthenticationInfo \<Rightarrow> (bytes, unit) result) \<Rightarrow> (bytes \<Rightarrow> (AuthenticationInfo, unit) result)
     \<Rightarrow> nat option \<Rightarrow> bytes \<Rightarrow> bytes \<Rightarrow> Signer \<Rightarrow> (bytes \<times> PeerContext, ErrorKind) result \<times> bytes" where
  "temp_handshake to_vec from_slice write_fails reader written signer =
     (let auth_info = \<lparr>auth_profile_id = signer_profile_id signer, auth_public_key = signer_public_key signer\<rparr> in
      case to_vec auth_info of
        Inl _ \<Rightarrow> (Err TlsHandshakeFailed, written)
      | Inr out_bytes \<Rightarrow>
          let bufsize = of_nat (length out_bytes) :: 32 word in
          (case write_all write_fails written (put_u32_le bufsize) of
             (Inl _, w) \<Rightarrow> (Err TlsHandshakeFailed, w)
           | (Inr _, w) \<Rightarrow>
               (case write_all write_fails w out_bytes of
                  (Inl _, w) \<Rightarrow> (Err TlsHandshakeFailed, w)
                | (Inr _, w) \<Rightarrow> (read_peer from_slice signer reader, w))))"

text \<open>Over TCP: \<open>nodelay\<close> is the outcome of \<^verbatim>\<open>set_nodelay\<close>.\<close>

definition temp_tcp_handshake ::
  "(AuthenticationInfo \<Rightarrow> (bytes, unit) result) \<Rightarrow> (bytes \<Rightarrow> (AuthenticationInfo, unit) result)
     \<Rightarrow> (unit, unit) result \<Rightarrow> nat option \<Rightarrow> bytes \<Rightarrow> Signer \<Rightarrow> (bytes \<times> PeerContext, ErrorKind) result \<times> bytes" where
  "temp_tcp_handshake to_vec from_slice nodelay write_fails socket signer =
     (case nodelay of
        Inl _ \<Rightarrow> (Err TlsHandshakeFailed, [])
      | Inr _ \<Rightarrow> temp_handshake to_vec from_slice write_fails socket [] signer)"

section \<open>Lemmas\<close>

lemma length_put_u32_le [simp]: "length (put_u32_le n) = 4"
  by (simp add: put_u32_le_def)

lemma u32_digits:
  assumes "(n :: nat) < 2 ^ 32"
  shows "n mod 256 + n div 256 mod 256 * 256 + n div 65536 mod 256 * 65536 + n div 16777216 mod 256 * 16777216 = n"
proof -
  have b: "n div 65536 = n div 256 div 256" by (simp add: div_mult2_eq [symmetric])
  have c: "n div 16777216 = n div 256 div 256 div 256" by (simp add: div_mult2_eq [symmetric])
  have "n div 16777216 < 256" using assms by (simp add: less_mult_imp_div_less)
  then have d: "n div 256 div 256 div 256 mod 256 = n div 256 div 256 div 256" by (simp add: c)
  show ?thesis
    unfolding b c d
    using mult_div_mod_eq [of 256 n] mult_div_mod_eq [of 256 "n div 256"] mult_div_mod_eq [of 256 "n div 256 div 256"]
    by linarith
qed

lemma get_put_u32_le: "get_u32_le (put_u32_le n) = n"
proof -
  have n: "unat n < 2 ^ 32" by (rule order_less_le_trans [OF unsigned_less]) simp
  then have "unat n div 16777216 < 256" by (simp add: less_mult_imp_div_less)
  with u32_digits [OF n] have "unat (put_u32_le n ! 0) + unat (put_u32_le n ! 1) * 256 + unat (put_u32_le n ! 2) * 65536
      + unat (put_u32_le n ! 3) * 16777216 = unat n"
    by (simp add: put_u32_le_def unat_of_nat take_bit_eq_mod)
  then show ?thesis unfolding get_u32_le_def by (simp only: of_nat_unat ucast_id)
qed

lemma read_peer_frame:
  assumes "from_slice body = Inr auth" and "length body < 2 ^ 32"
  shows "read_peer from_slice signer (put_u32_le (of_nat (length body)) @ body @ rest) =
    Inr (rest, PeerContext_new signer (auth_public_key auth) (auth_profile_id auth))"
proof -
  have "unat (of_nat (length body) :: 32 word) = length body"
    using assms(2) by (simp add: unat_of_nat take_bit_eq_mod)
  with assms(1) show ?thesis by (simp add: read_peer_def read_exact_def get_put_u32_le Let_def)
qed

lemma temp_handshake_written:
  assumes "to_vec \<lparr>auth_profile_id = signer_profile_id signer, auth_public_key = signer_public_key signer\<rparr> = Inr body"
  shows "temp_handshake to_vec from_slice None reader [] signer =
    (read_peer from_slice signer reader, put_u32_le (of_nat (length body)) @ body)"
  using assms by (simp add: temp_handshake_def write_all_def Let_def)

section \<open>Properties\<close>

definition auth_info_of :: "Signer \<Rightarrow> AuthenticationInfo" where
  "auth_info_of s = \<lparr>auth_profile_id = signer_profile_id s, auth_public_key = signer_public_key s\<rparr>"

text \<open>When both ends run the handshake on a working connection, each end gets a context with
  its own signer and the profile id and public key of the other, and finds exactly the bytes the
  other end sends after the handshake still unread; provided the JSON of the two identities parses
  back and is shorter than \<open>2 ^ 32\<close> bytes, so that its length fits the frame.\<close>

lemma handshake_mutual:
  assumes json: "\<forall>s \<in> {sa, sb}. \<exists>bs. to_vec (auth_info_of s) = Inr bs \<and> from_slice bs = Inr (auth_info_of s) \<and> length bs < 2 ^ 32"
  shows "\<exists>wa wb. (\<forall>r. snd (temp_handshake to_vec from_slice None r [] sa) = wa)
    \<and> (\<forall>r. snd (temp_handshake to_vec from_slice None r [] sb) = wb)
    \<and> fst (temp_handshake to_vec from_slice None (wb @ rest_b) [] sa)
        = Inr (rest_b, PeerContext_new sa (signer_public_key sb) (signer_profile_id sb))
    \<and> fst (temp_handshake to_vec from_slice None (wa @ rest_a) [] sb)
        = Inr (rest_a, PeerContext_new sb (signer_public_key sa) (signer_profile_id sa))"
proof -
  obtain ba bb where body: "to_vec (auth_info_of sa) = Inr ba" "from_slice ba = Inr (auth_info_of sa)" "length ba < 2 ^ 32"
    "to_vec (auth_info_of sb) = Inr bb" "from_slice bb = Inr (auth_info_of sb)" "length bb < 2 ^ 32"
    using json by blast
  have run: "temp_handshake to_vec from_slice None r [] sa = (read_peer from_slice sa r, put_u32_le (of_nat (length ba)) @ ba)"
    "temp_handshake to_vec from_slice None r [] sb = (read_peer from_slice sb r, put_u32_le (of_nat (length bb)) @ bb)" for r
    using body by (simp_all add: temp_handshake_written auth_info_of_def)
  have "read_peer from_slice sa ((put_u32_le (of_nat (length bb)) @ bb) @ rest_b)
      = Inr (rest_b, PeerContext_new sa (signer_public_key sb) (signer_profile_id sb))"
    "read_peer from_slice sb ((put_u32_le (of_nat (length ba)) @ ba) @ rest_a)
      = Inr (rest_a, PeerContext_new sb (signer_public_key sa) (signer_profile_id sa))"
    using read_peer_frame [of from_slice bb, OF body(5,6)] read_peer_frame [of from_slice ba, OF body(2,3)] by (simp_all add: auth_info_of_def)
  with run show ?thesis by simp
qed

definition sample_peer :: "u8 \<Rightarrow> Signer" where
  "sample_peer k = \<lparr>signer_profile_id = ProfileId [k], signer_public_key = PublicKey [k], sign = (\<lambda>_. Signature [])\<rparr>"

definition sample_json :: "AuthenticationInfo \<Rightarrow> (bytes, unit) result" where
  "sample_json a = Inr (id_bytes (auth_profile_id a) @ key_bytes (auth_public_key a))"

definition sample_parse :: "bytes \<Rightarrow> (AuthenticationInfo, unit) result" where
  "sample_parse bs = (case bs of [i, k] \<Rightarrow> Inr \<lparr>auth_profile_id = ProfileId [i], auth_public_key = PublicKey [k]\<rparr>
     | _ \<Rightarrow> Inl ())"

text \<open>A handshake that succeeds has read one complete frame: four bytes, then as many as they
  announce, and the context comes from that body; everything after it is left to be read.  So a
  peer that closes early, announces more than it sends, or sends something else than an identity
  makes it fail, always with \<^verbatim>\<open>TlsHandshakeFailed\<close>.\<close>

lemma handshake_frame:
  assumes "temp_handshake to_vec from_slice write_fails reader written signer = (r, w)"
  shows "case r of
      Inl e \<Rightarrow> e = TlsHandshakeFailed
    | Inr (rest, ctx) \<Rightarrow> \<exists>frame body auth. reader = frame @ body @ rest \<and> length frame = 4
        \<and> unat (get_u32_le frame) = length body \<and> from_slice body = Inr auth
        \<and> ctx = PeerContext_new signer (auth_public_key auth) (auth_profile_id auth)"
proof -
  have "r = Inl TlsHandshakeFailed \<or> r = read_peer from_slice signer reader"
    using assms by (auto simp: temp_handshake_def Let_def split: sum.splits prod.splits)
  then show ?thesis
  proof
    assume r: "r = read_peer from_slice signer reader"
    show ?thesis
    proof (cases r)
      case (Inl e)
      then show ?thesis using r by (auto simp: read_peer_def)
    next
      case (Inr p)
      obtain rest ctx where p: "p = (rest, ctx)" by (cases p)
      with Inr r obtain auth where *: "4 \<le> length reader"
        "unat (get_u32_le (take 4 reader)) \<le> length (drop 4 reader)"
        "from_slice (take (unat (get_u32_le (take 4 reader))) (drop 4 reader)) = Inr auth"
        "rest = drop (unat (get_u32_le (take 4 reader))) (drop 4 reader)"
        "ctx = PeerContext_new signer (auth_public_key auth) (auth_profile_id auth)"
        by (auto simp: read_peer_def read_exact_def Let_def split: if_splits)
      let ?n = "unat (get_u32_le (take 4 reader))"
      have "reader = take 4 reader @ take ?n (drop 4 reader) @ rest" unfolding *(4) by (simp only: append_take_drop_id)
      moreover have "length (take 4 reader) = 4" "?n = length (take ?n (drop 4 reader))" using *(1,2) by simp_all
      ultimately have "\<exists>frame body auth. reader = frame @ body @ rest \<and> length frame = 4
          \<and> unat (get_u32_le frame) = length body \<and> from_slice body = Inr auth
          \<and> ctx = PeerContext_new signer (auth_public_key auth) (auth_profile_id auth)"
        using *(3,5) by blast
      then show ?thesis unfolding Inr p by (simp only: sum.case prod.case)
    qed
  qed simp
qed

end
