(* ===== verification/Connect_Types.thy ===== *)
theory Connect_Types
  imports Handshake Key_Value_Store "HOL-Library.AList"
begin

text \<open>
  What the client (\<^verbatim>\<open>connect\<close>) is built from: its error kinds, the futures its operations
  return, the traits \<^verbatim>\<open>Home\<close>, \<^verbatim>\<open>HomeSession\<close> and \<^verbatim>\<open>HomeConnector\<close> it
  calls, and its state.

  A future is a function on the client's state that panics or returns its result and the new state;
  \<^verbatim>\<open>and_then\<close> chains them.  \<^verbatim>\<open>select_ok\<close> runs its futures in the order in which they
  complete, which is a parameter, up to the first success; like the original it panics on an empty
  list.  The error kinds have the names of the source; the kinds of the home protocol that have the
  same names are written \<open>ErrorKind.LoginFailed\<close> from here on.
\<close>

section \<open>Errors\<close>

datatype ConnectErrorKind =
    ConnectionToHomeFailed
  | HandshakeFailed
  | PeerIdRetreivalFailed
  | FailedToGetContacts
  | FailedToGetSession
  | AddressConversionFailed
  | ConnectionFailed
  | FailedToLoadProfile
  | FailedToResolveProfile
  | HomeProfileExpected
  | FailedToClaimProfile
  | RegistrationFailed
  | DeregistrationFailed
  | PairRequestFailed
  | PeerResponseFailed
  | ProfileUpdateFailed
  | CallFailed
  | CallRefused
  | LookupFailed
  | HomeProofNotFound
  | PersonaProfileExpected
  | NoHomesFound
  | LoginFailed
  | FailedToGetPeerId
  | FailedToAuthorize
  | ImplementationError

fun ConnectErrorKind_display :: "ConnectErrorKind \<Rightarrow> string" where
  "ConnectErrorKind_display ConnectionToHomeFailed = ''connection to home failed''"
| "ConnectErrorKind_display HandshakeFailed = ''handshake failed''"
| "ConnectErrorKind_display PeerIdRetreivalFailed = ''peer id retreival failed''"
| "ConnectErrorKind_display FailedToGetContacts = ''failed to get contacts''"
| "ConnectErrorKind_display FailedToGetSession = ''failed to get session''"
| "ConnectErrorKind_display AddressConversionFailed = ''address conversion failed''"
| "ConnectErrorKind_display ConnectionFailed = ''failed to connect tcp stream''"
| "ConnectErrorKind_display FailedToLoadProfile = ''failed to load profile''"
| "ConnectErrorKind_display FailedToResolveProfile = ''failed to resolve profile''"
| "ConnectErrorKind_display HomeProfileExpected = ''home profile expected''"
| "ConnectErrorKind_display FailedToClaimProfile = ''failed to claim profile''"
| "ConnectErrorKind_display RegistrationFailed = ''registration failed''"
| "ConnectErrorKind_display DeregistrationFailed = ''deregistration failed''"
| "ConnectErrorKind_display PairRequestFailed = ''pair request failed''"
| "ConnectErrorKind_display PeerResponseFailed = ''peer response failed''"
| "ConnectErrorKind_display ProfileUpdateFailed = ''profile update failed''"
| "ConnectErrorKind_display CallFailed = ''call failed''"
| "ConnectErrorKind_display CallRefused = ''call refused''"
| "ConnectErrorKind_display LookupFailed = ''lookup failed''"
| "ConnectErrorKind_display HomeProofNotFound = ''no proof found for home''"
| "ConnectErrorKind_display PersonaProfileExpected = ''persona profile expected''"
| "ConnectErrorKind_display NoHomesFound = ''no homes found''"
| "ConnectErrorKind_display LoginFailed = ''login failed''"
| "ConnectErrorKind_display FailedToGetPeerId = ''failed to get peer id''"
| "ConnectErrorKind_display FailedToAuthorize = ''failed to authorize''"
| "ConnectErrorKind_display ImplementationError = ''implementation error''"

section \<open>Futures\<close>

type_synonym ('st, 'a) async = "'st \<Rightarrow> (('a, ConnectErrorKind) result \<times> 'st) run"

definition future_ok :: "'a \<Rightarrow> ('st, 'a) async" where
  "future_ok a st = Return (Ok a, st)"

definition future_err :: "ConnectErrorKind \<Rightarrow> ('st, 'a) async" where
  "future_err e st = Return (Err e, st)"

definition future_result :: "('a, ConnectErrorKind) result \<Rightarrow> ('st, 'a) async" where
  "future_result r st = Return (r, st)"

definition future_and_then :: "('st, 'a) async \<Rightarrow> ('a \<Rightarrow> ('st, 'b) async) \<Rightarrow> ('st, 'b) async" where
  "future_and_then f g st = run_bind (f st) (\<lambda>(r, st). case r of Inl e \<Rightarrow> Return (Err e, st) | Inr a \<Rightarrow> g a st)"

definition future_map_err :: "ConnectErrorKind \<Rightarrow> ('st, 'a) async \<Rightarrow> ('st, 'a) async" where
  "future_map_err e f st = run_bind (f st) (\<lambda>(r, st). Return (map_err (\<lambda>_. e) r, st))"

definition future_map :: "('a \<Rightarrow> 'b) \<Rightarrow> ('st, 'a) async \<Rightarrow> ('st, 'b) async" where
  "future_map h f st = run_bind (f st) (\<lambda>(r, st). Return (map_ok h r, st))"

text \<open>The futures in order of completion, up to the first that succeeds; the error of the last one
  if none does.\<close>

fun first_ok :: "('st, 'a) async list \<Rightarrow> ('st, 'a) async" where
  "first_ok [] st = Panic"
| "first_ok [f] st = f st"
| "first_ok (f # g # fs) st = run_bind (f st) (\<lambda>(r, st).
     case r of Inr a \<Rightarrow> Return (Ok a, st) | Inl _ \<Rightarrow> first_ok (g # fs) st)"

definition select_ok :: "(nat \<Rightarrow> nat list) \<Rightarrow> ('st, 'a) async list \<Rightarrow> ('st, 'a) async" where
  "select_ok order fs = first_ok (map (\<lambda>i. fs ! i) (order (length fs)))"

text \<open>Every future completes exactly once, in some order.\<close>

definition completes_all :: "(nat \<Rightarrow> nat list) \<Rightarrow> bool" where
  "completes_all order \<longleftrightarrow> (\<forall>n. distinct (order n) \<and> set (order n) = {0..<n})"

section \<open>Lemmas on futures\<close>

lemma run_cases:
  obtains (Panic) "x = Panic" | (Err) e s where "x = Return (Inl e, s)" | (Ok) a s where "x = Return (Inr a, s)"
  by (metis run.exhaust surj_pair sum.exhaust)

lemma future_ok_Return [simp]: "future_ok a st = Return (r, st') \<longleftrightarrow> r = Inr a \<and> st' = st"
  by (auto simp: future_ok_def)

lemma future_err_Return [simp]: "future_err e st = Return (r, st') \<longleftrightarrow> r = Inl e \<and> st' = st"
  by (auto simp: future_err_def)

lemma future_result_Return [simp]: "future_result q st = Return (r, st') \<longleftrightarrow> r = q \<and> st' = st"
  by (auto simp: future_result_def)

lemma no_panic [simp]: "future_ok a st \<noteq> Panic" "future_err e st \<noteq> Panic" "future_result q st \<noteq> Panic"
  by (simp_all add: future_ok_def future_err_def future_result_def)

lemma future_and_then_Ok [simp]:
  "future_and_then f g st = Return (Inr b, st') \<longleftrightarrow> (\<exists>a st1. f st = Return (Inr a, st1) \<and> g a st1 = Return (Inr b, st'))"
  by (cases "f st" rule: run_cases) (auto simp: future_and_then_def)

lemma future_and_then_Err [simp]:
  "future_and_then f g st = Return (Inl e, st') \<longleftrightarrow> f st = Return (Inl e, st') \<or>
     (\<exists>a st1. f st = Return (Inr a, st1) \<and> g a st1 = Return (Inl e, st'))"
  by (cases "f st" rule: run_cases) (auto simp: future_and_then_def)

lemma future_and_then_Panic [simp]:
  "future_and_then f g st = Panic \<longleftrightarrow> f st = Panic \<or> (\<exists>a st1. f st = Return (Inr a, st1) \<and> g a st1 = Panic)"
  by (cases "f st" rule: run_cases) (auto simp: future_and_then_def)

lemma future_map_err_Ok [simp]: "future_map_err e f st = Return (Inr a, st') \<longleftrightarrow> f st = Return (Inr a, st')"
  by (auto simp: future_map_err_def)

lemma future_map_err_Err [simp]:
  "future_map_err e f st = Return (Inl d, st') \<longleftrightarrow> d = e \<and> (\<exists>x. f st = Return (Inl x, st'))"
  by (auto simp: future_map_err_def)

lemma future_map_err_Panic [simp]: "future_map_err e f st = Panic \<longleftrightarrow> f st = Panic"
  by (auto simp: future_map_err_def)

lemma future_map_Ok [simp]:
  "future_map h f st = Return (Inr b, st') \<longleftrightarrow> (\<exists>a. f st = Return (Inr a, st') \<and> b = h a)"
  by (auto simp: future_map_def)

lemma future_map_Err [simp]: "future_map h f st = Return (Inl e, st') \<longleftrightarrow> f st = Return (Inl e, st')"
  by (auto simp: future_map_def)

lemma future_map_Panic [simp]: "future_map h f st = Panic \<longleftrightarrow> f st = Panic"
  by (auto simp: future_map_def)

lemma first_ok_Return:
  "first_ok (f # g # fs) st = Return (r, st') \<longleftrightarrow> (\<exists>a. r = Inr a \<and> f st = Return (Inr a, st')) \<or>
     (\<exists>e s. f st = Return (Inl e, s) \<and> first_ok (g # fs) s = Return (r, st'))"
  by (cases "f st" rule: run_cases) auto

lemma first_ok_Panic:
  "first_ok (f # g # fs) st = Panic \<longleftrightarrow> f st = Panic \<or> (\<exists>e s. f st = Return (Inl e, s) \<and> first_ok (g # fs) s = Panic)"
  by (cases "f st" rule: run_cases) auto

lemmas first_ok_step = first_ok.simps(1,2) first_ok_Return first_ok_Panic

declare first_ok.simps(3) [simp del]

text \<open>The result comes from one of the futures, run in a state with every property that all the
  futures keep; if it is an error, all of them failed in such states.\<close>

lemma first_ok_result:
  assumes "first_ok fs st = Return (r, st')" and "P st"
    and keeps: "\<And>f s t q. f \<in> set fs \<Longrightarrow> P s \<Longrightarrow> f s = Return (q, t) \<Longrightarrow> P t"
  shows "(\<exists>f \<in> set fs. \<exists>s. P s \<and> f s = Return (r, st'))
    \<and> ((\<exists>e. r = Inl e) \<longrightarrow> (\<forall>f \<in> set fs. \<exists>s d t. P s \<and> f s = Return (Inl d, t)))"
  using assms
proof (induction fs arbitrary: st)
  case (Cons f fs)
  show ?case
  proof (cases fs)
    case Nil
    with Cons.prems(1,2) show ?thesis by auto
  next
    case (Cons g gs)
    with Cons.prems(1) consider a where "r = Inr a" "f st = Return (r, st')"
      | e s where "f st = Return (Inl e, s)" "first_ok fs s = Return (r, st')"
      unfolding Cons first_ok_Return by blast
    then show ?thesis
    proof cases
      case 1
      with Cons.prems(2) show ?thesis by auto
    next
      case 2
      have "P s" using Cons.prems(2,3) 2(1) by (meson list.set_intros(1))
      have "(\<exists>f \<in> set fs. \<exists>s. P s \<and> f s = Return (r, st'))
          \<and> ((\<exists>e. r = Inl e) \<longrightarrow> (\<forall>f \<in> set fs. \<exists>s d t. P s \<and> f s = Return (Inl d, t)))"
        by (rule Cons.IH [OF 2(2) \<open>P s\<close>]) (meson Cons.prems(3) list.set_intros(2))
      with 2(1) Cons.prems(2) show ?thesis by auto
    qed
  qed
qed simp

lemmas first_ok_from = first_ok_result [THEN conjunct1]

lemma first_ok_keeps:
  assumes "first_ok fs st = Return (r, st')" and "P st"
    and "\<And>f s t q. f \<in> set fs \<Longrightarrow> P s \<Longrightarrow> f s = Return (q, t) \<Longrightarrow> P t"
  shows "P st'"
proof -
  have "\<exists>f \<in> set fs. \<exists>s. P s \<and> f s = Return (r, st')"
    by (rule first_ok_from [of fs st r st' P, OF assms(1) assms(2)]) (rule assms(3))
  with assms(3) show ?thesis by blast
qed

lemma first_ok_no_panic:
  assumes "fs \<noteq> []" and "\<And>f s. f \<in> set fs \<Longrightarrow> f s \<noteq> Panic"
  shows "first_ok fs st \<noteq> Panic"
  using assms
proof (induction fs arbitrary: st)
  case (Cons f fs)
  then show ?case by (cases fs) (auto simp: first_ok_step)
qed simp

lemma selected_futures:
  assumes "completes_all order"
  shows "set (map (\<lambda>i. fs ! i) (order (length fs))) = set fs"
    and "map (\<lambda>i. fs ! i) (order (length fs)) = [] \<longleftrightarrow> fs = []"
proof -
  have order: "set (order (length fs)) = {0..<length fs}" using assms by (simp add: completes_all_def)
  then show "set (map (\<lambda>i. fs ! i) (order (length fs))) = set fs"
    by (simp add: nth_image)
  show "map (\<lambda>i. fs ! i) (order (length fs)) = [] \<longleftrightarrow> fs = []"
    using order by (metis atLeastLessThan_empty_iff length_greater_0_conv map_is_Nil_conv set_empty)
qed

end
