(* ===== verification/Connect_Net.thy ===== *)
theory Connect_Net
  imports Connect_Types
begin

text \<open>
  How the client reaches a home (\<^verbatim>\<open>connect/src/net.rs\<close>) and where it finds profiles
  (\<^verbatim>\<open>connect/src/simple_profile_repo.rs\<close>).  \<^verbatim>\<open>TcpStream::connect\<close> is a parameter
  on the state \<open>'w\<close> of the network; a stream is what the handshake needs of it.
\<close>

section \<open>Addresses\<close>

datatype IpAddr = V4 bytes | V6 bytes

record SocketAddr =
  ip :: IpAddr
  port :: "16 word"

definition multiaddr_to_socketaddr :: "Multiaddr \<Rightarrow> (SocketAddr, ConnectErrorKind) result" where
  "multiaddr_to_socketaddr multiaddr =
     (case multiaddr of
        [] \<Rightarrow> Err AddressConversionFailed
      | c # components \<Rightarrow>
          and_then (case c of IP4 address \<Rightarrow> Ok (V4 address) | IP6 address \<Rightarrow> Ok (V6 address)
                     | _ \<Rightarrow> Err AddressConversionFailed)
            (\<lambda>ip_address. case components of
                [] \<Rightarrow> Err AddressConversionFailed
              | p # _ \<Rightarrow> and_then (case p of TCP n \<Rightarrow> Ok n | UDP n \<Rightarrow> Ok n | _ \<Rightarrow> Err AddressConversionFailed)
                  (\<lambda>ip_port. Ok \<lparr>ip = ip_address, port = ip_port\<rparr>)))"

section \<open>SimpleTcpHomeConnector\<close>

record TcpStream =
  nodelay_result :: "(unit, unit) result"
  stream_write_fails :: "nat option"
  stream_input :: bytes

type_synonym 'w tcp = "SocketAddr \<Rightarrow> 'w \<Rightarrow> (TcpStream, unit) result \<times> 'w"

text \<open>The capnp client is built over the two halves of the stream: what is still to be read, and
  what has been written.\<close>

record HomeClientCapnProto =
  client_reader :: bytes
  client_writer :: bytes

definition connect_addr :: "'w tcp \<Rightarrow> Multiaddr \<Rightarrow> ('w, TcpStream) async" where
  "connect_addr tcp_connect addr =
     (case multiaddr_to_socketaddr addr of
        Inl err \<Rightarrow> future_err err
      | Inr tcp_addr \<Rightarrow> (\<lambda>w. case tcp_connect tcp_addr w of (r, w) \<Rightarrow>
          Return (map_err (\<lambda>_. ConnectionFailed) r, w)))"

text \<open>The continuation on the first connected stream: the handshake, then the client.\<close>

definition handshake_client ::
  "(AuthenticationInfo \<Rightarrow> (bytes, unit) result) \<Rightarrow> (bytes \<Rightarrow> (AuthenticationInfo, unit) result)
     \<Rightarrow> Signer \<Rightarrow> TcpStream \<Rightarrow> (HomeClientCapnProto, ConnectErrorKind) result" where
  "handshake_client to_vec from_slice signer tcp_stream =
     (case temp_tcp_handshake to_vec from_slice (nodelay_result tcp_stream)
             (stream_write_fails tcp_stream) (stream_input tcp_stream) signer of
        (r, writer) \<Rightarrow> map_ok (\<lambda>(reader, peer_ctx). \<lparr>client_reader = reader, client_writer = writer\<rparr>)
          (map_err (\<lambda>_. HandshakeFailed) r))"

definition SimpleTcpHomeConnector_connect ::
  "(AuthenticationInfo \<Rightarrow> (bytes, unit) result) \<Rightarrow> (bytes \<Rightarrow> (AuthenticationInfo, unit) result)
     \<Rightarrow> (nat \<Rightarrow> nat list) \<Rightarrow> 'w tcp \<Rightarrow> Profile \<Rightarrow> Signer \<Rightarrow> ('w, HomeClientCapnProto) async" where
  "SimpleTcpHomeConnector_connect to_vec from_slice order tcp_connect home_profile signer =
     (case facet home_profile of
        Home home_facet \<Rightarrow>
          (let tcp_conns = map (\<lambda>addr. future_map_err ConnectionFailed (connect_addr tcp_connect addr)) (addrs home_facet)
           in future_and_then (select_ok order tcp_conns)
                (\<lambda>tcp_stream. future_result (handshake_client to_vec from_slice signer tcp_stream)))
      | _ \<Rightarrow> future_err HomeProfileExpected)"

section \<open>SimpleProfileRepo\<close>

definition SimpleProfileRepo_default :: "(ProfileId, Profile) InMemoryStore" where
  "SimpleProfileRepo_default = InMemoryStore_new"

definition SimpleProfileRepo_insert ::
  "('r, ProfileId, Profile) KeyValueStore \<Rightarrow> Profile \<Rightarrow> 'r \<Rightarrow> (unit, StorageError) result \<times> 'r" where
  "SimpleProfileRepo_insert profiles p r = kv_set profiles r (profile_id p) p"

definition SimpleProfileRepo_load ::
  "('r, ProfileId, Profile) KeyValueStore \<Rightarrow> 'r \<Rightarrow> ProfileId \<Rightarrow> (Profile, ErrorKind) result" where
  "SimpleProfileRepo_load profiles r i = map_err (\<lambda>_. ErrorKind.ProfileLookupFailed) (kv_get profiles r i)"

section \<open>Lemmas\<close>

lemma connect_addr_Ok:
  "connect_addr tcp a w = Return (Inr s, w') \<longleftrightarrow>
     (\<exists>sa. multiaddr_to_socketaddr a = Inr sa \<and> tcp sa w = (Inr s, w'))"
  by (auto simp: connect_addr_def split: sum.splits prod.splits)

lemma connect_addr_no_panic: "connect_addr tcp a w \<noteq> Panic"
  by (auto simp: connect_addr_def split: sum.splits prod.splits)

lemma tcp_conns_no_panic:
  "f \<in> set (map (\<lambda>a. future_map_err ConnectionFailed (connect_addr tcp a)) as) \<Longrightarrow> f w \<noteq> Panic"
  by (auto simp: connect_addr_no_panic)

section \<open>Properties\<close>

text \<open>Exactly the addresses that start with an IP component followed by a TCP or UDP port have a
  socket address, which is that IP address and port; every other address is refused with
  \<^verbatim>\<open>AddressConversionFailed\<close>.\<close>

lemma multiaddr_to_socketaddr_spec:
  "multiaddr_to_socketaddr m = (case m of
      IP4 a # TCP n # _ \<Rightarrow> Inr \<lparr>ip = V4 a, port = n\<rparr>
    | IP4 a # UDP n # _ \<Rightarrow> Inr \<lparr>ip = V4 a, port = n\<rparr>
    | IP6 a # TCP n # _ \<Rightarrow> Inr \<lparr>ip = V6 a, port = n\<rparr>
    | IP6 a # UDP n # _ \<Rightarrow> Inr \<lparr>ip = V6 a, port = n\<rparr>
    | _ \<Rightarrow> Inl AddressConversionFailed)"
  by (auto simp: multiaddr_to_socketaddr_def split: list.splits AddrComponent.splits)

lemma connect_Ok:
  assumes "completes_all order" and home: "facet p = Home f"
    and ok: "SimpleTcpHomeConnector_connect to_vec from_slice order tcp p signer w = Return (Inr c, w')"
  shows "\<exists>a \<in> set (addrs f). \<exists>sa s w0. multiaddr_to_socketaddr a = Inr sa \<and> tcp sa w0 = (Inr s, w')
    \<and> handshake_client to_vec from_slice signer s = Inr c"
proof -
  let ?futs = "map (\<lambda>a. future_map_err ConnectionFailed (connect_addr tcp a)) (addrs f)"
  from ok home obtain s where sel: "select_ok order ?futs w = Return (Inr s, w')"
    and c: "handshake_client to_vec from_slice signer s = Inr c"
    by (auto simp: SimpleTcpHomeConnector_connect_def Let_def)
  from first_ok_from [OF sel [unfolded select_ok_def], of "\<lambda>_. True"] obtain g w0 where "g \<in> set ?futs" "g w0 = Return (Inr s, w')"
    unfolding selected_futures(1) [OF assms(1)] by blast
  with c show ?thesis by (clarsimp simp: connect_addr_Ok) blast
qed

text \<open>C38: connecting to a home.  Only the profile of a home can be connected to.  A client is only
  returned over a stream that was opened to one of the addresses of the home and on which the
  handshake succeeded.  The connector panics exactly when the home has no address at all.\<close>

theorem connect_spec:
  assumes "completes_all order"
  shows "case facet p of
      Home f \<Rightarrow> (SimpleTcpHomeConnector_connect to_vec from_slice order tcp p signer w = Panic \<longleftrightarrow> addrs f = [])
        \<and> (\<forall>c w'. SimpleTcpHomeConnector_connect to_vec from_slice order tcp p signer w = Return (Inr c, w') \<longrightarrow>
             (\<exists>a \<in> set (addrs f). \<exists>sa s w0. multiaddr_to_socketaddr a = Inr sa \<and> tcp sa w0 = (Inr s, w')
               \<and> handshake_client to_vec from_slice signer s = Inr c))
    | _ \<Rightarrow> SimpleTcpHomeConnector_connect to_vec from_slice order tcp p signer w = Return (Inl HomeProfileExpected, w)"
proof (cases "facet p")
  case (Home f)
  let ?futs = "map (\<lambda>a. future_map_err ConnectionFailed (connect_addr tcp a)) (addrs f)"
  let ?run = "map (\<lambda>i. ?futs ! i) (order (length ?futs))"
  have "select_ok order ?futs w = Panic \<longleftrightarrow> addrs f = []"
  proof (cases "addrs f")
    case Nil
    then show ?thesis using selected_futures(2) [OF assms, of ?futs] by (simp add: select_ok_def)
  next
    case (Cons a as)
    then have "?run \<noteq> []" unfolding selected_futures(2) [OF assms] by simp
    then have "first_ok ?run w \<noteq> Panic"
    proof (rule first_ok_no_panic)
      fix g s assume "g \<in> set ?run"
      then show "g s \<noteq> Panic" unfolding selected_futures(1) [OF assms] by (rule tcp_conns_no_panic)
    qed
    with Cons show ?thesis by (simp add: select_ok_def)
  qed
  then have "SimpleTcpHomeConnector_connect to_vec from_slice order tcp p signer w = Panic \<longleftrightarrow> addrs f = []"
    by (simp add: SimpleTcpHomeConnector_connect_def Home Let_def)
  with connect_Ok [OF assms Home, of to_vec from_slice tcp signer w] show ?thesis unfolding Home by simp
qed (auto simp: SimpleTcpHomeConnector_connect_def future_err_def)

definition sample_home_profile :: Profile where
  "sample_home_profile = Profile_new_home (ProfileId [7]) (PublicKey [7]) [IP4 [127, 0, 0, 1], TCP 80]"

definition sample_tcp :: "unit tcp" where
  "sample_tcp sa w = (if port sa = 80 then Inr \<lparr>nodelay_result = Inr (), stream_write_fails = None,
     stream_input = [2, 0, 0, 0, 7, 7, 99]\<rparr> else Inl (), w)"

theorem connect_spec_witness:
  "SimpleTcpHomeConnector_connect sample_json sample_parse (\<lambda>n. [0..<n]) sample_tcp sample_home_profile (sample_peer 1) () \<noteq> Panic"
proof -
  have "completes_all (\<lambda>n. [0..<n])" by (simp add: completes_all_def)
  from connect_spec [OF this, where p = sample_home_profile and to_vec = sample_json
      and from_slice = sample_parse and tcp = sample_tcp and signer = "sample_peer 1" and w = "()"]
  show ?thesis by (simp add: sample_home_profile_def Profile_new_home_def)
qed

end
