(* ===== verification/My_Profile.thy ===== *)
theory My_Profile
  imports Connect_Net
begin

text \<open>
  The client's own profile (\<^verbatim>\<open>connect/src/profile.rs\<close>): connecting to and logging in to
  homes, joining and leaving them, relations, calls, and the session that distributes the events of
  a home to its listeners.

  The traits \<^verbatim>\<open>Home\<close> and \<^verbatim>\<open>HomeSession\<close> are a record of operations on the state
  \<open>'w\<close> of everything outside the client, with handles \<open>'h\<close> for homes, \<open>'s\<close> for sessions and
  \<open>'c\<close> for streams.  The objects of the client live in heaps and are named by their address;
  \<^verbatim>\<open>Weak::upgrade\<close> succeeds while the address is live.  Spawned futures are tasks that
  \<open>client_poll\<close> runs one step at a time.
\<close>

section \<open>State\<close>

datatype 'a poll = NotReady | Finished | Item 'a

record ('h, 's, 'c, 'w) HomeOps =
  home_register :: "'h \<Rightarrow> OwnProfile \<Rightarrow> RelationHalfProof \<Rightarrow> HomeInvitation option \<Rightarrow> 'w
     \<Rightarrow> ((OwnProfile, OwnProfile \<times> ErrorKind) result \<times> 'w) run"
  home_login :: "'h \<Rightarrow> RelationProof \<Rightarrow> 'w \<Rightarrow> ('s, ErrorKind) result \<times> 'w"
  home_pair_request :: "'h \<Rightarrow> RelationHalfProof \<Rightarrow> 'w \<Rightarrow> (unit, ErrorKind) result \<times> 'w"
  home_pair_response :: "'h \<Rightarrow> RelationProof \<Rightarrow> 'w \<Rightarrow> (unit, ErrorKind) result \<times> 'w"
  home_call :: "'h \<Rightarrow> ApplicationId \<Rightarrow> CallRequestDetails \<Rightarrow> 'w \<Rightarrow> (AppMsgSink option, ErrorKind) result \<times> 'w"
  session_unregister :: "'s \<Rightarrow> Profile option \<Rightarrow> 'w \<Rightarrow> ((unit, ErrorKind) result \<times> 'w) run"
  session_events :: "'s \<Rightarrow> 'w \<Rightarrow> 'c \<times> 'w"
  session_checkin_app :: "'s \<Rightarrow> ApplicationId \<Rightarrow> 'w \<Rightarrow> 'c \<times> 'w"
  next_event :: "'c \<Rightarrow> 'w \<Rightarrow> (ProfileEvent, string) result poll \<times> 'w"

record MyProfileImpl =
  own_profile :: OwnProfile
  mp_signer :: Signer
  session_cache :: "(ProfileId \<times> nat) list"
  relations :: "RelationProof list"

record 's MyHomeSessionImpl =
  session :: 's
  event_listeners :: "channel_id list"

text \<open>The channel of one listener: \<^verbatim>\<open>EventSink\<close> is its name, \<^verbatim>\<open>EventStream\<close> its queue.\<close>

record listener =
  pending_events :: "ProfileEvent list"
  listener_closed :: bool

datatype 'c client_task =
    ForwardEvents nat 'c
  | Forwarding nat 'c ProfileEvent "channel_id list"
  | HandleEvents nat channel_id

record ('r, 's, 'c, 'w) Client =
  repo :: 'r
  my_profiles :: "nat \<rightharpoonup> MyProfileImpl"
  my_sessions :: "nat \<rightharpoonup> 's MyHomeSessionImpl"
  listeners :: "channel_id \<rightharpoonup> listener"
  client_tasks :: "'c client_task list"
  remote :: 'w
  client_next :: nat

text \<open>What the client is built with: the encoding, its profile store, the home interface, the
  connector, and the two things the runtime decides (in which order concurrent futures complete, and
  in which order a hash map yields its entries).\<close>

record ('r, 'h, 's, 'c, 'w) ClientEnv =
  client_ser :: bincode
  repo_ops :: "('r, ProfileId, Profile) KeyValueStore"
  home_ops :: "('h, 's, 'c, 'w) HomeOps"
  home_connector :: "Profile \<Rightarrow> Signer \<Rightarrow> ('w, 'h) async"
  select_order :: "nat \<Rightarrow> nat list"
  iter_order :: "(ProfileId \<times> nat) list \<Rightarrow> (ProfileId \<times> nat) list"

definition MyProfileImpl_new :: "OwnProfile \<Rightarrow> Signer \<Rightarrow> MyProfileImpl" where
  "MyProfileImpl_new own signer =
     \<lparr>own_profile = own, mp_signer = signer, session_cache = [], relations = []\<rparr>"

text \<open>\<^verbatim>\<open>Rc::new(MyProfileImpl::new(..))\<close>.\<close>

definition alloc_profile :: "OwnProfile \<Rightarrow> Signer \<Rightarrow> ('r, 's, 'c, 'w) Client \<Rightarrow> nat \<times> ('r, 's, 'c, 'w) Client" where
  "alloc_profile own signer st = (client_next st,
     st\<lparr>my_profiles := (my_profiles st)(client_next st \<mapsto> MyProfileImpl_new own signer), client_next := client_next st + 1\<rparr>)"

section \<open>Reading and writing the heap\<close>

text \<open>A method runs on a live object.\<close>

definition with_self :: "nat \<Rightarrow> (MyProfileImpl \<Rightarrow> (('r, 's, 'c, 'w) Client, 'a) async) \<Rightarrow> (('r, 's, 'c, 'w) Client, 'a) async" where
  "with_self this f st = (case my_profiles st this of Some self \<Rightarrow> f self st | None \<Rightarrow> Panic)"

definition with_session :: "nat \<Rightarrow> ('s MyHomeSessionImpl \<Rightarrow> (('r, 's, 'c, 'w) Client, 'a) async) \<Rightarrow> (('r, 's, 'c, 'w) Client, 'a) async" where
  "with_session sid f st = (case my_sessions st sid of Some s \<Rightarrow> f s st | None \<Rightarrow> Panic)"

definition update_self :: "nat \<Rightarrow> (MyProfileImpl \<Rightarrow> MyProfileImpl) \<Rightarrow> ('r, 's, 'c, 'w) Client \<Rightarrow> ('r, 's, 'c, 'w) Client" where
  "update_self this f st = st\<lparr>my_profiles := (my_profiles st)(this := map_option f (my_profiles st this))\<rparr>"

definition update_session :: "nat \<Rightarrow> ('s MyHomeSessionImpl \<Rightarrow> 's MyHomeSessionImpl) \<Rightarrow> ('r, 's, 'c, 'w) Client \<Rightarrow> ('r, 's, 'c, 'w) Client" where
  "update_session sid f st = st\<lparr>my_sessions := (my_sessions st)(sid := map_option f (my_sessions st sid))\<rparr>"

text \<open>A call to the outside, its error replaced by \<open>e\<close>.  Sending a profile may panic.\<close>

definition remote_run :: "ConnectErrorKind \<Rightarrow> ('w \<Rightarrow> (('a, 'e) result \<times> 'w) run) \<Rightarrow> (('r, 's, 'c, 'w) Client, 'a) async" where
  "remote_run e f st = run_bind (f (remote st)) (\<lambda>(r, w). Return (map_err (\<lambda>_. e) r, st\<lparr>remote := w\<rparr>))"

definition remote_op :: "ConnectErrorKind \<Rightarrow> ('w \<Rightarrow> ('a, 'e) result \<times> 'w) \<Rightarrow> (('r, 's, 'c, 'w) Client, 'a) async" where
  "remote_op e f st = (case f (remote st) of (r, w) \<Rightarrow> Return (map_err (\<lambda>_. e) r, st\<lparr>remote := w\<rparr>))"

definition repo_load :: "('r, 'h, 's, 'c, 'w) ClientEnv \<Rightarrow> ConnectErrorKind \<Rightarrow> ProfileId \<Rightarrow> (('r, 's, 'c, 'w) Client, Profile) async" where
  "repo_load env e i st = Return (map_err (\<lambda>_. e) (SimpleProfileRepo_load (repo_ops env) (repo st) i), st)"

section \<open>Sessions and their listeners\<close>

definition add_listener :: "nat \<Rightarrow> channel_id \<Rightarrow> ('r, 's, 'c, 'w) Client \<Rightarrow> ('r, 's, 'c, 'w) Client" where
  "add_listener sid listener = update_session sid (\<lambda>s. s\<lparr>event_listeners := event_listeners s @ [listener]\<rparr>)"

definition MyHomeSession_events :: "nat \<Rightarrow> ('r, 's, 'c, 'w) Client \<Rightarrow> channel_id \<times> ('r, 's, 'c, 'w) Client" where
  "MyHomeSession_events sid st =
     (let l = client_next st;
          st1 = st\<lparr>listeners := (listeners st)(l \<mapsto> \<lparr>pending_events = [], listener_closed = False\<rparr>), client_next := l + 1\<rparr>
      in (l, add_listener sid l st1))"

definition MyHomeSessionImpl_new ::
  "('r, 'h, 's, 'c, 'w) ClientEnv \<Rightarrow> 's \<Rightarrow> ('r, 's, 'c, 'w) Client \<Rightarrow> nat \<times> ('r, 's, 'c, 'w) Client" where
  "MyHomeSessionImpl_new env s st =
     (let sid = client_next st;
          (stream, w) = session_events (home_ops env) s (remote st)
      in (sid, st\<lparr>my_sessions := (my_sessions st)(sid \<mapsto> \<lparr>session = s, event_listeners = []\<rparr>),
                client_next := sid + 1, remote := w, client_tasks := client_tasks st @ [ForwardEvents sid stream]\<rparr>))"

text \<open>\<^verbatim>\<open>forward_event\<close>: the event goes to every listener; the ones whose receiver is gone are
  dropped from the list.\<close>

fun send_events :: "channel_id list \<Rightarrow> ProfileEvent \<Rightarrow> (channel_id \<rightharpoonup> listener) \<Rightarrow> (channel_id, unit) result list \<times> (channel_id \<rightharpoonup> listener)" where
  "send_events [] event chans = ([], chans)"
| "send_events (l # ls) event chans =
     (case chans l of
        Some ch \<Rightarrow>
          if listener_closed ch then (case send_events ls event chans of (rs, chans) \<Rightarrow> (Err () # rs, chans))
          else (case send_events ls event (chans(l \<mapsto> ch\<lparr>pending_events := pending_events ch @ [event]\<rparr>)) of
                  (rs, chans) \<Rightarrow> (Ok l # rs, chans))
      | None \<Rightarrow> (case send_events ls event chans of (rs, chans) \<Rightarrow> (Err () # rs, chans)))"

definition forward_event :: "channel_id list \<Rightarrow> ProfileEvent \<Rightarrow> (channel_id \<rightharpoonup> listener) \<Rightarrow> channel_id list \<times> (channel_id \<rightharpoonup> listener)" where
  "forward_event ls event chans =
     (case send_events ls event chans of (send_results, chans) \<Rightarrow> (List.map_filter ok send_results, chans))"

text \<open>\<^verbatim>\<open>forward_event_safe\<close> in two steps: it takes the listeners out of the session and starts
  sending; when all sends are done it puts the successful ones back behind those added meanwhile.\<close>

definition forward_event_safe ::
  "nat \<Rightarrow> 'c \<Rightarrow> (ProfileEvent, string) result \<Rightarrow> ('r, 's, 'c, 'w) Client \<Rightarrow> 'c client_task list \<times> ('r, 's, 'c, 'w) Client" where
  "forward_event_safe sid stream event_res st =
     (case my_sessions st sid of
        None \<Rightarrow> ([], st)
      | Some s \<Rightarrow>
          (case event_res of
             Inr event \<Rightarrow> ([Forwarding sid stream event (event_listeners s)], update_session sid (\<lambda>s. s\<lparr>event_listeners := []\<rparr>) st)
           | Inl _ \<Rightarrow> ([], st)))"

definition forward_done ::
  "nat \<Rightarrow> 'c \<Rightarrow> ProfileEvent \<Rightarrow> channel_id list \<Rightarrow> ('r, 's, 'c, 'w) Client \<Rightarrow> 'c client_task list \<times> ('r, 's, 'c, 'w) Client" where
  "forward_done sid stream event ls st =
     (case forward_event ls event (listeners st) of (successful_listeners, chans) \<Rightarrow>
        ([ForwardEvents sid stream],
         update_session sid (\<lambda>s. s\<lparr>event_listeners := event_listeners s @ successful_listeners\<rparr>) (st\<lparr>listeners := chans\<rparr>)))"

section \<open>Relations\<close>

definition on_new_relation :: "nat \<Rightarrow> RelationProof \<Rightarrow> (('r, 's, 'c, 'w) Client, unit) async" where
  "on_new_relation this rel_proof st =
     (case my_profiles st this of
        Some _ \<Rightarrow> Return (Ok (), update_self this (\<lambda>self. self\<lparr>relations := relations self @ [rel_proof]\<rparr>) st)
      | None \<Rightarrow> Return (Err ImplementationError, st))"

definition start_event_handler :: "nat \<Rightarrow> nat \<Rightarrow> ('r, 's, 'c, 'w) Client \<Rightarrow> ('r, 's, 'c, 'w) Client" where
  "start_event_handler this sid st =
     (case MyHomeSession_events sid st of (events, st) \<Rightarrow>
        st\<lparr>client_tasks := client_tasks st @ [HandleEvents this events]\<rparr>)"

definition handle_event :: "nat \<Rightarrow> ProfileEvent \<Rightarrow> (('r, 's, 'c, 'w) Client, unit) async" where
  "handle_event this event =
     (case event of PairingResponse rel_proof \<Rightarrow> on_new_relation this rel_proof | _ \<Rightarrow> future_ok ())"

text \<open>What happens after a home accepted a login, in \<^verbatim>\<open>login_home\<close> and in
  \<^verbatim>\<open>login\<close>.\<close>

definition open_session ::
  "('r, 'h, 's, 'c, 'w) ClientEnv \<Rightarrow> nat \<Rightarrow> ProfileId \<Rightarrow> 's \<Rightarrow> (('r, 's, 'c, 'w) Client, nat) async" where
  "open_session env this home_id s st =
     (case MyHomeSessionImpl_new env s st of (my_session, st) \<Rightarrow>
        Return (Ok my_session, start_event_handler this my_session
          (update_self this (\<lambda>self. self\<lparr>session_cache := AList.update home_id my_session (session_cache self)\<rparr>) st)))"

section \<open>Connecting to homes\<close>

definition connect_home2 ::
  "('r, 'h, 's, 'c, 'w) ClientEnv \<Rightarrow> ProfileId \<Rightarrow> Signer \<Rightarrow> (('r, 's, 'c, 'w) Client, 'h) async" where
  "connect_home2 env home_profile_id signer =
     future_and_then (repo_load env FailedToLoadProfile home_profile_id) (\<lambda>home_profile st.
       run_bind (home_connector env home_profile signer (remote st)) (\<lambda>(r, w). Return (r, st\<lparr>remote := w\<rparr>)))"

definition connect_home :: "('r, 'h, 's, 'c, 'w) ClientEnv \<Rightarrow> nat \<Rightarrow> ProfileId \<Rightarrow> (('r, 's, 'c, 'w) Client, 'h) async" where
  "connect_home env this home_profile_id =
     with_self this (\<lambda>self. connect_home2 env home_profile_id (mp_signer self))"

text \<open>The future that tries one home of a profile.\<close>

definition home_conn_fut ::
  "('r, 'h, 's, 'c, 'w) ClientEnv \<Rightarrow> Profile \<Rightarrow> Signer \<Rightarrow> RelationProof \<Rightarrow> (('r, 's, 'c, 'w) Client, RelationProof \<times> 'h) async" where
  "home_conn_fut env prof signer home_proof =
     (case peer_id home_proof (profile_id prof) of
        Inr home_id \<Rightarrow> future_map (\<lambda>home. (home_proof, home)) (connect_home2 env home_id signer)
      | Inl e \<Rightarrow> future_err FailedToGetPeerId)"

definition any_home_of2 ::
  "('r, 'h, 's, 'c, 'w) ClientEnv \<Rightarrow> Profile \<Rightarrow> Signer \<Rightarrow> (('r, 's, 'c, 'w) Client, RelationProof \<times> 'h) async" where
  "any_home_of2 env prof signer =
     (case facet prof of
        Persona persona \<Rightarrow>
          (let home_conn_futs = map (home_conn_fut env prof signer) (homes persona)
           in if length home_conn_futs = 0 then future_err NoHomesFound
              else select_ok (select_order env) home_conn_futs)
      | _ \<Rightarrow> future_err HomeProfileExpected)"

definition any_home_of :: "('r, 'h, 's, 'c, 'w) ClientEnv \<Rightarrow> nat \<Rightarrow> Profile \<Rightarrow> (('r, 's, 'c, 'w) Client, RelationProof \<times> 'h) async" where
  "any_home_of env this prof = with_self this (\<lambda>self. any_home_of2 env prof (mp_signer self))"

text \<open>The proof of my relation with a home, among the homes of my public profile.\<close>

definition find_home_proof :: "Profile \<Rightarrow> ProfileId \<Rightarrow> ProfileId \<Rightarrow> (RelationProof, ConnectErrorKind) result" where
  "find_home_proof prof my_profile_id home_id =
     (case facet prof of
        Persona persona \<Rightarrow>
          ok_or HomeProofNotFound (find (\<lambda>home_proof.
            is_ok (and_then (peer_id home_proof my_profile_id) (\<lambda>p.
              if p = home_id then Ok True else Err ErrorKind.PeerIdRetreivalFailed))) (homes persona))
      | _ \<Rightarrow> Err PersonaProfileExpected)"

definition login_home :: "('r, 'h, 's, 'c, 'w) ClientEnv \<Rightarrow> nat \<Rightarrow> ProfileId \<Rightarrow> (('r, 's, 'c, 'w) Client, nat) async" where
  "login_home env this home_profile_id = with_self this (\<lambda>self.
     case map_of (session_cache self) home_profile_id of
       Some session_rc \<Rightarrow> future_ok session_rc
     | None \<Rightarrow>
         (let my_profile_id = signer_profile_id (mp_signer self) in
          future_and_then (repo_load env FailedToLoadProfile my_profile_id) (\<lambda>prof.
          future_and_then (future_result (find_home_proof prof my_profile_id home_profile_id)) (\<lambda>home_proof.
          future_and_then (connect_home2 env home_profile_id (mp_signer self)) (\<lambda>home.
          future_and_then (remote_op LoginFailed (home_login (home_ops env) home home_proof))
            (open_session env this home_profile_id))))))"

section \<open>The MyProfile interface\<close>

definition MyProfile_relations :: "MyProfileImpl \<Rightarrow> RelationProof list" where
  "MyProfile_relations self = relations self"

definition relations_with_peer ::
  "MyProfileImpl \<Rightarrow> ProfileId \<Rightarrow> ApplicationId option \<Rightarrow> string option \<Rightarrow> RelationProof list" where
  "relations_with_peer self peer app_filter relation_type_filter =
     filter (\<lambda>proof. case relation_type_filter of None \<Rightarrow> True | Some rel \<Rightarrow> relation_type proof = rel)
       (filter (\<lambda>proof. case app_filter of None \<Rightarrow> True | Some app_id \<Rightarrow> accessible_by proof app_id)
         (filter (\<lambda>proof. case peer_id proof (signer_profile_id (mp_signer self)) of
              Inr p_id \<Rightarrow> p_id = peer | Inl _ \<Rightarrow> False)
           (MyProfile_relations self)))"

definition MyProfile_homes :: "MyProfileImpl \<Rightarrow> (RelationProof list, ConnectErrorKind) result" where
  "MyProfile_homes self = (case facet (profile (own_profile self)) of
     Persona persona \<Rightarrow> Ok (homes persona) | _ \<Rightarrow> Err PersonaProfileExpected)"

definition join_home ::
  "('r, 'h, 's, 'c, 'w) ClientEnv \<Rightarrow> nat \<Rightarrow> ProfileId \<Rightarrow> HomeInvitation option \<Rightarrow> (('r, 's, 'c, 'w) Client, unit) async" where
  "join_home env this home_id invite = with_self this (\<lambda>self.
     let half_proof = RelationHalfProof_new (client_ser env) RELATION_TYPE_HOSTED_ON_HOME home_id (mp_signer self) in
     future_and_then (connect_home env this home_id) (\<lambda>home.
     future_and_then (remote_run RegistrationFailed (home_register (home_ops env) home (own_profile self) half_proof invite))
       (\<lambda>own st. Return (Ok (),
          (update_self this (\<lambda>self. self\<lparr>own_profile := own\<rparr>) st)
            \<lparr>repo := snd (SimpleProfileRepo_insert (repo_ops env) (profile own) (repo st))\<rparr>))))"

definition leave_home ::
  "('r, 'h, 's, 'c, 'w) ClientEnv \<Rightarrow> nat \<Rightarrow> ProfileId \<Rightarrow> Profile option \<Rightarrow> (('r, 's, 'c, 'w) Client, unit) async" where
  "leave_home env this home_id newhome =
     future_and_then (future_map_err LoginFailed (login_home env this home_id)) (\<lambda>my_session.
       with_session my_session (\<lambda>s. remote_run DeregistrationFailed (session_unregister (home_ops env) (session s) newhome)))"

definition initiate_relation ::
  "('r, 'h, 's, 'c, 'w) ClientEnv \<Rightarrow> nat \<Rightarrow> string \<Rightarrow> ProfileId \<Rightarrow> (('r, 's, 'c, 'w) Client, unit) async" where
  "initiate_relation env this rel_type with_profile_id = with_self this (\<lambda>self.
     future_and_then (repo_load env FailedToLoadProfile with_profile_id) (\<lambda>prof.
       let half_proof = RelationHalfProof_new (client_ser env) rel_type (profile_id prof) (mp_signer self) in
       future_and_then (any_home_of2 env prof (mp_signer self)) (\<lambda>(home_proof, home).
         remote_op PairRequestFailed (home_pair_request (home_ops env) home half_proof))))"

definition accept_relation ::
  "('r, 'h, 's, 'c, 'w) ClientEnv \<Rightarrow> nat \<Rightarrow> RelationHalfProof \<Rightarrow> (('r, 's, 'c, 'w) Client, RelationProof) async" where
  "accept_relation env this half_proof = with_self this (\<lambda>self.
     if hp_peer_id half_proof \<noteq> profile_id (profile (own_profile self)) then future_err LookupFailed
     else (case sign_remaining_half (client_ser env) half_proof (mp_signer self) of
         Inl _ \<Rightarrow> future_err FailedToAuthorize
       | Inr proof \<Rightarrow>
           future_and_then (repo_load env FailedToLoadProfile (hp_signer_id half_proof)) (\<lambda>prof.
           future_and_then (any_home_of2 env prof (mp_signer self)) (\<lambda>(home_proof, home).
           future_and_then (remote_op PeerResponseFailed (home_pair_response (home_ops env) home proof)) (\<lambda>_.
           future_map (\<lambda>_. proof) (on_new_relation this proof))))))"

definition MyProfile_call ::
  "('r, 'h, 's, 'c, 'w) ClientEnv \<Rightarrow> nat \<Rightarrow> RelationProof \<Rightarrow> ApplicationId \<Rightarrow> AppMessageFrame \<Rightarrow> AppMsgSink option
     \<Rightarrow> (('r, 's, 'c, 'w) Client, AppMsgSink option) async" where
  "MyProfile_call env this proof app payload sink = with_self this (\<lambda>self.
     case peer_id proof (signer_profile_id (mp_signer self)) of
       Inl _ \<Rightarrow> future_err LookupFailed
     | Inr peer \<Rightarrow>
         future_and_then (repo_load env FailedToLoadProfile peer) (\<lambda>prof.
         future_and_then (any_home_of2 env prof (mp_signer self)) (\<lambda>(home_proof, home).
           remote_op CallFailed (home_call (home_ops env) home app
             \<lparr>relation = proof, init_payload = payload, to_caller = sink\<rparr>))))"

definition MyProfile_login :: "('r, 'h, 's, 'c, 'w) ClientEnv \<Rightarrow> nat \<Rightarrow> (('r, 's, 'c, 'w) Client, nat) async" where
  "MyProfile_login env this = with_self this (\<lambda>self.
     case iter_order env (session_cache self) of
       (_, session_rc) # _ \<Rightarrow> future_ok session_rc
     | [] \<Rightarrow>
         (let my_profile_id = signer_profile_id (mp_signer self) in
          future_and_then (repo_load env LoginFailed my_profile_id) (\<lambda>prof.
          future_and_then (any_home_of2 env prof (mp_signer self)) (\<lambda>(home_proof, home).
            case peer_id home_proof my_profile_id of
              Inl _ \<Rightarrow> future_err FailedToAuthorize
            | Inr home_id \<Rightarrow>
                future_and_then (remote_op LoginFailed (home_login (home_ops env) home home_proof))
                  (open_session env this home_id)))))"

section \<open>The reactor\<close>

text \<open>One step of a spawned future.\<close>

fun run_client_task ::
  "('r, 'h, 's, 'c, 'w) ClientEnv \<Rightarrow> 'c client_task \<Rightarrow> ('r, 's, 'c, 'w) Client \<Rightarrow> 'c client_task list \<times> ('r, 's, 'c, 'w) Client" where
  "run_client_task env (ForwardEvents sid stream) st =
     (case next_event (home_ops env) stream (remote st) of
        (NotReady, w) \<Rightarrow> ([ForwardEvents sid stream], st\<lparr>remote := w\<rparr>)
      | (Finished, w) \<Rightarrow> ([], st\<lparr>remote := w\<rparr>)
      | (Item event_res, w) \<Rightarrow> forward_event_safe sid stream event_res (st\<lparr>remote := w\<rparr>))"
| "run_client_task env (Forwarding sid stream event ls) st = forward_done sid stream event ls st"
| "run_client_task env (HandleEvents this events) st =
     (case listeners st events of
        None \<Rightarrow> ([], st)
      | Some ch \<Rightarrow>
          (case pending_events ch of
             [] \<Rightarrow> ([HandleEvents this events], st)
           | event # rest \<Rightarrow>
               (case handle_event this event (st\<lparr>listeners := (listeners st)(events \<mapsto> ch\<lparr>pending_events := rest\<rparr>)\<rparr>) of
                  Return (Inr _, st) \<Rightarrow> ([HandleEvents this events], st)
                | Return (Inl _, st) \<Rightarrow> ([], st\<lparr>listeners := (listeners st)(events \<mapsto> ch\<lparr>pending_events := [], listener_closed := True\<rparr>)\<rparr>)
                | Panic \<Rightarrow> ([], st))))"

definition client_poll :: "('r, 'h, 's, 'c, 'w) ClientEnv \<Rightarrow> nat \<Rightarrow> ('r, 's, 'c, 'w) Client \<Rightarrow> ('r, 's, 'c, 'w) Client" where
  "client_poll env i st =
     (if i < length (client_tasks st) then
        (case run_client_task env (client_tasks st ! i) st of (rest, st1) \<Rightarrow>
           st1\<lparr>client_tasks := take i (client_tasks st) @ rest @ drop (Suc i) (client_tasks st)\<rparr>)
      else st)"

end
