(* ===== verification/My_Profile_Properties.thy ===== *)
theory My_Profile_Properties
  imports My_Profile
begin

text \<open>
  What the client's profile operations guarantee: which home is contacted, that sessions are cached,
  how relations come to be stored, and that no listener of a session is lost.
\<close>

section \<open>What operations leave alone\<close>

text \<open>Contacting homes changes nothing of the client but its view of the outside.\<close>

definition only_remote :: "('r, 's, 'c, 'w) Client \<Rightarrow> ('r, 's, 'c, 'w) Client \<Rightarrow> bool" where
  "only_remote st st' \<longleftrightarrow> (\<exists>w. st' = st\<lparr>remote := w\<rparr>)"

lemma only_remoteD:
  assumes "only_remote st st'"
  shows "repo st' = repo st" "my_profiles st' = my_profiles st" "my_sessions st' = my_sessions st"
    "listeners st' = listeners st" "client_tasks st' = client_tasks st" "client_next st' = client_next st"
  using assms by (auto simp: only_remote_def)

lemma only_remote_refl [simp]: "only_remote st st"
  unfolding only_remote_def by (rule exI [of _ "remote st"]) simp

lemma only_remote_trans [trans]: "only_remote a b \<Longrightarrow> only_remote b c \<Longrightarrow> only_remote a c"
  by (auto simp: only_remote_def)

lemma repo_load_Return [simp]:
  "repo_load env e i st = Return (r, st') \<longleftrightarrow> map_err (\<lambda>_. e) (SimpleProfileRepo_load (repo_ops env) (repo st) i) = r \<and> st' = st"
  by (auto simp: repo_load_def)

lemma repo_load_no_panic [simp]: "repo_load env e i st \<noteq> Panic"
  by (simp add: repo_load_def)

lemma remote_op_Return:
  "remote_op e f st = Return (r, st') \<longleftrightarrow>
     map_err (\<lambda>_. e) (fst (f (remote st))) = r \<and> st' = st\<lparr>remote := snd (f (remote st))\<rparr>"
  by (auto simp: remote_op_def split: prod.splits)

lemma remote_op_no_panic [simp]: "remote_op e f st \<noteq> Panic"
  by (simp add: remote_op_def split: prod.splits)

lemma remote_op_only_remote: "remote_op e f st = Return (r, st') \<Longrightarrow> only_remote st st'"
  by (auto simp: remote_op_Return only_remote_def)

lemma remote_run_Return:
  "remote_run e f st = Return (r, st') \<longleftrightarrow> (\<exists>q w. f (remote st) = Return (q, w) \<and> map_err (\<lambda>_. e) q = r \<and> st' = st\<lparr>remote := w\<rparr>)"
  by (cases "f (remote st)") (auto simp: remote_run_def)

lemma remote_run_only_remote: "remote_run e f st = Return (r, st') \<Longrightarrow> only_remote st st'"
  by (auto simp: remote_run_Return only_remote_def)

lemma with_self_live [simp]: "my_profiles st this = Some self \<Longrightarrow> with_self this f st = f self st"
  by (simp add: with_self_def)

lemma connect_home2_Return:
  "connect_home2 env i sg st = Return (r, st') \<longleftrightarrow>
     (case SimpleProfileRepo_load (repo_ops env) (repo st) i of
        Inl _ \<Rightarrow> r = Inl FailedToLoadProfile \<and> st' = st
      | Inr hp \<Rightarrow> \<exists>w. home_connector env hp sg (remote st) = Return (r, w) \<and> st' = st\<lparr>remote := w\<rparr>)"
  by (cases "SimpleProfileRepo_load (repo_ops env) (repo st) i")
    (auto simp: connect_home2_def future_and_then_def repo_load_def)

lemma connect_home2_only_remote: "connect_home2 env i sg st = Return (r, st') \<Longrightarrow> only_remote st st'"
  by (auto simp: connect_home2_Return only_remote_def split: sum.splits)
    (metis Client.surjective Client.update_convs(6))

lemma connect_home2_no_panic:
  "(\<And>p s w. home_connector env p s w \<noteq> Panic) \<Longrightarrow> connect_home2 env i sg st \<noteq> Panic"
  by (auto simp: connect_home2_def)

section \<open>Finding a home\<close>

lemma home_conn_fut_only_remote:
  assumes "home_conn_fut env prof sg hp s = Return (q, t)"
  shows "only_remote s t"
proof (cases "peer_id hp (profile_id prof)")
  case (Inl e)
  with assms show ?thesis by (simp add: home_conn_fut_def)
next
  case (Inr i)
  with assms obtain x where "connect_home2 env i sg s = Return (x, t)"
    by (cases q) (auto simp: home_conn_fut_def)
  then show ?thesis by (rule connect_home2_only_remote)
qed

lemma home_conn_fut_Ok:
  "home_conn_fut env prof sg hp s = Return (Inr x, t) \<longleftrightarrow>
     (\<exists>i home. peer_id hp (profile_id prof) = Inr i \<and> x = (hp, home) \<and> connect_home2 env i sg s = Return (Inr home, t))"
  by (cases "peer_id hp (profile_id prof)") (auto simp: home_conn_fut_def)

lemma home_conn_fut_no_panic:
  "(\<And>p s w. home_connector env p s w \<noteq> Panic) \<Longrightarrow> home_conn_fut env prof sg hp st \<noteq> Panic"
  by (cases "peer_id hp (profile_id prof)") (auto simp: home_conn_fut_def connect_home2_no_panic)

lemma any_home_of2_cases:
  "any_home_of2 env prof sg st = (case facet prof of
     Persona persona \<Rightarrow> if homes persona = [] then Return (Inl NoHomesFound, st)
       else select_ok (select_order env) (map (home_conn_fut env prof sg) (homes persona)) st
   | _ \<Rightarrow> Return (Inl HomeProfileExpected, st))"
  by (auto simp: any_home_of2_def future_err_def Let_def split: ProfileFacet.splits)

lemma any_home_of2_from:
  assumes "completes_all (select_order env)" and "facet prof = Persona persona" and "homes persona \<noteq> []"
    and "any_home_of2 env prof sg st = Return (r, st')"
  shows "\<exists>hp \<in> set (homes persona). \<exists>s. only_remote st s \<and> home_conn_fut env prof sg hp s = Return (r, st')"
proof -
  let ?futs = "map (home_conn_fut env prof sg) (homes persona)"
  let ?fs = "map (\<lambda>i. ?futs ! i) (select_order env (length ?futs))"
  have set: "set ?fs = set ?futs" by (rule selected_futures(1) [OF assms(1)])
  have run: "first_ok ?fs st = Return (r, st')"
    using assms(2-4) by (simp add: any_home_of2_cases select_ok_def)
  have "\<exists>f \<in> set ?fs. \<exists>s. only_remote st s \<and> f s = Return (r, st')"
  proof (rule first_ok_from [OF run, of "only_remote st"])
    fix f s t q assume "f \<in> set ?fs" and s: "only_remote st s" and f: "f s = Return (q, t)"
    then obtain hp where "f = home_conn_fut env prof sg hp" unfolding set by auto
    with f have "only_remote s t" by (simp add: home_conn_fut_only_remote)
    with s show "only_remote st t" by (rule only_remote_trans)
  qed simp
  then show ?thesis unfolding set by auto
qed

lemma any_home_of2_only_remote:
  assumes "completes_all (select_order env)" and "any_home_of2 env prof sg st = Return (r, st')"
  shows "only_remote st st'"
proof (cases "\<exists>persona. facet prof = Persona persona \<and> homes persona \<noteq> []")
  case True
  then obtain persona where "facet prof = Persona persona" "homes persona \<noteq> []" by blast
  from any_home_of2_from [OF assms(1) this assms(2)] show ?thesis
    by (meson home_conn_fut_only_remote only_remote_trans)
next
  case False
  with assms(2) have "st' = st" by (auto simp: any_home_of2_cases split: ProfileFacet.splits)
  then show ?thesis by simp
qed

lemma any_home_of2_Ok:
  assumes "completes_all (select_order env)" and ok: "any_home_of2 env prof sg st = Return (Inr (proof, home), st')"
  shows "\<exists>persona home_id home_profile w. facet prof = Persona persona \<and> proof \<in> set (homes persona)
    \<and> peer_id proof (profile_id prof) = Inr home_id
    \<and> SimpleProfileRepo_load (repo_ops env) (repo st) home_id = Inr home_profile
    \<and> home_connector env home_profile sg w = Return (Inr home, remote st')"
proof -
  obtain persona where persona: "facet prof = Persona persona" "homes persona \<noteq> []"
    using ok by (cases "facet prof") (auto simp: any_home_of2_cases split: if_splits)
  from any_home_of2_from [OF assms(1) persona ok] obtain hp s where hp: "hp \<in> set (homes persona)"
    and s: "only_remote st s" and "home_conn_fut env prof sg hp s = Return (Inr (proof, home), st')" by blast
  then obtain i where i: "peer_id proof (profile_id prof) = Inr i" "hp = proof"
    and c: "connect_home2 env i sg s = Return (Inr home, st')" unfolding home_conn_fut_Ok by blast
  from c obtain p w where "SimpleProfileRepo_load (repo_ops env) (repo s) i = Inr p"
    "home_connector env p sg (remote s) = Return (Inr home, w)" "st' = s\<lparr>remote := w\<rparr>"
    by (auto simp: connect_home2_Return split: sum.splits)
  with only_remoteD(1) [OF s] persona(1) hp i show ?thesis by auto
qed

lemma any_home_of2_no_panic:
  assumes "completes_all (select_order env)" and "\<And>p s w. home_connector env p s w \<noteq> Panic"
  shows "any_home_of2 env prof sg st \<noteq> Panic"
proof (cases "\<exists>persona. facet prof = Persona persona \<and> homes persona \<noteq> []")
  case True
  then obtain persona where persona: "facet prof = Persona persona" "homes persona \<noteq> []" by blast
  let ?futs = "map (home_conn_fut env prof sg) (homes persona)"
  have "first_ok (map (\<lambda>i. ?futs ! i) (select_order env (length ?futs))) st \<noteq> Panic"
  proof (rule first_ok_no_panic)
    show "map (\<lambda>i. ?futs ! i) (select_order env (length ?futs)) \<noteq> []"
      unfolding selected_futures(2) [OF assms(1)] using persona(2) by simp
    fix f s assume "f \<in> set (map (\<lambda>i. ?futs ! i) (select_order env (length ?futs)))"
    then obtain hp where "f = home_conn_fut env prof sg hp" unfolding selected_futures(1) [OF assms(1)] by auto
    then show "f s \<noteq> Panic" by (simp add: home_conn_fut_no_panic [OF assms(2)])
  qed
  with persona show ?thesis by (simp add: any_home_of2_cases select_ok_def)
next
  case False
  then show ?thesis by (auto simp: any_home_of2_cases split: ProfileFacet.splits)
qed

section \<open>Sessions\<close>

lemma open_session_Return:
  assumes "session_events (home_ops env) s (remote st) = (stream, w)"
  shows "open_session env this home_id s st = Return (Inr (client_next st),
    st\<lparr>my_profiles := (my_profiles st)(this := map_option (\<lambda>self. self\<lparr>session_cache :=
           AList.update home_id (client_next st) (session_cache self)\<rparr>) (my_profiles st this)),
       my_sessions := (my_sessions st)(client_next st \<mapsto> \<lparr>session = s, event_listeners = [client_next st + 1]\<rparr>),
       listeners := (listeners st)(client_next st + 1 \<mapsto> \<lparr>pending_events = [], listener_closed = False\<rparr>),
       client_tasks := client_tasks st @ [ForwardEvents (client_next st) stream, HandleEvents this (client_next st + 1)],
       remote := w, client_next := client_next st + 2\<rparr>)"
  using assms by (simp add: open_session_def MyHomeSessionImpl_new_def start_event_handler_def
      MyHomeSession_events_def add_listener_def update_session_def update_self_def Let_def)

lemma open_session_no_panic [simp]: "open_session env this home_id s st \<noteq> Panic"
  by (cases "session_events (home_ops env) s (remote st)") (simp add: open_session_Return)

lemma login_home_cases:
  assumes "my_profiles st this = Some self" and "login_home env this home_id st = Return (r, st')"
  obtains (cached) sid where "map_of (session_cache self) home_id = Some sid" "r = Inr sid" "st' = st"
  | (opened) s st1 where "map_of (session_cache self) home_id = None" "only_remote st st1"
      "open_session env this home_id s st1 = Return (r, st')"
  | (failed) e where "r = Inl e" "only_remote st st'"
proof (cases "map_of (session_cache self) home_id")
  case (Some sid)
  with assms cached show ?thesis by (simp add: login_home_def)
next
  case None
  show ?thesis
  proof (cases r)
    case (Inr sid)
    with None assms obtain st1 st2 s home home_proof where c: "connect_home2 env home_id (mp_signer self) st = Return (Inr home, st1)"
      "remote_op LoginFailed (home_login (home_ops env) home home_proof) st1 = Return (Inr s, st2)"
      "open_session env this home_id s st2 = Return (r, st')"
      by (auto simp: login_home_def Let_def)
    then have "only_remote st st2" by (meson connect_home2_only_remote remote_op_only_remote only_remote_trans)
    with None c(3) opened show ?thesis by blast
  next
    case (Inl e)
    have no: "open_session env this home_id s st2 \<noteq> Return (Inl d, st3)" for s st2 d st3
      by (cases "session_events (home_ops env) s (remote st2)") (simp add: open_session_Return)
    have "only_remote st st'"
      using None assms Inl no
      by (auto simp: login_home_def Let_def dest!: connect_home2_only_remote remote_op_only_remote intro: only_remote_trans)
    with Inl failed show ?thesis by blast
  qed
qed

lemma MyProfile_login_cases:
  assumes "completes_all (select_order env)" and "my_profiles st this = Some self"
    and "MyProfile_login env this st = Return (r, st')"
  obtains (cached) h sid rest where "iter_order env (session_cache self) = (h, sid) # rest" "r = Inr sid" "st' = st"
  | (opened) home_id s st1 where "iter_order env (session_cache self) = []" "only_remote st st1"
      "open_session env this home_id s st1 = Return (r, st')"
  | (failed) e where "r = Inl e" "only_remote st st'"
proof (cases "iter_order env (session_cache self)")
  case (Cons p rest)
  with assms cached show ?thesis by (cases p) (simp add: MyProfile_login_def)
next
  case Nil
  note [dest] = any_home_of2_only_remote [OF assms(1)] remote_op_only_remote
  show ?thesis
  proof (cases r)
    case (Inr sid)
    with Nil assms(2,3) obtain prof hp home st1 where a: "any_home_of2 env prof (mp_signer self) st = Return (Inr (hp, home), st1)"
      and rest: "(case peer_id hp (signer_profile_id (mp_signer self)) of
              Inl _ \<Rightarrow> future_err FailedToAuthorize
            | Inr home_id \<Rightarrow> future_and_then (remote_op LoginFailed (home_login (home_ops env) home hp))
                  (open_session env this home_id)) st1 = Return (Inr sid, st')"
      by (auto simp: MyProfile_login_def Let_def)
    from rest obtain home_id s st2 where "remote_op LoginFailed (home_login (home_ops env) home hp) st1 = Return (Inr s, st2)"
      and op: "open_session env this home_id s st2 = Return (r, st')"
      using Inr by (cases "peer_id hp (signer_profile_id (mp_signer self))") auto
    with a have "only_remote st st2" by (meson any_home_of2_only_remote [OF assms(1)] remote_op_only_remote only_remote_trans)
    with Nil op opened show ?thesis by blast
  next
    case (Inl e)
    have no: "open_session env this home_id s st2 \<noteq> Return (Inl d, st3)" for home_id s st2 d st3
      by (cases "session_events (home_ops env) s (remote st2)") (simp add: open_session_Return)
    have "only_remote st st'"
      using Nil assms(2,3) Inl no
      by (auto simp: MyProfile_login_def Let_def split: sum.splits intro: only_remote_trans elim: neither_ok_nor_err)
    with Inl failed show ?thesis by blast
  qed
qed

end
