(* ===== verification/Client_Invariants.thy ===== *)
theory Client_Invariants
  imports My_Profile_Properties
begin

text \<open>
  The client as a state machine: \<open>client_step\<close> is one operation of a profile, one step of a
  spawned future, or a listener that comes or goes.  \<open>client_inv\<close> holds in every reachable state:
  sessions in a cache are live, every listener that is registered or being sent to exists and is
  registered once, and one future at a time forwards the events of a session.
\<close>

section \<open>Steps\<close>

text \<open>The receiving end of a listener is dropped.\<close>

definition close_listener :: "channel_id \<Rightarrow> ('r, 's, 'c, 'w) Client \<Rightarrow> ('r, 's, 'c, 'w) Client" where
  "close_listener l st = st\<lparr>listeners := (listeners st)(l := map_option (\<lambda>ch. ch\<lparr>listener_closed := True\<rparr>) (listeners st l))\<rparr>"

inductive client_step ::
  "('r, 'h, 's, 'c, 'w) ClientEnv \<Rightarrow> ('r, 's, 'c, 'w) Client \<Rightarrow> ('r, 's, 'c, 'w) Client \<Rightarrow> bool"
  for env where
  new_profile: "alloc_profile own signer st = (this, st') \<Longrightarrow> client_step env st st'"
| login_home: "login_home env this home_id st = Return (r, st') \<Longrightarrow> client_step env st st'"
| login: "MyProfile_login env this st = Return (r, st') \<Longrightarrow> client_step env st st'"
| join_home: "join_home env this home_id invite st = Return (r, st') \<Longrightarrow> client_step env st st'"
| leave_home: "leave_home env this home_id newhome st = Return (r, st') \<Longrightarrow> client_step env st st'"
| initiate: "initiate_relation env this rel_type with_id st = Return (r, st') \<Longrightarrow> client_step env st st'"
| accept: "accept_relation env this half st = Return (r, st') \<Longrightarrow> client_step env st st'"
| call: "MyProfile_call env this proof app payload sink st = Return (r, st') \<Longrightarrow> client_step env st st'"
| events: "my_sessions st sid = Some s \<Longrightarrow> MyHomeSession_events sid st = (l, st') \<Longrightarrow> client_step env st st'"
| close: "client_step env st (close_listener l st)"
| poll: "client_step env st (client_poll env i st)"

definition client_init :: "'r \<Rightarrow> 'w \<Rightarrow> ('r, 's, 'c, 'w) Client" where
  "client_init r w = \<lparr>repo = r, my_profiles = Map.empty, my_sessions = Map.empty, listeners = Map.empty,
     client_tasks = [], remote = w, client_next = 0\<rparr>"

inductive client_reachable :: "('r, 'h, 's, 'c, 'w) ClientEnv \<Rightarrow> ('r, 's, 'c, 'w) Client \<Rightarrow> bool" for env where
  init: "client_reachable env (client_init r w)"
| step: "client_reachable env st \<Longrightarrow> client_step env st st' \<Longrightarrow> client_reachable env st'"

section \<open>The invariant\<close>

fun forwarder :: "'c client_task \<Rightarrow> nat list" where
  "forwarder (ForwardEvents sid stream) = [sid]"
| "forwarder (Forwarding sid stream event ls) = [sid]"
| "forwarder (HandleEvents this l) = []"

fun task_ok :: "(nat \<rightharpoonup> 's MyHomeSessionImpl) \<Rightarrow> (channel_id \<rightharpoonup> listener) \<Rightarrow> 'c client_task \<Rightarrow> bool" where
  "task_ok ss chans (ForwardEvents sid stream) \<longleftrightarrow> sid \<in> dom ss"
| "task_ok ss chans (Forwarding sid stream event ls) \<longleftrightarrow>
     (\<exists>s. ss sid = Some s \<and> distinct (event_listeners s @ ls)) \<and> set ls \<subseteq> dom chans"
| "task_ok ss chans (HandleEvents this l) \<longleftrightarrow> l \<in> dom chans"

definition caches_ok :: "(nat \<rightharpoonup> MyProfileImpl) \<Rightarrow> (nat \<rightharpoonup> 's MyHomeSessionImpl) \<Rightarrow> bool" where
  "caches_ok ps ss \<longleftrightarrow> (\<forall>p self. ps p = Some self \<longrightarrow>
     snd ` set (session_cache self) \<subseteq> dom ss \<and> distinct (map fst (session_cache self)))"

definition sessions_ok :: "(nat \<rightharpoonup> 's MyHomeSessionImpl) \<Rightarrow> (channel_id \<rightharpoonup> listener) \<Rightarrow> bool" where
  "sessions_ok ss chans \<longleftrightarrow> (\<forall>sid s. ss sid = Some s \<longrightarrow>
     set (event_listeners s) \<subseteq> dom chans \<and> distinct (event_listeners s))"

definition tasks_ok :: "(nat \<rightharpoonup> 's MyHomeSessionImpl) \<Rightarrow> (channel_id \<rightharpoonup> listener) \<Rightarrow> 'c client_task list \<Rightarrow> bool" where
  "tasks_ok ss chans ts \<longleftrightarrow> (\<forall>t \<in> set ts. task_ok ss chans t) \<and> distinct (concat (map forwarder ts))"

definition client_inv :: "('r, 's, 'c, 'w) Client \<Rightarrow> bool" where
  "client_inv st \<longleftrightarrow> caches_ok (my_profiles st) (my_sessions st)
     \<and> sessions_ok (my_sessions st) (listeners st)
     \<and> tasks_ok (my_sessions st) (listeners st) (client_tasks st)
     \<and> dom (my_profiles st) \<union> dom (my_sessions st) \<union> dom (listeners st) \<subseteq> {..<client_next st}"

lemmas client_inv_defs = client_inv_def caches_ok_def sessions_ok_def tasks_ok_def

lemma client_invD:
  assumes "client_inv st"
  shows "caches_ok (my_profiles st) (my_sessions st)" "sessions_ok (my_sessions st) (listeners st)"
    "tasks_ok (my_sessions st) (listeners st) (client_tasks st)"
    "dom (my_profiles st) \<subseteq> {..<client_next st}" "dom (my_sessions st) \<subseteq> {..<client_next st}"
    "dom (listeners st) \<subseteq> {..<client_next st}"
  using assms by (auto simp: client_inv_def)

text \<open>The invariant looks neither at the repository and the outside nor at the profiles beyond
  their caches, nor at what is queued for a listener.\<close>

lemma task_ok_dom: "dom chans' = dom chans \<Longrightarrow> task_ok ss chans' = task_ok ss chans"
proof
  fix t assume "dom chans' = dom chans"
  then show "task_ok ss chans' t = task_ok ss chans t" by (cases t) simp_all
qed

lemma client_inv_cong:
  assumes "client_inv st" and "my_sessions st' = my_sessions st" and "dom (listeners st') = dom (listeners st)"
    and "client_tasks st' = client_tasks st" and "client_next st' = client_next st"
    and "\<And>p. map_option session_cache (my_profiles st' p) = map_option session_cache (my_profiles st p)"
  shows "client_inv st'"
proof -
  have "dom (my_profiles st') = dom (my_profiles st)"
  proof -
    have "(my_profiles st' p = None) = (my_profiles st p = None)" for p using assms(6) [of p] by (metis map_option_is_None)
    then show ?thesis by (auto simp: dom_def)
  qed
  moreover have "caches_ok (my_profiles st') (my_sessions st)"
    unfolding caches_ok_def
  proof (intro allI impI)
    fix p self assume "my_profiles st' p = Some self"
    with assms(6) [of p] obtain self0 where "my_profiles st p = Some self0" "session_cache self = session_cache self0"
      by (cases "my_profiles st p") auto
    with client_invD(1) [OF assms(1)] show "snd ` set (session_cache self) \<subseteq> dom (my_sessions st) \<and> distinct (map fst (session_cache self))"
      by (auto simp: caches_ok_def)
  qed
  ultimately show ?thesis
    using assms(1-5) by (simp add: client_inv_def sessions_ok_def tasks_ok_def task_ok_dom [OF assms(3)])
qed

lemma client_inv_only_remote: "client_inv st \<Longrightarrow> only_remote st st' \<Longrightarrow> client_inv st'"
  by (rule client_inv_cong) (simp_all add: only_remoteD)

lemma client_inv_init: "client_inv (client_init r w)"
  by (simp add: client_init_def client_inv_defs)

section \<open>Preservation\<close>

lemma task_ok_mono:
  assumes "task_ok ss chans t" and "dom chans \<subseteq> dom chans'"
    and "\<And>sid s. sid \<in> set (forwarder t) \<Longrightarrow> ss sid = Some s \<Longrightarrow> \<exists>s'. ss' sid = Some s' \<and>
      (distinct (event_listeners s') \<and> set (event_listeners s') \<subseteq> set (event_listeners s) \<union> (- dom chans))"
  shows "task_ok ss' chans' t"
  using assms
proof (cases t)
  case (Forwarding sid stream event ls)
  with assms(1) obtain s where s: "ss sid = Some s" "distinct (event_listeners s @ ls)" "set ls \<subseteq> dom chans" by auto
  from assms(3) [of sid s] Forwarding s(1) obtain s' where "ss' sid = Some s'" "distinct (event_listeners s')"
    "set (event_listeners s') \<subseteq> set (event_listeners s) \<union> (- dom chans)" by auto
  with s assms(2) Forwarding show ?thesis by (auto; blast)
qed (fastforce simp: dom_def)+

lemma task_ok_forwarder: "task_ok ss chans t \<Longrightarrow> x \<in> set (forwarder t) \<Longrightarrow> x \<in> dom ss"
  by (cases t) auto

lemma tasks_ok_mono:
  assumes "tasks_ok ss chans ts" and "dom chans \<subseteq> dom chans'"
    and "\<And>sid s. ss sid = Some s \<Longrightarrow> \<exists>s'. ss' sid = Some s' \<and>
      (distinct (event_listeners s') \<and> set (event_listeners s') \<subseteq> set (event_listeners s) \<union> (- dom chans))"
  shows "tasks_ok ss' chans' ts"
proof -
  have "task_ok ss' chans' t" if "t \<in> set ts" for t
  proof (rule task_ok_mono [OF _ assms(2)])
    show "task_ok ss chans t" using assms(1) that by (simp add: tasks_ok_def)
  qed (rule assms(3))
  then show ?thesis using assms(1) by (simp add: tasks_ok_def)
qed

lemma tasks_ok_replace:
  assumes "tasks_ok ss chans (xs @ t # ys)" and "concat (map forwarder rest) \<in> {forwarder t, []}"
    and "\<And>t'. t' \<in> set rest \<Longrightarrow> task_ok ss' chans' t'"
    and "\<And>t'. t' \<in> set (xs @ ys) \<Longrightarrow> task_ok ss chans t' \<Longrightarrow> set (forwarder t') \<inter> set (forwarder t) = {} \<Longrightarrow> task_ok ss' chans' t'"
  shows "tasks_ok ss' chans' (xs @ rest @ ys)"
proof -
  have d: "distinct (concat (map forwarder xs) @ forwarder t @ concat (map forwarder ys))"
    using assms(1) by (simp add: tasks_ok_def)
  have "task_ok ss' chans' t'" if t': "t' \<in> set (xs @ ys)" for t'
  proof (rule assms(4) [OF t'])
    show "task_ok ss chans t'" using assms(1) t' by (auto simp: tasks_ok_def)
    show "set (forwarder t') \<inter> set (forwarder t) = {}" using d t' by fastforce
  qed
  moreover have "distinct (concat (map forwarder (xs @ rest @ ys)))"
    using d assms(2) by (simp only: map_append concat_append insert_iff empty_iff) (elim disjE; simp only: append_Nil distinct_append set_append; blast)
  ultimately show ?thesis using assms(3) by (auto simp: tasks_ok_def)
qed

lemma caches_ok_mono: "caches_ok ps ss \<Longrightarrow> dom ss \<subseteq> dom ss' \<Longrightarrow> caches_ok ps ss'"
  unfolding caches_ok_def by (meson subset_trans)

lemma caches_ok_upd:
  "caches_ok ps ss \<Longrightarrow> snd ` set (session_cache self) \<subseteq> dom ss \<Longrightarrow> distinct (map fst (session_cache self))
     \<Longrightarrow> caches_ok (ps(p \<mapsto> self)) ss"
  by (simp add: caches_ok_def)

lemma inv_alloc_profile:
  assumes "client_inv st" and "alloc_profile own signer st = (this, st')"
  shows "client_inv st'"
proof -
  have st': "st' = st\<lparr>my_profiles := (my_profiles st)(client_next st \<mapsto> MyProfileImpl_new own signer), client_next := client_next st + 1\<rparr>"
    using assms(2) by (auto simp: alloc_profile_def)
  have "caches_ok ((my_profiles st)(client_next st \<mapsto> MyProfileImpl_new own signer)) (my_sessions st)"
    using client_invD(1) [OF assms(1)] by (rule caches_ok_upd) (simp_all add: MyProfileImpl_new_def)
  moreover have "dom (my_profiles st) \<union> dom (my_sessions st) \<union> dom (listeners st) \<subseteq> {..<client_next st + 1}"
    using client_invD(4-6) [OF assms(1)] by fastforce
  ultimately show ?thesis using client_invD(2,3) [OF assms(1)] unfolding client_inv_def st' by simp
qed

lemma inv_add_listener:
  assumes "client_inv st" and sid: "my_sessions st sid = Some s" and "MyHomeSession_events sid st = (l, st')"
  shows "client_inv st'"
proof -
  let ?l = "client_next st"
  have st': "st' = st\<lparr>listeners := (listeners st)(?l \<mapsto> \<lparr>pending_events = [], listener_closed = False\<rparr>), client_next := ?l + 1,
      my_sessions := (my_sessions st)(sid \<mapsto> s\<lparr>event_listeners := event_listeners s @ [?l]\<rparr>)\<rparr>"
    using assms(3) sid by (auto simp: MyHomeSession_events_def add_listener_def update_session_def Let_def)
  note inv = client_invD [OF assms(1)]
  have fresh: "?l \<notin> dom (listeners st)" using inv(6) by auto
  have s: "set (event_listeners s) \<subseteq> dom (listeners st)" "distinct (event_listeners s)"
    using inv(2) sid by (auto simp: sessions_ok_def)
  have 1: "caches_ok (my_profiles st') (my_sessions st')" unfolding st' by (auto intro: caches_ok_mono [OF inv(1)])
  have 2: "sessions_ok (my_sessions st') (listeners st')"
    using inv(2) s fresh unfolding sessions_ok_def st' by (auto 4 3)
  have 3: "tasks_ok (my_sessions st') (listeners st') (client_tasks st')"
  proof -
    have "tasks_ok ((my_sessions st)(sid \<mapsto> s\<lparr>event_listeners := event_listeners s @ [?l]\<rparr>)) (listeners st') (client_tasks st)"
    proof (rule tasks_ok_mono [OF inv(3)])
      fix k t assume k: "my_sessions st k = Some t"
      have "?l \<notin> set (event_listeners s)" using s(1) fresh by blast
      then show "\<exists>s'. ((my_sessions st)(sid \<mapsto> s\<lparr>event_listeners := event_listeners s @ [?l]\<rparr>)) k = Some s' \<and>
          distinct (event_listeners s') \<and> set (event_listeners s') \<subseteq> set (event_listeners t) \<union> - dom (listeners st)"
        using k s fresh sid inv(2) by (cases "k = sid") (auto simp: sessions_ok_def)
    qed (simp add: st' subset_insertI)
    then show ?thesis by (simp add: st')
  qed
  have 4: "dom (my_profiles st') \<union> dom (my_sessions st') \<union> dom (listeners st') \<subseteq> {..<client_next st'}"
    unfolding st' using inv(4-6) sid by auto
  from 1 2 3 4 show ?thesis unfolding client_inv_def by blast
qed

lemma dom_map_option_upd: "dom (m(k := map_option f (m k))) = dom m"
  by auto

lemma snd_update: "snd ` set (AList.update k v al) \<subseteq> insert v (snd ` set al)"
  by (induction al) auto

lemma inv_open_session:
  assumes "client_inv st" and "open_session env this home_id s st = Return (r, st')"
  shows "client_inv st'"
proof -
  let ?n = "client_next st"
  obtain stream w where ev: "session_events (home_ops env) s (remote st) = (stream, w)" by fastforce
  note st' = assms(2) [unfolded open_session_Return [OF ev]]
  note inv = client_invD [OF assms(1)]
  have fresh: "?n \<notin> dom (my_sessions st)" "?n + 1 \<notin> dom (listeners st)" using inv(5,6) by auto
  let ?ss = "(my_sessions st)(?n \<mapsto> \<lparr>session = s, event_listeners = [?n + 1]\<rparr>)"
  let ?chans = "(listeners st)(?n + 1 \<mapsto> \<lparr>pending_events = [], listener_closed = False\<rparr>)"
  have ok: "tasks_ok ?ss ?chans (client_tasks st)"
    using fresh inv(2) by (intro tasks_ok_mono [OF inv(3)]) (auto simp: sessions_ok_def)
  have "set (concat (map forwarder (client_tasks st))) \<subseteq> dom (my_sessions st)"
  proof
    fix x assume "x \<in> set (concat (map forwarder (client_tasks st)))"
    then show "x \<in> dom (my_sessions st)" using inv(3) task_ok_forwarder by (fastforce simp: tasks_ok_def)
  qed
  with ok fresh have 3: "tasks_ok ?ss ?chans (client_tasks st @ [ForwardEvents ?n stream, HandleEvents this (?n + 1)])"
    unfolding tasks_ok_def by auto
  have 2: "sessions_ok ?ss ?chans" using inv(2) by (auto simp: sessions_ok_def)
  have sub: "caches_ok (my_profiles st) ?ss" by (rule caches_ok_mono [OF inv(1)]) auto
  have 1: "caches_ok ((my_profiles st)(this := map_option (\<lambda>self. self\<lparr>session_cache :=
      AList.update home_id ?n (session_cache self)\<rparr>) (my_profiles st this))) ?ss"
  proof (cases "my_profiles st this")
    case (Some self)
    then have self: "snd ` set (session_cache self) \<subseteq> dom (my_sessions st)" "distinct (map fst (session_cache self))"
      using inv(1) by (auto simp: caches_ok_def)
    have "snd ` set (AList.update home_id ?n (session_cache self)) \<subseteq> dom ?ss"
      using snd_update [of home_id ?n "session_cache self"] self(1) by auto
    then have "caches_ok ((my_profiles st)(this \<mapsto> self\<lparr>session_cache := AList.update home_id ?n (session_cache self)\<rparr>)) ?ss"
      using self(2) by (intro caches_ok_upd [OF sub]) (simp_all add: distinct_update)
    then show ?thesis using Some by simp
  qed (use sub in \<open>simp add: caches_ok_def\<close>)
  have "dom (my_profiles st) \<union> dom ?ss \<union> dom ?chans \<subseteq> {..<?n + 2}"
    using inv(4-6) by fastforce
  with 1 2 3 st' show ?thesis
    unfolding client_inv_def by (clarsimp simp del: dom_fun_upd fun_upd_apply simp add: dom_map_option_upd)
qed

section \<open>Forwarding\<close>

definition is_open :: "(channel_id \<rightharpoonup> listener) \<Rightarrow> channel_id \<Rightarrow> bool" where
  "is_open chans l \<longleftrightarrow> (\<exists>ch. chans l = Some ch \<and> \<not> listener_closed ch)"

definition deliver :: "ProfileEvent \<Rightarrow> nat \<Rightarrow> listener \<Rightarrow> listener" where
  "deliver event n ch = (if listener_closed ch then ch else ch\<lparr>pending_events := pending_events ch @ replicate n event\<rparr>)"

lemma deliver_0 [simp]: "deliver event 0 ch = ch"
  by (simp add: deliver_def)

lemma deliver_closed [simp]: "listener_closed (deliver event n ch) = listener_closed ch"
  by (simp add: deliver_def)

lemma send_events_eq:
  "send_events ls event chans = (map (\<lambda>l. if is_open chans l then Inr l else Inl ()) ls,
     \<lambda>l. map_option (deliver event (count_list ls l)) (chans l))"
proof (induction ls arbitrary: chans)
  case Nil
  then show ?case by (simp add: option.map_ident)
next
  case (Cons l ls)
  show ?case
  proof (cases "is_open chans l")
    case True
    then obtain ch where ch: "chans l = Some ch" "\<not> listener_closed ch" by (auto simp: is_open_def)
    let ?chans = "chans(l \<mapsto> ch\<lparr>pending_events := pending_events ch @ [event]\<rparr>)"
    have open_eq: "is_open ?chans k = is_open chans k" for k using ch by (simp add: is_open_def)
    have upd: "map_option (deliver event (count_list ls k)) (?chans k) = map_option (deliver event (count_list (l # ls) k)) (chans k)" for k
      using ch by (auto simp: deliver_def)
    have "send_events (l # ls) event chans = (Inr l # fst (send_events ls event ?chans), snd (send_events ls event ?chans))"
      using ch by (simp split: prod.splits)
    with True show ?thesis unfolding Cons.IH [of ?chans] open_eq upd by simp
  next
    case False
    then have closed: "chans l = None \<or> (\<exists>ch. chans l = Some ch \<and> listener_closed ch)" by (auto simp: is_open_def)
    then have "map_option (deliver event (count_list (l # ls) k)) (chans k) = map_option (deliver event (count_list ls k)) (chans k)" for k
      by (auto simp: deliver_def)
    with closed False show ?thesis by (auto simp: Cons.IH)
  qed
qed

lemma forward_event_eq:
  "forward_event ls event chans = (filter (is_open chans) ls, \<lambda>l. map_option (deliver event (count_list ls l)) (chans l))"
proof -
  have "List.map_filter ok (map (\<lambda>l. if is_open chans l then Inr l else Inl ()) ls) = filter (is_open chans) ls"
    by (induction ls) (simp_all add: List.map_filter_simps)
  then show ?thesis by (simp add: forward_event_def send_events_eq)
qed

section \<open>Every step keeps the invariant\<close>

lemma inv_update_self:
  assumes "client_inv st" and "\<And>self. session_cache (f self) = session_cache self"
  shows "client_inv (update_self this f st)"
  by (rule client_inv_cong [OF assms(1)]) (auto simp: update_self_def option.map_comp comp_def assms(2))

lemma inv_repo: "client_inv st \<Longrightarrow> client_inv (st\<lparr>repo := r\<rparr>)"
  by (simp add: client_inv_def)

lemma inv_on_new_relation: "client_inv st \<Longrightarrow> on_new_relation this p st = Return (r, st') \<Longrightarrow> client_inv st'"
  by (auto simp: on_new_relation_def intro: inv_update_self split: option.splits)

lemma inv_login_home:
  assumes "client_inv st" and "login_home env this home_id st = Return (r, st')"
  shows "client_inv st'"
proof -
  obtain self where self: "my_profiles st this = Some self"
    using assms(2) by (cases "my_profiles st this") (auto simp: login_home_def with_self_def)
  from self assms(2) show ?thesis
    by (cases rule: login_home_cases) (use assms(1) in \<open>auto intro: inv_open_session client_inv_only_remote\<close>)
qed

lemma inv_MyProfile_login:
  assumes "completes_all (select_order env)" and "client_inv st" and "MyProfile_login env this st = Return (r, st')"
  shows "client_inv st'"
proof -
  obtain self where self: "my_profiles st this = Some self"
    using assms(3) by (cases "my_profiles st this") (auto simp: MyProfile_login_def with_self_def)
  from assms(1) self assms(3) show ?thesis
    by (cases rule: MyProfile_login_cases) (use assms(2) in \<open>auto intro: inv_open_session client_inv_only_remote\<close>)
qed

lemma inv_close_listener: "client_inv st \<Longrightarrow> client_inv (close_listener l st)"
  by (erule client_inv_cong) (auto simp: close_listener_def)

lemma inv_forward_event_safe:
  assumes "client_inv st" and "client_tasks st = xs @ ForwardEvents sid stream # ys"
    and "forward_event_safe sid stream ev st = (rest, st')"
  shows "client_inv (st'\<lparr>client_tasks := xs @ rest @ ys\<rparr>)"
proof -
  note inv = client_invD [OF assms(1)]
  note tasks = inv(3) [unfolded assms(2)]
  obtain s where s: "my_sessions st sid = Some s" using tasks by (auto simp: tasks_ok_def)
  show ?thesis
  proof (cases ev)
    case (Inl e)
    with assms(3) s have "rest = []" "st' = st" by (auto simp: forward_event_safe_def)
    then show ?thesis using inv tasks_ok_replace [OF tasks, of "[]"] by (simp add: client_inv_def)
  next
    case (Inr event)
    let ?ss = "(my_sessions st)(sid \<mapsto> s\<lparr>event_listeners := []\<rparr>)"
    from Inr assms(3) s have eq: "rest = [Forwarding sid stream event (event_listeners s)]" "st' = st\<lparr>my_sessions := ?ss\<rparr>"
      by (auto simp: forward_event_safe_def update_session_def)
    have ls: "set (event_listeners s) \<subseteq> dom (listeners st)" "distinct (event_listeners s)"
      using inv(2) s by (auto simp: sessions_ok_def)
    have "tasks_ok ?ss (listeners st) (xs @ rest @ ys)"
    proof (rule tasks_ok_replace [OF tasks])
      show "concat (map forwarder rest) \<in> {forwarder (ForwardEvents sid stream), []}" by (simp add: eq)
      show "\<And>t'. t' \<in> set rest \<Longrightarrow> task_ok ?ss (listeners st) t'" using ls by (simp add: eq)
      show "task_ok ?ss (listeners st) t'" if "task_ok (my_sessions st) (listeners st) t'"
        "set (forwarder t') \<inter> set (forwarder (ForwardEvents sid stream)) = {}" for t'
        using that by (cases t') auto
    qed
    moreover have "caches_ok (my_profiles st) ?ss" by (rule caches_ok_mono [OF inv(1)]) auto
    moreover have "sessions_ok ?ss (listeners st)" using inv(2) by (simp add: sessions_ok_def)
    moreover have "dom ?ss = dom (my_sessions st)" using s by auto
    ultimately show ?thesis using inv(4-6) unfolding client_inv_def eq(2) by simp
  qed
qed

lemma inv_forward_done:
  assumes "client_inv st" and "client_tasks st = xs @ Forwarding sid stream event ls # ys"
    and "forward_done sid stream event ls st = (rest, st')"
  shows "client_inv (st'\<lparr>client_tasks := xs @ rest @ ys\<rparr>)"
proof -
  note inv = client_invD [OF assms(1)]
  note tasks = inv(3) [unfolded assms(2)]
  obtain s where s: "my_sessions st sid = Some s" "distinct (event_listeners s @ ls)" "set ls \<subseteq> dom (listeners st)"
    using tasks by (auto simp: tasks_ok_def)
  let ?ss = "(my_sessions st)(sid \<mapsto> s\<lparr>event_listeners := event_listeners s @ filter (is_open (listeners st)) ls\<rparr>)"
  let ?chans = "\<lambda>l. map_option (deliver event (count_list ls l)) (listeners st l)"
  have eq: "rest = [ForwardEvents sid stream]" "st' = st\<lparr>listeners := ?chans, my_sessions := ?ss\<rparr>"
    using assms(3) s(1) by (auto simp: forward_done_def forward_event_eq update_session_def)
  have dom: "dom ?chans = dom (listeners st)" by auto
  have "tasks_ok ?ss ?chans (xs @ rest @ ys)"
  proof (rule tasks_ok_replace [OF tasks])
    show "concat (map forwarder rest) \<in> {forwarder (Forwarding sid stream event ls), []}" by (simp add: eq)
    show "\<And>t'. t' \<in> set rest \<Longrightarrow> task_ok ?ss ?chans t'" by (simp add: eq)
    show "task_ok ?ss ?chans t'" if "task_ok (my_sessions st) (listeners st) t'"
      "set (forwarder t') \<inter> set (forwarder (Forwarding sid stream event ls)) = {}" for t'
      using that dom by (cases t') auto
  qed
  moreover have "caches_ok (my_profiles st) ?ss" by (rule caches_ok_mono [OF inv(1)]) auto
  moreover have "sessions_ok ?ss ?chans"
    using inv(2) s unfolding sessions_ok_def dom by auto
  moreover have "dom ?ss = dom (my_sessions st)" using s by auto
  ultimately show ?thesis using inv(4-6) dom unfolding client_inv_def eq(2) by simp
qed

lemma inv_handle_events:
  assumes "client_inv st" and "client_tasks st = xs @ HandleEvents this l # ys"
    and "run_client_task env (HandleEvents this l) st = (rest, st')"
  shows "client_inv (st'\<lparr>client_tasks := xs @ rest @ ys\<rparr>)"
proof -
  note inv = client_invD [OF assms(1)]
  note tasks = inv(3) [unfolded assms(2)]
  have "l \<in> dom (listeners st)" using tasks by (simp add: tasks_ok_def)
  then obtain ch where ch: "listeners st l = Some ch" by blast
  have rest: "rest = [HandleEvents this l] \<or> rest = []"
    and other: "my_sessions st' = my_sessions st" "client_next st' = client_next st"
      "dom (listeners st') = dom (listeners st)"
      "\<And>p. map_option session_cache (my_profiles st' p) = map_option session_cache (my_profiles st p)"
    using assms(3) ch by (auto simp: handle_event_def on_new_relation_def update_self_def future_ok_def option.map_comp comp_def
        split: list.splits ProfileEvent.splits option.splits if_splits)
  let ?st = "st'\<lparr>client_tasks := client_tasks st\<rparr>"
  have inv': "client_inv ?st" by (rule client_inv_cong [OF assms(1)]) (simp_all add: other)
  have "tasks_ok (my_sessions st') (listeners st') (xs @ rest @ ys)"
  proof (rule tasks_ok_replace)
    show tasks': "tasks_ok (my_sessions st') (listeners st') (xs @ HandleEvents this l # ys)"
      using client_invD(3) [OF inv'] by (simp add: assms(2))
    show "concat (map forwarder rest) \<in> {forwarder (HandleEvents this l), []}" using rest by auto
    show "\<And>t'. t' \<in> set rest \<Longrightarrow> task_ok (my_sessions st') (listeners st') t'"
      using rest tasks' by (auto simp: tasks_ok_def)
  qed
  with inv' show ?thesis by (simp add: client_inv_def)
qed

lemma inv_client_poll:
  assumes "client_inv st"
  shows "client_inv (client_poll env i st)"
proof (cases "i < length (client_tasks st)")
  case True
  let ?xs = "take i (client_tasks st)" and ?ys = "drop (Suc i) (client_tasks st)" and ?t = "client_tasks st ! i"
  have tasks: "client_tasks st = ?xs @ ?t # ?ys" using True by (rule id_take_nth_drop)
  obtain rest st1 where run: "run_client_task env ?t st = (rest, st1)" by fastforce
  have "client_inv (st1\<lparr>client_tasks := ?xs @ rest @ ?ys\<rparr>)"
  proof (cases ?t)
    case (ForwardEvents sid stream)
    obtain p w where next_ev: "next_event (home_ops env) stream (remote st) = (p, w)" by fastforce
    let ?st = "st\<lparr>remote := w\<rparr>"
    have inv: "client_inv ?st" by (rule client_inv_only_remote [OF assms]) (auto simp: only_remote_def)
    note tasks' = tasks [unfolded ForwardEvents]
    show ?thesis
    proof (cases p)
      case (Item ev)
      with run next_ev ForwardEvents have "forward_event_safe sid stream ev ?st = (rest, st1)" by simp
      from inv_forward_event_safe [OF inv _ this] tasks' show ?thesis by (metis Client.select_convs(5) Client.surjective Client.update_convs(6))
    next
      case NotReady
      with run next_ev ForwardEvents have "rest = [?t]" and st1: "st1 = ?st" by auto
      then have "?xs @ rest @ ?ys = client_tasks st" using tasks by (metis append_Cons append_Nil)
      with inv st1 show ?thesis by (simp add: client_inv_def)
    next
      case Finished
      with run next_ev ForwardEvents have "rest = []" "st1 = ?st" by auto
      moreover have "tasks_ok (my_sessions st) (listeners st) (?xs @ [] @ ?ys)"
        by (rule tasks_ok_replace [where t = ?t and ss = "my_sessions st" and chans = "listeners st"]) (use client_invD(3) [OF assms] tasks in metis, auto)
      ultimately show ?thesis using inv by (simp add: client_inv_def)
    qed
  next
    case (Forwarding sid stream event ls)
    with run have "forward_done sid stream event ls st = (rest, st1)" by simp
    from inv_forward_done [OF assms _ this] tasks Forwarding show ?thesis by metis
  next
    case (HandleEvents this l)
    from inv_handle_events [OF assms _ run [unfolded HandleEvents]] tasks HandleEvents show ?thesis by metis
  qed
  with True run show ?thesis by (simp add: client_poll_def)
qed (simp add: client_poll_def assms)

lemma join_home_cases:
  assumes "my_profiles st this = Some self" and "join_home env this home_id invite st = Return (r, st')"
  obtains (joined) own st1 where "r = Inr ()" "only_remote st st1"
      "st' = (update_self this (\<lambda>self. self\<lparr>own_profile := own\<rparr>) st1)
         \<lparr>repo := snd (SimpleProfileRepo_insert (repo_ops env) (profile own) (repo st1))\<rparr>"
  | (refused) e where "r = Inl e" "only_remote st st'"
proof -
  let ?reg = "\<lambda>home. remote_run RegistrationFailed (home_register (home_ops env) home (own_profile self)
      (RelationHalfProof_new (client_ser env) RELATION_TYPE_HOSTED_ON_HOME home_id (mp_signer self)) invite)"
  have reg: "only_remote st st2" if "connect_home2 env home_id (mp_signer self) st = Return (q, st1)" "?reg home st1 = Return (q2, st2)" for q q2 st1 st2 home
    using connect_home2_only_remote [OF that(1)] remote_run_only_remote [OF that(2)] by (rule only_remote_trans)
  show ?thesis
  proof (cases r)
    case (Inl e)
    with assms have "only_remote st st'"
      by (auto simp: join_home_def Let_def connect_home_def dest: reg connect_home2_only_remote)
    with Inl refused show ?thesis by blast
  next
    case (Inr u)
    with assms obtain home st1 own st2 where "connect_home2 env home_id (mp_signer self) st = Return (Inr home, st1)"
      "?reg home st1 = Return (Inr own, st2)"
      and st': "st' = (update_self this (\<lambda>self. self\<lparr>own_profile := own\<rparr>) st2)
        \<lparr>repo := snd (SimpleProfileRepo_insert (repo_ops env) (profile own) (repo st2))\<rparr>"
      by (auto simp: join_home_def Let_def connect_home_def)
    with Inr joined [of st2 own] reg show ?thesis by auto
  qed
qed

lemma inv_join_home:
  assumes "client_inv st" and "join_home env this home_id invite st = Return (r, st')"
  shows "client_inv st'"
proof -
  obtain self where "my_profiles st this = Some self"
    using assms(2) by (cases "my_profiles st this") (auto simp: join_home_def with_self_def)
  then show ?thesis using assms(2)
  proof (cases rule: join_home_cases)
    case (joined own st1)
    from client_inv_only_remote [OF assms(1) joined(2)] show ?thesis
      unfolding joined(3) by (intro inv_repo inv_update_self) simp_all
  qed (use assms(1) in \<open>auto intro: client_inv_only_remote\<close>)
qed

lemma leave_home_cases:
  assumes "leave_home env this home_id newhome st = Return (r, st')"
  obtains q st1 where "login_home env this home_id st = Return (q, st1)" "only_remote st1 st'"
  using assms by (cases r) (auto simp: leave_home_def with_session_def split: option.splits dest!: remote_run_only_remote)

lemma inv_leave_home:
  assumes "client_inv st" and "leave_home env this home_id newhome st = Return (r, st')"
  shows "client_inv st'"
  using assms(2) by (rule leave_home_cases) (use assms(1) in \<open>auto intro: inv_login_home client_inv_only_remote\<close>)

lemma remote_chain_only_remote:
  assumes "completes_all (select_order env)"
    and "future_and_then (any_home_of2 env prof sg) (\<lambda>(p, home). remote_op e (f home)) st = Return (r, st')"
  shows "only_remote st st'"
  using assms(2) any_home_of2_only_remote [OF assms(1)] remote_op_only_remote only_remote_trans
  by (cases r) (fastforce+)

lemma initiate_relation_only_remote:
  assumes "completes_all (select_order env)" and "initiate_relation env this rel_type with_id st = Return (r, st')"
  shows "only_remote st st'"
proof -
  obtain self where self: "my_profiles st this = Some self"
    using assms(2) by (cases "my_profiles st this") (auto simp: initiate_relation_def with_self_def)
  note run = assms(2) [unfolded initiate_relation_def with_self_live [OF self]]
  show ?thesis
  proof (cases "SimpleProfileRepo_load (repo_ops env) (repo st) with_id")
    case (Inl e)
    with run show ?thesis by (simp add: future_and_then_def repo_load_def)
  next
    case (Inr prof)
    with run have "future_and_then (any_home_of2 env prof (mp_signer self)) (\<lambda>(p, home). remote_op PairRequestFailed
        (home_pair_request (home_ops env) home (RelationHalfProof_new (client_ser env) rel_type (profile_id prof) (mp_signer self)))) st = Return (r, st')"
      by (simp add: future_and_then_def [of "repo_load env FailedToLoadProfile with_id"] repo_load_def Let_def)
    then show ?thesis by (rule remote_chain_only_remote [OF assms(1)])
  qed
qed

lemma MyProfile_call_only_remote:
  assumes "completes_all (select_order env)" and "MyProfile_call env this rel app payload sink st = Return (r, st')"
  shows "only_remote st st'"
proof -
  obtain self where self: "my_profiles st this = Some self"
    using assms(2) by (cases "my_profiles st this") (auto simp: MyProfile_call_def with_self_def)
  note run = assms(2) [unfolded MyProfile_call_def with_self_live [OF self]]
  show ?thesis
  proof (cases "peer_id rel (signer_profile_id (mp_signer self))")
    case (Inl e)
    with run show ?thesis by simp
  next
    case peer: (Inr peer)
    show ?thesis
    proof (cases "SimpleProfileRepo_load (repo_ops env) (repo st) peer")
      case (Inl e)
      with run peer show ?thesis by (simp add: future_and_then_def repo_load_def)
    next
      case (Inr prof)
      with run peer have "future_and_then (any_home_of2 env prof (mp_signer self)) (\<lambda>(p, home). remote_op CallFailed
          (home_call (home_ops env) home app \<lparr>relation = rel, init_payload = payload, to_caller = sink\<rparr>)) st = Return (r, st')"
        by (simp add: future_and_then_def [of "repo_load env FailedToLoadProfile peer"] repo_load_def)
      then show ?thesis by (rule remote_chain_only_remote [OF assms(1)])
    qed
  qed
qed

text \<open>\<^verbatim>\<open>accept_relation\<close> either stores the completed proof, after the home of the peer has
  taken it, or leaves the client as it was.\<close>

lemma accept_relation_cases:
  assumes "completes_all (select_order env)" and "my_profiles st this = Some self"
    and "accept_relation env this half st = Return (r, st')"
  obtains (accepted) p st1 home where "r = Inr p" "only_remote st st1"
      "hp_peer_id half = profile_id (profile (own_profile self))"
      "sign_remaining_half (client_ser env) half (mp_signer self) = Inr p"
      "fst (home_pair_response (home_ops env) home p (remote st1)) = Inr ()"
      "st' = update_self this (\<lambda>self. self\<lparr>relations := relations self @ [p]\<rparr>)
         (st1\<lparr>remote := snd (home_pair_response (home_ops env) home p (remote st1))\<rparr>)"
  | (refused) e where "r = Inl e" "only_remote st st'"
proof (cases r)
  case (Inr p)
  with assms(2,3) obtain prof hp home st1 st2 where
    "hp_peer_id half = profile_id (profile (own_profile self))"
    "sign_remaining_half (client_ser env) half (mp_signer self) = Inr p"
    and a: "any_home_of2 env prof (mp_signer self) st = Return (Inr (hp, home), st1)"
    and "remote_op PeerResponseFailed (home_pair_response (home_ops env) home p) st1 = Return (Inr (), st2)"
    and "on_new_relation this p st2 = Return (Inr (), st')"
    by (auto simp: accept_relation_def split: if_splits sum.splits)
  moreover have "only_remote st st1" by (rule any_home_of2_only_remote [OF assms(1) a])
  ultimately show ?thesis using Inr
    by (intro accepted [of p st1 home]) (auto simp: remote_op_Return on_new_relation_def split: option.splits)
next
  case (Inl e)
  have live: "on_new_relation this p st2 \<noteq> Return (Inl d, st3)" if "only_remote st st2" for p st2 d st3
    using assms(2) only_remoteD(2) [OF that] by (simp add: on_new_relation_def)
  have "only_remote st st'"
  proof (cases "sign_remaining_half (client_ser env) half (mp_signer self)")
    case (Inr p)
    have "only_remote st st2" if "any_home_of2 env prof (mp_signer self) st = Return (q, st1)" "remote_op e' f st1 = Return (q2, st2)"
      for prof q q2 st1 st2 and e' and f :: "_ \<Rightarrow> (unit, ErrorKind) result \<times> _"
      using any_home_of2_only_remote [OF assms(1) that(1)] remote_op_only_remote [OF that(2)] by (rule only_remote_trans)
    with Inl Inr assms(2,3) live any_home_of2_only_remote [OF assms(1)] show ?thesis
      by (auto simp: accept_relation_def split: if_splits)
  qed (use assms(2,3) Inl in \<open>auto simp: accept_relation_def split: if_splits\<close>)
  with Inl refused show ?thesis by blast
qed

lemma inv_accept_relation:
  assumes "completes_all (select_order env)" and "client_inv st" and "accept_relation env this half st = Return (r, st')"
  shows "client_inv st'"
proof -
  obtain self where self: "my_profiles st this = Some self"
    using assms(3) by (cases "my_profiles st this") (auto simp: accept_relation_def with_self_def)
  from assms(1) self assms(3) show ?thesis
  proof (cases rule: accept_relation_cases)
    case (accepted p st1 home)
    have "client_inv (st1\<lparr>remote := w\<rparr>)" for w
      using client_inv_only_remote [OF assms(2) accepted(2)] by (simp add: client_inv_def)
    then show ?thesis unfolding accepted(6) by (rule inv_update_self) simp
  qed (use assms(2) in \<open>auto intro: client_inv_only_remote\<close>)
qed

lemma client_inv_step:
  assumes "completes_all (select_order env)" and "client_inv st" and "client_step env st st'"
  shows "client_inv st'"
  using assms(3,2)
  by cases (auto intro: inv_alloc_profile inv_login_home inv_MyProfile_login [OF assms(1)] inv_join_home inv_leave_home
      client_inv_only_remote initiate_relation_only_remote [OF assms(1)] inv_accept_relation [OF assms(1)] MyProfile_call_only_remote [OF assms(1)]
      inv_add_listener inv_close_listener inv_client_poll)

lemma client_inv_reach:
  assumes "completes_all (select_order env)" and "client_reachable env st"
  shows "client_inv st"
  using assms(2) by induction (auto intro: client_inv_init client_inv_step [OF assms(1)])

end
