(* ===== verification/Connect_Service.thy ===== *)
theory Connect_Service
  imports Client_Invariants
begin

text \<open>
  The service around the profiles (\<^verbatim>\<open>connect/src/service.rs\<close>) and the sessions it gives to
  distributed applications (\<^verbatim>\<open>connect/src/sdk.rs\<close>).  The service adds two things to the
  state of the client: the cache of profile objects and the store of own profiles.  Hash sets are
  the list of their elements in the order they are iterated.
\<close>

section \<open>The profile factory\<close>

record SignerFactory =
  signers :: "ProfileId \<rightharpoonup> Signer"

definition SignerFactory_new :: "(ProfileId \<rightharpoonup> Signer) \<Rightarrow> SignerFactory" where
  "SignerFactory_new s = \<lparr>signers = s\<rparr>"

definition SignerFactory_signer :: "SignerFactory \<Rightarrow> ProfileId \<Rightarrow> Signer option" where
  "SignerFactory_signer f i = signers f i"

record ('p, 'r, 's, 'c, 'w) Service =
  client :: "('r, 's, 'c, 'w) Client"
  factory_cache :: "ProfileId \<rightharpoonup> nat"
  profile_store :: 'p

definition MyProfileFactory_create ::
  "SignerFactory \<Rightarrow> OwnProfile \<Rightarrow> ('p, 'r, 's, 'c, 'w) Service \<Rightarrow> (nat, ConnectErrorKind) result \<times> ('p, 'r, 's, 'c, 'w) Service" where
  "MyProfileFactory_create signer_factory own sv =
     (let i = profile_id (profile own) in
      case factory_cache sv i of
        Some my_profile_rc \<Rightarrow> (Ok my_profile_rc, sv)
      | None \<Rightarrow>
          (case SignerFactory_signer signer_factory i of
             None \<Rightarrow> (Err FailedToAuthorize, sv)
           | Some signer \<Rightarrow>
               (case alloc_profile own signer (client sv) of (result_rc, c) \<Rightarrow>
                  (Ok result_rc, sv\<lparr>client := c, factory_cache := (factory_cache sv)(i \<mapsto> result_rc)\<rparr>))))"

section \<open>Administration\<close>

text \<open>What the service is built with and never changes.\<close>

record ('p, 'r, 's, 'c, 'w) ServiceEnv =
  signer_factory :: SignerFactory
  store_ops :: "('p, ProfileId, OwnProfile) KeyValueStore"
  my_profile_ids :: "ProfileId list"
  ui_select_profile :: "(ProfileId, ConnectErrorKind) result"

definition AdminSession_profile ::
  "('p, 'r, 's, 'c, 'w) ServiceEnv \<Rightarrow> ProfileId \<Rightarrow> ('p, 'r, 's, 'c, 'w) Service
     \<Rightarrow> (nat, ConnectErrorKind) result \<times> ('p, 'r, 's, 'c, 'w) Service" where
  "AdminSession_profile senv i sv =
     (case kv_get (store_ops senv) (profile_store sv) i of
        Inl _ \<Rightarrow> (Err FailedToLoadProfile, sv)
      | Inr own \<Rightarrow> MyProfileFactory_create (signer_factory senv) own sv)"

text \<open>\<^verbatim>\<open>join_all\<close> polls its futures in order and returns at the first error.\<close>

fun admin_profiles ::
  "('p, 'r, 's, 'c, 'w) ServiceEnv \<Rightarrow> ProfileId list \<Rightarrow> ('p, 'r, 's, 'c, 'w) Service
     \<Rightarrow> (nat list, ConnectErrorKind) result \<times> ('p, 'r, 's, 'c, 'w) Service" where
  "admin_profiles senv [] sv = (Ok [], sv)"
| "admin_profiles senv (prof_id # ids) sv =
     (case kv_get (store_ops senv) (profile_store sv) prof_id of
        Inl _ \<Rightarrow> (Err FailedToLoadProfile, sv)
      | Inr own \<Rightarrow>
          (case MyProfileFactory_create (signer_factory senv) own sv of
             (Inl e, sv) \<Rightarrow> (Err e, sv)
           | (Inr p, sv) \<Rightarrow> (case admin_profiles senv ids sv of (r, sv) \<Rightarrow> (map_ok (Cons p) r, sv))))"

definition AdminSession_profiles ::
  "('p, 'r, 's, 'c, 'w) ServiceEnv \<Rightarrow> ('p, 'r, 's, 'c, 'w) Service
     \<Rightarrow> (nat list, ConnectErrorKind) result \<times> ('p, 'r, 's, 'c, 'w) Service" where
  "AdminSession_profiles senv sv = admin_profiles senv (my_profile_ids senv) sv"

definition DummyUserInterface_select_profile :: "ProfileId list \<Rightarrow> (ProfileId, ConnectErrorKind) result" where
  "DummyUserInterface_select_profile ids =
     ok_or FailedToAuthorize (case ids of [] \<Rightarrow> None | p # _ \<Rightarrow> Some p)"

section \<open>Contacts and application sessions\<close>

record RelationImpl =
  relation_proof :: RelationProof
  contact_profile :: nat
  contact_app_id :: ApplicationId

definition RelationImpl_new :: "RelationProof \<Rightarrow> nat \<Rightarrow> ApplicationId \<Rightarrow> RelationImpl" where
  "RelationImpl_new proof my_profile app =
     \<lparr>relation_proof = proof, contact_profile = my_profile, contact_app_id = app\<rparr>"

record DAppCall =
  outgoing :: AppMsgSink
  incoming :: channel_id

text \<open>A call creates the channel on which the callee answers.\<close>

definition Contact_call ::
  "('r, 'h, 's, 'c, 'w) ClientEnv \<Rightarrow> RelationImpl \<Rightarrow> AppMessageFrame \<Rightarrow> (('r, 's, 'c, 'w) Client, DAppCall) async" where
  "Contact_call env contact payload st =
     (let chan = client_next st in
      future_and_then (MyProfile_call env (contact_profile contact) (relation_proof contact) (contact_app_id contact) payload (Some chan))
        (\<lambda>to_callee_opt. case to_callee_opt of
            None \<Rightarrow> future_err CallRefused
          | Some to_callee \<Rightarrow> future_ok \<lparr>outgoing = to_callee, incoming = chan\<rparr>)
        (st\<lparr>client_next := chan + 1\<rparr>))"

record DAppSessionImpl =
  dapp_profile :: nat
  dapp_app_id :: ApplicationId

definition DAppSessionImpl_new :: "nat \<Rightarrow> ApplicationId \<Rightarrow> DAppSessionImpl" where
  "DAppSessionImpl_new my_profile app = \<lparr>dapp_profile = my_profile, dapp_app_id = app\<rparr>"

definition relation_from :: "DAppSessionImpl \<Rightarrow> RelationProof \<Rightarrow> RelationImpl" where
  "relation_from d proof = RelationImpl_new proof (dapp_profile d) (dapp_app_id d)"

definition selected_profile :: "DAppSessionImpl \<Rightarrow> (('r, 's, 'c, 'w) Client, ProfileId) async" where
  "selected_profile d = with_self (dapp_profile d) (\<lambda>self. future_ok (signer_profile_id (mp_signer self)))"

definition contacts :: "DAppSessionImpl \<Rightarrow> (('r, 's, 'c, 'w) Client, RelationImpl list) async" where
  "contacts d = with_self (dapp_profile d) (\<lambda>self.
     future_ok (map (relation_from d) (filter (\<lambda>proof. accessible_by proof (dapp_app_id d)) (MyProfile_relations self))))"

definition contacts_with_profile ::
  "DAppSessionImpl \<Rightarrow> ProfileId \<Rightarrow> string option \<Rightarrow> (('r, 's, 'c, 'w) Client, RelationImpl list) async" where
  "contacts_with_profile d prof rel_type = with_self (dapp_profile d) (\<lambda>self.
     future_ok (map (relation_from d) (relations_with_peer self prof (Some (dapp_app_id d)) rel_type)))"

definition initiate_contact ::
  "('r, 'h, 's, 'c, 'w) ClientEnv \<Rightarrow> DAppSessionImpl \<Rightarrow> ProfileId \<Rightarrow> (('r, 's, 'c, 'w) Client, unit) async" where
  "initiate_contact env d with_profile = initiate_relation env (dapp_profile d) (app_name (dapp_app_id d)) with_profile"

text \<open>\<^verbatim>\<open>checkin\<close> returns the merge of two streams: the calls of the home session and a
  listener on its events, each filtered and wrapped.\<close>

datatype 'i DAppEvent = DAppEvent_PairingResponse RelationImpl | DAppEvent_Call 'i

definition checkin :: "('r, 'h, 's, 'c, 'w) ClientEnv \<Rightarrow> DAppSessionImpl \<Rightarrow> (('r, 's, 'c, 'w) Client, 'c \<times> channel_id) async" where
  "checkin env d = future_and_then (MyProfile_login env (dapp_profile d)) (\<lambda>my_session.
     with_session my_session (\<lambda>s st.
       (case session_checkin_app (home_ops env) (session s) (dapp_app_id d) (remote st) of (calls, w) \<Rightarrow>
          (case MyHomeSession_events my_session (st\<lparr>remote := w\<rparr>) of (events, st) \<Rightarrow> Return (Ok (calls, events), st)))))"

definition checkin_call :: "('i, string) result \<Rightarrow> 'i DAppEvent option" where
  "checkin_call inc_call_res = map_option DAppEvent_Call (ok inc_call_res)"

definition checkin_event :: "DAppSessionImpl \<Rightarrow> ProfileEvent \<Rightarrow> 'i DAppEvent option" where
  "checkin_event d event =
     (case event of
        PairingResponse proof \<Rightarrow>
          if accessible_by proof (dapp_app_id d) then Some (DAppEvent_PairingResponse (relation_from d proof)) else None
      | _ \<Rightarrow> None)"

text \<open>One poll of that stream: an item, nothing yet, the end, or an item that the filters drop.
  \<open>next_call\<close> polls the stream of calls of the home session.\<close>

datatype 'a source = SrcNotReady | SrcDone | SrcSkip | SrcItem 'a

definition poll_calls ::
  "('c \<Rightarrow> 'w \<Rightarrow> ('i, string) result poll \<times> 'w) \<Rightarrow> 'c \<Rightarrow> ('r, 's, 'c, 'w) Client \<Rightarrow> 'i DAppEvent source \<times> ('r, 's, 'c, 'w) Client" where
  "poll_calls next_call calls c =
     (case next_call calls (remote c) of (x, w) \<Rightarrow>
        (case x of
           NotReady \<Rightarrow> SrcNotReady
         | Finished \<Rightarrow> SrcDone
         | Item res \<Rightarrow> (case checkin_call res of None \<Rightarrow> SrcSkip | Some e \<Rightarrow> SrcItem e), c\<lparr>remote := w\<rparr>))"

definition poll_events ::
  "DAppSessionImpl \<Rightarrow> channel_id \<Rightarrow> ('r, 's, 'c, 'w) Client \<Rightarrow> 'i DAppEvent source \<times> ('r, 's, 'c, 'w) Client" where
  "poll_events d l c =
     (case listeners c l of
        None \<Rightarrow> (SrcDone, c)
      | Some ch \<Rightarrow>
          (case pending_events ch of
             [] \<Rightarrow> (SrcNotReady, c)
           | event # rest \<Rightarrow>
               (case checkin_event d event of None \<Rightarrow> SrcSkip | Some e \<Rightarrow> SrcItem e,
                c\<lparr>listeners := (listeners c)(l \<mapsto> ch\<lparr>pending_events := rest\<rparr>)\<rparr>)))"

text \<open>\<^verbatim>\<open>Stream::select\<close> polls its streams in turn; an item of the second one gives the turn
  to the first unless that is done.\<close>

definition poll_select ::
  "('c \<Rightarrow> 'w \<Rightarrow> ('i, string) result poll \<times> 'w) \<Rightarrow> DAppSessionImpl \<Rightarrow> 'c \<Rightarrow> channel_id \<Rightarrow> bool \<Rightarrow> ('r, 's, 'c, 'w) Client
     \<Rightarrow> 'i DAppEvent source \<times> bool \<times> ('r, 's, 'c, 'w) Client" where
  "poll_select next_call d calls l flag c =
     (let poll_a = (if flag then poll_events d l else poll_calls next_call calls);
          poll_b = (if flag then poll_calls next_call calls else poll_events d l)
      in case poll_a c of
           (SrcItem e, c) \<Rightarrow> (SrcItem e, \<not> flag, c)
         | (SrcSkip, c) \<Rightarrow> (SrcSkip, flag, c)
         | (a, c) \<Rightarrow>
             (case poll_b c of
                (SrcItem e, c) \<Rightarrow> (SrcItem e, if a = SrcDone then \<not> flag else flag, c)
              | (SrcSkip, c) \<Rightarrow> (SrcSkip, flag, c)
              | (SrcDone, c) \<Rightarrow> (if a = SrcDone then SrcDone else SrcNotReady, \<not> flag, c)
              | (SrcNotReady, c) \<Rightarrow> (SrcNotReady, \<not> flag, c)))"

section \<open>ConnectService\<close>

definition ConnectService_dapp_session ::
  "('p, 'r, 's, 'c, 'w) ServiceEnv \<Rightarrow> ApplicationId \<Rightarrow> ('p, 'r, 's, 'c, 'w) Service
     \<Rightarrow> (DAppSessionImpl, ConnectErrorKind) result \<times> ('p, 'r, 's, 'c, 'w) Service" where
  "ConnectService_dapp_session senv app sv =
     (case ui_select_profile senv of
        Inl e \<Rightarrow> (Err e, sv)
      | Inr i \<Rightarrow>
          (case kv_get (store_ops senv) (profile_store sv) i of
             Inl _ \<Rightarrow> (Err FailedToLoadProfile, sv)
           | Inr own \<Rightarrow>
               (case MyProfileFactory_create (signer_factory senv) own sv of
                  (r, sv) \<Rightarrow> (map_ok (\<lambda>my_profile. DAppSessionImpl_new my_profile app) r, sv))))"

section \<open>Polling the stream of a check-in\<close>

lemma poll_select_event:
  assumes "listeners c l = Some ch" "pending_events ch = e # rest" and "next_call calls (remote c) = (NotReady, remote c)"
  shows "\<exists>flag'. poll_select next_call d calls l flag c = (case checkin_event d e of None \<Rightarrow> SrcSkip | Some x \<Rightarrow> SrcItem x, flag',
    c\<lparr>listeners := (listeners c)(l \<mapsto> ch\<lparr>pending_events := rest\<rparr>)\<rparr>)"
  using assms by (cases flag) (auto simp: poll_select_def poll_events_def poll_calls_def Let_def split: option.split)

lemma poll_select_idle:
  assumes "listeners c l = Some ch" "pending_events ch = []" and "next_call calls (remote c) = (NotReady, remote c)"
  shows "poll_select next_call d calls l flag c = (SrcNotReady, \<not> flag, c)"
  using assms by (cases flag) (auto simp: poll_select_def poll_events_def poll_calls_def Let_def)

lemma poll_select_call:
  assumes "listeners c l = Some ch" "pending_events ch = []" and "next_call calls (remote c) = (Item (Inr i), w)"
  shows "\<exists>flag'. poll_select next_call d calls l flag c = (SrcItem (DAppEvent_Call i), flag', c\<lparr>remote := w\<rparr>)"
  using assms by (cases flag) (auto simp: poll_select_def poll_events_def poll_calls_def Let_def checkin_call_def)

section \<open>One object per profile\<close>

text \<open>Every cached object is live and signs with the signer of its id, and no two ids share one.\<close>

definition service_inv :: "SignerFactory \<Rightarrow> ('p, 'r, 's, 'c, 'w) Service \<Rightarrow> bool" where
  "service_inv sf sv \<longleftrightarrow> client_inv (client sv) \<and> inj_on (factory_cache sv) (dom (factory_cache sv))
     \<and> (\<forall>i a. factory_cache sv i = Some a \<longrightarrow>
          (\<exists>self. my_profiles (client sv) a = Some self \<and> SignerFactory_signer sf i = Some (mp_signer self)))"

lemma create_cases:
  assumes "MyProfileFactory_create sf own sv = (r, sv')"
  obtains (cached) a where "factory_cache sv (profile_id (profile own)) = Some a" "r = Inr a" "sv' = sv"
  | (unauthorized) "factory_cache sv (profile_id (profile own)) = None" "SignerFactory_signer sf (profile_id (profile own)) = None"
      "r = Inl FailedToAuthorize" "sv' = sv"
  | (created) signer a c where "factory_cache sv (profile_id (profile own)) = None"
      "SignerFactory_signer sf (profile_id (profile own)) = Some signer" "alloc_profile own signer (client sv) = (a, c)"
      "r = Inr a" "sv' = sv\<lparr>client := c, factory_cache := (factory_cache sv)(profile_id (profile own) \<mapsto> a)\<rparr>"
  using assms by (auto simp: MyProfileFactory_create_def Let_def split: option.splits prod.splits)

lemma create_cached: "MyProfileFactory_create sf own sv = (Inr a, sv') \<Longrightarrow> factory_cache sv' (profile_id (profile own)) = Some a"
  by (elim create_cases) auto

lemma create_keeps_cache:
  "MyProfileFactory_create sf own sv = (r, sv') \<Longrightarrow> factory_cache sv i = Some b \<Longrightarrow> factory_cache sv' i = Some b"
  by (elim create_cases) auto

lemma service_inv_create:
  assumes "service_inv sf sv" and "MyProfileFactory_create sf own sv = (r, sv')"
  shows "service_inv sf sv'"
  using assms(2)
proof (cases rule: create_cases)
  case (created signer a c)
  have inv: "client_inv (client sv)" using assms(1) by (simp add: service_inv_def)
  have a: "a = client_next (client sv)" and c: "my_profiles c = (my_profiles (client sv))(a \<mapsto> MyProfileImpl_new own signer)"
    using created(3) by (auto simp: alloc_profile_def)
  have fresh: "a \<notin> dom (my_profiles (client sv))" using client_invD(4) [OF inv] a by auto
  then have "factory_cache sv x \<noteq> Some a" for x
    using assms(1) by (force simp: service_inv_def)
  with assms(1) have "inj_on (factory_cache sv') (dom (factory_cache sv'))"
    unfolding created(5) service_inv_def by (auto simp: inj_on_def dom_def)
  moreover have "client_inv c" using inv created(3) by (rule inv_alloc_profile)
  moreover have "\<exists>self. my_profiles c b = Some self \<and> SignerFactory_signer sf i = Some (mp_signer self)"
    if "factory_cache sv' i = Some b" for i b
    using that assms(1) fresh created(2) unfolding created(5) service_inv_def c
    by (auto simp: MyProfileImpl_new_def split: if_splits)
  ultimately show ?thesis unfolding service_inv_def by (simp add: created(5))
qed (use assms(1) in auto)

end
