(* ===== verification/Client_Properties.thy ===== *)
theory Client_Properties
  imports Connect_Service
begin

text \<open>
  The properties of the client.  The sample environment at the start is a home that accepts
  everything; the witnesses run on it.
\<close>

section \<open>A sample client\<close>

definition sample_event :: ProfileEvent where
  "sample_event = PairingResponse \<lparr>relation_type = ''friend'', a_id = ProfileId [1], a_signature = Signature [],
     b_id = ProfileId [2], b_signature = Signature []\<rparr>"

definition sample_home_ops :: "(unit, unit, unit, nat) HomeOps" where
  "sample_home_ops = \<lparr>home_register = (\<lambda>h own half inv w. Return (Inr own, w)), home_login = (\<lambda>h p w. (Inr (), w)),
     home_pair_request = (\<lambda>h hp w. (Inr (), w)), home_pair_response = (\<lambda>h p w. (Inr (), w + 1)),
     home_call = (\<lambda>h a c w. (Inr None, w)), session_unregister = (\<lambda>s n w. Return (Inr (), w)),
     session_events = (\<lambda>s w. ((), w)), session_checkin_app = (\<lambda>s a w. ((), w)),
     next_event = (\<lambda>c w. (Item (Inr sample_event), w))\<rparr>"

definition sample_client_env :: "((ProfileId, Profile) InMemoryStore, unit, unit, unit, nat) ClientEnv" where
  "sample_client_env = \<lparr>client_ser = (\<lambda>_. []), repo_ops = InMemoryStore_ops, home_ops = sample_home_ops,
     home_connector = (\<lambda>p s w. Return (Inr (), w)), select_order = (\<lambda>n. [0..<n]), iter_order = (\<lambda>xs. xs)\<rparr>"

definition sample_home_proof :: RelationProof where
  "sample_home_proof = \<lparr>relation_type = RELATION_TYPE_HOSTED_ON_HOME, a_id = ProfileId [1], a_signature = Signature [],
     b_id = ProfileId [7], b_signature = Signature []\<rparr>"

definition sample_persona :: "u8 \<Rightarrow> Profile" where
  "sample_persona k = \<lparr>profile_id = ProfileId [k], public_key = PublicKey [k],
     facet = Persona \<lparr>homes = [sample_home_proof\<lparr>a_id := ProfileId [k]\<rparr>], persona_data = []\<rparr>\<rparr>"

definition sample_repo :: "(ProfileId, Profile) InMemoryStore" where
  "sample_repo = \<lparr>imap = [ProfileId [1] \<mapsto> sample_persona 1, ProfileId [2] \<mapsto> sample_persona 2,
     ProfileId [7] \<mapsto> sample_home_profile]\<rparr>"

definition sample_client :: "((ProfileId, Profile) InMemoryStore, unit, unit, nat) Client" where
  "sample_client = snd (alloc_profile \<lparr>profile = sample_persona 1, priv_data = []\<rparr> (sample_peer 1) (client_init sample_repo 0))"

definition sample_half :: RelationHalfProof where
  "sample_half = \<lparr>hp_relation_type = ''friend'', hp_signer_id = ProfileId [2], hp_peer_id = ProfileId [1], hp_signature = Signature []\<rparr>"

lemmas sample_client_defs = sample_client_def alloc_profile_def client_init_def MyProfileImpl_new_def sample_peer_def
  sample_persona_def sample_client_env_def sample_home_ops_def sample_repo_def sample_home_proof_def sample_half_def

lemma sample_completes: "completes_all (select_order sample_client_env)"
  by (simp add: sample_client_env_def completes_all_def)

lemma sample_live: "my_profiles sample_client 0 =
  Some \<lparr>own_profile = \<lparr>profile = sample_persona 1, priv_data = []\<rparr>, mp_signer = sample_peer 1, session_cache = [], relations = []\<rparr>"
  by (simp add: sample_client_defs)

section \<open>Invariant\<close>

text \<open>C35: in every reachable state of the client the sessions in the caches of its profiles are
  live, every listener registered with a session or being sent to exists and is registered once, and
  at most one spawned future forwards the events of a session; whatever the order in which
  connections complete, the answers of homes, and the interleaving of operations and futures.\<close>

theorem client_inv_reachable:
  assumes "completes_all (select_order env)" and "client_reachable env st"
  shows "client_inv st"
  using assms by (rule client_inv_reach)

theorem client_inv_reachable_witness:
  "client_reachable sample_client_env sample_client \<and> client_inv sample_client"
proof -
  have "client_step sample_client_env (client_init sample_repo 0) sample_client"
    unfolding sample_client_def by (rule client_step.new_profile) (simp add: alloc_profile_def)
  then have "client_reachable sample_client_env sample_client"
    by (rule client_reachable.step [OF client_reachable.init])
  with client_inv_reachable [OF sample_completes] show ?thesis by blast
qed

section \<open>Relations\<close>



section \<open>Homes and sessions\<close>

text \<open>A successful login to a home leaves the session in the cache of the profile, live, and
  nothing else of the profile changed; logging in to the same home again returns the same session
  without contacting anyone.\<close>

lemma login_home_cached:
  assumes "client_inv st" and self: "my_profiles st this = Some self"
    and login: "login_home env this home_id st = Return (Inr sid, st')"
  shows "login_home env this home_id st' = Return (Inr sid, st') \<and> sid \<in> dom (my_sessions st')
    \<and> (\<exists>cache. my_profiles st' this = Some (self\<lparr>session_cache := cache\<rparr>)
         \<and> map_of cache = (map_of (session_cache self))(home_id \<mapsto> sid))"
proof -
  have "sid \<in> dom (my_sessions st') \<and> (\<exists>cache. my_profiles st' this = Some (self\<lparr>session_cache := cache\<rparr>)
      \<and> map_of cache = (map_of (session_cache self))(home_id \<mapsto> sid))"
    using self login
  proof (cases rule: login_home_cases)
    case (cached s)
    then have "sid \<in> snd ` set (session_cache self)" by (force dest: map_of_SomeD)
    with client_invD(1) [OF assms(1)] self have "sid \<in> dom (my_sessions st)" unfolding caches_ok_def by blast
    with cached self show ?thesis by (auto simp: fun_upd_triv intro!: exI [of _ "session_cache self"])
  next
    case (opened s st1)
    obtain stream w where "session_events (home_ops env) s (remote st1) = (stream, w)" by fastforce
    with opened(3) self show ?thesis
      by (auto simp: open_session_Return only_remoteD [OF opened(2)] update_conv'
          intro!: exI [of _ "AList.update home_id sid (session_cache self)"])
  qed simp
  moreover from this have "login_home env this home_id st' = Return (Inr sid, st')"
    by (auto simp: login_home_def)
  ultimately show ?thesis by blast
qed

section \<open>Events\<close>

lemma run_client_task_tasks:
  "run_client_task env t st = (rest, st') \<Longrightarrow> client_tasks st' = client_tasks st"
  by (cases t) (auto simp: forward_event_safe_def forward_done_def update_session_def handle_event_def on_new_relation_def
      update_self_def future_ok_def split: prod.splits poll.splits option.splits sum.splits list.splits ProfileEvent.splits)

lemma client_poll_same_task:
  assumes "i < length (client_tasks st)" and "run_client_task env (client_tasks st ! i) st = ([t], st')"
  shows "client_poll env i st = st'\<lparr>client_tasks := (client_tasks st)[i := t]\<rparr>"
  using assms by (simp add: client_poll_def upd_conv_take_nth_drop)

text \<open>\<^verbatim>\<open>n\<close> new listeners register with a session.\<close>

primrec add_listeners :: "nat \<Rightarrow> nat \<Rightarrow> ('r, 's, 'c, 'w) Client \<Rightarrow> ('r, 's, 'c, 'w) Client" where
  "add_listeners 0 sid st = st"
| "add_listeners (Suc n) sid st = snd (MyHomeSession_events sid (add_listeners n sid st))"

lemma add_listeners_session:
  assumes "my_sessions st sid = Some s"
  shows "my_sessions (add_listeners n sid st) sid =
    Some (s\<lparr>event_listeners := event_listeners s @ [client_next st..<client_next st + n]\<rparr>)"
    and "client_next (add_listeners n sid st) = client_next st + n"
    and "client_tasks (add_listeners n sid st) = client_tasks st"
    and "l < client_next st \<Longrightarrow> listeners (add_listeners n sid st) l = listeners st l"
  using assms by (induction n)
    (simp_all add: MyHomeSession_events_def add_listener_def update_session_def Let_def)


lemma sample_logged_in:
  obtains st :: "((ProfileId, Profile) InMemoryStore, unit, unit, nat) Client" where
    "client_inv st" "client_tasks st = [ForwardEvents 1 (), HandleEvents 0 2]" "remote st = 0"
    "my_sessions st 1 = Some \<lparr>session = (), event_listeners = [2]\<rparr>" "listeners st 2 = Some \<lparr>pending_events = [], listener_closed = False\<rparr>"
proof -
  have inv: "client_inv sample_client"
    by (rule inv_alloc_profile [OF client_inv_init]) (simp add: sample_client_def alloc_profile_def)
  obtain st where st: "open_session sample_client_env 0 (ProfileId [7]) () sample_client = Return (Inr 1, st)"
    by (simp add: open_session_Return sample_client_defs)
  show ?thesis
  proof
    show "client_inv st" using inv st by (rule inv_open_session)
  qed (use st in \<open>auto simp: open_session_Return sample_client_defs\<close>)
qed


fun responses :: "ProfileEvent list \<Rightarrow> RelationProof list" where
  "responses [] = []"
| "responses (PairingResponse p # es) = p # responses es"
| "responses (_ # es) = responses es"

lemma handle_step:
  assumes "i < length (client_tasks st)" and "client_tasks st ! i = HandleEvents this l"
    and "listeners st l = Some ch" and "pending_events ch = e # es" and "my_profiles st this = Some self"
  shows "client_poll env i st = st\<lparr>listeners := (listeners st)(l \<mapsto> ch\<lparr>pending_events := es\<rparr>),
    my_profiles := (my_profiles st)(this \<mapsto> self\<lparr>relations := relations self @ responses [e]\<rparr>)\<rparr>"
proof -
  let ?st = "st\<lparr>listeners := (listeners st)(l \<mapsto> ch\<lparr>pending_events := es\<rparr>),
      my_profiles := (my_profiles st)(this \<mapsto> self\<lparr>relations := relations self @ responses [e]\<rparr>)\<rparr>"
  have run: "run_client_task env (client_tasks st ! i) st = ([HandleEvents this l], ?st)"
    using assms by (cases e) (auto simp: handle_event_def on_new_relation_def update_self_def future_ok_def fun_upd_idem)
  have "(client_tasks st)[i := HandleEvents this l] = client_tasks st" by (metis assms(2) list_update_id)
  then show ?thesis unfolding client_poll_same_task [OF assms(1) run] by simp
qed

text \<open>The future a login spawns stores every pairing response as a relation: after as many steps
  as there are pending events, the profile has the proofs of all pending responses in the order they
  arrived behind the relations it had, the queue is empty and the future still runs.\<close>

lemma pairing_responses_stored:
  assumes "i < length (client_tasks st)" and "client_tasks st ! i = HandleEvents this l"
    and "listeners st l = Some ch" and "my_profiles st this = Some self"
  shows "(client_poll env i ^^ length (pending_events ch)) st =
    st\<lparr>listeners := (listeners st)(l \<mapsto> ch\<lparr>pending_events := []\<rparr>),
       my_profiles := (my_profiles st)(this \<mapsto> self\<lparr>relations := relations self @ responses (pending_events ch)\<rparr>)\<rparr>"
  using assms
proof (induction "pending_events ch" arbitrary: st ch self)
  case Nil
  then show ?case by (simp add: fun_upd_idem flip: Nil.hyps)
next
  case (Cons e es)
  let ?ch = "ch\<lparr>pending_events := es\<rparr>" and ?self = "self\<lparr>relations := relations self @ responses [e]\<rparr>"
  let ?st = "st\<lparr>listeners := (listeners st)(l \<mapsto> ?ch), my_profiles := (my_profiles st)(this \<mapsto> ?self)\<rparr>"
  have step: "client_poll env i st = ?st" by (rule handle_step [OF Cons.prems(1-3) Cons.hyps(2) [symmetric] Cons.prems(4)])
  have "(client_poll env i ^^ length (pending_events ?ch)) ?st = ?st\<lparr>listeners := (listeners ?st)(l \<mapsto> ?ch\<lparr>pending_events := []\<rparr>),
      my_profiles := (my_profiles ?st)(this \<mapsto> ?self\<lparr>relations := relations ?self @ responses (pending_events ?ch)\<rparr>)\<rparr>"
    using Cons.prems by (intro Cons.hyps(1)) simp_all
  moreover have "responses [e] @ responses es = responses (e # es)" by (cases e) simp_all
  ultimately show ?case by (simp add: step funpow_swap1 flip: Cons.hyps(2))
qed

section \<open>The service\<close>

text \<open>The factory makes one object per profile id.  A successful \<^verbatim>\<open>create\<close> keeps every
  cached object live, signing with the signer registered for its id and not shared between ids, and
  every later \<^verbatim>\<open>create\<close> for that id returns the same object and changes nothing, whatever
  profile data it is given.\<close>

lemma one_object_per_profile:
  assumes "service_inv sf sv" and "MyProfileFactory_create sf own sv = (Inr a, sv')"
  shows "service_inv sf sv'
    \<and> (\<exists>self. my_profiles (client sv') a = Some self \<and> SignerFactory_signer sf (profile_id (profile own)) = Some (mp_signer self))
    \<and> (\<forall>own'. profile_id (profile own') = profile_id (profile own) \<longrightarrow> MyProfileFactory_create sf own' sv' = (Inr a, sv'))"
proof -
  have inv: "service_inv sf sv'" by (rule service_inv_create [OF assms])
  have cached: "factory_cache sv' (profile_id (profile own)) = Some a" by (rule create_cached [OF assms(2)])
  with inv have "\<exists>self. my_profiles (client sv') a = Some self \<and> SignerFactory_signer sf (profile_id (profile own)) = Some (mp_signer self)"
    by (simp add: service_inv_def)
  with inv cached show ?thesis by (simp add: MyProfileFactory_create_def)
qed

text \<open>An application sees the relations of the selected profile that were made for it and no
  others, all of them as its own contacts; asking for the contacts with one peer, or of one type,
  selects among these; and the pairing responses it is notified of are contacts it may see.\<close>

lemma dapp_contacts_spec:
  assumes "my_profiles st (dapp_profile d) = Some self"
  shows "\<exists>cs. contacts d st = Return (Inr cs, st)
      \<and> map relation_proof cs = filter (\<lambda>p. relation_type p = app_name (dapp_app_id d)) (relations self)
      \<and> (\<forall>c \<in> set cs. contact_profile c = dapp_profile d \<and> contact_app_id c = dapp_app_id d)
      \<and> contacts_with_profile d peer rel_type st = Return (Inr (filter (\<lambda>c.
           peer_id (relation_proof c) (signer_profile_id (mp_signer self)) = Inr peer
             \<and> rel_type \<in> {None, Some (relation_type (relation_proof c))}) cs), st)
      \<and> (\<forall>event c. checkin_event d event = Some (DAppEvent_PairingResponse c) \<longrightarrow>
           event = PairingResponse (relation_proof c) \<and> relation_type (relation_proof c) = app_name (dapp_app_id d))"
proof -
  let ?ps = "filter (\<lambda>p. accessible_by p (dapp_app_id d)) (relations self)"
  let ?cs = "map (relation_from d) ?ps"
  have c: "contacts d st = Return (Inr ?cs, st)"
    using assms by (simp add: contacts_def MyProfile_relations_def future_ok_def)
  have p: "relation_proof (relation_from d p) = p" for p by (simp add: relation_from_def RelationImpl_new_def)
  have "relations_with_peer self peer (Some (dapp_app_id d)) rel_type = filter (\<lambda>p. peer_id p (signer_profile_id (mp_signer self)) = Inr peer
      \<and> rel_type \<in> {None, Some (relation_type p)}) ?ps"
  proof -
    have "(case peer_id p me of Inr i \<Rightarrow> i = peer | Inl _ \<Rightarrow> False) \<longleftrightarrow> peer_id p me = Inr peer" for p me
      by (cases "peer_id p me") simp_all
    moreover have "(case rel_type of None \<Rightarrow> True | Some rel \<Rightarrow> t = rel) \<longleftrightarrow> rel_type \<in> {None, Some t}" for t
      by (cases rel_type) auto
    ultimately show ?thesis
      by (simp add: relations_with_peer_def MyProfile_relations_def conj_ac)
  qed
  then have "contacts_with_profile d peer rel_type st = Return (Inr (filter (\<lambda>c.
      peer_id (relation_proof c) (signer_profile_id (mp_signer self)) = Inr peer
        \<and> rel_type \<in> {None, Some (relation_type (relation_proof c))}) ?cs), st)"
    using assms by (simp add: contacts_with_profile_def future_ok_def filter_map comp_def p)
  moreover have "map relation_proof ?cs = filter (\<lambda>p. relation_type p = app_name (dapp_app_id d)) (relations self)"
    by (simp add: comp_def p accessible_by_def)
  moreover have "event = PairingResponse (relation_proof c) \<and> relation_type (relation_proof c) = app_name (dapp_app_id d)"
    if "checkin_event d event = Some (DAppEvent_PairingResponse c)" for event c
    using that by (cases event) (auto simp: checkin_event_def accessible_by_def p split: if_splits)
  ultimately show ?thesis using c by (intro exI [of _ ?cs]) (auto simp: relation_from_def RelationImpl_new_def)
qed

end
