(* ===== verification/Capnp_Messages.thy ===== *)
theory Capnp_Messages
  imports Home_Server
begin

text \<open>
  The messages of the home protocol (\<^verbatim>\<open>home-protocol/src/mercury_capnp/mod.rs\<close> over the
  schema \<^verbatim>\<open>protocol/mercury.capnp\<close>).  A reader is the record of its getters; a getter of a
  pointer field can fail on a malformed message, so it returns a result.  Filling a builder yields
  the message a reader then sees: every field that was set reads back, every field that was not
  reads as its default.  An interface field is the capability it carries, or an error when it is
  null.  The conversions are the source's \<^verbatim>\<open>FillFrom\<close> and \<^verbatim>\<open>TryFrom\<close>.
\<close>

type_synonym capnp_error = string
type_synonym 'a getter = "('a, capnp_error) result"

section \<open>Proofs\<close>

record relation_half_proof_msg =
  get_hp_relation_type :: "string getter"
  get_hp_signer_id :: "bytes getter"
  get_hp_peer_id :: "bytes getter"
  get_hp_signature :: "bytes getter"

definition RelationHalfProof_try_from :: "relation_half_proof_msg \<Rightarrow> RelationHalfProof getter" where
  "RelationHalfProof_try_from src =
     and_then (get_hp_relation_type src) (\<lambda>rel_type.
     and_then (get_hp_signer_id src) (\<lambda>signer.
     and_then (get_hp_peer_id src) (\<lambda>peer.
     and_then (get_hp_signature src) (\<lambda>signature.
       Ok \<lparr>hp_relation_type = rel_type, hp_signer_id = ProfileId signer, hp_peer_id = ProfileId peer,
           hp_signature = Signature signature\<rparr>))))"

definition RelationHalfProof_fill_from :: "RelationHalfProof \<Rightarrow> relation_half_proof_msg" where
  "RelationHalfProof_fill_from src =
     \<lparr>get_hp_relation_type = Ok (hp_relation_type src), get_hp_signer_id = Ok (id_bytes (hp_signer_id src)),
      get_hp_peer_id = Ok (id_bytes (hp_peer_id src)), get_hp_signature = Ok (signature_bytes (hp_signature src))\<rparr>"

record relation_proof_msg =
  get_relation_type :: "string getter"
  get_a_id :: "bytes getter"
  get_a_signature :: "bytes getter"
  get_b_id :: "bytes getter"
  get_b_signature :: "bytes getter"

definition RelationProof_try_from :: "relation_proof_msg \<Rightarrow> RelationProof getter" where
  "RelationProof_try_from src =
     and_then (get_relation_type src) (\<lambda>rel_type.
     and_then (get_a_id src) (\<lambda>a.
     and_then (get_a_signature src) (\<lambda>a_sig.
     and_then (get_b_id src) (\<lambda>b.
     and_then (get_b_signature src) (\<lambda>b_sig.
       Ok \<lparr>relation_type = rel_type, a_id = ProfileId a, a_signature = Signature a_sig,
           b_id = ProfileId b, b_signature = Signature b_sig\<rparr>)))))"

definition RelationProof_fill_from :: "RelationProof \<Rightarrow> relation_proof_msg" where
  "RelationProof_fill_from src =
     \<lparr>get_relation_type = Ok (relation_type src),
      get_a_id = Ok (id_bytes (a_id src)), get_a_signature = Ok (signature_bytes (a_signature src)),
      get_b_id = Ok (id_bytes (b_id src)), get_b_signature = Ok (signature_bytes (b_signature src))\<rparr>"

section \<open>Profiles\<close>

text \<open>The union of facets; the discriminant may be one the schema does not know.\<close>

datatype facet_which =
    WhichPersona "relation_proof_msg list getter"
  | WhichHome "string list getter"
  | WhichApplication "string getter"
  | NotInSchema

record profile_msg =
  get_id :: "bytes getter"
  get_public_key :: "bytes getter"
  get_facet :: facet_which

definition facet_try_from :: "facet_which \<Rightarrow> ProfileFacet getter" where
  "facet_try_from w =
     (case w of
        WhichPersona get_homes \<Rightarrow>
          and_then get_homes (\<lambda>hs. case hs of
              proof_reader # _ \<Rightarrow>
                and_then (RelationProof_try_from proof_reader) (\<lambda>home_relation.
                  Ok (Persona \<lparr>homes = [home_relation], persona_data = []\<rparr>))
            | [] \<Rightarrow> Ok (Persona \<lparr>homes = [], persona_data = []\<rparr>))
      | _ \<Rightarrow> Err ''Unimplemented'')"

definition Profile_try_from :: "profile_msg \<Rightarrow> Profile getter" where
  "Profile_try_from src =
     and_then (get_id src) (\<lambda>i.
     and_then (get_public_key src) (\<lambda>pk.
     and_then (facet_try_from (get_facet src)) (\<lambda>f.
       Ok (Profile_new (ProfileId i) (PublicKey pk) f))))"

text \<open>The list is allocated with the length as \<^verbatim>\<open>u32\<close> and then filled by index: a longer list
  would be indexed out of range.  Other facets than persona panic.\<close>

definition Profile_fill_from :: "Profile \<Rightarrow> profile_msg run" where
  "Profile_fill_from src =
     (case facet src of
        Persona f \<Rightarrow>
          if length (homes f) < 2 ^ 32 then
            Return \<lparr>get_id = Ok (id_bytes (profile_id src)), get_public_key = Ok (key_bytes (public_key src)),
              get_facet = WhichPersona (Ok (map RelationProof_fill_from (homes f)))\<rparr>
          else Panic
      | _ \<Rightarrow> Panic)"

text \<open>What a reader sees when the profile field was never set.\<close>

definition default_profile_msg :: profile_msg where
  "default_profile_msg = \<lparr>get_id = Ok [], get_public_key = Ok [], get_facet = WhichPersona (Ok [])\<rparr>"

record own_profile_msg =
  get_profile :: "profile_msg getter"
  get_private_data :: "bytes getter"

definition OwnProfile_try_from :: "own_profile_msg \<Rightarrow> OwnProfile getter" where
  "OwnProfile_try_from src =
     and_then (get_profile src) (\<lambda>m.
     and_then (Profile_try_from m) (\<lambda>p.
     and_then (get_private_data src) (\<lambda>private_data.
       Ok (OwnProfile_new p private_data))))"

definition OwnProfile_fill_from :: "OwnProfile \<Rightarrow> own_profile_msg run" where
  "OwnProfile_fill_from src = run_bind (Profile_fill_from (profile src)) (\<lambda>m.
     Return \<lparr>get_profile = Ok m, get_private_data = Ok (priv_data src)\<rparr>)"

section \<open>Invitations, events and calls\<close>

record home_invitation_msg =
  get_invitation_data :: "bytes getter"

definition ascii :: "string \<Rightarrow> bytes" where
  "ascii s = map (\<lambda>c. of_nat (of_char c)) s"

definition HomeInvitation_try_from :: "home_invitation_msg \<Rightarrow> HomeInvitation getter" where
  "HomeInvitation_try_from _ =
     Ok (HomeInvitation_new (ProfileId (ascii ''TODO'')) ''TODO'' (Signature (ascii ''TODO'')))"

definition HomeInvitation_fill_from :: "HomeInvitation \<Rightarrow> home_invitation_msg" where
  "HomeInvitation_fill_from _ = \<lparr>get_invitation_data = Ok []\<rparr>"

definition default_invitation_msg :: home_invitation_msg where
  "default_invitation_msg = \<lparr>get_invitation_data = Ok []\<rparr>"

datatype event_which =
    WhichUnknown "bytes getter"
  | WhichPairingRequest "relation_half_proof_msg getter"
  | WhichPairingResponse "relation_proof_msg getter"

text \<open>A message is its \<^verbatim>\<open>which()\<close>, an error when the union has an unknown discriminant.\<close>

type_synonym profile_event_msg = "event_which getter"

definition ProfileEvent_try_from :: "profile_event_msg \<Rightarrow> ProfileEvent getter" where
  "ProfileEvent_try_from src =
     and_then src (\<lambda>w. case w of
         WhichUnknown data \<Rightarrow> and_then data (\<lambda>d. Ok (UnknownEvent d))
       | WhichPairingRequest half_proof \<Rightarrow>
           and_then half_proof (\<lambda>m. and_then (RelationHalfProof_try_from m) (\<lambda>hp. Ok (PairingRequest hp)))
       | WhichPairingResponse proof \<Rightarrow>
           and_then proof (\<lambda>m. and_then (RelationProof_try_from m) (\<lambda>p. Ok (PairingResponse p))))"

text \<open>\<^verbatim>\<open>init_unknown(data.len() as u32)\<close> allocates zero bytes; the data is not copied.\<close>

definition ProfileEvent_fill_from :: "ProfileEvent \<Rightarrow> profile_event_msg" where
  "ProfileEvent_fill_from src =
     (case src of
        PairingRequest half_proof \<Rightarrow> Ok (WhichPairingRequest (Ok (RelationHalfProof_fill_from half_proof)))
      | PairingResponse proof \<Rightarrow> Ok (WhichPairingResponse (Ok (RelationProof_fill_from proof)))
      | UnknownEvent data \<Rightarrow> Ok (WhichUnknown (Ok (replicate (unat (of_nat (length data) :: 32 word)) 0))))"

text \<open>A capability for an \<^verbatim>\<open>AppMessageListener\<close> is the sink its messages end up in.\<close>

record call_request_msg =
  get_relation :: "relation_proof_msg getter"
  get_init_payload :: "bytes getter"
  get_to_caller :: "AppMsgSink getter"

definition null_capability :: capnp_error where
  "null_capability = ''Message contains null capability pointer.''"

definition CallRequestDetails_try_from :: "call_request_msg \<Rightarrow> CallRequestDetails getter" where
  "CallRequestDetails_try_from src =
     and_then (get_relation src) (\<lambda>m.
     and_then (RelationProof_try_from m) (\<lambda>rel.
     and_then (get_init_payload src) (\<lambda>payload.
       Ok \<lparr>relation = rel, init_payload = AppMessageFrame payload, to_caller = None\<rparr>)))"

definition CallRequestDetails_fill_from :: "CallRequestDetails \<Rightarrow> call_request_msg" where
  "CallRequestDetails_fill_from src =
     \<lparr>get_relation = Ok (RelationProof_fill_from (relation src)),
      get_init_payload = Ok (frame_bytes (init_payload src)), get_to_caller = Err null_capability\<rparr>"

section \<open>Round trips\<close>

lemma relation_half_proof_roundtrip [simp]: "RelationHalfProof_try_from (RelationHalfProof_fill_from hp) = Inr hp"
  by (simp add: RelationHalfProof_try_from_def RelationHalfProof_fill_from_def)

lemma relation_proof_roundtrip [simp]: "RelationProof_try_from (RelationProof_fill_from p) = Inr p"
  by (simp add: RelationProof_try_from_def RelationProof_fill_from_def)

text \<open>What of a profile survives: its identity and the first of its homes.\<close>

definition carried_facet :: "ProfileFacet \<Rightarrow> ProfileFacet" where
  "carried_facet f = (case f of Persona p \<Rightarrow> Persona \<lparr>homes = take 1 (homes p), persona_data = []\<rparr> | _ \<Rightarrow> f)"

definition carried :: "Profile \<Rightarrow> Profile" where
  "carried p = p\<lparr>facet := carried_facet (facet p)\<rparr>"

definition carried_own :: "OwnProfile \<Rightarrow> OwnProfile" where
  "carried_own own = own\<lparr>profile := carried (profile own)\<rparr>"

text \<open>Profiles that can be sent at all.\<close>

definition sendable :: "Profile \<Rightarrow> bool" where
  "sendable p \<longleftrightarrow> (case facet p of Persona f \<Rightarrow> length (homes f) < 2 ^ 32 | _ \<Rightarrow> False)"

lemma sendableE:
  assumes "sendable p"
  obtains f where "facet p = Persona f" "length (homes f) < 2 ^ 32"
  using assms by (auto simp: sendable_def split: ProfileFacet.splits)

lemma Profile_fill_from_panics: "Profile_fill_from p = Panic \<longleftrightarrow> \<not> sendable p"
  by (simp add: Profile_fill_from_def sendable_def split: ProfileFacet.split)

lemma facet_roundtrip:
  "facet_try_from (WhichPersona (Ok (map RelationProof_fill_from hs))) = Inr (Persona \<lparr>homes = take 1 hs, persona_data = []\<rparr>)"
  by (cases hs) (simp_all add: facet_try_from_def)

lemma Profile_roundtrip:
  assumes "sendable p"
  shows "\<exists>m. Profile_fill_from p = Return m \<and> Profile_try_from m = Inr (carried p)"
  using assms by (elim sendableE)
    (simp add: Profile_fill_from_def Profile_try_from_def facet_roundtrip carried_def carried_facet_def Profile_new_def)

lemma OwnProfile_roundtrip:
  assumes "sendable (profile own)"
  shows "\<exists>m. OwnProfile_fill_from own = Return m \<and> OwnProfile_try_from m = Inr (carried_own own)"
proof -
  obtain m where "Profile_fill_from (profile own) = Return m" "Profile_try_from m = Inr (carried (profile own))"
    using Profile_roundtrip [OF assms] by blast
  then show ?thesis by (simp add: OwnProfile_fill_from_def OwnProfile_try_from_def OwnProfile_new_def carried_own_def)
qed

lemma OwnProfile_fill_from_panics: "OwnProfile_fill_from own = Panic \<longleftrightarrow> \<not> sendable (profile own)"
  by (simp add: OwnProfile_fill_from_def Profile_fill_from_panics)

lemma carried_same:
  assumes "sendable p"
  shows "carried p = p \<longleftrightarrow> (\<exists>f. facet p = Persona f \<and> length (homes f) \<le> 1 \<and> persona_data f = [])"
proof -
  obtain f where f: "facet p = Persona f" using assms by (rule sendableE)
  have "carried p = p \<longleftrightarrow> \<lparr>homes = take 1 (homes f), persona_data = []\<rparr> = f"
    using f by (cases p) (auto simp: carried_def carried_facet_def)
  also have "\<dots> \<longleftrightarrow> take 1 (homes f) = homes f \<and> persona_data f = []"
    by (cases f) auto
  also have "take 1 (homes f) = homes f \<longleftrightarrow> length (homes f) \<le> 1"
    by (metis length_take min.absorb_iff2 nle_le take_all)
  finally show ?thesis using f by auto
qed

lemma ProfileEvent_roundtrip:
  "ProfileEvent_try_from (ProfileEvent_fill_from e) = Inr (case e of
     UnknownEvent d \<Rightarrow> UnknownEvent (replicate (length d mod 2 ^ 32) 0) | _ \<Rightarrow> e)"
  by (cases e) (simp_all add: ProfileEvent_try_from_def ProfileEvent_fill_from_def unat_of_nat take_bit_eq_mod)

end
