(* ===== verification/Capnp_Rpc.thy ===== *)
theory Capnp_Rpc
  imports Capnp_Messages
begin

text \<open>
  A home at the other end of a connection: the client proxies
  (\<^verbatim>\<open>mercury_capnp/client_proxy.rs\<close>) turn a call into a request message, the server
  dispatchers (\<^verbatim>\<open>mercury_capnp/server_dispatcher.rs\<close>) turn the message into a call of the
  \<^verbatim>\<open>Home\<close> or \<^verbatim>\<open>HomeSession\<close> they wrap, and the results travel back.

  The traits are records of operations on the state \<open>'w\<close> of the home, with \<open>'s\<close> for sessions.
  The transport is \<^verbatim>\<open>capnp-rpc\<close>: a request is delivered and answered, or the connection is
  lost before or after it was delivered.  A panic on either side is \<open>Panic\<close>.  \<open>dbg\<close> is the
  \<^verbatim>\<open>Debug\<close> text of an error.
\<close>

section \<open>The traits and the transport\<close>

record ('s, 'w) HomeTrait =
  trait_load :: "ProfileId \<Rightarrow> 'w \<Rightarrow> (Profile, ErrorKind) result \<times> 'w"
  trait_claim :: "ProfileId \<Rightarrow> 'w \<Rightarrow> (OwnProfile, ErrorKind) result \<times> 'w"
  trait_register :: "OwnProfile \<Rightarrow> RelationHalfProof \<Rightarrow> HomeInvitation option \<Rightarrow> 'w
     \<Rightarrow> (OwnProfile, OwnProfile \<times> ErrorKind) result \<times> 'w"
  trait_login :: "RelationProof \<Rightarrow> 'w \<Rightarrow> ('s, ErrorKind) result \<times> 'w"
  trait_pair_request :: "RelationHalfProof \<Rightarrow> 'w \<Rightarrow> (unit, ErrorKind) result \<times> 'w"
  trait_pair_response :: "RelationProof \<Rightarrow> 'w \<Rightarrow> (unit, ErrorKind) result \<times> 'w"
  trait_call :: "ApplicationId \<Rightarrow> CallRequestDetails \<Rightarrow> 'w \<Rightarrow> (AppMsgSink option, ErrorKind) result \<times> 'w"

record 'w SessionTrait =
  trait_update :: "OwnProfile \<Rightarrow> 'w \<Rightarrow> (unit, ErrorKind) result \<times> 'w"
  trait_unregister :: "Profile option \<Rightarrow> 'w \<Rightarrow> (unit, ErrorKind) result \<times> 'w"
  trait_ping :: "string \<Rightarrow> 'w \<Rightarrow> (string, ErrorKind) result \<times> 'w"

type_synonym ('w, 'm) rpc = "'w \<Rightarrow> ('m getter \<times> 'w) run"

datatype link = Up | LostBefore | LostAfter

definition rpc_send :: "link \<Rightarrow> ('w, 'm) rpc \<Rightarrow> ('w, 'm) rpc" where
  "rpc_send link f w =
     (case link of
        Up \<Rightarrow> f w
      | LostBefore \<Rightarrow> Return (Err ''Peer disconnected.'', w)
      | LostAfter \<Rightarrow> run_bind (f w) (\<lambda>(_, w). Return (Err ''Peer disconnected.'', w)))"

text \<open>A dispatcher runs an operation of the trait, puts its result into the response and turns its
  error into text.\<close>

definition dispatch :: "('e \<Rightarrow> capnp_error) \<Rightarrow> ('a \<Rightarrow> 'm run) \<Rightarrow> ('w \<Rightarrow> ('a, 'e) result \<times> 'w) \<Rightarrow> ('w, 'm) rpc" where
  "dispatch err fill f w =
     (case f w of
        (Inl e, w) \<Rightarrow> Return (Err (err e), w)
      | (Inr a, w) \<Rightarrow> run_bind (fill a) (\<lambda>m. Return (Ok m, w)))"

text \<open>\<^verbatim>\<open>pry!\<close>: a parameter that cannot be read fails the request.\<close>

definition pry :: "'a getter \<Rightarrow> ('a \<Rightarrow> ('w, 'm) rpc) \<Rightarrow> ('w, 'm) rpc" where
  "pry r f w = (case r of Inl e \<Rightarrow> Return (Err e, w) | Inr a \<Rightarrow> f a w)"

text \<open>A proxy reads the response and replaces every error by its own kind.\<close>

definition respond :: "'e \<Rightarrow> ('m \<Rightarrow> 'a getter) \<Rightarrow> ('w, 'm) rpc \<Rightarrow> 'w \<Rightarrow> (('a, 'e) result \<times> 'w) run" where
  "respond e read f w = run_bind (f w) (\<lambda>(r, w). Return (map_err (\<lambda>_. e) (and_then r read), w))"

section \<open>Server dispatchers\<close>

definition dispatch_load :: "(ErrorKind \<Rightarrow> string) \<Rightarrow> ('s, 'w) HomeTrait \<Rightarrow> bytes getter \<Rightarrow> ('w, profile_msg) rpc" where
  "dispatch_load dbg home params = pry params (\<lambda>i.
     dispatch (\<lambda>e. ''Failed to load profile id: '' @ dbg e) Profile_fill_from (trait_load home (ProfileId i)))"

definition dispatch_claim :: "(ErrorKind \<Rightarrow> string) \<Rightarrow> ('s, 'w) HomeTrait \<Rightarrow> bytes getter \<Rightarrow> ('w, own_profile_msg) rpc" where
  "dispatch_claim dbg home params = pry params (\<lambda>i.
     dispatch (\<lambda>e. ''Failed to claim profile: '' @ dbg e) OwnProfile_fill_from (trait_claim home (ProfileId i)))"

record register_params =
  get_own_profile :: "own_profile_msg getter"
  get_half_proof :: "relation_half_proof_msg getter"
  get_invite :: "home_invitation_msg getter"

definition dispatch_register ::
  "(OwnProfile \<times> ErrorKind \<Rightarrow> string) \<Rightarrow> ('s, 'w) HomeTrait \<Rightarrow> register_params \<Rightarrow> ('w, own_profile_msg) rpc" where
  "dispatch_register dbg home params =
     pry (get_own_profile params) (\<lambda>own_prof_capnp. pry (OwnProfile_try_from own_prof_capnp) (\<lambda>own_prof.
     pry (get_half_proof params) (\<lambda>half_proof_capnp. pry (RelationHalfProof_try_from half_proof_capnp) (\<lambda>half_proof.
       let invite_opt = ok (and_then (get_invite params) HomeInvitation_try_from) in
       dispatch (\<lambda>e. ''Failed to register profile: '' @ dbg e) OwnProfile_fill_from
         (trait_register home own_prof half_proof invite_opt)))))"

definition dispatch_login :: "(ErrorKind \<Rightarrow> string) \<Rightarrow> ('s, 'w) HomeTrait \<Rightarrow> relation_proof_msg getter \<Rightarrow> ('w, 's) rpc" where
  "dispatch_login dbg home params =
     pry params (\<lambda>proof_capnp. pry (RelationProof_try_from proof_capnp) (\<lambda>proof_of_home.
       dispatch (\<lambda>e. ''Failed to login: '' @ dbg e) Return (trait_login home proof_of_home)))"

definition dispatch_pair_request ::
  "(ErrorKind \<Rightarrow> string) \<Rightarrow> ('s, 'w) HomeTrait \<Rightarrow> relation_half_proof_msg getter \<Rightarrow> ('w, unit) rpc" where
  "dispatch_pair_request dbg home params =
     pry params (\<lambda>half_proof_capnp. pry (RelationHalfProof_try_from half_proof_capnp) (\<lambda>half_proof.
       dispatch (\<lambda>e. ''Failed to request pairing '' @ dbg e) Return (trait_pair_request home half_proof)))"

definition dispatch_pair_response ::
  "(ErrorKind \<Rightarrow> string) \<Rightarrow> ('s, 'w) HomeTrait \<Rightarrow> relation_proof_msg getter \<Rightarrow> ('w, unit) rpc" where
  "dispatch_pair_response dbg home params =
     pry params (\<lambda>proof_capnp. pry (RelationProof_try_from proof_capnp) (\<lambda>proof.
       dispatch (\<lambda>e. ''Failed to send pairing response: '' @ dbg e) Return (trait_pair_response home proof)))"

record call_params =
  get_call_relation :: "relation_proof_msg getter"
  get_app :: "string getter"
  get_call_payload :: "bytes getter"
  get_call_to_caller :: "AppMsgSink getter"

text \<open>The response carries the callee's listener when the call was answered with one.\<close>

definition capability :: "AppMsgSink option \<Rightarrow> AppMsgSink getter" where
  "capability sink = ok_or null_capability sink"

definition dispatch_call :: "(ErrorKind \<Rightarrow> string) \<Rightarrow> ('s, 'w) HomeTrait \<Rightarrow> call_params \<Rightarrow> ('w, AppMsgSink getter) rpc" where
  "dispatch_call dbg home opts =
     pry (get_call_relation opts) (\<lambda>rel_capnp. pry (get_app opts) (\<lambda>app. pry (get_call_payload opts) (\<lambda>payload.
       let sink = ok (get_call_to_caller opts) in
       pry (RelationProof_try_from rel_capnp) (\<lambda>rel.
         dispatch (\<lambda>e. ''Failed to call profile: '' @ dbg e) (\<lambda>to_callee_opt. Return (capability to_callee_opt))
           (trait_call home (ApplicationId app) \<lparr>relation = rel, init_payload = AppMessageFrame payload, to_caller = sink\<rparr>)))))"

definition dispatch_update :: "(ErrorKind \<Rightarrow> string) \<Rightarrow> 'w SessionTrait \<Rightarrow> own_profile_msg getter \<Rightarrow> ('w, unit) rpc" where
  "dispatch_update dbg session params =
     pry params (\<lambda>m. pry (OwnProfile_try_from m) (\<lambda>own.
       dispatch (\<lambda>e. ''Failed to update profile: '' @ dbg e) Return (trait_update session own)))"

definition dispatch_unregister :: "(ErrorKind \<Rightarrow> string) \<Rightarrow> 'w SessionTrait \<Rightarrow> profile_msg getter \<Rightarrow> ('w, unit) rpc" where
  "dispatch_unregister dbg session new_home_res =
     (let new_home_opt = ok (and_then new_home_res Profile_try_from) in
      dispatch (\<lambda>e. ''Failed to unregister profile: '' @ dbg e) Return (trait_unregister session new_home_opt))"

definition dispatch_ping :: "(ErrorKind \<Rightarrow> string) \<Rightarrow> 'w SessionTrait \<Rightarrow> string getter \<Rightarrow> ('w, string) rpc" where
  "dispatch_ping dbg session params =
     pry params (\<lambda>txt. dispatch (\<lambda>e. ''Failed ping: '' @ dbg e) Return (trait_ping session txt))"

section \<open>Client proxies\<close>

text \<open>\<open>send\<close> is the stub of the generated client: it sends the parameters and waits for the
  response.\<close>

definition client_load :: "(bytes getter \<Rightarrow> ('w, profile_msg) rpc) \<Rightarrow> ProfileId \<Rightarrow> 'w \<Rightarrow> ((Profile, ErrorKind) result \<times> 'w) run" where
  "client_load send i = respond FailedToLoadProfile Profile_try_from (send (Ok (id_bytes i)))"

definition client_claim :: "(bytes getter \<Rightarrow> ('w, own_profile_msg) rpc) \<Rightarrow> ProfileId \<Rightarrow> 'w \<Rightarrow> ((OwnProfile, ErrorKind) result \<times> 'w) run" where
  "client_claim send i = respond FailedToClaimProfile OwnProfile_try_from (send (Ok (id_bytes i)))"

definition client_register ::
  "(register_params \<Rightarrow> ('w, own_profile_msg) rpc) \<Rightarrow> OwnProfile \<Rightarrow> RelationHalfProof \<Rightarrow> HomeInvitation option \<Rightarrow> 'w
     \<Rightarrow> ((OwnProfile, OwnProfile \<times> ErrorKind) result \<times> 'w) run" where
  "client_register send own half_proof invite w =
     run_bind (OwnProfile_fill_from own) (\<lambda>own_msg.
       respond (own, RegisterFailed) OwnProfile_try_from
         (send \<lparr>get_own_profile = Ok own_msg, get_half_proof = Ok (RelationHalfProof_fill_from half_proof),
            get_invite = Ok (case invite of Some i \<Rightarrow> HomeInvitation_fill_from i | None \<Rightarrow> default_invitation_msg)\<rparr>) w)"

definition client_login :: "(relation_proof_msg getter \<Rightarrow> ('w, 's) rpc) \<Rightarrow> RelationProof \<Rightarrow> 'w \<Rightarrow> (('s, ErrorKind) result \<times> 'w) run" where
  "client_login send proof_of_home = respond FailedToCreateSession Ok (send (Ok (RelationProof_fill_from proof_of_home)))"

definition client_pair_request :: "(relation_half_proof_msg getter \<Rightarrow> ('w, unit) rpc) \<Rightarrow> RelationHalfProof \<Rightarrow> 'w \<Rightarrow> ((unit, ErrorKind) result \<times> 'w) run" where
  "client_pair_request send half_proof = respond PairRequestFailed Ok (send (Ok (RelationHalfProof_fill_from half_proof)))"

definition client_pair_response :: "(relation_proof_msg getter \<Rightarrow> ('w, unit) rpc) \<Rightarrow> RelationProof \<Rightarrow> 'w \<Rightarrow> ((unit, ErrorKind) result \<times> 'w) run" where
  "client_pair_response send proof = respond PairResponseFailed Ok (send (Ok (RelationProof_fill_from proof)))"

definition client_call ::
  "(call_params \<Rightarrow> ('w, AppMsgSink getter) rpc) \<Rightarrow> ApplicationId \<Rightarrow> CallRequestDetails \<Rightarrow> 'w
     \<Rightarrow> ((AppMsgSink option, ErrorKind) result \<times> 'w) run" where
  "client_call send app call_req = respond CallFailed (\<lambda>to_callee. Ok (ok to_callee))
     (send \<lparr>get_call_relation = Ok (RelationProof_fill_from (relation call_req)), get_app = Ok (app_name app),
        get_call_payload = Ok (frame_bytes (init_payload call_req)), get_call_to_caller = capability (to_caller call_req)\<rparr>)"

definition client_update :: "(own_profile_msg getter \<Rightarrow> ('w, unit) rpc) \<Rightarrow> OwnProfile \<Rightarrow> 'w \<Rightarrow> ((unit, ErrorKind) result \<times> 'w) run" where
  "client_update send own w = run_bind (OwnProfile_fill_from own) (\<lambda>m. respond ProfileUpdateFailed Ok (send (Ok m)) w)"

definition client_unregister :: "(profile_msg getter \<Rightarrow> ('w, unit) rpc) \<Rightarrow> Profile option \<Rightarrow> 'w \<Rightarrow> ((unit, ErrorKind) result \<times> 'w) run" where
  "client_unregister send newhome w =
     run_bind (case newhome of Some p \<Rightarrow> Profile_fill_from p | None \<Rightarrow> Return default_profile_msg)
       (\<lambda>m. respond UnregisterFailed Ok (send (Ok m)) w)"

definition client_ping :: "(string getter \<Rightarrow> ('w, string) rpc) \<Rightarrow> string \<Rightarrow> 'w \<Rightarrow> ((string, ErrorKind) result \<times> 'w) run" where
  "client_ping send txt = respond PingFailed Ok (send (Ok txt))"

end
