(* ===== verification/Capnp_Home.thy ===== *)
theory Capnp_Home
  imports Capnp_Rpc Home_Invariants
begin

text \<open>
  A home behind the wire.  The locale \<open>servable\<close> is what a home must promise so that the
  dispatchers can always answer: what it returns can be sent.  Inside it the proxy composed with the
  dispatcher is shown to be the home itself on what a message can carry.  The home node keeps the
  promise as long as everything it stores came in through the dispatchers; \<open>wire_step\<close> is the
  state machine of such a node, fed with arbitrary messages.
\<close>

section \<open>Composing proxy and dispatcher\<close>

lemma pry_Ok [simp]: "pry (Inr a) f = f a"
  by (rule ext) (simp add: pry_def)

lemma pry_Err [simp]: "pry (Inl e) f w = Return (Inl e, w)"
  by (simp add: pry_def)

lemma rpc_send_Up [simp]: "rpc_send Up f = f"
  by (rule ext) (simp add: rpc_send_def)

text \<open>The round trip of one request: if every result can be sent and reads back as \<open>g\<close> of it, the
  proxy returns \<open>g\<close> of the result and hides the kind of error.\<close>

lemma respond_dispatch:
  assumes "f w = (r, w')" and "\<And>a. r = Inr a \<Longrightarrow> \<exists>m. fill a = Return m \<and> rd m = Inr (g a)"
  shows "respond e rd (dispatch err fill f) w = Return (map_err (\<lambda>_. e) (map_ok g r), w')"
proof (cases r)
  case (Inl x)
  with assms(1) show ?thesis by (simp add: respond_def dispatch_def)
next
  case (Inr a)
  with assms obtain m where "fill a = Return m" "rd m = Inr (g a)" by blast
  with assms(1) Inr show ?thesis by (simp add: respond_def dispatch_def)
qed

lemma dispatch_no_panic: "(\<And>a w'. f w = (Inr a, w') \<Longrightarrow> fill a \<noteq> Panic) \<Longrightarrow> dispatch err fill f w \<noteq> Panic"
  by (auto simp: dispatch_def split: prod.split sum.split)

lemma dispatch_state: "dispatch err fill f w = Return (r, w') \<Longrightarrow> w' = snd (f w)"
  by (auto simp: dispatch_def split: prod.splits sum.splits)

text \<open>What a well-formed message can carry of a profile.\<close>

definition wire_profile :: "Profile \<Rightarrow> bool" where
  "wire_profile p \<longleftrightarrow> (\<exists>f. facet p = Persona f \<and> length (homes f) \<le> 1 \<and> persona_data f = [])"

lemma wire_profile_sendable: "wire_profile p \<Longrightarrow> sendable p"
  by (auto simp: wire_profile_def sendable_def)

lemma facet_try_from_Ok: "facet_try_from w = Inr f \<Longrightarrow> \<exists>p. f = Persona p \<and> length (homes p) \<le> 1 \<and> persona_data p = []"
proof (cases w)
  case (WhichPersona g)
  assume "facet_try_from w = Inr f"
  with WhichPersona obtain hs where "g = Inr hs" by (auto simp: facet_try_from_def)
  with WhichPersona \<open>facet_try_from w = Inr f\<close> show ?thesis by (cases hs) (auto simp: facet_try_from_def)
qed (auto simp: facet_try_from_def)

lemma Profile_try_from_wire: "Profile_try_from m = Inr p \<Longrightarrow> wire_profile p"
  by (auto simp: Profile_try_from_def Profile_new_def wire_profile_def dest!: facet_try_from_Ok)

lemma OwnProfile_try_from_wire: "OwnProfile_try_from m = Inr own \<Longrightarrow> wire_profile (profile own)"
  by (auto simp: OwnProfile_try_from_def OwnProfile_new_def dest: Profile_try_from_wire)

lemma carried_wire: "sendable p \<Longrightarrow> wire_profile (carried p)"
  by (elim sendableE) (simp add: wire_profile_def carried_def carried_facet_def)

text \<open>The invitation every registration arrives with.\<close>

definition todo_invitation :: HomeInvitation where
  "todo_invitation = HomeInvitation_new (ProfileId (ascii ''TODO'')) ''TODO'' (Signature (ascii ''TODO''))"

section \<open>A home that can be served\<close>

locale servable =
  fixes home :: "('s, 'w) HomeTrait" and good :: "'w \<Rightarrow> bool"
  assumes claim_sendable: "good w \<Longrightarrow> trait_claim home i w = (Inr own, w') \<Longrightarrow> sendable (profile own)"
    and register_sendable: "good w \<Longrightarrow> wire_profile (profile own)
      \<Longrightarrow> trait_register home own half invite w = (Inr own', w') \<Longrightarrow> sendable (profile own')"
begin

lemma remote_claim:
  assumes "good w" and "trait_claim home i w = (r, w')"
  shows "client_claim (\<lambda>ps. rpc_send Up (dispatch_claim dbg home ps)) i w
    = Return (map_err (\<lambda>_. FailedToClaimProfile) (map_ok carried_own r), w')"
  unfolding client_claim_def dispatch_claim_def using assms
  by (simp, intro respond_dispatch) (auto intro: OwnProfile_roundtrip claim_sendable)

lemma remote_register:
  assumes "good w" and own: "sendable (profile own)"
    and r: "trait_register home (carried_own own) half (Some todo_invitation) w = (r, w')"
  shows "client_register (\<lambda>ps. rpc_send Up (dispatch_register dbg home ps)) own half invite w
    = Return (map_err (\<lambda>_. (own, RegisterFailed)) (map_ok carried_own r), w')"
proof -
  obtain m where m: "OwnProfile_fill_from own = Return m" "OwnProfile_try_from m = Inr (carried_own own)"
    using OwnProfile_roundtrip [OF own] by blast
  have "wire_profile (profile (carried_own own))" using carried_wire [OF own] by (simp add: carried_own_def)
  then have sent: "\<exists>m. OwnProfile_fill_from a = Return m \<and> OwnProfile_try_from m = Inr (carried_own a)" if "r = Inr a" for a
    using r that register_sendable [OF assms(1)] by (intro OwnProfile_roundtrip) blast
  have "respond (own, RegisterFailed) OwnProfile_try_from (dispatch err OwnProfile_fill_from
      (trait_register home (carried_own own) half (Some todo_invitation))) w
      = Return (map_err (\<lambda>_. (own, RegisterFailed)) (map_ok carried_own r), w')" for err
    using r sent by (rule respond_dispatch)
  with m show ?thesis
    by (simp add: client_register_def dispatch_register_def HomeInvitation_try_from_def todo_invitation_def)
qed

lemma served_no_panic:
  assumes "good w"
  shows "dispatch_claim dbg home ps w \<noteq> Panic" "dispatch_register dbg' home rps w \<noteq> Panic"
    "dispatch_login dbg home lps w \<noteq> Panic" "dispatch_pair_request dbg home qps w \<noteq> Panic"
    "dispatch_pair_response dbg home lps w \<noteq> Panic" "dispatch_call dbg home cps w \<noteq> Panic"
proof -
  show "dispatch_claim dbg home ps w \<noteq> Panic"
    using claim_sendable [OF assms] by (cases ps) (auto simp: dispatch_claim_def OwnProfile_fill_from_panics intro!: dispatch_no_panic)
  show "dispatch_register dbg' home rps w \<noteq> Panic"
    by (auto simp: dispatch_register_def pry_def OwnProfile_fill_from_panics Let_def intro!: dispatch_no_panic split: sum.splits
        dest: register_sendable [OF assms OwnProfile_try_from_wire])
qed (auto simp: dispatch_login_def dispatch_pair_request_def dispatch_pair_response_def dispatch_call_def pry_def Let_def
    intro!: dispatch_no_panic split: sum.splits)

end

text \<open>Requests that carry only proofs arrive unchanged, at any home.\<close>

lemma remote_login:
  "trait_login home p w = (r, w') \<Longrightarrow> client_login (\<lambda>ps. rpc_send Up (dispatch_login dbg home ps)) p w
     = Return (map_err (\<lambda>_. FailedToCreateSession) r, w')"
  unfolding client_login_def dispatch_login_def
  by (simp, subst respond_dispatch [where g = "\<lambda>x. x"]) auto

lemma remote_pair_request:
  "trait_pair_request home hp w = (r, w') \<Longrightarrow> client_pair_request (\<lambda>ps. rpc_send Up (dispatch_pair_request dbg home ps)) hp w
     = Return (map_err (\<lambda>_. PairRequestFailed) r, w')"
  unfolding client_pair_request_def dispatch_pair_request_def
  by (simp, subst respond_dispatch [where g = "\<lambda>x. x"]) auto

lemma remote_pair_response:
  "trait_pair_response home p w = (r, w') \<Longrightarrow> client_pair_response (\<lambda>ps. rpc_send Up (dispatch_pair_response dbg home ps)) p w
     = Return (map_err (\<lambda>_. PairResponseFailed) r, w')"
  unfolding client_pair_response_def dispatch_pair_response_def
  by (simp, subst respond_dispatch [where g = "\<lambda>x. x"]) auto

lemma ok_capability [simp]: "ok (capability x) = x"
  by (cases x) (simp_all add: capability_def)

lemma remote_call:
  "trait_call home app req w = (r, w') \<Longrightarrow> client_call (\<lambda>ps. rpc_send Up (dispatch_call dbg home ps)) app req w
     = Return (map_err (\<lambda>_. CallFailed) r, w')"
  unfolding client_call_def dispatch_call_def
  by (simp, subst respond_dispatch [where g = "\<lambda>x. x" and r = r and w' = w']) (cases req, auto)

section \<open>The home node behind the wire\<close>

text \<open>The operations of a connection and of a session as the dispatchers see them.  While a call
  waits for its answer, \<open>later\<close> happens at the node.\<close>

definition HomeConnection_trait ::
  "('d, 'b) HomeEnv \<Rightarrow> PeerContext \<Rightarrow> (unit, string) result \<Rightarrow> (('d, 'b) HomeServer \<Rightarrow> ('d, 'b) HomeServer)
     \<Rightarrow> (nat, ('d, 'b) HomeServer) HomeTrait" where
  "HomeConnection_trait env ctx timer later =
     \<lparr>trait_load = (\<lambda>i st. (load env st i, st)),
      trait_claim = (\<lambda>i st. (claim env ctx st i, st)),
      trait_register = register env ctx,
      trait_login = login env ctx,
      trait_pair_request = pair_request env ctx,
      trait_pair_response = pair_response env ctx,
      trait_call = (\<lambda>app req st. case call env ctx app req timer st of
          (Inl e, st) \<Rightarrow> (Err e, st)
        | (Inr recv, st) \<Rightarrow> (case await_answer (later st) recv True of
            Some r \<Rightarrow> (r, later st) | None \<Rightarrow> (Ok None, later st)))\<rparr>"

definition HomeSession_trait :: "('d, 'b) HomeEnv \<Rightarrow> PeerContext \<Rightarrow> ('d, 'b) HomeServer SessionTrait" where
  "HomeSession_trait env ctx =
     \<lparr>trait_update = update env ctx, trait_unregister = unregister env ctx, trait_ping = (\<lambda>txt st. (ping txt, st))\<rparr>"

text \<open>One request, however malformed, on a validated connection or a live session; or anything the
  node does by itself.\<close>

inductive wire_step :: "('d, 'b) HomeEnv \<Rightarrow> ('d, 'b) HomeServer \<Rightarrow> ('d, 'b) HomeServer \<Rightarrow> bool"
  for env :: "('d, 'b) HomeEnv" where
  wire_register: "HomeConnectionServer_new env ctx = Inr conn
    \<Longrightarrow> dispatch_register dbg (HomeConnection_trait env conn timer later) params st = Return (r, st') \<Longrightarrow> wire_step env st st'"
| wire_login: "HomeConnectionServer_new env ctx = Inr conn
    \<Longrightarrow> dispatch_login dbg (HomeConnection_trait env conn timer later) params st = Return (r, st') \<Longrightarrow> wire_step env st st'"
| wire_pair_request: "HomeConnectionServer_new env ctx = Inr conn
    \<Longrightarrow> dispatch_pair_request dbg (HomeConnection_trait env conn timer later) params st = Return (r, st') \<Longrightarrow> wire_step env st st'"
| wire_pair_response: "HomeConnectionServer_new env ctx = Inr conn
    \<Longrightarrow> dispatch_pair_response dbg (HomeConnection_trait env conn timer later) params st = Return (r, st') \<Longrightarrow> wire_step env st st'"
| wire_update: "session_heap st sid = Some s
    \<Longrightarrow> dispatch_update dbg (HomeSession_trait env (ss_context s)) params st = Return (r, st') \<Longrightarrow> wire_step env st st'"
| wire_unregister: "session_heap st sid = Some s
    \<Longrightarrow> dispatch_unregister dbg (HomeSession_trait env (ss_context s)) params st = Return (r, st') \<Longrightarrow> wire_step env st st'"
| wire_call: "HomeConnectionServer_new env ctx = Inr conn \<Longrightarrow> wire_step env st (snd (call env conn app req timer st))"
| wire_answer: "wire_step env st (snd (answer c to_callee st))"
| wire_checkin_app: "session_heap st sid = Some s \<Longrightarrow> wire_step env st (snd (checkin_app sid s app st))"
| wire_events: "session_heap st sid = Some s \<Longrightarrow> wire_step env st (snd (events sid s st))"
| wire_drop: "session_heap st sid = Some s \<Longrightarrow> wire_step env st (drop_session sid s st)"
| wire_poll: "wire_step env st (reactor_poll i st)"
| wire_receive: "wire_step env st (snd (receive_event c st))"
| wire_close: "wire_step env st (close_events c st)"

text \<open>Every hosted profile is a persona with at most the home it came with and this one.\<close>

definition wire_inv :: "('b \<Rightarrow> ProfileId \<Rightarrow> OwnProfile option) \<Rightarrow> ('d, 'b) HomeServer \<Rightarrow> bool" where
  "wire_inv ba st \<longleftrightarrow> (\<forall>i own. ba (hosted_profile_db st) i = Some own \<longrightarrow>
     (\<exists>f. facet (profile own) = Persona f \<and> length (homes f) \<le> 2))"

lemma wire_inv_db: "wire_inv ba st \<Longrightarrow> hosted_profile_db st' = hosted_profile_db st \<Longrightarrow> wire_inv ba st'"
  by (simp add: wire_inv_def)

lemma wire_inv_publish:
  "wire_inv ba st \<Longrightarrow> publish da ba own st st' \<Longrightarrow> facet (profile own) = Persona f \<Longrightarrow> length (homes f) \<le> 2 \<Longrightarrow> wire_inv ba st'"
  by (auto simp: wire_inv_def publish_def)

lemma add_home_wire:
  "wire_profile (profile own) \<Longrightarrow> \<exists>f. facet (profile (add_home p own)) = Persona f \<and> length (homes f) \<le> 2"
  by (auto simp: wire_profile_def)

lemma db_drop_calls: "hosted_profile_db (drop_calls cs st) = hosted_profile_db st"
  by (induction cs st rule: drop_calls.induct) (simp_all add: drop_call_def)

lemma db_drop_session: "hosted_profile_db (drop_session sid s st) = hosted_profile_db st"
  by (simp add: drop_session_def db_drop_calls)

lemma db_login: "hosted_profile_db (snd (login env ctx rel st)) = hosted_profile_db st"
  using login_cases [of env ctx rel st] by (auto simp: logged_in_def)

context home_node
begin

lemma wire_inv_sendable:
  assumes "wire_inv ba st" and "kv_get (db_ops env) (hosted_profile_db st) i = Inr own"
  shows "sendable (profile own)"
  using assms db.get_iff [OF TrueI] by (fastforce simp: wire_inv_def sendable_def)

lemma wire_register_inv:
  assumes "wire_inv ba st" and "wire_profile (profile own)"
  shows "wire_inv ba (snd (register env ctx own half invite st))"
  using register_cases [of ctx own half invite st] add_home_wire [OF assms(2), of "home_proof_of env ctx half"] assms(1)
  by (auto intro: wire_inv_publish simp del: add_home.simps)

lemma wire_update_inv:
  assumes "wire_inv ba st" and "wire_profile (profile own)"
  shows "wire_inv ba (snd (update env ctx own st))"
  using update_cases [of ctx own st] assms by (force intro: wire_inv_publish simp: wire_profile_def)

lemma wire_unregister_inv: "wire_inv ba st \<Longrightarrow> wire_inv ba (snd (unregister env ctx newhome st))"
  using unregister_cases [of ctx newhome st] by (auto simp: wire_inv_def split: if_splits)

lemma wire_inv_step:
  assumes "wire_step env st st'" and "wire_inv ba st"
  shows "wire_inv ba st'"
  using assms
proof cases
  case (wire_register ctx conn dbg timer later params r)
  then show ?thesis using assms(2)
    by (auto simp: dispatch_register_def pry_def HomeConnection_trait_def Let_def split: sum.splits
        dest!: dispatch_state OwnProfile_try_from_wire intro: wire_register_inv)
next
  case (wire_update sid s dbg params r)
  then show ?thesis using assms(2)
    by (auto simp: dispatch_update_def pry_def HomeSession_trait_def split: sum.splits
        dest!: dispatch_state OwnProfile_try_from_wire intro: wire_update_inv)
next
  case (wire_unregister sid s dbg params r)
  then show ?thesis using assms(2)
    by (auto simp: dispatch_unregister_def HomeSession_trait_def Let_def dest!: dispatch_state intro: wire_unregister_inv)
next
  case (wire_login ctx conn dbg timer later params r)
  then show ?thesis using assms(2)
    by (auto simp: dispatch_login_def pry_def HomeConnection_trait_def split: sum.splits dest!: dispatch_state
        intro: wire_inv_db db_login)
next
  case (wire_pair_request ctx conn dbg timer later params r)
  then show ?thesis using assms(2)
    by (auto simp: dispatch_pair_request_def pry_def HomeConnection_trait_def split: sum.splits dest!: dispatch_state
        intro: wire_inv_db core_eqD(2) [OF core_pair_request])
next
  case (wire_pair_response ctx conn dbg timer later params r)
  then show ?thesis using assms(2)
    by (auto simp: dispatch_pair_response_def pry_def HomeConnection_trait_def split: sum.splits dest!: dispatch_state
        intro: wire_inv_db core_eqD(2) [OF core_pair_response])
qed (use assms(2) in \<open>auto intro: wire_inv_db db_drop_session core_eqD(2) [OF core_call] core_eqD(2) [OF core_answer]
    core_eqD(2) [OF core_checkin_app] core_eqD(2) [OF core_events] core_eqD(2) [OF core_reactor_poll]
    core_eqD(2) [OF core_receive_event] core_eqD(2) [OF core_close_events]\<close>)

lemma wire_inv_reach:
  assumes "(wire_step env)\<^sup>*\<^sup>* st st'" and "wire_inv ba st"
  shows "wire_inv ba st'"
  using assms by induction (auto intro: wire_inv_step)

sublocale wire: servable "HomeConnection_trait env ctx timer later" "wire_inv ba" for ctx timer later
proof unfold_locales
  fix st st' :: "('d, 'b) HomeServer" and i own
  assume "wire_inv ba st" "trait_claim (HomeConnection_trait env ctx timer later) i st = (Inr own, st')"
  then show "sendable (profile own)"
    by (auto simp: HomeConnection_trait_def claim_def intro: wire_inv_sendable split: if_splits)
next
  fix st st' :: "('d, 'b) HomeServer" and own half invite own'
  assume "wire_profile (profile own)" "trait_register (HomeConnection_trait env ctx timer later) own half invite st = (Inr own', st')"
  then show "sendable (profile own')"
    using register_cases [of ctx own half invite st] add_home_wire [of own "home_proof_of env ctx half"]
    by (fastforce simp: HomeConnection_trait_def sendable_def simp del: add_home.simps)
qed

end

end
