(* ===== verification/Capnp_Streams.thy ===== *)
theory Capnp_Streams
  imports Capnp_Rpc
begin

text \<open>
  What flows over a connection after a request: application messages of a call
  (\<^verbatim>\<open>fwd_appmsg\<close> and \<^verbatim>\<open>AppMessageDispatcherCapnProto\<close>, \<^verbatim>\<open>mod.rs\<close>), profile
  events (\<^verbatim>\<open>events\<close> of dispatcher and proxy) and incoming calls (\<^verbatim>\<open>checkin_app\<close>).
  A stream is the list of its items; the channel at the receiving end is the one of the home node
  model, so a send fails exactly when the receiver is gone.  \<^verbatim>\<open>for_each\<close> stops at the first
  request that fails.
\<close>

section \<open>Sending into a channel\<close>

definition sink_send :: "string \<Rightarrow> ('a, string) result \<Rightarrow> 'a channel \<Rightarrow> (unit, capnp_error) result \<times> 'a channel" where
  "sink_send failure item ch =
     (if closed ch then (Err failure, ch) else (Ok (), ch\<lparr>queue := queue ch @ [item]\<rparr>))"

text \<open>\<^verbatim>\<open>for_each\<close> over a stream of requests.\<close>

fun for_each :: "('i \<Rightarrow> 's \<Rightarrow> (unit, 'e) result \<times> 's) \<Rightarrow> 'i list \<Rightarrow> 's \<Rightarrow> (unit, 'e) result \<times> 's" where
  "for_each f [] s = (Ok (), s)"
| "for_each f (i # is) s = (case f i s of (Inl e, s) \<Rightarrow> (Err e, s) | (Inr _, s) \<Rightarrow> for_each f is s)"

section \<open>Application messages\<close>

definition AppMessageDispatcher_receive ::
  "bytes getter \<Rightarrow> AppMessageFrame channel \<Rightarrow> (unit, capnp_error) result \<times> AppMessageFrame channel" where
  "AppMessageDispatcher_receive params sender =
     (case params of Inl e \<Rightarrow> (Err e, sender)
      | Inr message \<Rightarrow> sink_send ''Failed to send event'' (Ok (AppMessageFrame message)) sender)"

definition AppMessageDispatcher_error ::
  "string getter \<Rightarrow> AppMessageFrame channel \<Rightarrow> (unit, capnp_error) result \<times> AppMessageFrame channel" where
  "AppMessageDispatcher_error params sender =
     (case params of Inl e \<Rightarrow> (Err e, sender)
      | Inr error \<Rightarrow> sink_send ''Failed to send event'' (Err error) sender)"

definition fwd_message ::
  "(AppMessageFrame, string) result \<Rightarrow> AppMessageFrame channel \<Rightarrow> (unit, capnp_error) result \<times> AppMessageFrame channel" where
  "fwd_message message to_callee =
     (case message of
        Inr msg \<Rightarrow> AppMessageDispatcher_receive (Ok (frame_bytes msg)) to_callee
      | Inl err \<Rightarrow> AppMessageDispatcher_error (Ok err) to_callee)"

definition fwd_appmsg :: "(AppMessageFrame, string) result list \<Rightarrow> AppMessageFrame channel \<Rightarrow> AppMessageFrame channel" where
  "fwd_appmsg recv to_callee = snd (for_each fwd_message recv to_callee)"

section \<open>Profile events\<close>

definition ProfileEventDispatcher_receive ::
  "profile_event_msg getter \<Rightarrow> ProfileEvent channel \<Rightarrow> (unit, capnp_error) result \<times> ProfileEvent channel" where
  "ProfileEventDispatcher_receive params sender =
     (case and_then params ProfileEvent_try_from of Inl e \<Rightarrow> (Err e, sender)
      | Inr event \<Rightarrow> sink_send ''Failed to delegate event'' (Ok event) sender)"

definition ProfileEventDispatcher_error ::
  "string getter \<Rightarrow> ProfileEvent channel \<Rightarrow> (unit, capnp_error) result \<times> ProfileEvent channel" where
  "ProfileEventDispatcher_error params sender =
     (case params of Inl e \<Rightarrow> (Err e, sender)
      | Inr error \<Rightarrow> sink_send ''Failed to delegate event error'' (Err error) sender)"

definition dispatch_event ::
  "(ProfileEvent, string) result \<Rightarrow> ProfileEvent channel \<Rightarrow> (unit, capnp_error) result \<times> ProfileEvent channel" where
  "dispatch_event item callback =
     (case item of
        Inr event \<Rightarrow> ProfileEventDispatcher_receive (Ok (ProfileEvent_fill_from event)) callback
      | Inl err \<Rightarrow> ProfileEventDispatcher_error (Ok err) callback)"

text \<open>\<^verbatim>\<open>events\<close> of the session dispatcher, over the items the session yields.\<close>

definition dispatch_events ::
  "(ProfileEvent, string) result list \<Rightarrow> ProfileEvent channel \<Rightarrow> (unit, capnp_error) result \<times> ProfileEvent channel" where
  "dispatch_events items callback = for_each dispatch_event items callback"

text \<open>\<^verbatim>\<open>events\<close> of the proxy: when the request fails, the error goes into the stream.\<close>

definition client_events :: "(ProfileEvent channel \<Rightarrow> (unit, capnp_error) result \<times> ProfileEvent channel) \<Rightarrow> ProfileEvent channel" where
  "client_events send =
     (case send new_channel of
        (Inr _, recv) \<Rightarrow> recv
      | (Inl e, recv) \<Rightarrow> snd (sink_send [] (Err (''Events delegation failed: '' @ e)) recv))"

section \<open>Incoming calls\<close>

text \<open>The message of an incoming call: the request, with the caller's listener set if there is one.\<close>

definition incoming_call_msg :: "CallRequestDetails \<Rightarrow> call_request_msg" where
  "incoming_call_msg details =
     (let msg = CallRequestDetails_fill_from details in
      case to_caller details of None \<Rightarrow> msg | Some sink \<Rightarrow> msg\<lparr>get_to_caller := Ok sink\<rparr>)"

text \<open>What the application does with the incoming call.\<close>

datatype callee = CalleeAnswers "AppMsgSink option" | CalleeDrops | CalleeTimesOut

definition call_answer :: "callee \<Rightarrow> AppMsgSink getter getter" where
  "call_answer c =
     (case c of
        CalleeAnswers to_callee_opt \<Rightarrow> Ok (capability to_callee_opt)
      | CalleeDrops \<Rightarrow> Err ''Failed to get answer from callee''
      | CalleeTimesOut \<Rightarrow> Ok (Err null_capability))"

text \<open>\<^verbatim>\<open>CallDispatcherCapnProto::receive\<close>: the call is queued for the application, then its
  answer is awaited; \<open>timer\<close> is the outcome of \<^verbatim>\<open>Timeout::new\<close>.\<close>

definition CallDispatcher_receive ::
  "call_request_msg getter \<Rightarrow> (unit, string) result \<Rightarrow> callee \<Rightarrow> CallRequestDetails channel
     \<Rightarrow> AppMsgSink getter getter \<times> CallRequestDetails channel" where
  "CallDispatcher_receive params timer callee sender =
     (case and_then params (\<lambda>call_capnp. and_then (CallRequestDetails_try_from call_capnp) (\<lambda>details.
             Ok (details\<lparr>to_caller := ok (get_to_caller call_capnp)\<rparr>))) of
        Inl e \<Rightarrow> (Err e, sender)
      | Inr details \<Rightarrow>
          (case timer of
             Inl e \<Rightarrow> (Err e, sender)
           | Inr _ \<Rightarrow>
               (case sink_send ''Failed to dispatch call'' (Ok details) sender of
                  (Inl e, sender) \<Rightarrow> (Err e, sender)
                | (Inr _, sender) \<Rightarrow> (call_answer callee, sender))))"

definition CallDispatcher_error ::
  "string getter \<Rightarrow> CallRequestDetails channel \<Rightarrow> (unit, capnp_error) result \<times> CallRequestDetails channel" where
  "CallDispatcher_error params sender =
     (case params of Inl e \<Rightarrow> (Err e, sender)
      | Inr error \<Rightarrow> sink_send ''Failed to dispatch call error'' (Err error) sender)"

text \<open>One item of \<^verbatim>\<open>checkin_app\<close> of the dispatcher.  The second component of the result is
  what the waiting call is answered with, if it is.\<close>

definition dispatch_call_item ::
  "(unit, string) result \<Rightarrow> callee \<Rightarrow> (CallRequestDetails, string) result \<Rightarrow> CallRequestDetails channel
     \<Rightarrow> (unit, capnp_error) result \<times> AppMsgSink option option \<times> CallRequestDetails channel" where
  "dispatch_call_item timer callee item call_listener =
     (case item of
        Inr details \<Rightarrow>
          (case CallDispatcher_receive (Ok (incoming_call_msg details)) timer callee call_listener of
             (Inl e, ch) \<Rightarrow> (Err e, None, ch)
           | (Inr to_callee, ch) \<Rightarrow> (Ok (), Some (ok to_callee), ch))
      | Inl err \<Rightarrow> (case CallDispatcher_error (Ok err) call_listener of (r, ch) \<Rightarrow> (r, None, ch)))"

text \<open>\<^verbatim>\<open>checkin_app\<close> of the dispatcher over the items the session yields, each with what the
  application will do with it; the answers given are collected.\<close>

definition dispatch_calls ::
  "(unit, string) result \<Rightarrow> (callee \<times> (CallRequestDetails, string) result) list \<Rightarrow> CallRequestDetails channel
     \<Rightarrow> (unit, capnp_error) result \<times> AppMsgSink option option list \<times> CallRequestDetails channel" where
  "dispatch_calls timer items call_listener =
     for_each (\<lambda>(callee, item) (answers, ch).
       case dispatch_call_item timer callee item ch of (r, a, ch) \<Rightarrow> (r, answers @ [a], ch)) items ([], call_listener)"

text \<open>\<^verbatim>\<open>checkin_app\<close> of the proxy: when the request fails, the error goes into the stream.\<close>

definition client_checkin_app ::
  "(CallRequestDetails channel \<Rightarrow> (unit, capnp_error) result \<times> 'a \<times> CallRequestDetails channel) \<Rightarrow> 'a \<times> CallRequestDetails channel" where
  "client_checkin_app send =
     (case send new_channel of
        (Inr _, answers, recv) \<Rightarrow> (answers, recv)
      | (Inl e, answers, recv) \<Rightarrow> (answers, snd (sink_send [] (Err (''Call delegation failed: '' @ e)) recv)))"

section \<open>Lemmas\<close>

lemma incoming_call_roundtrip:
  "and_then (CallRequestDetails_try_from (incoming_call_msg d)) (\<lambda>x. Inr (x\<lparr>to_caller := ok (get_to_caller (incoming_call_msg d))\<rparr>)) = Inr d"
  by (cases d; cases "to_caller d")
    (simp_all add: incoming_call_msg_def CallRequestDetails_fill_from_def CallRequestDetails_try_from_def Let_def)

lemma for_each_open:
  assumes "\<And>i ch. \<not> closed ch \<Longrightarrow> f i ch = (Inr (), ch\<lparr>queue := queue ch @ [g i]\<rparr>)" and "\<not> closed ch"
  shows "for_each f is ch = (Inr (), ch\<lparr>queue := queue ch @ map g is\<rparr>)"
  using assms(2) by (induction "is" arbitrary: ch) (simp_all add: assms(1))

lemma fwd_message_open: "\<not> closed ch \<Longrightarrow> fwd_message m ch = (Inr (), ch\<lparr>queue := queue ch @ [m]\<rparr>)"
  by (simp add: fwd_message_def AppMessageDispatcher_receive_def AppMessageDispatcher_error_def sink_send_def split: sum.split)

definition carried_event :: "ProfileEvent \<Rightarrow> ProfileEvent" where
  "carried_event e = (case e of UnknownEvent d \<Rightarrow> UnknownEvent (replicate (length d mod 2 ^ 32) 0) | _ \<Rightarrow> e)"

lemma dispatch_event_open: "\<not> closed ch \<Longrightarrow> dispatch_event i ch = (Inr (), ch\<lparr>queue := queue ch @ [map_ok carried_event i]\<rparr>)"
  by (cases i) (simp_all add: dispatch_event_def ProfileEventDispatcher_receive_def ProfileEventDispatcher_error_def
      sink_send_def ProfileEvent_roundtrip carried_event_def)

lemma dispatch_call_item_open:
  "\<not> closed ch \<Longrightarrow> dispatch_call_item (Inr ()) (CalleeAnswers sink) (Inr d) ch
     = (Inr (), Some sink, ch\<lparr>queue := queue ch @ [Inr d]\<rparr>)"
  "\<not> closed ch \<Longrightarrow> dispatch_call_item (Inr ()) CalleeTimesOut (Inr d) ch
     = (Inr (), Some None, ch\<lparr>queue := queue ch @ [Inr d]\<rparr>)"
  by (cases sink) (simp_all add: dispatch_call_item_def CallDispatcher_receive_def incoming_call_roundtrip sink_send_def
      call_answer_def capability_def)

lemma dispatch_calls_open:
  assumes "\<not> closed ch"
  shows "for_each (\<lambda>(callee, item) (answers, ch).
      case dispatch_call_item (Inr ()) callee item ch of (r, a, ch) \<Rightarrow> (r, answers @ [a], ch))
      (map (\<lambda>(sink, d). (CalleeAnswers sink, Inr d)) calls) (as, ch)
    = (Inr (), as @ map (Some \<circ> fst) calls, ch\<lparr>queue := queue ch @ map (Inr \<circ> snd) calls\<rparr>)"
  using assms by (induction calls arbitrary: as ch) (auto simp: dispatch_call_item_open)

end
