(* ===== verification/Capnp_Properties.thy ===== *)
theory Capnp_Properties
  imports Capnp_Home Capnp_Streams Home_Samples
begin

text \<open>
  The properties of the connection between a client and a home: what messages carry, that no
  message makes a home node panic, and that a remote home behaves as the home itself.
\<close>

section \<open>Messages\<close>

text \<open>C28: exactly the personas with fewer than \<open>2 ^ 32\<close> homes can be put into a message, everything
  else panics; what is read back has the same id and key but at most the first home and no data, so
  a profile survives unchanged exactly when it has at most one home and no data.\<close>

theorem profile_message_roundtrip:
  "(Profile_fill_from p = Panic \<longleftrightarrow> \<not> (\<exists>f. facet p = Persona f \<and> length (homes f) < 2 ^ 32))
   \<and> (\<forall>m f. Profile_fill_from p = Return m \<and> facet p = Persona f \<longrightarrow>
        Profile_try_from m = Inr (p\<lparr>facet := Persona \<lparr>homes = take 1 (homes f), persona_data = []\<rparr>\<rparr>)
        \<and> (Profile_try_from m = Inr p \<longleftrightarrow> length (homes f) \<le> 1 \<and> persona_data f = []))"
proof (intro conjI allI impI)
  have sendable: "sendable p \<longleftrightarrow> (\<exists>f. facet p = Persona f \<and> length (homes f) < 2 ^ 32)"
    by (auto simp: sendable_def split: ProfileFacet.split)
  then show "Profile_fill_from p = Panic \<longleftrightarrow> \<not> (\<exists>f. facet p = Persona f \<and> length (homes f) < 2 ^ 32)"
    by (simp add: Profile_fill_from_panics)
  fix m f assume mf: "Profile_fill_from p = Return m \<and> facet p = Persona f"
  then have s: "sendable p" using Profile_fill_from_panics [of p] by auto
  from Profile_roundtrip [OF this] mf have rt: "Profile_try_from m = Inr (carried p)" by auto
  then show "Profile_try_from m = Inr (p\<lparr>facet := Persona \<lparr>homes = take 1 (homes f), persona_data = []\<rparr>\<rparr>)"
    using mf by (simp add: carried_def carried_facet_def)
  show "Profile_try_from m = Inr p \<longleftrightarrow> length (homes f) \<le> 1 \<and> persona_data f = []"
    using rt carried_same [OF s] mf by auto
qed

definition two_homes_profile :: Profile where
  "two_homes_profile = \<lparr>profile_id = ProfileId [1], public_key = PublicKey [1], facet = Persona \<lparr>homes =
     [\<lparr>relation_type = ''x'', a_id = ProfileId [1], a_signature = Signature [], b_id = ProfileId [2], b_signature = Signature []\<rparr>,
      \<lparr>relation_type = ''x'', a_id = ProfileId [1], a_signature = Signature [], b_id = ProfileId [3], b_signature = Signature []\<rparr>],
     persona_data = []\<rparr>\<rparr>"

theorem profile_message_roundtrip_witness:
  "\<exists>m. Profile_fill_from two_homes_profile = Return m \<and> Profile_try_from m \<noteq> Inr two_homes_profile"
proof -
  have "\<exists>m. Profile_fill_from two_homes_profile = Return m" by (simp add: two_homes_profile_def Profile_fill_from_def)
  then obtain m where m: "Profile_fill_from two_homes_profile = Return m" by blast
  with profile_message_roundtrip [of two_homes_profile] show ?thesis by (auto simp: two_homes_profile_def)
qed

text \<open>Over an open connection the streams arrive complete and in order: all application messages
  and errors of a call, all profile events and errors (with unknown events blanked), and all incoming
  calls exactly as they were made; each is answered with the sink the application answers with, and
  with none when the application takes too long.\<close>

lemma wire_streams_in_order:
  "queue (fwd_appmsg msgs new_channel) = msgs
   \<and> queue (client_events (dispatch_events evs)) = map (map_ok (\<lambda>e. case e of
        UnknownEvent d \<Rightarrow> UnknownEvent (replicate (length d mod 2 ^ 32) 0) | _ \<Rightarrow> e)) evs
   \<and> client_checkin_app (dispatch_calls (Inr ()) (map (\<lambda>(sink, d). (CalleeAnswers sink, Inr d)) calls))
        = (map (Some \<circ> fst) calls, new_channel\<lparr>queue := map (Inr \<circ> snd) calls\<rparr>)
   \<and> dispatch_call_item (Inr ()) CalleeTimesOut (Inr details) new_channel
        = (Inr (), Some None, new_channel\<lparr>queue := [Inr details]\<rparr>)"
proof (intro conjI)
  have new: "\<not> closed (new_channel :: 'x channel)" "queue (new_channel :: 'x channel) = []" by (simp_all add: new_channel_def)
  show "queue (fwd_appmsg msgs new_channel) = msgs"
    using for_each_open [of fwd_message "\<lambda>m. m", OF fwd_message_open new(1)] by (simp add: fwd_appmsg_def new_channel_def)
  show "queue (client_events (dispatch_events evs)) = map (map_ok (\<lambda>e. case e of
        UnknownEvent d \<Rightarrow> UnknownEvent (replicate (length d mod 2 ^ 32) 0) | _ \<Rightarrow> e)) evs"
    using for_each_open [of dispatch_event "map_ok carried_event", OF dispatch_event_open new(1)]
    by (simp add: client_events_def dispatch_events_def new_channel_def carried_event_def [abs_def])
  show "client_checkin_app (dispatch_calls (Inr ()) (map (\<lambda>(sink, d). (CalleeAnswers sink, Inr d)) calls))
      = (map (Some \<circ> fst) calls, new_channel\<lparr>queue := map (Inr \<circ> snd) calls\<rparr>)"
    using dispatch_calls_open [OF new(1)] by (simp add: client_checkin_app_def dispatch_calls_def new_channel_def)
qed (simp add: dispatch_call_item_open new_channel_def)

section \<open>Homes behind the wire\<close>


definition odd_request :: register_params where
  "odd_request = \<lparr>get_own_profile = Err ''truncated'', get_half_proof = Ok (RelationHalfProof_fill_from sample_half),
     get_invite = Ok default_invitation_msg\<rparr>"


text \<open>C25: a remote home is the home.  Over an open connection, what the proxy returns is what the node
  returns and the node ends in the same state, except that every error is replaced by the proxy's
  own kind, that a claimed or registered profile comes back with its first home only, and that a
  registration reaches the node with the first home of the profile only and with the same fixed
  invitation whatever the client sent.\<close>

theorem remote_home_refines:
  fixes st :: "((ProfileId, Profile) InMemoryStore, (ProfileId, OwnProfile) InMemoryStore) HomeServer"
  assumes start: "imap b = Map.empty" and run: "(wire_step (memory_env ser v))\<^sup>*\<^sup>* (HomeServer_new d b) st"
    and own: "sendable (profile own)"
  shows "client_register (\<lambda>ps. rpc_send Up (dispatch_register dbg2 (HomeConnection_trait (memory_env ser v) ctx timer later) ps)) own half invite st
       = (let (r, st') = register (memory_env ser v) ctx (carried_own own) half (Some todo_invitation) st
          in Return (map_err (\<lambda>_. (own, RegisterFailed)) (map_ok carried_own r), st'))
    \<and> client_claim (\<lambda>ps. rpc_send Up (dispatch_claim dbg (HomeConnection_trait (memory_env ser v) ctx timer later) ps)) i st
       = Return (map_err (\<lambda>_. FailedToClaimProfile) (map_ok carried_own (claim (memory_env ser v) ctx st i)), st)
    \<and> client_login (\<lambda>ps. rpc_send Up (dispatch_login dbg (HomeConnection_trait (memory_env ser v) ctx timer later) ps)) proof_of_home st
       = (let (r, st') = login (memory_env ser v) ctx proof_of_home st in Return (map_err (\<lambda>_. FailedToCreateSession) r, st'))
    \<and> client_pair_request (\<lambda>ps. rpc_send Up (dispatch_pair_request dbg (HomeConnection_trait (memory_env ser v) ctx timer later) ps)) half st
       = (let (r, st') = pair_request (memory_env ser v) ctx half st in Return (map_err (\<lambda>_. PairRequestFailed) r, st'))
    \<and> client_pair_response (\<lambda>ps. rpc_send Up (dispatch_pair_response dbg (HomeConnection_trait (memory_env ser v) ctx timer later) ps)) rel st
       = (let (r, st') = pair_response (memory_env ser v) ctx rel st in Return (map_err (\<lambda>_. PairResponseFailed) r, st'))"
proof -
  let ?home = "HomeConnection_trait (memory_env ser v) ctx timer later"
  have "wire_inv imap (HomeServer_new d b :: (_, (ProfileId, OwnProfile) InMemoryStore) HomeServer)"
    using start by (simp add: wire_inv_def HomeServer_new_def)
  with run have inv: "wire_inv imap st" by (rule memory_home.wire_inv_reach)
  have traits: "trait_register ?home = register (memory_env ser v) ctx" "trait_login ?home = login (memory_env ser v) ctx"
    "trait_pair_request ?home = pair_request (memory_env ser v) ctx" "trait_pair_response ?home = pair_response (memory_env ser v) ctx"
    "trait_claim ?home i st = (claim (memory_env ser v) ctx st i, st)"
    by (simp_all add: HomeConnection_trait_def)
  obtain rr sr where register: "register (memory_env ser v) ctx (carried_own own) half (Some todo_invitation) st = (rr, sr)" by fastforce
  obtain rl sl where login: "login (memory_env ser v) ctx proof_of_home st = (rl, sl)" by fastforce
  obtain rq sq where request: "pair_request (memory_env ser v) ctx half st = (rq, sq)" by fastforce
  obtain rs ss where response: "pair_response (memory_env ser v) ctx rel st = (rs, ss)" by fastforce
  show ?thesis
    unfolding register login request response Let_def prod.case
    by (intro conjI memory_home.wire.remote_register [OF inv own] memory_home.wire.remote_claim [OF inv]
        remote_login remote_pair_request remote_pair_response) (simp_all add: traits register login request response)
qed

theorem remote_home_refines_witness:
  "client_register (\<lambda>ps. rpc_send Up (dispatch_register (\<lambda>_. '''') (HomeConnection_trait sample_env (sample_ctx 1) (Inr ()) (\<lambda>st. st)) ps))
     (sample_persona 1 []) sample_half None sample_start
   = (let (r, st') = register sample_env (sample_ctx 1) (carried_own (sample_persona 1 [])) sample_half (Some todo_invitation) sample_start
      in Return (map_err (\<lambda>_. (sample_persona 1 [], RegisterFailed)) (map_ok carried_own r), st'))"
  unfolding sample_env_def
  by (rule remote_home_refines [where d = InMemoryStore_new and b = InMemoryStore_new, THEN conjunct1])
    (simp_all add: InMemoryStore_new_def sample_start_def sample_persona_def OwnProfile_new_def Profile_new_def sendable_def)

text \<open>C27: whatever is sent to a node that started empty, every profile it hosts is a persona (as the
  comment on \<^verbatim>\<open>OwnProfile\<close> demands) with at most two homes: a message carries one and
  \<^verbatim>\<open>register\<close> adds this node.  So this is all that a claim ever returns.\<close>

theorem hosted_are_personas:
  fixes st :: "((ProfileId, Profile) InMemoryStore, (ProfileId, OwnProfile) InMemoryStore) HomeServer"
  assumes start: "imap b = Map.empty" and run: "(wire_step (memory_env ser v))\<^sup>*\<^sup>* (HomeServer_new d b) st"
    and claimed: "claim (memory_env ser v) ctx st i = Inr own"
  shows "\<exists>f. facet (profile own) = Persona f \<and> length (homes f) \<le> 2"
proof -
  have "wire_inv imap (HomeServer_new d b :: (_, (ProfileId, OwnProfile) InMemoryStore) HomeServer)"
    using start by (simp add: wire_inv_def HomeServer_new_def)
  with run have "wire_inv imap st" by (rule memory_home.wire_inv_reach)
  with claimed show ?thesis
    by (auto simp: claim_def wire_inv_def InMemoryStore_get_iff split: if_splits)
qed

lemma sample_wire_register: "wire_step sample_env sample_start sample_registered"
proof -
  have sendable: "sendable (profile (sample_persona 1 hs))" if "length hs \<le> 2" for hs
    using that by (simp add: sendable_def sample_persona_def OwnProfile_new_def Profile_new_def)
  obtain m where m: "OwnProfile_try_from m = Inr (sample_persona 1 [])"
    using OwnProfile_roundtrip [OF sendable [of "[]"]]
    by (auto simp: carried_own_def carried_def carried_facet_def sample_persona_def OwnProfile_new_def Profile_new_def)
  obtain m' where m': "OwnProfile_fill_from (sample_persona 1 [sample_proof]) = Return m'"
    using OwnProfile_roundtrip [OF sendable [of "[sample_proof]"]] by auto
  let ?ps = "\<lparr>get_own_profile = Inr m, get_half_proof = Inr (RelationHalfProof_fill_from sample_half), get_invite = Inl []\<rparr>"
  have "dispatch_register (\<lambda>_. []) (HomeConnection_trait sample_env (sample_ctx 1) (Inr ()) (\<lambda>st. st)) ?ps sample_start
      = Return (Inr m', sample_registered)"
    by (simp add: dispatch_register_def pry_def m m' dispatch_def HomeConnection_trait_def sample_register)
  with sample_connection show ?thesis by (rule wire_step.wire_register)
qed

theorem hosted_are_personas_witness:
  "claim sample_env (sample_ctx 1) sample_registered (ProfileId [1]) = Inr (sample_persona 1 [sample_proof])
     \<and> (\<exists>f. facet (profile (sample_persona 1 [sample_proof])) = Persona f \<and> length (homes f) \<le> 2)"
proof -
  have claim: "claim sample_env (sample_ctx 1) sample_registered (ProfileId [1]) = Inr (sample_persona 1 [sample_proof])"
    by (simp add: claim_def sample_registered_def InMemoryStore_get_def)
  have "(wire_step sample_env)\<^sup>*\<^sup>* sample_start sample_registered"
    using sample_wire_register by (rule r_into_rtranclp)
  with claim hosted_are_personas [of InMemoryStore_new _ _ InMemoryStore_new sample_registered "sample_ctx 1" "ProfileId [1]"]
  show ?thesis
    by (simp add: sample_env_def sample_start_def InMemoryStore_new_def)
qed

text \<open>When the connection is lost the client sees its own error and never a result; the node has
  either not seen the request at all or served it completely.\<close>

lemma lost_connection:
  "client_login (\<lambda>ps. rpc_send LostBefore (dispatch_login dbg home ps)) rel w = Return (Err FailedToCreateSession, w)
   \<and> client_pair_request (\<lambda>ps. rpc_send LostBefore (dispatch_pair_request dbg home ps)) half w = Return (Err PairRequestFailed, w)
   \<and> client_login (\<lambda>ps. rpc_send LostAfter (dispatch_login dbg home ps)) rel w
       = Return (Err FailedToCreateSession, snd (trait_login home rel w))
   \<and> client_pair_request (\<lambda>ps. rpc_send LostAfter (dispatch_pair_request dbg home ps)) half w
       = Return (Err PairRequestFailed, snd (trait_pair_request home half w))"
  by (simp add: client_login_def client_pair_request_def respond_def rpc_send_def dispatch_login_def
      dispatch_pair_request_def dispatch_def split: prod.split sum.split)

text \<open>Leaving a home over the wire.  With no new home the node is still told of one, the empty
  profile, and with a new home that cannot be written the client panics before anything is sent.\<close>

lemma remote_unregister:
  "client_unregister (\<lambda>ps. rpc_send Up (dispatch_unregister dbg session ps)) None w
     = (let (r, w') = trait_unregister session (Some (Profile_new (ProfileId []) (PublicKey [])
            (Persona \<lparr>homes = [], persona_data = []\<rparr>))) w
        in Return (map_err (\<lambda>_. UnregisterFailed) r, w'))"
  by (auto simp: client_unregister_def respond_def dispatch_unregister_def dispatch_def Profile_try_from_def default_profile_msg_def
      facet_try_from_def Let_def Profile_new_def split: prod.splits sum.splits)

lemma remote_unregister_new:
  assumes "sendable p"
  shows "client_unregister (\<lambda>ps. rpc_send Up (dispatch_unregister dbg session ps)) (Some p) w
     = (let (r, w') = trait_unregister session (Some (carried p)) w in Return (map_err (\<lambda>_. UnregisterFailed) r, w'))"
proof -
  obtain m where "Profile_fill_from p = Return m" "Profile_try_from m = Inr (carried p)" using Profile_roundtrip [OF assms] by blast
  then show ?thesis
    by (auto simp: client_unregister_def respond_def dispatch_unregister_def dispatch_def Let_def split: prod.splits sum.splits)
qed

end
