(* ===== verification/Network.thy ===== *)
theory Network
  imports Capnp_Home Capnp_Streams Crypto Client_Properties
begin

text \<open>
  The whole system: clients (\<^verbatim>\<open>connect\<close>) that reach home nodes (\<^verbatim>\<open>home-node\<close>)
  over connections.  The state of the outside of a client is the network of nodes, by the profile id
  of the home; a home handle is the id and the context the node holds for the connection, a session
  is its address at its node, a stream its channel there.  Every operation of the home interface of
  the client is the proxy over the dispatcher over the node.  \<open>home_accept\<close> is what the node's
  binary does with an incoming connection.
\<close>

section \<open>Accepting connections\<close>

definition home_accept ::
  "(AuthenticationInfo \<Rightarrow> (bytes, unit) result) \<Rightarrow> (bytes \<Rightarrow> (AuthenticationInfo, unit) result)
     \<Rightarrow> ('d, 'b) HomeEnv \<Rightarrow> (unit, unit) result \<Rightarrow> nat option \<Rightarrow> bytes \<Rightarrow> Signer
     \<Rightarrow> (bytes \<times> PeerContext) option \<times> bytes" where
  "home_accept to_vec from_slice env nodelay write_fails socket signer =
     (case temp_tcp_handshake to_vec from_slice nodelay write_fails socket signer of
        (Inl _, writer) \<Rightarrow> (None, writer)
      | (Inr (reader, client_context), writer) \<Rightarrow>
          (case HomeConnectionServer_new env client_context of
             Inl _ \<Rightarrow> (None, writer)
           | Inr home \<Rightarrow> (Some (reader, home), writer)))"

text \<open>A client whose identity prints and parses is accepted exactly when its id belongs to its key,
  with that identity as the peer of the connection.\<close>

lemma home_accept_client:
  assumes "to_vec (auth_info_of home) = Inr hb" and "to_vec (auth_info_of peer) = Inr cb"
    and "from_slice cb = Inr (auth_info_of peer)" and "length cb < 2 ^ 32"
  shows "fst (home_accept to_vec from_slice env (Inr ()) None (put_u32_le (of_nat (length cb)) @ cb @ rest) home)
    = map_option (Pair rest) (ok (HomeConnectionServer_new env
        (PeerContext_new home (signer_public_key peer) (signer_profile_id peer))))"
proof -
  have "temp_tcp_handshake to_vec from_slice (Inr ()) None (put_u32_le (of_nat (length cb)) @ cb @ rest) home
      = (Inr (rest, PeerContext_new home (signer_public_key peer) (signer_profile_id peer)), put_u32_le (of_nat (length hb)) @ hb)"
    using temp_handshake_written [of to_vec home hb] assms(1) read_peer_frame [of from_slice cb, OF assms(3,4)]
    by (simp add: temp_tcp_handshake_def auth_info_of_def)
  then show ?thesis
    by (cases "HomeConnectionServer_new env (PeerContext_new home (signer_public_key peer) (signer_profile_id peer))")
      (simp_all add: home_accept_def)
qed

section \<open>The network\<close>

type_synonym ('d, 'b) net = "ProfileId \<rightharpoonup> ('d, 'b) HomeServer"
type_synonym home_conn = "ProfileId \<times> PeerContext option"
type_synonym home_session = "ProfileId \<times> nat"
type_synonym event_stream = "ProfileId \<times> channel_id option"

text \<open>What the nodes are built with; \<open>while_waiting\<close> is what happens at a node while a call waits
  for its answer, \<open>call_timer\<close> the outcome of \<^verbatim>\<open>Timeout::new\<close>.\<close>

record ('d, 'b) NetEnv =
  node_env :: "('d, 'b) HomeEnv"
  node_signer :: "ProfileId \<Rightarrow> Signer"
  err_text :: "ErrorKind \<Rightarrow> string"
  register_err_text :: "OwnProfile \<times> ErrorKind \<Rightarrow> string"
  call_timer :: "(unit, string) result"
  while_waiting :: "('d, 'b) HomeServer \<Rightarrow> ('d, 'b) HomeServer"

abbreviation node_trait :: "('d, 'b) NetEnv \<Rightarrow> PeerContext \<Rightarrow> (nat, ('d, 'b) HomeServer) HomeTrait" where
  "node_trait ne ctx \<equiv> HomeConnection_trait (node_env ne) ctx (call_timer ne) (while_waiting ne)"

text \<open>A request on a connection.  When the node refused the connection or is gone, the proxy's error;
  a panic of the node takes the connection down.\<close>

definition on_conn ::
  "'e \<Rightarrow> (PeerContext \<Rightarrow> ('d, 'b) HomeServer \<Rightarrow> (('a, 'e) result \<times> ('d, 'b) HomeServer) run)
     \<Rightarrow> home_conn \<Rightarrow> ('d, 'b) net \<Rightarrow> ('a, 'e) result \<times> ('d, 'b) net" where
  "on_conn e f conn w =
     (case (w (fst conn), snd conn) of
        (Some st, Some ctx) \<Rightarrow>
          (case f ctx st of Return (r, st') \<Rightarrow> (r, w(fst conn \<mapsto> st')) | Panic \<Rightarrow> (Err e, w))
      | _ \<Rightarrow> (Err e, w))"

definition on_session ::
  "('d, 'b) net \<Rightarrow> home_session \<Rightarrow> (('d, 'b) HomeServer \<times> HomeSessionServer) option" where
  "on_session w s = Option.bind (w (fst s)) (\<lambda>st. map_option (Pair st) (session_heap st (snd s)))"

text \<open>Requests that carry a profile write it before anything is sent: if that panics, the client does.\<close>

definition net_register ::
  "('d, 'b) NetEnv \<Rightarrow> home_conn \<Rightarrow> OwnProfile \<Rightarrow> RelationHalfProof \<Rightarrow> HomeInvitation option \<Rightarrow> ('d, 'b) net
     \<Rightarrow> ((OwnProfile, OwnProfile \<times> ErrorKind) result \<times> ('d, 'b) net) run" where
  "net_register ne conn own half invite w =
     run_bind (OwnProfile_fill_from own) (\<lambda>_. Return (on_conn (own, RegisterFailed) (\<lambda>ctx. client_register (\<lambda>ps.
       rpc_send Up (dispatch_register (register_err_text ne) (node_trait ne ctx) ps)) own half invite) conn w))"

definition net_unregister ::
  "('d, 'b) NetEnv \<Rightarrow> home_session \<Rightarrow> Profile option \<Rightarrow> ('d, 'b) net \<Rightarrow> ((unit, ErrorKind) result \<times> ('d, 'b) net) run" where
  "net_unregister ne s newhome w =
     run_bind (case newhome of Some p \<Rightarrow> Profile_fill_from p | None \<Rightarrow> Return default_profile_msg) (\<lambda>_. Return
       (case on_session w s of
          None \<Rightarrow> (Err UnregisterFailed, w)
        | Some (st, sess) \<Rightarrow>
            on_conn UnregisterFailed (\<lambda>ctx. client_unregister (\<lambda>ps. rpc_send Up (dispatch_unregister (err_text ne)
              (HomeSession_trait (node_env ne) ctx) ps)) newhome) (fst s, Some (ss_context sess)) w))"

definition net_events :: "home_session \<Rightarrow> ('d, 'b) net \<Rightarrow> event_stream \<times> ('d, 'b) net" where
  "net_events s w =
     (case on_session w s of
        None \<Rightarrow> ((fst s, None), w)
      | Some (st, sess) \<Rightarrow> (case events (snd s) sess st of (c, st') \<Rightarrow> ((fst s, Some c), w(fst s \<mapsto> st'))))"

definition net_checkin_app :: "home_session \<Rightarrow> ApplicationId \<Rightarrow> ('d, 'b) net \<Rightarrow> event_stream \<times> ('d, 'b) net" where
  "net_checkin_app s app w =
     (case on_session w s of
        None \<Rightarrow> ((fst s, None), w)
      | Some (st, sess) \<Rightarrow> (case checkin_app (snd s) sess app st of (c, st') \<Rightarrow> ((fst s, Some c), w(fst s \<mapsto> st'))))"

text \<open>The next item of an event stream, after its way through a message.\<close>

definition net_next_event :: "event_stream \<Rightarrow> ('d, 'b) net \<Rightarrow> (ProfileEvent, string) result poll \<times> ('d, 'b) net" where
  "net_next_event stream w =
     (case stream of
        (h, None) \<Rightarrow> (Item (Err ''Events delegation failed''), w)
      | (h, Some c) \<Rightarrow>
          (case w h of
             None \<Rightarrow> (Finished, w)
           | Some st \<Rightarrow>
               (case receive_event c st of
                  (Some m, st') \<Rightarrow> (Item (map_ok carried_event m), w(h \<mapsto> st'))
                | (None, st') \<Rightarrow> (NotReady, w(h \<mapsto> st')))))"

definition net_ops :: "('d, 'b) NetEnv \<Rightarrow> (home_conn, home_session, event_stream, ('d, 'b) net) HomeOps" where
  "net_ops ne =
     \<lparr>home_register = net_register ne,
      home_login = (\<lambda>conn rel w. map_prod (map_ok (Pair (fst conn))) id (on_conn FailedToCreateSession (\<lambda>ctx. client_login (\<lambda>ps.
        rpc_send Up (dispatch_login (err_text ne) (node_trait ne ctx) ps)) rel) conn w)),
      home_pair_request = (\<lambda>conn half. on_conn ErrorKind.PairRequestFailed (\<lambda>ctx. client_pair_request (\<lambda>ps.
        rpc_send Up (dispatch_pair_request (err_text ne) (node_trait ne ctx) ps)) half) conn),
      home_pair_response = (\<lambda>conn rel. on_conn PairResponseFailed (\<lambda>ctx. client_pair_response (\<lambda>ps.
        rpc_send Up (dispatch_pair_response (err_text ne) (node_trait ne ctx) ps)) rel) conn),
      home_call = (\<lambda>conn app req. on_conn ErrorKind.CallFailed (\<lambda>ctx. client_call (\<lambda>ps.
        rpc_send Up (dispatch_call (err_text ne) (node_trait ne ctx) ps)) app req) conn),
      session_unregister = net_unregister ne, session_events = net_events,
      session_checkin_app = net_checkin_app, next_event = net_next_event\<rparr>"

text \<open>Connecting to the node of a home profile: the handshake gives the node the client's identity,
  which the node then validates.\<close>

definition net_connector :: "('d, 'b) NetEnv \<Rightarrow> Profile \<Rightarrow> Signer \<Rightarrow> (('d, 'b) net, home_conn) async" where
  "net_connector ne home_profile signer w =
     (case facet home_profile of
        Home _ \<Rightarrow>
          (let h = profile_id home_profile in
           case w h of
             None \<Rightarrow> Return (Err ConnectionFailed, w)
           | Some _ \<Rightarrow> Return (Ok (h, ok (HomeConnectionServer_new (node_env ne)
               (PeerContext_new (node_signer ne h) (signer_public_key signer) (signer_profile_id signer)))), w))
      | _ \<Rightarrow> Return (Err HomeProfileExpected, w))"

end
