(* ===== verification/Network_Properties.thy ===== *)
theory Network_Properties
  imports Network Home_Properties Capnp_Properties
begin

text \<open>
  Properties of clients and homes together: what a client's operations do at the nodes they reach,
  up to the pairing of two clients that are hosted by any two nodes of the network.
\<close>

section \<open>Event streams at the nodes\<close>

text \<open>The profile \<open>i\<close> with key \<open>pk\<close> is hosted at \<open>h\<close> and has a live session there whose events go
  to the open channel \<open>c\<close>.\<close>

definition receives_at :: "('d, 'b) HomeEnv \<Rightarrow> ('d, 'b) net \<Rightarrow> ProfileId \<Rightarrow> ProfileId \<Rightarrow> PublicKey \<Rightarrow> channel_id \<Rightarrow> bool" where
  "receives_at env w h i pk c \<longleftrightarrow> (\<exists>st own sid s ch. w h = Some st
     \<and> kv_get (db_ops env) (hosted_profile_db st) i = Inr own \<and> profile_id (profile own) = i \<and> public_key (profile own) = pk
     \<and> sessions st i = Some sid \<and> session_heap st sid = Some s \<and> events_sink s = Sender c
     \<and> event_chans st c = Some ch \<and> \<not> closed ch)"

definition net_queue :: "('d, 'b) net \<Rightarrow> ProfileId \<Rightarrow> channel_id \<Rightarrow> (ProfileEvent, string) result list" where
  "net_queue w h c = (case w h of None \<Rightarrow> [] | Some st \<Rightarrow> queued st c)"

text \<open>Only the queue of one channel changes.\<close>

definition net_upd :: "('d, 'b) net \<Rightarrow> ('d, 'b) net \<Rightarrow> ProfileId \<Rightarrow> channel_id \<Rightarrow> (ProfileEvent, string) result list \<Rightarrow> bool" where
  "net_upd w w' h c q \<longleftrightarrow> (\<exists>st ch. w h = Some st \<and> event_chans st c = Some ch
     \<and> w' = w(h \<mapsto> st\<lparr>event_chans := (event_chans st)(c \<mapsto> ch\<lparr>queue := q\<rparr>)\<rparr>))"

lemma net_upd_queue: "net_upd w w' h c q \<Longrightarrow> net_queue w' h' c' = (if h' = h \<and> c' = c then q else net_queue w h' c')"
  by (auto simp: net_upd_def net_queue_def queued_def)

lemma net_upd_receives_at:
  assumes "net_upd w w' h c q" and "receives_at env w h' i pk c'"
  shows "receives_at env w' h' i pk c'"
proof -
  obtain st ch where st: "w h = Some st" "event_chans st c = Some ch"
    and w': "w' = w(h \<mapsto> st\<lparr>event_chans := (event_chans st)(c \<mapsto> ch\<lparr>queue := q\<rparr>)\<rparr>)"
    using assms(1) by (auto simp: net_upd_def)
  show ?thesis
  proof (cases "h' = h")
    case True
    with assms(2) st show ?thesis unfolding receives_at_def w' by (cases "c' = c") auto
  next
    case False
    with assms(2) show ?thesis unfolding receives_at_def w' by auto
  qed
qed

lemma push_event_net:
  assumes "receives_at env w h i pk c"
  obtains st st' where "w h = Some st" "push_event env i ev st = (Inr (), st')"
    "net_upd w (w(h \<mapsto> st')) h c (net_queue w h c @ [Inr ev])"
proof -
  obtain st own sid s ch where st: "w h = Some st" "kv_get (db_ops env) (hosted_profile_db st) i = Inr own"
    "sessions st i = Some sid" "session_heap st sid = Some s" "events_sink s = Sender c" "event_chans st c = Some ch" "\<not> closed ch"
    using assms unfolding receives_at_def by blast
  let ?st = "st\<lparr>event_chans := (event_chans st)(c \<mapsto> ch\<lparr>queue := queue ch @ [Inr ev]\<rparr>)\<rparr>"
  have "push_event env i ev st = (Inr (), ?st)"
    using st by (simp add: push_event_def get_live_session_def session_push_event_def chan_send_def)
  moreover have "net_upd w (w(h \<mapsto> ?st)) h c (net_queue w h c @ [Inr ev])"
    using st by (auto simp: net_upd_def net_queue_def queued_def)
  ultimately show ?thesis using that st(1) by blast
qed

lemma next_event_net:
  assumes "receives_at env w h i pk c" and "net_queue w h c = Inr ev # q"
  shows "\<exists>w'. net_next_event (h, Some c) w = (Item (Inr (carried_event ev)), w') \<and> net_upd w w' h c q"
proof -
  obtain st ch where st: "w h = Some st" "event_chans st c = Some ch"
    using assms(1) unfolding receives_at_def by blast
  then have "queue ch = Inr ev # q" using assms(2) by (simp add: net_queue_def queued_def)
  with st show ?thesis
    by (auto simp: net_next_event_def receive_event_def net_upd_def)
qed

section \<open>Requests over the network\<close>

lemma node_trait_sel [simp]:
  "trait_register (node_trait ne ctx) = register (node_env ne) ctx"
  "trait_login (node_trait ne ctx) = login (node_env ne) ctx"
  "trait_pair_request (node_trait ne ctx) = pair_request (node_env ne) ctx"
  "trait_pair_response (node_trait ne ctx) = pair_response (node_env ne) ctx"
  by (simp_all add: HomeConnection_trait_def)

lemma net_pair_request:
  assumes "w h = Some st" and "pair_request (node_env ne) ctx half st = (r, st')"
  shows "home_pair_request (net_ops ne) (h, Some ctx) half w = (map_err (\<lambda>_. ErrorKind.PairRequestFailed) r, w(h \<mapsto> st'))"
  using assms remote_pair_request [of "node_trait ne ctx" half st r st' "err_text ne"]
  by (simp add: net_ops_def on_conn_def)

lemma net_pair_response:
  assumes "w h = Some st" and "pair_response (node_env ne) ctx rel st = (r, st')"
  shows "home_pair_response (net_ops ne) (h, Some ctx) rel w = (map_err (\<lambda>_. PairResponseFailed) r, w(h \<mapsto> st'))"
  using assms remote_pair_response [of "node_trait ne ctx" rel st r st' "err_text ne"]
  by (simp add: net_ops_def on_conn_def)

text \<open>A client knows how to reach a profile: the profile has one home and the profile of that home is
  known, too.\<close>

definition reaches :: "('r, ProfileId, Profile) KeyValueStore \<Rightarrow> 'r \<Rightarrow> ProfileId \<Rightarrow> ProfileId \<Rightarrow> bool" where
  "reaches ops r i h \<longleftrightarrow> (\<exists>prof persona rel hp hf. SimpleProfileRepo_load ops r i = Inr prof \<and> profile_id prof = i
     \<and> facet prof = Persona persona \<and> homes persona = [rel] \<and> peer_id rel i = Inr h
     \<and> SimpleProfileRepo_load ops r h = Inr hp \<and> profile_id hp = h \<and> facet hp = Home hf)"

lemma select_single: "completes_all order \<Longrightarrow> select_ok order [f] = f"
proof (rule ext)
  fix st assume "completes_all order"
  then have "distinct (order 1)" "set (order 1) = {0}" by (simp_all add: completes_all_def)
  then have "order 1 = [0]"
    by (metis card.empty card.insert distinct.simps(2) distinct_card empty_iff finite.emptyI insert_iff length_0_conv
        length_Suc_conv list.set(1) list.set_intros(1) set_ConsD)
  then show "select_ok order [f] st = f st" by (simp add: select_ok_def)
qed

lemma any_home_net:
  assumes "completes_all (select_order env)" and "home_connector env = net_connector ne"
    and "reaches (repo_ops env) (repo st) i h" and "remote st h \<noteq> None"
    and "HomeConnectionServer_new (node_env ne) (PeerContext_new (node_signer ne h) (signer_public_key sg) (signer_profile_id sg)) = Inr ctx"
  obtains prof rel where "SimpleProfileRepo_load (repo_ops env) (repo st) i = Inr prof" "profile_id prof = i"
    "any_home_of2 env prof sg st = Return (Inr (rel, h, Some ctx), st)"
proof -
  obtain prof persona rel hp hf where p: "SimpleProfileRepo_load (repo_ops env) (repo st) i = Inr prof" "profile_id prof = i"
    "facet prof = Persona persona" "homes persona = [rel]" "peer_id rel i = Inr h"
    "SimpleProfileRepo_load (repo_ops env) (repo st) h = Inr hp" "profile_id hp = h" "facet hp = Home hf"
    using assms(3) unfolding reaches_def by blast
  have "net_connector ne hp sg (remote st) = Return (Inr (h, Some ctx), remote st)"
    using p(7,8) assms(4,5) by (auto simp: net_connector_def)
  then have "connect_home2 env h sg st = Return (Inr (h, Some ctx), st)"
    using p(6) assms(2) by (simp add: connect_home2_Return)
  then have "any_home_of2 env prof sg st = Return (Inr (rel, h, Some ctx), st)"
    using p(2-5) by (simp add: any_home_of2_cases select_single [OF assms(1)] home_conn_fut_def future_map_def)
  with p(1,2) show ?thesis by (rule that)
qed

lemma RelationHalfProof_new_sel [simp]:
  "hp_signer_id (RelationHalfProof_new ser t i s) = signer_profile_id s" "hp_peer_id (RelationHalfProof_new ser t i s) = i"
  by (simp_all add: RelationHalfProof_new_def Let_def)

text \<open>A client whose keys are its own is accepted by every node with the default validator.\<close>

lemma owner_accepted:
  assumes "multihash_ok mh" and "ed_owns mh ed pk s" and "validator env = default_validator mh ed"
  shows "signer_public_key s = pk"
    and "HomeConnectionServer_new env (PeerContext_new hs pk (signer_profile_id s)) = Inr (PeerContext_new hs pk (signer_profile_id s))"
proof -
  obtain private_key es where new: "Ed25519Signer_new mh ed private_key = Return (Inr es)"
    and es: "signer_profile_id s = es_profile_id es" "signer_public_key s = es_public_key es" "es_public_key es = pk"
    using assms(2) by (auto simp: ed_owns_def backed_by_def)
  show "signer_public_key s = pk" by (simp add: es)
  show "HomeConnectionServer_new env (PeerContext_new hs pk (signer_profile_id s)) = Inr (PeerContext_new hs pk (signer_profile_id s))"
    using Ed25519Signer_identity [OF assms(1) new, of hs] by (simp add: HomeConnectionServer_new_Ok assms(3) es)
qed

section \<open>Pairing operations of a client\<close>

text \<open>The client runs on the network and encodes what it signs as the nodes do.\<close>

definition on_net :: "('d, 'b) NetEnv \<Rightarrow> ('r, home_conn, home_session, event_stream, ('d, 'b) net) ClientEnv \<Rightarrow> bool" where
  "on_net ne env \<longleftrightarrow> completes_all (select_order env) \<and> home_connector env = net_connector ne \<and> home_ops env = net_ops ne
     \<and> client_ser env = bincode_ser (node_env ne)"

lemma request_delivered:
  assumes net: "on_net ne env" "multihash_ok mh" "validator (node_env ne) = default_validator mh ed"
    and self: "my_profiles st this = Some self" "ed_owns mh ed pk (mp_signer self)"
    and peer: "reaches (repo_ops env) (repo st) i h" "receives_at (node_env ne) (remote st) h i pk' c"
  shows "\<exists>w'. initiate_relation env this t i st = Return (Inr (), st\<lparr>remote := w'\<rparr>)
    \<and> net_upd (remote st) w' h c (net_queue (remote st) h c
        @ [Inr (PairingRequest (RelationHalfProof_new (client_ser env) t i (mp_signer self)))])"
proof -
  let ?half = "RelationHalfProof_new (client_ser env) t i (mp_signer self)"
  let ?ctx = "PeerContext_new (node_signer ne h) pk (signer_profile_id (mp_signer self))"
  note acc = owner_accepted [OF net(2) self(2) net(3)]
  have w: "remote st h \<noteq> None" using peer(2) by (auto simp: receives_at_def)
  obtain prof rel where prof: "SimpleProfileRepo_load (repo_ops env) (repo st) i = Inr prof" "profile_id prof = i"
    "any_home_of2 env prof (mp_signer self) st = Return (Inr (rel, h, Some ?ctx), st)"
    using net(1) acc by (auto simp: on_net_def intro: any_home_net [OF _ _ peer(1) w, of ne "mp_signer self" ?ctx])
  obtain nst nst' where nst: "remote st h = Some nst" "push_event (node_env ne) i (PairingRequest ?half) nst = (Inr (), nst')"
    and upd: "net_upd (remote st) ((remote st)(h \<mapsto> nst')) h c (net_queue (remote st) h c @ [Inr (PairingRequest ?half)])"
    using peer(2) by (rule push_event_net)
  have "pair_request (node_env ne) ?ctx ?half nst = (Inr (), nst')"
    using nst(2) ed25519.half_proof_valid [OF self(2), of "client_ser env" t i] net(1,3)
    by (simp add: pair_request_def PeerContext_new_def on_net_def)
  from net_pair_request [of "remote st" h, OF nst(1) this] net(1) self(1) prof
  have "initiate_relation env this t i st = Return (Inr (), st\<lparr>remote := (remote st)(h \<mapsto> nst')\<rparr>)"
    by (simp add: initiate_relation_def on_net_def Let_def remote_op_Return)
  with upd show ?thesis by blast
qed

lemma response_delivered:
  assumes net: "on_net ne env" "multihash_ok mh" "validator (node_env ne) = default_validator mh ed"
    and keys: "ed_owns mh ed pkA sA" "ed_owns mh ed pkB (mp_signer self)" "signer_profile_id sA \<noteq> signer_profile_id (mp_signer self)"
    and self: "my_profiles st this = Some self" "profile_id (profile (own_profile self)) = signer_profile_id (mp_signer self)"
    and peer: "reaches (repo_ops env) (repo st) (signer_profile_id sA) h" "receives_at (node_env ne) (remote st) h (signer_profile_id sA) pkA c"
    and half: "half = RelationHalfProof_new (client_ser env) t (signer_profile_id (mp_signer self)) sA"
  shows "\<exists>p w'. accept_relation env this half st = Return (Inr p, st\<lparr>remote := w',
        my_profiles := (my_profiles st)(this \<mapsto> self\<lparr>relations := relations self @ [p]\<rparr>)\<rparr>)
    \<and> net_upd (remote st) w' h c (net_queue (remote st) h c @ [Inr (PairingResponse p)])
    \<and> relation_type p = t \<and> validate_relation_proof (client_ser env) (default_validator mh ed) p
        (signer_profile_id sA) pkA (signer_profile_id (mp_signer self)) pkB = Inr ()"
proof -
  let ?i = "signer_profile_id sA" and ?me = "signer_profile_id (mp_signer self)"
  let ?ctx = "PeerContext_new (node_signer ne h) pkB ?me"
  note acc = owner_accepted [OF net(2) keys(2) net(3)]
  have halves: "hp_signer_id half = ?i" "hp_peer_id half = ?me" by (simp_all add: half)
  have w: "remote st h \<noteq> None" using peer(2) by (auto simp: receives_at_def)
  obtain prof rel where prof: "SimpleProfileRepo_load (repo_ops env) (repo st) ?i = Inr prof" "profile_id prof = ?i"
    "any_home_of2 env prof (mp_signer self) st = Return (Inr (rel, h, Some ?ctx), st)"
    using net(1) acc by (auto simp: on_net_def intro: any_home_net [OF _ _ peer(1) w, of ne "mp_signer self" ?ctx])
  obtain p where p: "sign_remaining_half (client_ser env) half (mp_signer self) = Inr p" "relation_type p = t"
    "peer_id p ?i = Inr ?me" "validate_relation_proof (client_ser env) (default_validator mh ed) p ?i pkA ?me pkB = Inr ()"
    using ed25519.completed_valid [OF keys] unfolding half by blast
  obtain nst nst' where nst: "remote st h = Some nst" "push_event (node_env ne) ?i (PairingResponse p) nst = (Inr (), nst')"
    and upd: "net_upd (remote st) ((remote st)(h \<mapsto> nst')) h c (net_queue (remote st) h c @ [Inr (PairingResponse p)])"
    using peer(2) by (rule push_event_net)
  obtain own where "kv_get (db_ops (node_env ne)) (hosted_profile_db nst) ?i = Inr own" "profile_id (profile own) = ?i" "public_key (profile own) = pkA"
    using peer(2) nst(1) by (auto simp: receives_at_def)
  then have "pair_response (node_env ne) ?ctx p nst = (Inr (), nst')"
    using nst(2) p(4) validate_relation_proof_swap [OF keys(3)] peer_id_involutive [OF p(3)] net(1,3)
    by (simp add: pair_response_def check_relation_def PeerContext_new_def on_net_def)
  from net_pair_response [of "remote st" h, OF nst(1) this] net(1) self prof p(1) halves
  have "accept_relation env this half st = Return (Inr p, st\<lparr>remote := (remote st)(h \<mapsto> nst'),
      my_profiles := (my_profiles st)(this \<mapsto> self\<lparr>relations := relations self @ [p]\<rparr>)\<rparr>)"
    by (simp add: accept_relation_def on_net_def remote_op_Return on_new_relation_def update_self_def)
  with upd p show ?thesis by blast
qed

section \<open>Events at a client\<close>

text \<open>Two turns of the forwarding future take one event from the home to all listeners.\<close>

lemma forward_polls:
  assumes i: "i < length (client_tasks st)" and task: "client_tasks st ! i = ForwardEvents sid stream"
    and event: "next_event (home_ops env) stream (remote st) = (Item (Inr event), w)"
    and s: "my_sessions st sid = Some s"
  shows "client_poll env i (client_poll env i st) = st\<lparr>remote := w,
      my_sessions := (my_sessions st)(sid \<mapsto> s\<lparr>event_listeners := filter (is_open (listeners st)) (event_listeners s)\<rparr>),
      listeners := \<lambda>l. map_option (deliver event (count_list (event_listeners s) l)) (listeners st l)\<rparr>"
proof -
  let ?ls = "event_listeners s"
  let ?st1 = "st\<lparr>remote := w, my_sessions := (my_sessions st)(sid \<mapsto> s\<lparr>event_listeners := []\<rparr>)\<rparr>"
  let ?st2 = "st\<lparr>remote := w,
      my_sessions := (my_sessions st)(sid \<mapsto> s\<lparr>event_listeners := filter (is_open (listeners st)) ?ls\<rparr>),
      listeners := \<lambda>l. map_option (deliver event (count_list ?ls l)) (listeners st l)\<rparr>"
  let ?tasks = "(client_tasks st)[i := Forwarding sid stream event ?ls]"
  have "run_client_task env (client_tasks st ! i) st = ([Forwarding sid stream event ?ls], ?st1)"
    using task event s by (simp add: forward_event_safe_def update_session_def)
  from client_poll_same_task [OF i this] have 1: "client_poll env i st = ?st1\<lparr>client_tasks := ?tasks\<rparr>" .
  have "run_client_task env (client_tasks (?st1\<lparr>client_tasks := ?tasks\<rparr>) ! i) (?st1\<lparr>client_tasks := ?tasks\<rparr>)
      = ([ForwardEvents sid stream], ?st2\<lparr>client_tasks := ?tasks\<rparr>)"
    using i by (simp add: forward_done_def forward_event_eq update_session_def)
  from client_poll_same_task [OF _ this] i task show ?thesis
    by (simp add: 1 list_update_same_conv)
qed

text \<open>A logged-in profile of a client: the future \<open>i\<close> forwards the events of its stream at home \<open>h\<close>, the
  future \<open>j\<close> handles them for the profile, and its listener \<open>l\<close> is idle.\<close>

definition listening ::
  "('r, home_session, event_stream, ('d, 'b) net) Client \<Rightarrow> nat \<Rightarrow> MyProfileImpl \<Rightarrow> nat \<Rightarrow> nat \<Rightarrow> ProfileId \<Rightarrow> channel_id \<Rightarrow> channel_id \<Rightarrow> bool" where
  "listening st this self i j h c l \<longleftrightarrow> (\<exists>sid s. my_profiles st this = Some self
     \<and> i < length (client_tasks st) \<and> client_tasks st ! i = ForwardEvents sid (h, Some c)
     \<and> j < length (client_tasks st) \<and> client_tasks st ! j = HandleEvents this l
     \<and> my_sessions st sid = Some s \<and> distinct (event_listeners s) \<and> l \<in> set (event_listeners s)
     \<and> listeners st l = Some \<lparr>pending_events = [], listener_closed = False\<rparr>)"

lemma event_received:
  assumes env: "home_ops env = net_ops ne" and lst: "listening st this self i j h c l"
    and stream: "receives_at (node_env ne) (remote st) h k pk c" "net_queue (remote st) h c = [Inr ev]" "carried_event ev = ev"
  obtains w' st' where "client_poll env i (client_poll env i st) = st'" "net_upd (remote st) w' h c []"
    "remote st' = w'" "repo st' = repo st" "my_profiles st' = my_profiles st"
    "listeners st' l = Some \<lparr>pending_events = [ev], listener_closed = False\<rparr>"
    "j < length (client_tasks st')" "client_tasks st' ! j = HandleEvents this l"
proof -
  obtain sid s where st: "i < length (client_tasks st)" "client_tasks st ! i = ForwardEvents sid (h, Some c)"
    "j < length (client_tasks st)" "client_tasks st ! j = HandleEvents this l" "my_sessions st sid = Some s"
    "distinct (event_listeners s)" "l \<in> set (event_listeners s)"
    "listeners st l = Some \<lparr>pending_events = [], listener_closed = False\<rparr>"
    using lst unfolding listening_def by blast
  obtain w' where w': "net_next_event (h, Some c) (remote st) = (Item (Inr ev), w')" "net_upd (remote st) w' h c []"
    using next_event_net [OF stream(1,2)] stream(3) by auto
  then have "next_event (home_ops env) (h, Some c) (remote st) = (Item (Inr ev), w')" by (simp add: env net_ops_def)
  note polls = forward_polls [OF st(1,2) this st(5)]
  show ?thesis
    using distinct_count_list_one [OF st(6,7)] st(3,4,8)
    by (intro that [OF polls w'(2)]) (simp_all add: deliver_def)
qed

lemma listening_remote: "listening st this self i j h c l \<Longrightarrow> listening (st\<lparr>remote := w\<rparr>) this self i j h c l"
  by (simp add: listening_def)

section \<open>Joining a home\<close>

lemma net_register_sent:
  assumes "w h = Some nst" and "wire_inv imap nst" and "sendable (profile own)" and "node_env ne = memory_env ser v"
    and "register (memory_env ser v) ctx (carried_own own) half (Some todo_invitation) nst = (r, nst')"
  shows "home_register (net_ops ne) (h, Some ctx) own half invite w
    = Return (map_err (\<lambda>_. (own, RegisterFailed)) (map_ok carried_own r), w(h \<mapsto> nst'))"
proof -
  have "trait_register (HomeConnection_trait (memory_env ser v) ctx (call_timer ne) (while_waiting ne))
      (carried_own own) half (Some todo_invitation) nst = (r, nst')"
    using assms(5) by (simp add: HomeConnection_trait_def)
  from memory_home.wire.remote_register [OF assms(2,3) this, of "register_err_text ne" invite] assms(1,4)
  show ?thesis using OwnProfile_roundtrip [OF assms(3)] by (auto simp: net_ops_def net_register_def on_conn_def)
qed

lemma net_login:
  assumes "w h = Some nst" and "login (node_env ne) ctx rel nst = (r, nst')"
  shows "home_login (net_ops ne) (h, Some ctx) rel w
    = (map_err (\<lambda>_. FailedToCreateSession) (map_ok (Pair h) r), w(h \<mapsto> nst'))"
  using assms remote_login [of "node_trait ne ctx" rel nst r nst' "err_text ne"]
  by (cases r) (simp_all add: net_ops_def on_conn_def)

text \<open>A profile that has no home yet.\<close>

definition homeless :: "PublicKey \<Rightarrow> MyProfileImpl \<Rightarrow> bool" where
  "homeless pk self \<longleftrightarrow> profile_id (profile (own_profile self)) = signer_profile_id (mp_signer self)
     \<and> public_key (profile (own_profile self)) = pk
     \<and> facet (profile (own_profile self)) = Persona \<lparr>homes = [], persona_data = []\<rparr> \<and> session_cache self = []"

text \<open>A node that serves the home with id \<open>h\<close>, which the client knows, and does not host \<open>i\<close> yet.\<close>

definition free_home ::
  "('d, (ProfileId, OwnProfile) InMemoryStore) NetEnv
     \<Rightarrow> ((ProfileId, Profile) InMemoryStore, home_session, event_stream, ('d, (ProfileId, OwnProfile) InMemoryStore) net) Client
     \<Rightarrow> ProfileId \<Rightarrow> ProfileId \<Rightarrow> bool" where
  "free_home ne st i h \<longleftrightarrow> signer_profile_id (node_signer ne h) = h
     \<and> (\<exists>hp hf. imap (repo st) h = Some hp \<and> profile_id hp = h \<and> facet hp = Home hf)
     \<and> (\<exists>nst. remote st h = Some nst \<and> wire_inv imap nst \<and> imap (hosted_profile_db nst) i = None \<and> sessions nst i = None)"

text \<open>Registering such a profile over a connection at a node that does not host it.\<close>

lemma register_net_free:
  fixes w :: "((ProfileId, Profile) InMemoryStore, (ProfileId, OwnProfile) InMemoryStore) net"
  assumes net: "node_env ne = memory_env ser (default_validator mh ed)" and owner: "ed_owns mh ed pk sg"
    and own: "profile_id (profile own) = signer_profile_id sg" "public_key (profile own) = pk" "facet (profile own) = Persona \<lparr>homes = [], persona_data = []\<rparr>"
    and node: "signer_profile_id (node_signer ne h) = h" "w h = Some nst" "wire_inv imap nst" "imap (hosted_profile_db nst) (signer_profile_id sg) = None"
    and ctx: "ctx = PeerContext_new (node_signer ne h) pk (signer_profile_id sg)"
  obtains p own' nst' where
    "home_register (net_ops ne) (h, Some ctx) own (RelationHalfProof_new ser RELATION_TYPE_HOSTED_ON_HOME h sg) invite w = Return (Inr own', w(h \<mapsto> nst'))"
    "facet (profile own') = Persona \<lparr>homes = [p], persona_data = []\<rparr>" "profile_id (profile own') = signer_profile_id sg" "public_key (profile own') = pk"
    "relation_type p = RELATION_TYPE_HOSTED_ON_HOME" "peer_id p (signer_profile_id sg) = Inr h" "peer_id p h = Inr (signer_profile_id sg)"
    "sessions nst' = sessions nst" "imap (hosted_profile_db nst') (signer_profile_id sg) = Some own'" "wire_inv imap nst'"
proof -
  let ?me = "signer_profile_id sg" and ?env = "memory_env ser (default_validator mh ed)"
  let ?half = "RelationHalfProof_new ser RELATION_TYPE_HOSTED_ON_HOME h sg"
  let ?p = "home_proof_of ?env ctx ?half" and ?own' = "add_home (home_proof_of ?env ctx ?half) own"
  have same: "carried_own own = own" "carried_own ?own' = ?own'"
    using own by (simp_all add: carried_own_def carried_def carried_facet_def)
  have reg: "registrable ?env ctx own ?half"
    using own node(1) ed25519.half_proof_valid [OF owner] by (simp add: ctx registrable_def PeerContext_new_def RelationHalfProof_new_def Let_def)
  define nst' where "nst' = nst\<lparr>public_profile_dht := (public_profile_dht nst)\<lparr>imap := (imap (public_profile_dht nst))(?me \<mapsto> profile ?own')\<rparr>,
      hosted_profile_db := (hosted_profile_db nst)\<lparr>imap := (imap (hosted_profile_db nst))(?me \<mapsto> ?own')\<rparr>\<rparr>"
  have "register ?env ctx own ?half (Some todo_invitation) nst = (Inr ?own', nst')"
    using node(4) own unfolding register_eq [OF reg]
    by (simp add: register_store_def InMemoryStore_get_def InMemoryStore_set_def Let_def nst'_def)
  with net_register_sent [where w = w and h = h, OF node(2,3), of own ne ser "default_validator mh ed" ctx ?half "Inr ?own'" nst' invite] same own net
  have "home_register (net_ops ne) (h, Some ctx) own ?half invite w = Return (Inr ?own', w(h \<mapsto> nst'))"
    by (simp add: sendable_def)
  moreover have "peer_id ?p ?me = Inr h" "peer_id ?p h = Inr ?me" "relation_type ?p = RELATION_TYPE_HOSTED_ON_HOME"
    using home_proof_peer [OF reg] node(1) by (simp_all add: ctx PeerContext_new_def)
  moreover have "sessions nst' = sessions nst" "imap (hosted_profile_db nst') ?me = Some ?own'" by (simp_all add: nst'_def)
  moreover have "wire_inv imap nst'" using node(3) own by (auto simp: wire_inv_def nst'_def)
  ultimately show ?thesis using that [of ?own' nst' ?p] own by simp
qed

lemma join_net:
  fixes st :: "((ProfileId, Profile) InMemoryStore, home_session, event_stream, ((ProfileId, Profile) InMemoryStore, (ProfileId, OwnProfile) InMemoryStore) net) Client"
  assumes net: "on_net ne env" "multihash_ok mh" "node_env ne = memory_env ser (default_validator mh ed)" "repo_ops env = InMemoryStore_ops"
    and self: "my_profiles st this = Some self" "ed_owns mh ed pk (mp_signer self)" "homeless pk self"
    and home: "free_home ne st (signer_profile_id (mp_signer self)) h" "signer_profile_id (mp_signer self) \<noteq> h"
  shows "\<exists>p own' nst nst'. facet (profile own') = Persona \<lparr>homes = [p], persona_data = []\<rparr>
    \<and> profile_id (profile own') = signer_profile_id (mp_signer self) \<and> public_key (profile own') = pk
    \<and> relation_type p = RELATION_TYPE_HOSTED_ON_HOME
    \<and> peer_id p (signer_profile_id (mp_signer self)) = Inr h \<and> peer_id p h = Inr (signer_profile_id (mp_signer self))
    \<and> remote st h = Some nst \<and> sessions nst' = sessions nst
    \<and> imap (hosted_profile_db nst') (signer_profile_id (mp_signer self)) = Some own'
    \<and> join_home env this h invite st = Return (Inr (), st\<lparr>my_profiles := (my_profiles st)(this \<mapsto> self\<lparr>own_profile := own'\<rparr>),
        repo := (repo st)\<lparr>imap := (imap (repo st))(signer_profile_id (mp_signer self) \<mapsto> profile own')\<rparr>, remote := (remote st)(h \<mapsto> nst')\<rparr>)"
proof -
  let ?me = "signer_profile_id (mp_signer self)" and ?own = "own_profile self"
  let ?ctx = "PeerContext_new (node_signer ne h) pk ?me"
  obtain hp hf nst where h: "signer_profile_id (node_signer ne h) = h" "imap (repo st) h = Some hp" "profile_id hp = h" "facet hp = Home hf"
    "remote st h = Some nst" "wire_inv imap nst" "imap (hosted_profile_db nst) ?me = None"
    using home(1) unfolding free_home_def by blast
  have own: "profile_id (profile ?own) = ?me" "public_key (profile ?own) = pk" "facet (profile ?own) = Persona \<lparr>homes = [], persona_data = []\<rparr>"
    using self(3) by (simp_all add: homeless_def)
  have ser: "client_ser env = ser" using net(1,3) by (simp add: on_net_def)
  obtain p own' nst' where
    joined: "home_register (net_ops ne) (h, Some ?ctx) ?own (RelationHalfProof_new ser RELATION_TYPE_HOSTED_ON_HOME h (mp_signer self)) invite (remote st)
      = Return (Inr own', (remote st)(h \<mapsto> nst'))"
    and own': "facet (profile own') = Persona \<lparr>homes = [p], persona_data = []\<rparr>" "profile_id (profile own') = ?me" "public_key (profile own') = pk"
      "relation_type p = RELATION_TYPE_HOSTED_ON_HOME" "peer_id p ?me = Inr h" "peer_id p h = Inr ?me"
      "sessions nst' = sessions nst" "imap (hosted_profile_db nst') ?me = Some own'"
    using register_net_free [where w = "remote st" and h = h and invite = invite, OF net(3) self(2) own h(1,5-7) refl] by metis
  have "connect_home2 env h (mp_signer self) st = Return (Inr (h, Some ?ctx), st)"
    using h net owner_accepted [OF net(2) self(2), of "memory_env ser (default_validator mh ed)"]
    by (simp add: connect_home2_Return on_net_def net_connector_def SimpleProfileRepo_load_def InMemoryStore_get_def)
  with joined self(1) net(1,4) ser own own'(2)
  have "join_home env this h invite st = Return (Inr (), st\<lparr>my_profiles := (my_profiles st)(this \<mapsto> self\<lparr>own_profile := own'\<rparr>),
      repo := (repo st)\<lparr>imap := (imap (repo st))(?me \<mapsto> profile own')\<rparr>, remote := (remote st)(h \<mapsto> nst')\<rparr>)"
    by (simp add: join_home_def on_net_def Let_def connect_home_def remote_run_Return update_self_def SimpleProfileRepo_insert_def InMemoryStore_set_def)
  then show ?thesis using own' h(5) by blast
qed

lemma find_home_proof_single:
  "facet prof = Persona \<lparr>homes = [p], persona_data = d\<rparr> \<Longrightarrow> peer_id p i = Inr h \<Longrightarrow> find_home_proof prof i h = Inr p"
  by (simp add: find_home_proof_def)

lemma login_events_net:
  assumes "remote st h = Some nst" and "kv_get (db_ops (node_env ne)) (hosted_profile_db nst) i = Inr own" and "sessions nst i = None"
    and "profile_id (profile own) = i" "public_key (profile own) = pk"
    and "relation_type rel = RELATION_TYPE_HOSTED_ON_HOME" "peer_id rel (signer_profile_id (my_signer ctx)) = Inr i"
  shows "\<exists>s w w' c. home_login (net_ops ne) (h, Some ctx) rel (remote st) = (Inr s, w) \<and> net_events s w = ((h, Some c), w')
    \<and> receives_at (node_env ne) w' h i pk c \<and> net_queue w' h c = []"
proof -
  let ?sid = "next_id nst" and ?c = "Suc (next_id nst)"
  define nst1 where "nst1 = nst\<lparr>session_heap := (session_heap nst)(?sid \<mapsto> HomeSessionServer_new ctx),
      sessions := (sessions nst)(i \<mapsto> ?sid), next_id := ?c\<rparr>"
  have "login (node_env ne) ctx rel nst = (Inr ?sid, nst1)" using assms(2,3,6,7) by (simp add: login_def nst1_def)
  note login = net_login [of "remote st" h, OF assms(1) this]
  let ?nst2 = "snd (events ?sid (HomeSessionServer_new ctx) nst1)"
  have ev: "net_events (h, ?sid) ((remote st)(h \<mapsto> nst1)) = ((h, Some ?c), (remote st)(h \<mapsto> ?nst2))"
    by (simp add: net_events_def on_session_def nst1_def events_def Let_def HomeSessionServer_new_def)
  have "receives_at (node_env ne) ((remote st)(h \<mapsto> ?nst2)) h i pk ?c"
    using assms(2,4,5) unfolding receives_at_def
    by (simp add: events_def Let_def HomeSessionServer_new_def nst1_def new_channel_def)
  moreover have "net_queue ((remote st)(h \<mapsto> ?nst2)) h ?c = []"
    by (simp add: net_queue_def queued_def events_def Let_def HomeSessionServer_new_def nst1_def new_channel_def)
  ultimately show ?thesis using login ev by simp
qed

text \<open>A session that was opened on a stream of its home forwards the events to the profile.\<close>

lemma open_session_listening:
  assumes "session_events (home_ops env) s (remote st) = ((h, Some c), w')" and "my_profiles st this = Some self"
  obtains st2 where "open_session env this h s st = Return (Inr (client_next st), st2)" "remote st2 = w'" "repo st2 = repo st"
    "listening st2 this (self\<lparr>session_cache := AList.update h (client_next st) (session_cache self)\<rparr>)
       (length (client_tasks st)) (length (client_tasks st) + 1) h c (client_next st + 1)"
  using assms by (auto simp: open_session_Return listening_def nth_append)

lemma join_and_login_net:
  fixes st :: "((ProfileId, Profile) InMemoryStore, home_session, event_stream, ((ProfileId, Profile) InMemoryStore, (ProfileId, OwnProfile) InMemoryStore) net) Client"
  assumes net: "on_net ne env" "multihash_ok mh" "node_env ne = memory_env ser (default_validator mh ed)" "repo_ops env = InMemoryStore_ops"
    and self: "my_profiles st this = Some self" "ed_owns mh ed pk (mp_signer self)" "homeless pk self"
    and home: "free_home ne st (signer_profile_id (mp_signer self)) h" "signer_profile_id (mp_signer self) \<noteq> h"
  shows "\<exists>st1 sid st2 self' i j c l. join_home env this h invite st = Return (Inr (), st1) \<and> login_home env this h st1 = Return (Inr sid, st2)
    \<and> listening st2 this self' i j h c l \<and> mp_signer self' = mp_signer self \<and> relations self' = relations self
    \<and> profile_id (profile (own_profile self')) = signer_profile_id (mp_signer self)
    \<and> receives_at (node_env ne) (remote st2) h (signer_profile_id (mp_signer self)) pk c \<and> net_queue (remote st2) h c = []
    \<and> reaches (repo_ops env) (repo st2) (signer_profile_id (mp_signer self)) h"
proof -
  let ?me = "signer_profile_id (mp_signer self)" and ?ctx = "PeerContext_new (node_signer ne h) pk (signer_profile_id (mp_signer self))"
  obtain p own' nst nst' st1 where own': "facet (profile own') = Persona \<lparr>homes = [p], persona_data = []\<rparr>"
    "profile_id (profile own') = ?me" "public_key (profile own') = pk"
    and p: "relation_type p = RELATION_TYPE_HOSTED_ON_HOME" "peer_id p ?me = Inr h" "peer_id p h = Inr ?me"
    and nst: "remote st h = Some nst" "sessions nst' = sessions nst" "imap (hosted_profile_db nst') ?me = Some own'"
    and join: "join_home env this h invite st = Return (Inr (), st1)"
    and st1: "st1 = st\<lparr>my_profiles := (my_profiles st)(this \<mapsto> self\<lparr>own_profile := own'\<rparr>),
        repo := (repo st)\<lparr>imap := (imap (repo st))(?me \<mapsto> profile own')\<rparr>, remote := (remote st)(h \<mapsto> nst')\<rparr>"
    using join_net [OF net self home, of invite] by blast
  obtain hp hf where h: "signer_profile_id (node_signer ne h) = h" "imap (repo st) h = Some hp" "profile_id hp = h" "facet hp = Home hf"
    and free: "sessions nst ?me = None"
    using home(1) nst(1) unfolding free_home_def by auto
  have "remote st1 h = Some nst'" "kv_get (db_ops (node_env ne)) (hosted_profile_db nst') ?me = Inr own'"
    using nst(3) net(3) by (simp_all add: st1 InMemoryStore_get_def)
  from login_events_net [of st1 h nst' ne, OF this _ own'(2,3) p(1), of ?ctx] nst(2) free p(3) h(1)
  obtain s w w' c where s: "home_login (net_ops ne) (h, Some ?ctx) p (remote st1) = (Inr s, w)" "net_events s w = ((h, Some c), w')"
    and w': "receives_at (node_env ne) w' h ?me pk c" "net_queue w' h c = []"
    by (auto simp: PeerContext_new_def)
  have load: "SimpleProfileRepo_load (repo_ops env) (repo st1) ?me = Inr (profile own')"
    "SimpleProfileRepo_load (repo_ops env) (repo st1) h = Inr hp"
    using home(2) h(2) net(4) by (simp_all add: st1 SimpleProfileRepo_load_def InMemoryStore_get_def)
  have "connect_home2 env h (mp_signer self) st1 = Return (Inr (h, Some ?ctx), st1)"
    using h net owner_accepted [OF net(2) self(2), of "node_env ne"] load(2)
    by (simp add: connect_home2_Return on_net_def net_connector_def) (simp add: st1)
  moreover have self1: "my_profiles st1 this = Some (self\<lparr>own_profile := own'\<rparr>)" by (simp add: st1)
  ultimately have login: "login_home env this h st1 = open_session env this h s (st1\<lparr>remote := w\<rparr>)"
    using self(3) net(1) s(1) load(1) find_home_proof_single [OF own'(1) p(2)]
    by (simp add: login_home_def homeless_def on_net_def Let_def future_and_then_def repo_load_def future_result_def remote_op_def)
  have "session_events (home_ops env) s (remote (st1\<lparr>remote := w\<rparr>)) = ((h, Some c), w')" "my_profiles (st1\<lparr>remote := w\<rparr>) this = Some (self\<lparr>own_profile := own'\<rparr>)"
    using net(1) s(2) self1 by (simp_all add: on_net_def net_ops_def)
  then obtain st2 where opened: "open_session env this h s (st1\<lparr>remote := w\<rparr>) = Return (Inr (client_next (st1\<lparr>remote := w\<rparr>)), st2)"
    and st2: "remote st2 = w'" "repo st2 = repo (st1\<lparr>remote := w\<rparr>)"
    and listening: "listening st2 this (self\<lparr>own_profile := own', session_cache := AList.update h (client_next st1) (session_cache self)\<rparr>)
        (length (client_tasks st1)) (length (client_tasks st1) + 1) h c (client_next st1 + 1)"
    by (rule open_session_listening) simp
  let ?self = "self\<lparr>own_profile := own', session_cache := AList.update h (client_next st1) (session_cache self)\<rparr>"
  have "reaches (repo_ops env) (repo st2) ?me h"
    using load own' p(2) h(3,4) unfolding reaches_def st2(2) by auto
  moreover have "mp_signer ?self = mp_signer self" "relations ?self = relations self" "profile_id (profile (own_profile ?self)) = ?me"
    using own'(2) by simp_all
  ultimately show ?thesis using join login opened listening w' unfolding st2(1) [symmetric] by metis
qed

text \<open>C5: a client joins a home and logs in to it.  On a network of nodes with in-memory stores and the
  default validator, a profile that has no home can register at any node that does not host it yet
  and log in right after; then its events reach the client: the node holds a live session whose
  channel is the stream the client's forwarding future reads, the profile handles what arrives, the
  client can tell others where it is hosted, and its relations and keys are as before.\<close>

theorem join_and_login:
  fixes st :: "((ProfileId, Profile) InMemoryStore, home_session, event_stream, ((ProfileId, Profile) InMemoryStore, (ProfileId, OwnProfile) InMemoryStore) net) Client"
  assumes "on_net ne env" "multihash_ok mh" "node_env ne = memory_env ser (default_validator mh ed)" "repo_ops env = InMemoryStore_ops"
    and "my_profiles st this = Some self" "ed_owns mh ed pk (mp_signer self)" "homeless pk self"
    and "free_home ne st (signer_profile_id (mp_signer self)) h" "signer_profile_id (mp_signer self) \<noteq> h"
  shows "\<exists>st1 sid st2 self' i j c l. join_home env this h invite st = Return (Inr (), st1) \<and> login_home env this h st1 = Return (Inr sid, st2)
    \<and> listening st2 this self' i j h c l \<and> mp_signer self' = mp_signer self \<and> relations self' = relations self
    \<and> profile_id (profile (own_profile self')) = signer_profile_id (mp_signer self)
    \<and> receives_at (node_env ne) (remote st2) h (signer_profile_id (mp_signer self)) pk c \<and> net_queue (remote st2) h c = []
    \<and> reaches (repo_ops env) (repo st2) (signer_profile_id (mp_signer self)) h"
  using assms by (rule join_and_login_net)

section \<open>Pairing two clients\<close>

text \<open>C4: two clients pair over the network.  Both are logged in to homes of the network, which may be
  the same or not, and know each other's profile and home.  When the first asks for a relation, the
  request arrives at the listeners of the second; when the second accepts it, both clients end up
  with the same relation proof stored, which is signed by both and valid between them: the first
  by handling the response its home forwards.\<close>

theorem pairing_over_network:
  fixes stA :: "('ra, home_session, event_stream, ('d, 'b) net) Client" and stB :: "('rb, home_session, event_stream, ('d, 'b) net) Client"
  assumes half_def: "half = RelationHalfProof_new (client_ser envA) t (signer_profile_id (mp_signer selfB)) (mp_signer selfA)"
    and net: "on_net ne envA" "on_net ne envB" "multihash_ok mh" "validator (node_env ne) = default_validator mh ed"
    and keys: "ed_owns mh ed pkA (mp_signer selfA)" "ed_owns mh ed pkB (mp_signer selfB)"
      "signer_profile_id (mp_signer selfA) \<noteq> signer_profile_id (mp_signer selfB)"
    and clients: "listening stA a selfA iA jA hA cA lA" "listening stB b selfB iB jB hB cB lB" "(hA, cA) \<noteq> (hB, cB)"
      "profile_id (profile (own_profile selfB)) = signer_profile_id (mp_signer selfB)"
    and nodes: "receives_at (node_env ne) (remote stA) hA (signer_profile_id (mp_signer selfA)) pkA cA"
      "receives_at (node_env ne) (remote stA) hB (signer_profile_id (mp_signer selfB)) pkB cB"
      "net_queue (remote stA) hA cA = []" "net_queue (remote stA) hB cB = []"
    and repos: "reaches (repo_ops envA) (repo stA) (signer_profile_id (mp_signer selfB)) hB"
      "reaches (repo_ops envB) (repo stB) (signer_profile_id (mp_signer selfA)) hA"
  shows "\<exists>p stA1 stB1 stB2 stA2.
      initiate_relation envA a t (signer_profile_id (mp_signer selfB)) stA = Return (Inr (), stA1)
    \<and> client_poll envB iB (client_poll envB iB (stB\<lparr>remote := remote stA1\<rparr>)) = stB1
    \<and> listeners stB1 lB = Some \<lparr>pending_events = [PairingRequest half], listener_closed = False\<rparr>
    \<and> accept_relation envB b half stB1 = Return (Inr p, stB2)
    \<and> client_poll envA jA (client_poll envA iA (client_poll envA iA (stA1\<lparr>remote := remote stB2\<rparr>))) = stA2
    \<and> my_profiles stA2 a = Some (selfA\<lparr>relations := relations selfA @ [p]\<rparr>)
    \<and> my_profiles stB2 b = Some (selfB\<lparr>relations := relations selfB @ [p]\<rparr>)
    \<and> relation_type p = t \<and> validate_relation_proof (client_ser envA) (default_validator mh ed) p
        (signer_profile_id (mp_signer selfA)) pkA (signer_profile_id (mp_signer selfB)) pkB = Inr ()"
proof -
  let ?A = "signer_profile_id (mp_signer selfA)" and ?B = "signer_profile_id (mp_signer selfB)"
  have ops: "home_ops envA = net_ops ne" "home_ops envB = net_ops ne" "client_ser envB = client_ser envA"
    using net(1,2) by (simp_all add: on_net_def)
  have live: "my_profiles stA a = Some selfA" "my_profiles stB b = Some selfB" using clients by (auto simp: listening_def)
  obtain w1 where init: "initiate_relation envA a t ?B stA = Return (Inr (), stA\<lparr>remote := w1\<rparr>)"
    and w1: "net_upd (remote stA) w1 hB cB [Inr (PairingRequest half)]"
    using request_delivered [OF net(1,3,4) live(1) keys(1) repos(1) nodes(2)] nodes(4) unfolding half_def by auto
  note in1 = net_upd_receives_at [OF w1 nodes(1)] net_upd_receives_at [OF w1 nodes(2)]
  have q1: "net_queue w1 hA cA = []" "net_queue w1 hB cB = [Inr (PairingRequest half)]"
    using net_upd_queue [OF w1] nodes(3) clients(3) by auto
  obtain w2 stB1 where stB1: "client_poll envB iB (client_poll envB iB (stB\<lparr>remote := w1\<rparr>)) = stB1" "net_upd w1 w2 hB cB []"
    "remote stB1 = w2" "repo stB1 = repo stB" "my_profiles stB1 = my_profiles stB"
    "listeners stB1 lB = Some \<lparr>pending_events = [PairingRequest half], listener_closed = False\<rparr>"
    by (rule event_received [OF ops(2) listening_remote [OF clients(2)], of w1]) (use in1 q1 in \<open>auto simp: carried_event_def\<close>)
  obtain p w3 where acc: "accept_relation envB b half stB1 = Return (Inr p, stB1\<lparr>remote := w3,
        my_profiles := (my_profiles stB1)(b \<mapsto> selfB\<lparr>relations := relations selfB @ [p]\<rparr>)\<rparr>)"
    and w3: "net_upd w2 w3 hA cA (net_queue w2 hA cA @ [Inr (PairingResponse p)])" and p: "relation_type p = t"
    "validate_relation_proof (client_ser envA) (default_validator mh ed) p ?A pkA ?B pkB = Inr ()"
    using response_delivered [OF net(2,3,4) keys, of stB1 b hA cA half t] stB1(3-5) live(2) clients(4) repos(2)
      net_upd_receives_at [OF stB1(2) in1(1)] by (auto simp: half_def ops)
  have q3: "net_queue w3 hA cA = [Inr (PairingResponse p)]"
    using net_upd_queue [OF w3] net_upd_queue [OF stB1(2)] q1(1) clients(3) by auto
  have in3: "receives_at (node_env ne) w3 hA ?A pkA cA"
    by (intro net_upd_receives_at [OF w3] net_upd_receives_at [OF stB1(2)] in1)
  obtain st where st: "client_poll envA iA (client_poll envA iA (stA\<lparr>remote := w3\<rparr>)) = st" "my_profiles st = my_profiles stA"
    "listeners st lA = Some \<lparr>pending_events = [PairingResponse p], listener_closed = False\<rparr>"
    "jA < length (client_tasks st)" "client_tasks st ! jA = HandleEvents a lA"
    by (rule event_received [OF ops(1) listening_remote [OF clients(1)], of w3]) (use in3 q3 in \<open>auto simp: carried_event_def\<close>)
  have stored: "my_profiles (client_poll envA jA st) a = Some (selfA\<lparr>relations := relations selfA @ [p]\<rparr>)"
    using handle_step [OF st(4,5,3), of "PairingResponse p" "[]" selfA envA] by (simp add: st(2) live)
  show ?thesis
    by (rule exI [of _ p], rule exI [of _ "stA\<lparr>remote := w1\<rparr>"], rule exI [of _ stB1],
        rule exI [of _ "stB1\<lparr>remote := w3, my_profiles := (my_profiles stB1)(b \<mapsto> selfB\<lparr>relations := relations selfB @ [p]\<rparr>)\<rparr>"],
        rule exI [of _ "client_poll envA jA st"])
      (simp add: init stB1(1,6) acc st(1) p stored)
qed

section \<open>A sample network\<close>

text \<open>Two homes, \<open>[8]\<close> and \<open>[9]\<close>, and clients with the sample keys.\<close>

type_synonym sample_net = "((ProfileId, Profile) InMemoryStore, (ProfileId, OwnProfile) InMemoryStore) net"

definition sample_net_env :: "((ProfileId, Profile) InMemoryStore, (ProfileId, OwnProfile) InMemoryStore) NetEnv" where
  "sample_net_env = \<lparr>node_env = duo_env, node_signer = (\<lambda>h. \<lparr>signer_profile_id = h, signer_public_key = PublicKey [], sign = (\<lambda>_. Signature [])\<rparr>),
     err_text = (\<lambda>_. ''''), register_err_text = (\<lambda>_. ''''), call_timer = Inr (), while_waiting = (\<lambda>st. st)\<rparr>"

definition net_client_env ::
  "((ProfileId, Profile) InMemoryStore, home_conn, home_session, event_stream, sample_net) ClientEnv" where
  "net_client_env = \<lparr>client_ser = sample_bincode, repo_ops = InMemoryStore_ops, home_ops = net_ops sample_net_env,
     home_connector = net_connector sample_net_env, select_order = (\<lambda>n. [0..<n]), iter_order = (\<lambda>xs. xs)\<rparr>"

definition net_home_profile :: "u8 \<Rightarrow> Profile" where
  "net_home_profile h = Profile_new (ProfileId [h]) (PublicKey []) (Home \<lparr>addrs = [], home_data = []\<rparr>)"

definition net_home_proof :: "u8 \<Rightarrow> u8 \<Rightarrow> RelationProof" where
  "net_home_proof k h = \<lparr>relation_type = RELATION_TYPE_HOSTED_ON_HOME, a_id = ProfileId [h], a_signature = Signature [],
     b_id = ProfileId [27, k], b_signature = Signature []\<rparr>"

definition net_profile :: "u8 \<Rightarrow> RelationProof list \<Rightarrow> Profile" where
  "net_profile k hs = Profile_new (ProfileId [27, k]) (PublicKey [k]) (Persona \<lparr>homes = hs, persona_data = []\<rparr>)"

definition net_self :: "u8 \<Rightarrow> RelationProof list \<Rightarrow> MyProfileImpl" where
  "net_self k hs = MyProfileImpl_new (OwnProfile_new (net_profile k hs) []) (sample_signer [k])"

lemma net_sample_sel [simp]:
  "profile_id (net_profile k hs) = ProfileId [27, k]" "public_key (net_profile k hs) = PublicKey [k]"
  "facet (net_profile k hs) = Persona \<lparr>homes = hs, persona_data = []\<rparr>"
  "profile (own_profile (net_self k hs)) = net_profile k hs" "mp_signer (net_self k hs) = sample_signer [k]"
  "relations (net_self k hs) = []" "session_cache (net_self k hs) = []" "signer_profile_id (sample_signer [k]) = ProfileId [27, k]"
  by (simp_all add: net_profile_def net_self_def MyProfileImpl_new_def OwnProfile_new_def Profile_new_def sample_signer_def)

lemma net_sample_ok: "on_net sample_net_env net_client_env" "node_env sample_net_env = duo_env"
  "validator duo_env = default_validator sample_multihash sample_ed25519" "repo_ops net_client_env = InMemoryStore_ops"
  by (auto simp: on_net_def net_client_env_def sample_net_env_def duo_env_def completes_all_def)

definition fresh_client :: "((ProfileId, Profile) InMemoryStore, home_session, event_stream, sample_net) Client" where
  "fresh_client = snd (alloc_profile (OwnProfile_new (net_profile 1 []) []) (sample_signer [1])
     (client_init \<lparr>imap = [ProfileId [8] \<mapsto> net_home_profile 8]\<rparr> [ProfileId [8] \<mapsto> HomeServer_new InMemoryStore_new InMemoryStore_new]))"

lemma fresh_client_ok:
  "my_profiles fresh_client 0 = Some (net_self 1 [])"
  "ed_owns sample_multihash sample_ed25519 (PublicKey [1]) (mp_signer (net_self 1 []))"
  "homeless (PublicKey [1]) (net_self 1 [])"
  "free_home sample_net_env fresh_client (signer_profile_id (mp_signer (net_self 1 []))) (ProfileId [8])"
  "signer_profile_id (mp_signer (net_self 1 [])) \<noteq> ProfileId [8]"
proof -
  show "my_profiles fresh_client 0 = Some (net_self 1 [])"
    by (simp add: fresh_client_def alloc_profile_def client_init_def net_self_def)
  show "ed_owns sample_multihash sample_ed25519 (PublicKey [1]) (mp_signer (net_self 1 []))" using sample_owns [of "[1]"] by simp
  show "free_home sample_net_env fresh_client (signer_profile_id (mp_signer (net_self 1 []))) (ProfileId [8])"
    by (simp add: free_home_def fresh_client_def alloc_profile_def client_init_def sample_net_env_def net_home_profile_def
        Profile_new_def wire_inv_def HomeServer_new_def InMemoryStore_new_def)
qed (simp_all add: homeless_def)

theorem join_and_login_witness:
  "\<exists>st1 sid st2. join_home net_client_env 0 (ProfileId [8]) None fresh_client = Return (Inr (), st1)
     \<and> login_home net_client_env 0 (ProfileId [8]) st1 = Return (Inr sid, st2)"
  using join_and_login [OF net_sample_ok(1) sample_ok(1) _ net_sample_ok(4) fresh_client_ok, of sample_bincode None]
  by (simp add: net_sample_ok(2) duo_env_def) blast

text \<open>Homes and clients after both parties have logged in.\<close>

definition party_home :: "u8 \<Rightarrow> u8 \<Rightarrow> ((ProfileId, Profile) InMemoryStore, (ProfileId, OwnProfile) InMemoryStore) HomeServer" where
  "party_home k h = (HomeServer_new InMemoryStore_new \<lparr>imap = [ProfileId [27, k] \<mapsto> OwnProfile_new (net_profile k [net_home_proof k h]) []]\<rparr>)
     \<lparr>sessions := [ProfileId [27, k] \<mapsto> 0], event_chans := [1 \<mapsto> new_channel], next_id := 2,
      session_heap := [0 \<mapsto> \<lparr>ss_context = sample_ctx k, events_sink = Sender 1, apps = []\<rparr>]\<rparr>"

definition party :: "u8 \<Rightarrow> u8 \<Rightarrow> ((ProfileId, Profile) InMemoryStore, home_session, event_stream, sample_net) Client" where
  "party k h = \<lparr>repo = \<lparr>imap = [ProfileId [27, 1] \<mapsto> net_profile 1 [net_home_proof 1 8], ProfileId [27, 2] \<mapsto> net_profile 2 [net_home_proof 2 9],
       ProfileId [8] \<mapsto> net_home_profile 8, ProfileId [9] \<mapsto> net_home_profile 9]\<rparr>,
     my_profiles = [0 \<mapsto> net_self k [net_home_proof k h]], my_sessions = [1 \<mapsto> \<lparr>session = (ProfileId [h], 0), event_listeners = [2]\<rparr>],
     listeners = [2 \<mapsto> \<lparr>pending_events = [], listener_closed = False\<rparr>],
     client_tasks = [ForwardEvents 1 (ProfileId [h], Some 1), HandleEvents 0 2],
     remote = [ProfileId [8] \<mapsto> party_home 1 8, ProfileId [9] \<mapsto> party_home 2 9], client_next = 3\<rparr>"

lemma party_listening: "listening (party k h) 0 (net_self k [net_home_proof k h]) 0 1 (ProfileId [h]) 1 2"
  by (simp add: listening_def party_def)

lemma party_at_home:
  "receives_at duo_env (remote (party k h)) (ProfileId [8]) (ProfileId [27, 1]) (PublicKey [1]) 1"
  "receives_at duo_env (remote (party k h)) (ProfileId [9]) (ProfileId [27, 2]) (PublicKey [2]) 1"
  "net_queue (remote (party k h)) (ProfileId [8]) 1 = []" "net_queue (remote (party k h)) (ProfileId [9]) 1 = []"
  by (simp_all add: receives_at_def net_queue_def queued_def party_def party_home_def HomeServer_new_def duo_env_def
      InMemoryStore_get_def new_channel_def OwnProfile_new_def)

lemma party_reaches:
  "reaches InMemoryStore_ops (repo (party k h)) (ProfileId [27, 1]) (ProfileId [8])"
  "reaches InMemoryStore_ops (repo (party k h)) (ProfileId [27, 2]) (ProfileId [9])"
  by (auto simp: reaches_def party_def SimpleProfileRepo_load_def InMemoryStore_get_def net_home_proof_def peer_id_def
      net_home_profile_def Profile_new_def)

theorem pairing_over_network_witness:
  "\<exists>p stA1 half stB1 stB2. initiate_relation net_client_env 0 ''friend'' (ProfileId [27, 2]) (party 1 8) = Return (Inr (), stA1)
     \<and> accept_relation net_client_env 0 half stB1 = Return (Inr p, stB2) \<and> relation_type p = ''friend''
     \<and> map_option relations (my_profiles stB2 0) = Some [p]"
proof -
  let ?A = "net_self 1 [net_home_proof 1 8]" and ?B = "net_self 2 [net_home_proof 2 9]"
  let ?idA = "signer_profile_id (mp_signer ?A)" and ?idB = "signer_profile_id (mp_signer ?B)"
  have keys: "ed_owns sample_multihash sample_ed25519 (PublicKey [1]) (mp_signer ?A)"
    "ed_owns sample_multihash sample_ed25519 (PublicKey [2]) (mp_signer ?B)" "?idA \<noteq> ?idB"
    using sample_owns [of "[1]"] sample_owns [of "[2]"] by simp_all
  have env: "validator (node_env sample_net_env) = default_validator sample_multihash sample_ed25519"
    by (simp add: net_sample_ok)
  have homes: "(ProfileId [8], 1 :: channel_id) \<noteq> (ProfileId [9], 1)" "profile_id (profile (own_profile ?B)) = ?idB" by simp_all
  have nodes: "receives_at (node_env sample_net_env) (remote (party 1 8)) (ProfileId [8]) ?idA (PublicKey [1]) 1"
    "receives_at (node_env sample_net_env) (remote (party 1 8)) (ProfileId [9]) ?idB (PublicKey [2]) 1"
    using party_at_home by (simp_all add: net_sample_ok)
  have repos: "reaches (repo_ops net_client_env) (repo (party 1 8)) ?idB (ProfileId [9])"
    "reaches (repo_ops net_client_env) (repo (party 2 9)) ?idA (ProfileId [8])"
    using party_reaches by (simp_all add: net_sample_ok)
  let ?half = "RelationHalfProof_new (client_ser net_client_env) ''friend'' ?idB (mp_signer ?A)"
  obtain p stA1 stB1 stB2 where "initiate_relation net_client_env 0 ''friend'' ?idB (party 1 8) = Return (Inr (), stA1)"
    "accept_relation net_client_env 0 ?half stB1 = Return (Inr p, stB2)"
    "my_profiles stB2 0 = Some (?B\<lparr>relations := relations ?B @ [p]\<rparr>)" "relation_type p = ''friend''"
    using pairing_over_network [where t = "''friend''", OF refl net_sample_ok(1) net_sample_ok(1) sample_ok(1) env keys party_listening party_listening
        homes nodes party_at_home(3,4) repos] by blast
  then have "initiate_relation net_client_env 0 ''friend'' (ProfileId [27, 2]) (party 1 8) = Return (Inr (), stA1)"
    "accept_relation net_client_env 0 ?half stB1 = Return (Inr p, stB2)" "relation_type p = ''friend''"
    "map_option relations (my_profiles stB2 0) = Some [p]" by simp_all
  then show ?thesis by blast
qed

end
