(* ===== verification/Network_Calls.thy ===== *)
theory Network_Calls
  imports Network_Properties
begin

text \<open>
  Calls between clients over the network: from \<^verbatim>\<open>Contact::call\<close> of an application through
  the caller's profile, the proxy, the dispatcher and the callee's home to the queue of the callee's
  application, and back.
\<close>

section \<open>A call at a node\<close>

lemma call_queued:
  assumes "peer_id (relation req) (ctx_peer_id ctx) = Inr i" and own: "kv_get (db_ops env) (hosted_profile_db st) i = Inr own"
    and "validate_relation_proof (bincode_ser env) (validator env) (relation req) (ctx_peer_id ctx) (peer_pubkey ctx)
      (profile_id (profile own)) (public_key (profile own)) = Inr ()"
    and live: "sessions st i = Some sid" "session_heap st sid = Some s" and takes: "takes_calls st s app"
  obtains st' where "call env ctx app req (Inr ()) st = (Inr (next_id st), st')"
    "calls_for st' sid app = calls_for st sid app @ [Inr (Call_new req (next_id st))]"
    "await_answer st' (next_id st) True = Some (Inr None)"
    "\<And>a. await_answer (snd (answer (Call_new req (next_id st)) a st')) (next_id st) True = Some (Inr a)"
    "await_answer (drop_call (Call_new req (next_id st)) st') (next_id st) True = Some (Inl FailedToReadResponse)"
proof -
  obtain st' where st': "push_call env i app (Call_new req (next_id st)) (waiting st) = (Inr (), st')"
    "calls_for st' sid app = calls_for st sid app @ [Inr (Call_new req (next_id st))]"
    "await_answer st' (next_id st) False = None" "await_answer st' (next_id st) True = Some (Inr None)"
    "\<forall>a t. await_answer (snd (answer (Call_new req (next_id st)) a st')) (next_id st) t = Some (Inr a)"
    using pushed_taken [OF own live takes, of req] by blast
  have "call env ctx app req (Inr ()) st = (Inr (next_id st), st')"
    using assms(1-3) st'(1) by (simp add: call_def Let_def check_relation_def)
  moreover have "await_answer (drop_call (Call_new req (next_id st)) st') (next_id st) True = Some (Inl FailedToReadResponse)"
    using st'(3) by (auto simp: drop_call_def await_answer_def Call_new_def split: option.splits if_splits)
  ultimately show ?thesis using st' that by blast
qed

lemma await_answer_timed_out: "\<exists>r. await_answer st recv True = Some r"
  by (auto simp: await_answer_def split: option.split oneshot.split)

lemma net_call:
  assumes "w h = Some st" and "call (node_env ne) ctx app req (call_timer ne) st = (Inr recv, st1)"
    and "await_answer (while_waiting ne st1) recv True = Some r"
  shows "home_call (net_ops ne) (h, Some ctx) app req w = (map_err (\<lambda>_. ErrorKind.CallFailed) r, w(h \<mapsto> while_waiting ne st1))"
proof -
  have "trait_call (node_trait ne ctx) app req st = (r, while_waiting ne st1)"
    using assms(2,3) by (simp add: HomeConnection_trait_def)
  from remote_call [OF this, of "err_text ne"] assms(1) show ?thesis by (simp add: net_ops_def on_conn_def)
qed

section \<open>A call between clients\<close>

text \<open>The profile \<open>i\<close> with key \<open>pk\<close> is hosted at \<open>h\<close> and its live session \<open>sid\<close> there takes calls for
  the application.\<close>

definition takes_calls_at ::
  "('d, 'b) HomeEnv \<Rightarrow> ('d, 'b) HomeServer \<Rightarrow> ProfileId \<Rightarrow> PublicKey \<Rightarrow> nat \<Rightarrow> ApplicationId \<Rightarrow> bool" where
  "takes_calls_at env st i pk sid app \<longleftrightarrow> (\<exists>own s. kv_get (db_ops env) (hosted_profile_db st) i = Inr own
     \<and> profile_id (profile own) = i \<and> public_key (profile own) = pk
     \<and> sessions st i = Some sid \<and> session_heap st sid = Some s \<and> takes_calls st s app)"

text \<open>The caller connects to the home of the callee and waits there.\<close>

lemma contact_call_run:
  assumes net: "on_net ne env" "multihash_ok mh" "validator (node_env ne) = default_validator mh ed" "call_timer ne = Inr ()"
    and self: "my_profiles st this = Some self" "ed_owns mh ed pkA (mp_signer self)"
    and peer: "peer_id proof (signer_profile_id (mp_signer self)) = Inr i" "reaches (repo_ops env) (repo st) i h" "remote st h = Some nst"
    and req: "req = \<lparr>relation = proof, init_payload = payload, to_caller = Some (client_next st)\<rparr>"
    and call: "call (node_env ne) (PeerContext_new (node_signer ne h) pkA (signer_profile_id (mp_signer self))) app req (Inr ()) nst = (Inr recv, nst1)"
    and answer: "await_answer (while_waiting ne nst1) recv True = Some r"
  shows "Contact_call env (RelationImpl_new proof this app) payload st
    = Return (case r of Inl _ \<Rightarrow> Inl CallFailed | Inr None \<Rightarrow> Inl CallRefused
        | Inr (Some sink) \<Rightarrow> Inr \<lparr>outgoing = sink, incoming = client_next st\<rparr>,
      st\<lparr>client_next := client_next st + 1, remote := (remote st)(h \<mapsto> while_waiting ne nst1)\<rparr>)"
proof -
  let ?me = "signer_profile_id (mp_signer self)" and ?st = "st\<lparr>client_next := client_next st + 1\<rparr>"
  let ?ctx = "PeerContext_new (node_signer ne h) pkA ?me"
  note acc = owner_accepted [OF net(2) self(2) net(3)]
  have w: "remote ?st h \<noteq> None" and repo: "reaches (repo_ops env) (repo ?st) i h" using peer by simp_all
  obtain prof hp where prof: "SimpleProfileRepo_load (repo_ops env) (repo ?st) i = Inr prof"
    "any_home_of2 env prof (mp_signer self) ?st = Return (Inr (hp, h, Some ?ctx), ?st)"
    using net(1) acc by (auto simp: on_net_def intro: any_home_net [OF _ _ repo w, of ne "mp_signer self" ?ctx])
  have "home_call (home_ops env) (h, Some ?ctx) app req (remote ?st)
      = (map_err (\<lambda>_. ErrorKind.CallFailed) r, (remote st)(h \<mapsto> while_waiting ne nst1))"
    using net_call [of "remote st" h nst ne ?ctx app req, OF peer(3) _ answer] call net(1,4) by (simp add: on_net_def)
  then have "MyProfile_call env this proof app payload (Some (client_next st)) ?st
      = Return (map_err (\<lambda>_. CallFailed) r, ?st\<lparr>remote := (remote st)(h \<mapsto> while_waiting ne nst1)\<rparr>)"
    using self(1) peer(1) prof by (cases r) (simp_all add: MyProfile_call_def with_self_def future_and_then_def repo_load_def remote_op_def req)
  then show ?thesis
    by (auto simp: Contact_call_def RelationImpl_new_def Let_def future_and_then_def future_err_def future_ok_def
        split: sum.splits option.splits)
qed

lemma contact_call_net:
  assumes net: "on_net ne env" "multihash_ok mh" "validator (node_env ne) = default_validator mh ed" "call_timer ne = Inr ()"
    and self: "my_profiles st this = Some self" "ed_owns mh ed pkA (mp_signer self)" "i \<noteq> signer_profile_id (mp_signer self)"
    and rel: "validate_relation_proof (client_ser env) (default_validator mh ed) proof (signer_profile_id (mp_signer self)) pkA i pkB = Inr ()"
    and peer: "reaches (repo_ops env) (repo st) i h" "remote st h = Some nst" "takes_calls_at (node_env ne) nst i pkB sid app"
    and req: "req = \<lparr>relation = proof, init_payload = payload, to_caller = Some (client_next st)\<rparr>"
  shows "\<exists>nst1. calls_for nst1 sid app = calls_for nst sid app @ [Inr (Call_new req (next_id nst))]
    \<and> await_answer nst1 (next_id nst) True = Some (Inr None)
    \<and> (\<forall>a. await_answer (snd (answer (Call_new req (next_id nst)) a nst1)) (next_id nst) True = Some (Inr a))
    \<and> await_answer (drop_call (Call_new req (next_id nst)) nst1) (next_id nst) True = Some (Inl FailedToReadResponse)
    \<and> (\<forall>r. await_answer (while_waiting ne nst1) (next_id nst) True = Some r \<longrightarrow>
       Contact_call env (RelationImpl_new proof this app) payload st
         = Return (case r of Inl _ \<Rightarrow> Inl CallFailed | Inr None \<Rightarrow> Inl CallRefused
             | Inr (Some sink) \<Rightarrow> Inr \<lparr>outgoing = sink, incoming = client_next st\<rparr>,
           st\<lparr>client_next := client_next st + 1, remote := (remote st)(h \<mapsto> while_waiting ne nst1)\<rparr>))"
proof -
  let ?me = "signer_profile_id (mp_signer self)" and ?ctx = "PeerContext_new (node_signer ne h) pkA (signer_profile_id (mp_signer self))"
  have peer_id: "peer_id proof ?me = Inr i" using rel validate_relation_proof_Ok [OF self(3) [symmetric]] by blast
  obtain own s where node: "kv_get (db_ops (node_env ne)) (hosted_profile_db nst) i = Inr own" "profile_id (profile own) = i"
    "public_key (profile own) = pkB" "sessions nst i = Some sid" "session_heap nst sid = Some s" "takes_calls nst s app"
    using peer(3) unfolding takes_calls_at_def by blast
  obtain nst1 where nst1: "call (node_env ne) ?ctx app req (Inr ()) nst = (Inr (next_id nst), nst1)"
    "calls_for nst1 sid app = calls_for nst sid app @ [Inr (Call_new req (next_id nst))]"
    "await_answer nst1 (next_id nst) True = Some (Inr None)"
    "\<And>a. await_answer (snd (answer (Call_new req (next_id nst)) a nst1)) (next_id nst) True = Some (Inr a)"
    "await_answer (drop_call (Call_new req (next_id nst)) nst1) (next_id nst) True = Some (Inl FailedToReadResponse)"
  proof (rule call_queued [of req ?ctx i "node_env ne" nst own sid s app])
    show "peer_id (relation req) (ctx_peer_id ?ctx) = Inr i" using peer_id by (simp add: req PeerContext_new_def)
    show "validate_relation_proof (bincode_ser (node_env ne)) (validator (node_env ne)) (relation req) (ctx_peer_id ?ctx) (peer_pubkey ?ctx)
        (profile_id (profile own)) (public_key (profile own)) = Inr ()"
      using rel node(2,3) net(1,3) by (simp add: req PeerContext_new_def on_net_def)
  qed (use node in simp_all)
  with contact_call_run [OF net self(1,2) peer_id peer(1,2) req nst1(1)] show ?thesis by blast
qed

text \<open>C6: a call between two applications over the network.  When the relation of the two profiles is
  valid, the caller knows how to reach the callee, and the callee is logged in and its application
  takes calls, the call with its first message and the caller's channel is queued at the callee's
  home for that application, behind earlier ones.  If the callee answers with a channel of its own
  while the caller waits, the caller gets both channels; if it answers without a channel or does not answer in
  time, the caller is refused, and if the call is dropped it fails.\<close>

theorem call_over_network:
  assumes net: "on_net ne env" "multihash_ok mh" "validator (node_env ne) = default_validator mh ed" "call_timer ne = Inr ()"
    and self: "my_profiles st this = Some self" "ed_owns mh ed pkA (mp_signer self)" "i \<noteq> signer_profile_id (mp_signer self)"
    and rel: "validate_relation_proof (client_ser env) (default_validator mh ed) proof (signer_profile_id (mp_signer self)) pkA i pkB = Inr ()"
    and peer: "reaches (repo_ops env) (repo st) i h" "remote st h = Some nst" "takes_calls_at (node_env ne) nst i pkB sid app"
    and call: "c = Call_new \<lparr>relation = proof, init_payload = payload, to_caller = Some (client_next st)\<rparr> (next_id nst)"
  shows "\<exists>nst1 r. calls_for nst1 sid app = calls_for nst sid app @ [Inr c]
    \<and> Contact_call env (RelationImpl_new proof this app) payload st
        = Return (r, st\<lparr>client_next := client_next st + 1, remote := (remote st)(h \<mapsto> while_waiting ne nst1)\<rparr>)
    \<and> (\<forall>sink. while_waiting ne nst1 = snd (answer c (Some sink) nst1) \<longrightarrow> r = Inr \<lparr>outgoing = sink, incoming = client_next st\<rparr>)
    \<and> (while_waiting ne nst1 \<in> {nst1, snd (answer c None nst1)} \<longrightarrow> r = Inl CallRefused)
    \<and> (while_waiting ne nst1 = drop_call c nst1 \<longrightarrow> r = Inl CallFailed)"
proof -
  obtain nst1 where nst1: "calls_for nst1 sid app = calls_for nst sid app @ [Inr c]"
    "await_answer nst1 (next_id nst) True = Some (Inr None)"
    "\<forall>a. await_answer (snd (answer c a nst1)) (next_id nst) True = Some (Inr a)"
    "await_answer (drop_call c nst1) (next_id nst) True = Some (Inl FailedToReadResponse)"
    and run: "\<forall>r. await_answer (while_waiting ne nst1) (next_id nst) True = Some r \<longrightarrow>
       Contact_call env (RelationImpl_new proof this app) payload st
         = Return (case r of Inl _ \<Rightarrow> Inl CallFailed | Inr None \<Rightarrow> Inl CallRefused
             | Inr (Some sink) \<Rightarrow> Inr \<lparr>outgoing = sink, incoming = client_next st\<rparr>,
           st\<lparr>client_next := client_next st + 1, remote := (remote st)(h \<mapsto> while_waiting ne nst1)\<rparr>)"
    using contact_call_net [OF net self rel peer refl, of payload] unfolding call by blast
  obtain r where "await_answer (while_waiting ne nst1) (next_id nst) True = Some r" using await_answer_timed_out by blast
  with run nst1 show ?thesis
    by (intro exI [of _ nst1] exI [of _ "case r of Inl _ \<Rightarrow> Inl CallFailed | Inr None \<Rightarrow> Inl CallRefused
        | Inr (Some sink) \<Rightarrow> Inr \<lparr>outgoing = sink, incoming = client_next st\<rparr>"]) auto
qed

section \<open>Witness\<close>

text \<open>A node where every waiting call is answered with channel 77.\<close>

definition answering_net :: "((ProfileId, Profile) InMemoryStore, (ProfileId, OwnProfile) InMemoryStore) NetEnv" where
  "answering_net = sample_net_env\<lparr>call_timer := Inr (),
     while_waiting := (\<lambda>st. st\<lparr>oneshots := (oneshots st)(2 \<mapsto> Answered (Some 77))\<rparr>)\<rparr>"

definition answering_env :: "((ProfileId, Profile) InMemoryStore, home_conn, home_session, event_stream, sample_net) ClientEnv" where
  "answering_env = net_client_env\<lparr>home_ops := net_ops answering_net, home_connector := net_connector answering_net\<rparr>"

theorem call_over_network_witness:
  "\<exists>proof st'. Contact_call answering_env (RelationImpl_new proof 0 (ApplicationId ''chat'')) (AppMessageFrame [1]) (party 1 8)
     = Return (Inr \<lparr>outgoing = 77, incoming = 3\<rparr>, st')"
proof -
  let ?A = "net_self 1 [net_home_proof 1 8]" and ?B = "sample_signer [2]"
  have keys: "ed_owns sample_multihash sample_ed25519 (PublicKey [1]) (mp_signer ?A)"
    "ed_owns sample_multihash sample_ed25519 (PublicKey [2]) ?B" "signer_profile_id (mp_signer ?A) \<noteq> signer_profile_id ?B"
    using sample_owns [of "[1]"] sample_owns [of "[2]"] by simp_all
  obtain p where rel: "validate_relation_proof (client_ser answering_env) (default_validator sample_multihash sample_ed25519) p
      (signer_profile_id (mp_signer ?A)) (PublicKey [1]) (signer_profile_id ?B) (PublicKey [2]) = Inr ()"
    using ed25519.completed_valid [OF keys, of "client_ser answering_env" "''friend''"] by blast
  have net: "on_net answering_net answering_env" "validator (node_env answering_net) = default_validator sample_multihash sample_ed25519"
    "call_timer answering_net = Inr ()"
    using net_sample_ok by (simp_all add: on_net_def answering_net_def answering_env_def)
  have self: "my_profiles (party 1 8) 0 = Some ?A" "signer_profile_id ?B \<noteq> signer_profile_id (mp_signer ?A)"
    by (simp_all add: party_def)
  have peer: "reaches (repo_ops answering_env) (repo (party 1 8)) (signer_profile_id ?B) (ProfileId [9])"
    "remote (party 1 8) (ProfileId [9]) = Some (party_home 2 9)"
    "takes_calls_at (node_env answering_net) (party_home 2 9) (signer_profile_id ?B) (PublicKey [2]) 0 (ApplicationId ''chat'')"
    using party_reaches(2) [of 1 8]
    by (simp_all add: answering_env_def answering_net_def net_sample_ok party_def takes_calls_at_def party_home_def HomeServer_new_def
        duo_env_def InMemoryStore_get_def OwnProfile_new_def takes_calls_def app_sink_def)
  obtain nst1 r where "Contact_call answering_env (RelationImpl_new p 0 (ApplicationId ''chat'')) (AppMessageFrame [1]) (party 1 8)
      = Return (r, (party 1 8)\<lparr>client_next := client_next (party 1 8) + 1,
          remote := (remote (party 1 8))(ProfileId [9] \<mapsto> while_waiting answering_net nst1)\<rparr>)"
    "\<forall>sink. while_waiting answering_net nst1 = snd (answer (Call_new \<lparr>relation = p, init_payload = AppMessageFrame [1],
       to_caller = Some (client_next (party 1 8))\<rparr> (next_id (party_home 2 9))) (Some sink) nst1) \<longrightarrow> r = Inr \<lparr>outgoing = sink, incoming = client_next (party 1 8)\<rparr>"
    using call_over_network [OF net(1) sample_ok(1) net(2,3) self(1) keys(1) self(2) rel peer refl, of "AppMessageFrame [1]"] by blast
  moreover have "next_id (party_home 2 9) = 2" "client_next (party 1 8) = 3" by (simp_all add: party_home_def party_def)
  ultimately show ?thesis by (auto simp: answering_net_def answer_def Call_new_def)
qed

end
