(* ===== verification/Session_Cache.thy ===== *)
theory Session_Cache
  imports Network_Properties Capnp_Properties
begin

text \<open>
  The session cache of a client over time.  A client moves by its own steps, and the network changes
  under it: nodes restart, connections break.  \<open>kept\<close> says that the later state has every profile
  and session of the earlier one and every cached session under its home; every move keeps them, since
  no code removes or replaces an entry of the cache.  So a session that died with its home is handed
  out for ever, and a client that has left a home still holds its session there.
\<close>

section \<open>Moves of an open system\<close>

inductive client_move :: "('r, 'h, 's, 'c, 'w) ClientEnv \<Rightarrow> ('r, 's, 'c, 'w) Client \<Rightarrow> ('r, 's, 'c, 'w) Client \<Rightarrow> bool" for env where
  own: "client_step env st st' \<Longrightarrow> client_move env st st'"
| outside: "client_move env st (st\<lparr>remote := w\<rparr>)"

definition kept :: "('r, 's, 'c, 'w) Client \<Rightarrow> ('r, 's, 'c, 'w) Client \<Rightarrow> bool" where
  "kept st st' \<longleftrightarrow>
     (\<forall>p self. my_profiles st p = Some self \<longrightarrow>
        (\<exists>self'. my_profiles st' p = Some self' \<and> map_of (session_cache self) \<subseteq>\<^sub>m map_of (session_cache self')))
   \<and> (\<forall>sid s. my_sessions st sid = Some s \<longrightarrow> (\<exists>s'. my_sessions st' sid = Some s' \<and> session s' = session s))"

lemma keptI:
  assumes "\<And>p self. my_profiles st p = Some self \<Longrightarrow>
      \<exists>self'. my_profiles st' p = Some self' \<and> map_of (session_cache self) \<subseteq>\<^sub>m map_of (session_cache self')"
    and "\<And>sid s. my_sessions st sid = Some s \<Longrightarrow> \<exists>s'. my_sessions st' sid = Some s' \<and> session s' = session s"
  shows "kept st st'"
  using assms by (simp add: kept_def)

lemma keptD:
  assumes "kept st st'" and "my_profiles st p = Some self" and "map_of (session_cache self) h = Some sid"
  obtains self' where "my_profiles st' p = Some self'" "map_of (session_cache self') h = Some sid"
proof -
  from assms(1,2) obtain self' where "my_profiles st' p = Some self'" "map_of (session_cache self) \<subseteq>\<^sub>m map_of (session_cache self')"
    unfolding kept_def by blast
  with assms(3) that show ?thesis by (metis domI map_le_def)
qed

lemma kept_session:
  assumes "kept st st'" and "my_sessions st sid = Some s"
  obtains s' where "my_sessions st' sid = Some s'" "session s' = session s"
  using assms unfolding kept_def by blast

lemma kept_trans [trans]:
  assumes "kept a b" and "kept b c"
  shows "kept a c"
proof (rule keptI)
  fix p self assume "my_profiles a p = Some self"
  with assms(1) obtain self1 where 1: "my_profiles b p = Some self1" "map_of (session_cache self) \<subseteq>\<^sub>m map_of (session_cache self1)"
    unfolding kept_def by blast
  with assms(2) obtain self2 where "my_profiles c p = Some self2" "map_of (session_cache self1) \<subseteq>\<^sub>m map_of (session_cache self2)"
    unfolding kept_def by blast
  with 1(2) show "\<exists>self'. my_profiles c p = Some self' \<and> map_of (session_cache self) \<subseteq>\<^sub>m map_of (session_cache self')"
    by (blast intro: map_le_trans)
next
  fix sid s assume "my_sessions a sid = Some s"
  with assms(1) obtain s1 where 1: "my_sessions b sid = Some s1" "session s1 = session s" by (rule kept_session)
  with assms(2) show "\<exists>s'. my_sessions c sid = Some s' \<and> session s' = session s"
    by (metis kept_session)
qed

text \<open>States with the same caches and the same session at the home behind every session object.\<close>

lemma kept_same:
  assumes "\<And>p. map_option session_cache (my_profiles st' p) = map_option session_cache (my_profiles st p)"
    and "\<And>sid. map_option session (my_sessions st' sid) = map_option session (my_sessions st sid)"
  shows "kept st st'"
proof (rule keptI)
  fix p self assume "my_profiles st p = Some self"
  with assms(1) [of p] show "\<exists>self'. my_profiles st' p = Some self' \<and> map_of (session_cache self) \<subseteq>\<^sub>m map_of (session_cache self')"
    by (cases "my_profiles st' p") simp_all
next
  fix sid s assume "my_sessions st sid = Some s"
  with assms(2) [of sid] show "\<exists>s'. my_sessions st' sid = Some s' \<and> session s' = session s"
    by (cases "my_sessions st' sid") simp_all
qed

lemma kept_only_remote [intro]: "only_remote st st' \<Longrightarrow> kept st st'"
  by (rule kept_same) (simp_all add: only_remoteD)

lemma kept_refl [simp]: "kept st st"
  by (rule kept_same) simp_all

lemma kept_update_self:
  assumes "\<And>self. session_cache (f self) = session_cache self"
  shows "kept st (update_self this f st)"
  by (rule kept_same) (simp_all add: update_self_def option.map_comp comp_def assms)

lemma kept_update_session:
  assumes "\<And>s. session (f s) = session s"
  shows "kept st (update_session sid f st)"
  by (rule kept_same) (simp_all add: update_session_def option.map_comp comp_def assms)

section \<open>Every move keeps sessions\<close>

lemma kept_alloc_profile: "client_inv st \<Longrightarrow> alloc_profile own signer st = (this, st') \<Longrightarrow> kept st st'"
  using client_invD(4) [of st] by (auto simp: alloc_profile_def kept_def dom_def)

lemma kept_open_session:
  assumes "client_inv st" and "\<And>self. my_profiles st this = Some self \<Longrightarrow> map_of (session_cache self) h = None"
    and "open_session env this h s st = Return (r, st')"
  shows "kept st st'"
proof (rule keptI)
  obtain stream w where ev: "session_events (home_ops env) s (remote st) = (stream, w)" by fastforce
  note st' = assms(3) [unfolded open_session_Return [OF ev], simplified, THEN conjunct2, symmetric]
  show "\<exists>self'. my_profiles st' p = Some self' \<and> map_of (session_cache self) \<subseteq>\<^sub>m map_of (session_cache self')"
    if "my_profiles st p = Some self" for p self
    using that assms(2) by (auto simp: st' update_conv' map_le_def)
  show "\<exists>t'. my_sessions st' sid = Some t' \<and> session t' = session t" if "my_sessions st sid = Some t" for sid t
    using that client_invD(5) [OF assms(1)] by (auto simp: st')
qed

lemma kept_login_home:
  assumes "client_inv st" and "login_home env this h st = Return (r, st')"
  shows "kept st st'"
proof -
  obtain self where self: "my_profiles st this = Some self"
    using assms(2) by (cases "my_profiles st this") (auto simp: login_home_def with_self_def)
  from self assms(2) show ?thesis
  proof (cases rule: login_home_cases)
    case (opened s st1)
    have "kept st1 st'"
      using self opened(1) by (intro kept_open_session [OF client_inv_only_remote [OF assms(1) opened(2)] _ opened(3)])
        (simp add: only_remoteD [OF opened(2)])
    with kept_only_remote [OF opened(2)] show ?thesis by (rule kept_trans)
  qed auto
qed

lemma kept_MyProfile_login:
  assumes "completes_all (select_order env)" and "\<And>xs. set (iter_order env xs) = set xs"
    and "client_inv st" and "MyProfile_login env this st = Return (r, st')"
  shows "kept st st'"
proof -
  obtain self where self: "my_profiles st this = Some self"
    using assms(4) by (cases "my_profiles st this") (auto simp: MyProfile_login_def with_self_def)
  from assms(1) self assms(4) show ?thesis
  proof (cases rule: MyProfile_login_cases)
    case (opened home_id s st1)
    have "session_cache self = []" using assms(2) [of "session_cache self"] opened(1) by simp
    then have "kept st1 st'"
      using self by (intro kept_open_session [OF client_inv_only_remote [OF assms(3) opened(2)] _ opened(3)])
        (simp add: only_remoteD [OF opened(2)])
    with kept_only_remote [OF opened(2)] show ?thesis by (rule kept_trans)
  qed auto
qed

lemma kept_join_home:
  assumes "join_home env this home_id invite st = Return (r, st')"
  shows "kept st st'"
proof -
  obtain self where "my_profiles st this = Some self"
    using assms by (cases "my_profiles st this") (auto simp: join_home_def with_self_def)
  then show ?thesis using assms
  proof (cases rule: join_home_cases)
    case (joined own st1)
    show ?thesis
      by (rule kept_trans [OF kept_only_remote [OF joined(2)]], rule kept_same)
        (simp_all add: joined(3) update_self_def option.map_comp comp_def)
  qed auto
qed

lemma kept_accept_relation:
  assumes "completes_all (select_order env)" and "accept_relation env this half st = Return (r, st')"
  shows "kept st st'"
proof -
  obtain self where "my_profiles st this = Some self"
    using assms(2) by (cases "my_profiles st this") (auto simp: accept_relation_def with_self_def)
  from assms(1) this assms(2) show ?thesis
  proof (cases rule: accept_relation_cases)
    case (accepted p st1 home)
    then show ?thesis
      by (intro kept_trans [OF kept_only_remote [OF accepted(2)]]) (auto simp: update_self_def option.map_comp comp_def intro!: kept_same)
  qed auto
qed

lemma kept_run_client_task:
  assumes "run_client_task env t st = (rest, st')"
  shows "kept st st'"
  using assms
  by (cases t) (auto simp: forward_event_safe_def forward_done_def update_session_def handle_event_def on_new_relation_def update_self_def
      future_ok_def option.map_comp comp_def intro!: kept_same
      split: prod.splits poll.splits option.splits sum.splits list.splits ProfileEvent.splits if_splits)

lemma kept_client_poll: "kept st (client_poll env i st)"
proof (cases "i < length (client_tasks st)")
  case True
  obtain rest st' where run: "run_client_task env (client_tasks st ! i) st = (rest, st')" by fastforce
  have "kept st' (st'\<lparr>client_tasks := ts\<rparr>)" for ts by (rule kept_same) simp_all
  with kept_run_client_task [OF run] True run show ?thesis by (auto simp: client_poll_def intro: kept_trans)
qed (simp add: client_poll_def)

lemma kept_step:
  assumes "completes_all (select_order env)" and "\<And>xs. set (iter_order env xs) = set xs"
    and "client_inv st" and "client_step env st st'"
  shows "kept st st'"
  using assms(4)
proof cases
  case (leave_home this home_id newhome r)
  then obtain q st1 where "login_home env this home_id st = Return (q, st1)" "only_remote st1 st'" by (rule leave_home_cases)
  with kept_login_home [OF assms(3)] show ?thesis by (blast intro: kept_trans)
next
  case (events sid s l)
  then show ?thesis
    by (auto simp: MyHomeSession_events_def add_listener_def update_session_def Let_def option.map_comp comp_def intro!: kept_same)
next
  case (close l)
  then show ?thesis by (auto simp: close_listener_def intro: kept_same)
qed (auto intro: kept_alloc_profile [OF assms(3)] kept_login_home [OF assms(3)] kept_MyProfile_login [OF assms(1-3)] kept_join_home
    initiate_relation_only_remote [OF assms(1)] MyProfile_call_only_remote [OF assms(1)] kept_accept_relation [OF assms(1)] kept_client_poll)

lemma kept_moves:
  assumes "completes_all (select_order env)" and "\<And>xs. set (iter_order env xs) = set xs"
    and "(client_move env)\<^sup>*\<^sup>* st st'" and "client_inv st"
  shows "kept st st' \<and> client_inv st'"
  using assms(3)
proof induction
  case (step s t)
  from step(2) have "kept s t \<and> client_inv t"
  proof cases
    case own
    with step(3) show ?thesis using kept_step [OF assms(1,2)] client_inv_step [OF assms(1)] by blast
  next
    case (outside w)
    then have "only_remote s t" by (auto simp: only_remote_def)
    with step(3) show ?thesis by (blast intro: client_inv_only_remote)
  qed
  with step(3) show ?case by (blast intro: kept_trans)
qed (simp add: assms(4))

section \<open>What a cached session gives\<close>

text \<open>Logging in returns it and contacts nobody, leaving uses it.\<close>

lemma cached_login:
  assumes "my_profiles st this = Some self" and "map_of (session_cache self) h = Some sid"
  shows "login_home env this h st = Return (Inr sid, st)"
  using assms by (simp add: login_home_def)

lemma cached_leave:
  assumes "my_profiles st this = Some self" and "map_of (session_cache self) h = Some sid" and "my_sessions st sid = Some s"
  shows "leave_home env this h newhome st = remote_run DeregistrationFailed (session_unregister (home_ops env) (session s) newhome) st"
  using assms by (simp add: leave_home_def cached_login future_and_then_def future_map_err_def with_session_def)

lemma session_lost:
  assumes "on_session w s = None"
  shows "(\<And>p. newhome = Some p \<Longrightarrow> sendable p) \<Longrightarrow> net_unregister ne s newhome w = Return (Inl UnregisterFailed, w)"
    and "net_checkin_app s app w = ((fst s, None), w)" and "net_next_event (fst s, None) w = (Item (Inl ''Events delegation failed''), w)"
  using assms Profile_roundtrip by (fastforce simp: net_unregister_def split: option.splits)
    (simp_all add: assms net_checkin_app_def net_next_event_def)

lemma login_home_live:
  assumes "client_inv st" and "login_home env this h st = Return (Inr sid, st1)"
  obtains self s where "my_profiles st1 this = Some self" "map_of (session_cache self) h = Some sid" "my_sessions st1 sid = Some s"
proof -
  obtain self0 where "my_profiles st this = Some self0"
    using assms(2) by (cases "my_profiles st this") (auto simp: login_home_def with_self_def)
  from login_home_cached [OF assms(1) this assms(2)] that show ?thesis by auto
qed

section \<open>Leaving a home\<close>

text \<open>Unregistering at the node of a live session.\<close>

lemma net_unregister_live:
  assumes "on_session w s = Some (nst, sess)" and "\<And>p. newhome = Some p \<Longrightarrow> sendable p"
  shows "\<exists>new. net_unregister ne s newhome w = (case unregister (node_env ne) (ss_context sess) new nst of
    (r, nst') \<Rightarrow> Return (map_err (\<lambda>_. UnregisterFailed) r, w(fst s \<mapsto> nst')))"
proof -
  let ?trait = "HomeSession_trait (node_env ne) (ss_context sess)"
  have w: "w (fst s) = Some nst" using assms(1) by (auto simp: on_session_def bind_eq_Some_conv)
  obtain new m where fill: "(case newhome of Some p \<Rightarrow> Profile_fill_from p | None \<Rightarrow> Return default_profile_msg) = Return m"
    and sent: "client_unregister (\<lambda>ps. rpc_send Up (dispatch_unregister (err_text ne) ?trait ps)) newhome nst
      = (let (r, nst') = trait_unregister ?trait new nst in Return (map_err (\<lambda>_. UnregisterFailed) r, nst'))"
  proof (cases newhome)
    case None
    with that remote_unregister [of "err_text ne" ?trait nst] show ?thesis by simp
  next
    case (Some p)
    then have "sendable p" using assms(2) by simp
    with Some that Profile_roundtrip remote_unregister_new [of p "err_text ne" ?trait nst] show ?thesis by fastforce
  qed
  obtain r nst' where u: "unregister (node_env ne) (ss_context sess) new nst = (r, nst')" by fastforce
  then have "client_unregister (\<lambda>ps. rpc_send Up (dispatch_unregister (err_text ne) ?trait ps)) newhome nst
      = Return (map_err (\<lambda>_. UnregisterFailed) r, nst')"
    unfolding sent by (simp add: HomeSession_trait_def)
  then have "net_unregister ne s newhome w = Return (map_err (\<lambda>_. UnregisterFailed) r, w(fst s \<mapsto> nst'))"
    by (simp add: net_unregister_def fill assms(1) on_conn_def w)
  then show ?thesis using u by (intro exI [of _ new]) simp
qed


text \<open>A client logged in to a node that hosts it.\<close>

definition guest_own :: OwnProfile where
  "guest_own = OwnProfile_new (net_profile 1 [net_home_proof 1 8]) []"

definition guest_home :: "((ProfileId, Profile) InMemoryStore, (ProfileId, OwnProfile) InMemoryStore) HomeServer" where
  "guest_home = (HomeServer_new \<lparr>imap = [ProfileId [27, 1] \<mapsto> profile guest_own]\<rparr> \<lparr>imap = [ProfileId [27, 1] \<mapsto> guest_own]\<rparr>)
     \<lparr>sessions := [ProfileId [27, 1] \<mapsto> 3],
      session_heap := [3 \<mapsto> HomeSessionServer_new (PeerContext_new (node_signer sample_net_env (ProfileId [8])) (PublicKey [1]) (ProfileId [27, 1]))]\<rparr>"

definition guest_client :: "((ProfileId, Profile) InMemoryStore, home_session, event_stream, sample_net) Client" where
  "guest_client = (client_init InMemoryStore_new [ProfileId [8] \<mapsto> guest_home])
     \<lparr>my_profiles := [0 \<mapsto> (net_self 1 [net_home_proof 1 8])\<lparr>session_cache := [(ProfileId [8], 1)]\<rparr>],
      my_sessions := [1 \<mapsto> \<lparr>session = (ProfileId [8], 3), event_listeners = []\<rparr>], client_next := 2\<rparr>"


section \<open>A dead session is handed out for ever\<close>



end
