(* ===== verification/Client_Acts.thy ===== *)
theory Client_Acts
  imports Client_Properties
begin

text \<open>
  What a client does to the outside.  The locale \<open>outside\<close> is the interface between a client and
  whatever its connections lead to: \<open>moves I\<close> is what peers with ids in \<open>I\<close> may do there,
  \<open>conn_of i\<close> are the connections opened with the identity \<open>i\<close> and \<open>session_of i\<close> the sessions of \<open>i\<close>.
  From the contract of the single operations it follows that no step of the client does anything
  under an identity that is not one of its profiles.  The proof runs through the code with the rules
  for \<open>acts\<close>, a triple of precondition, future and postcondition.
\<close>

section \<open>Triples\<close>

definition acts ::
  "('w \<Rightarrow> 'w \<Rightarrow> bool) \<Rightarrow> (('r, 's, 'c, 'w) Client \<Rightarrow> bool) \<Rightarrow> (('r, 's, 'c, 'w) Client \<Rightarrow> bool)
     \<Rightarrow> (('r, 's, 'c, 'w) Client, 'a) async \<Rightarrow> ('a \<Rightarrow> ('r, 's, 'c, 'w) Client \<Rightarrow> bool) \<Rightarrow> bool" where
  "acts M J P f Q \<longleftrightarrow> (\<forall>st r st'. J st \<longrightarrow> P st \<longrightarrow> f st = Return (r, st') \<longrightarrow>
     M (remote st) (remote st') \<and> J st' \<and> (\<forall>a. r = Inr a \<longrightarrow> Q a st'))"

lemma actsI:
  assumes "\<And>st r st'. J st \<Longrightarrow> P st \<Longrightarrow> f st = Return (r, st') \<Longrightarrow>
      M (remote st) (remote st') \<and> J st' \<and> (\<forall>a. r = Inr a \<longrightarrow> Q a st')"
  shows "acts M J P f Q"
  unfolding acts_def by (intro allI impI) (rule assms)

lemma actsD:
  assumes "acts M J P f Q" and "J st" and "P st" and "f st = Return (r, st')"
  shows "M (remote st) (remote st')" and "J st'" and "r = Inr a \<Longrightarrow> Q a st'"
  using assms unfolding acts_def by blast+

lemma acts_weaken: "acts M J P f Q \<Longrightarrow> (\<And>a st. Q a st \<Longrightarrow> Q' a st) \<Longrightarrow> acts M J P f Q'"
  unfolding acts_def by blast

lemma acts_pure: "(A \<Longrightarrow> acts M J P f Q) \<Longrightarrow> acts M J (\<lambda>st. P st \<and> A) f Q"
  unfolding acts_def by blast

lemma acts_and_then:
  assumes "transp M" and f: "acts M J P f Q" and g: "\<And>a. acts M J (Q a) (g a) S"
  shows "acts M J P (future_and_then f g) S"
proof (rule actsI)
  fix st r st' assume st: "J st" "P st" and run: "future_and_then f g st = Return (r, st')"
  show "M (remote st) (remote st') \<and> J st' \<and> (\<forall>b. r = Inr b \<longrightarrow> S b st')"
  proof (cases "f st" rule: run_cases)
    case (Err e s)
    with run have "r = Inl e" "st' = s" by (simp_all add: future_and_then_def)
    then show ?thesis using actsD(1,2) [OF f st Err] by simp
  next
    case (Ok a s)
    then have run': "g a s = Return (r, st')" using run by (simp add: future_and_then_def)
    note s = actsD [OF f st Ok]
    have "M (remote st) (remote st')" using transpD [OF assms(1) s(1) actsD(1) [OF g s(2) s(3) run']] by simp
    then show ?thesis using actsD(2,3) [OF g s(2) s(3) run'] by simp
  qed (use run in \<open>simp add: future_and_then_def\<close>)
qed

lemma acts_map: "acts M J P f (\<lambda>a. Q (h a)) \<Longrightarrow> acts M J P (future_map h f) Q"
  unfolding acts_def by (auto simp: future_map_def)

lemma acts_map_err: "acts M J P f Q \<Longrightarrow> acts M J P (future_map_err e f) Q"
  unfolding acts_def by (auto simp: future_map_err_def)

lemma acts_result: "reflp M \<Longrightarrow> acts M J P (future_result r) (\<lambda>a st. P st \<and> r = Inr a)"
  by (rule actsI) (auto dest: reflpD)

lemma acts_err: "reflp M \<Longrightarrow> acts M J P (future_err e) Q"
  by (rule actsI) (auto dest: reflpD)

lemma acts_ok: "reflp M \<Longrightarrow> (\<And>st. J st \<Longrightarrow> P st \<Longrightarrow> Q a st) \<Longrightarrow> acts M J P (future_ok a) Q"
  by (rule actsI) (auto dest: reflpD)

lemma acts_repo_load: "reflp M \<Longrightarrow> acts M J P (repo_load env e i) (\<lambda>_. P)"
  by (rule actsI) (auto dest: reflpD)

lemma acts_with_self:
  assumes "acts M J (\<lambda>st. my_profiles st this = Some self) (f self) Q"
  shows "acts M J (\<lambda>st. my_profiles st this = Some self) (with_self this f) Q"
  using assms unfolding acts_def by simp

lemma acts_first_ok:
  assumes "transp M" and "\<And>f. f \<in> set fs \<Longrightarrow> acts M J P f (\<lambda>a st. P st \<and> Q a)"
    and keeps: "\<And>f st r st'. f \<in> set fs \<Longrightarrow> f st = Return (r, st') \<Longrightarrow> P st \<Longrightarrow> P st'"
  shows "acts M J P (first_ok fs) (\<lambda>a st. P st \<and> Q a)"
  using assms(2,3)
proof (induction fs rule: induct_list012)
  case (3 f g fs)
  show ?case
  proof (rule actsI)
    fix st r st' assume st: "J st" "P st" and run: "first_ok (f # g # fs) st = Return (r, st')"
    have f: "acts M J P f (\<lambda>a st. P st \<and> Q a)" and rest: "acts M J P (first_ok (g # fs)) (\<lambda>a st. P st \<and> Q a)"
      using 3 by (simp_all, meson list.set_intros)
    from run consider a where "r = Inr a" "f st = Return (r, st')" | e s where "f st = Return (Inl e, s)" "first_ok (g # fs) s = Return (r, st')"
      unfolding first_ok_Return by blast
    then show "M (remote st) (remote st') \<and> J st' \<and> (\<forall>a. r = Inr a \<longrightarrow> P st' \<and> Q a)"
    proof cases
      case 1
      then show ?thesis using actsD [OF f st 1(2)] by blast
    next
      case (2 e s)
      note s = actsD(1,2) [OF f st 2(1)]
      have "P s" using "3.prems"(2) [of f st "Inl e" s] 2(1) st(2) by simp
      with actsD [OF rest s(2) _ 2(2)] s(1) transpD [OF assms(1)] show ?thesis by blast
    qed
  qed
next
  case (2 f)
  have "first_ok [f] = f" by (rule ext) simp
  then show ?case using "2.prems"(1) by simp
qed (auto intro: actsI)

lemma remote_op_run: "remote_op e f = remote_run e (\<lambda>w. Return (f w))"
  by (rule ext) (simp add: remote_op_def remote_run_def)

text \<open>Methods run on live objects.\<close>

lemma op_alive:
  "login_home env this h st = Return x \<Longrightarrow> \<exists>self. my_profiles st this = Some self"
  "MyProfile_login env this st = Return y \<Longrightarrow> \<exists>self. my_profiles st this = Some self"
  "join_home env this h invite st = Return z \<Longrightarrow> \<exists>self. my_profiles st this = Some self"
  "leave_home env this h newhome st = Return u \<Longrightarrow> \<exists>self. my_profiles st this = Some self"
  "initiate_relation env this t j st = Return u \<Longrightarrow> \<exists>self. my_profiles st this = Some self"
  "accept_relation env this half st = Return v \<Longrightarrow> \<exists>self. my_profiles st this = Some self"
  "MyProfile_call env this rel app payload sink st = Return a \<Longrightarrow> \<exists>self. my_profiles st this = Some self"
  by (cases "my_profiles st this"; simp add: login_home_def MyProfile_login_def join_home_def leave_home_def initiate_relation_def
      accept_relation_def MyProfile_call_def with_self_def future_and_then_def future_map_err_def)+

section \<open>Ownership of sessions\<close>

text \<open>Every session a profile has cached is a session of that profile.\<close>

definition owned :: "(ProfileId \<Rightarrow> 'w \<Rightarrow> 's \<Rightarrow> bool) \<Rightarrow> ('r, 's, 'c, 'w) Client \<Rightarrow> bool" where
  "owned session_of st \<longleftrightarrow> (\<forall>p self h sid s. my_profiles st p = Some self \<longrightarrow> (h, sid) \<in> set (session_cache self)
     \<longrightarrow> my_sessions st sid = Some s \<longrightarrow> session_of (signer_profile_id (mp_signer self)) (remote st) (session s))"

definition identities :: "('r, 's, 'c, 'w) Client \<Rightarrow> ProfileId set" where
  "identities st = {signer_profile_id (mp_signer self) | self. self \<in> ran (my_profiles st)}"

lemma ownedD:
  "owned session_of st \<Longrightarrow> my_profiles st p = Some self \<Longrightarrow> (h, sid) \<in> set (session_cache self) \<Longrightarrow> my_sessions st sid = Some s
     \<Longrightarrow> session_of (signer_profile_id (mp_signer self)) (remote st) (session s)"
  unfolding owned_def by blast

text \<open>It depends on the signers and caches of the profiles and on the sessions at the homes.\<close>

lemma owned_same:
  assumes "owned session_of st"
    and same: "\<And>p. map_option (\<lambda>self. (mp_signer self, session_cache self)) (my_profiles st' p) = map_option (\<lambda>self. (mp_signer self, session_cache self)) (my_profiles st p)"
      "\<And>sid. map_option session (my_sessions st' sid) = map_option session (my_sessions st sid)"
    and stays: "\<And>i s. session_of i (remote st) s \<Longrightarrow> session_of i (remote st') s"
  shows "owned session_of st'"
  unfolding owned_def
proof (intro allI impI)
  fix p self h sid s assume "my_profiles st' p = Some self" "(h, sid) \<in> set (session_cache self)" "my_sessions st' sid = Some s"
  with same(1) [of p] same(2) [of sid] obtain self0 s0 where "my_profiles st p = Some self0" "mp_signer self = mp_signer self0"
    "(h, sid) \<in> set (session_cache self0)" "my_sessions st sid = Some s0" "session s = session s0"
    by (cases "my_profiles st p"; cases "my_sessions st sid") auto
  with ownedD [OF assms(1), of p self0 h sid s0] stays show "session_of (signer_profile_id (mp_signer self)) (remote st') (session s)"
    by simp
qed

lemma identities_I: "my_profiles st p = Some self \<Longrightarrow> signer_profile_id (mp_signer self) \<in> identities st"
  by (auto simp: identities_def ran_def)

lemma alist_update_in: "(k, v) \<in> set (AList.update k' v' al) \<Longrightarrow> v \<noteq> v' \<Longrightarrow> (k, v) \<in> set al"
  by (induction al) (auto split: if_splits)

section \<open>The interface\<close>

locale outside =
  fixes env :: "('r, 'h, 's, 'c, 'w) ClientEnv"
    and moves :: "ProfileId set \<Rightarrow> 'w \<Rightarrow> 'w \<Rightarrow> bool"
    and conn_of :: "ProfileId \<Rightarrow> 'h \<Rightarrow> bool"
    and session_of :: "ProfileId \<Rightarrow> 'w \<Rightarrow> 's \<Rightarrow> bool"
  assumes select: "completes_all (select_order env)"
    and iter: "set (iter_order env xs) = set xs"
    and moves_refl: "moves I w w"
    and moves_trans: "moves I w w1 \<Longrightarrow> moves I w1 w2 \<Longrightarrow> moves I w w2"
    and moves_mono: "I \<subseteq> K \<Longrightarrow> moves I w w' \<Longrightarrow> moves K w w'"
    and session_stays: "session_of i w s \<Longrightarrow> moves I w w' \<Longrightarrow> session_of i w' s"
    and connect: "home_connector env hp sg w = Return (r, w') \<Longrightarrow>
      moves {signer_profile_id sg} w w' \<and> (\<forall>home. r = Inr home \<longrightarrow> conn_of (signer_profile_id sg) home)"
    and register: "conn_of i home \<Longrightarrow> home_register (home_ops env) home own half invite w = Return (r1, w') \<Longrightarrow> moves {i} w w'"
    and login: "conn_of i home \<Longrightarrow> home_login (home_ops env) home rel w = (r2, w') \<Longrightarrow>
      moves {i} w w' \<and> (\<forall>s. r2 = Inr s \<longrightarrow> session_of i w' s)"
    and pair_request: "conn_of i home \<Longrightarrow> moves {i} w (snd (home_pair_request (home_ops env) home half w))"
    and pair_response: "conn_of i home \<Longrightarrow> moves {i} w (snd (home_pair_response (home_ops env) home rel w))"
    and call: "conn_of i home \<Longrightarrow> moves {i} w (snd (home_call (home_ops env) home app req w))"
    and unregister: "session_of i w s \<Longrightarrow> session_unregister (home_ops env) s newhome w = Return (r3, w') \<Longrightarrow> moves {i} w w'"
    and session_events: "session_of i w s \<Longrightarrow> moves {i} w (snd (session_events (home_ops env) s w))"
    and checkin_app: "session_of i w s \<Longrightarrow> moves {i} w (snd (session_checkin_app (home_ops env) s app w))"
    and next_event: "moves {} w (snd (next_event (home_ops env) c w))"
begin

definition good :: "('r, 's, 'c, 'w) Client \<Rightarrow> bool" where
  "good st \<longleftrightarrow> client_inv st \<and> owned session_of st"

lemma moves_rel: "reflp (moves I)" "transp (moves I)"
  using moves_refl moves_trans by (auto intro: reflpI transpI)

lemma good_remote:
  assumes "good st" and "moves I (remote st) w"
  shows "good (st\<lparr>remote := w\<rparr>)"
proof -
  have "client_inv (st\<lparr>remote := w\<rparr>)" using assms(1) by (simp add: good_def client_inv_def)
  moreover have "owned session_of (st\<lparr>remote := w\<rparr>)"
    by (rule owned_same [of _ st]) (use assms in \<open>auto simp: good_def intro: session_stays\<close>)
  ultimately show ?thesis by (simp add: good_def)
qed

text \<open>Steps that keep signers, caches and the sessions at the homes, with the invariant of the client.\<close>

lemma good_same:
  assumes "good st" and "client_inv st'" and "moves I (remote st) (remote st')"
    and "\<And>p. map_option (\<lambda>self. (mp_signer self, session_cache self)) (my_profiles st' p) = map_option (\<lambda>self. (mp_signer self, session_cache self)) (my_profiles st p)"
    and "\<And>sid. map_option session (my_sessions st' sid) = map_option session (my_sessions st sid)"
  shows "good st'"
proof -
  have "owned session_of st'"
    by (rule owned_same [of _ st]) (use assms in \<open>auto simp: good_def intro: session_stays\<close>)
  with assms(2) show ?thesis by (simp add: good_def)
qed

lemma good_update_self:
  assumes "good st" and "\<And>self. session_cache (f self) = session_cache self" "\<And>self. mp_signer (f self) = mp_signer self"
  shows "good (update_self this f st)"
  by (rule good_same [OF assms(1) inv_update_self])
    (use assms in \<open>auto simp: good_def update_self_def option.map_comp comp_def moves_refl\<close>)

lemma good_repo: "good st \<Longrightarrow> good (st\<lparr>repo := r\<rparr>)"
  by (simp add: good_def inv_repo owned_def)

section \<open>Requests\<close>

lemma acts_remote_run:
  assumes "\<And>w r w'. f w = Return (r, w') \<Longrightarrow> moves I w w' \<and> (\<forall>a. r = Inr a \<longrightarrow> Q a w')"
  shows "acts (moves I) good (\<lambda>st. my_profiles st this = Some self) (remote_run e f) (\<lambda>a st. my_profiles st this = Some self \<and> Q a (remote st))"
proof (rule actsI)
  fix st r st' assume st: "good st" "my_profiles st this = Some self" and "remote_run e f st = Return (r, st')"
  then obtain q w where run: "f (remote st) = Return (q, w)" "map_err (\<lambda>_. e) q = r" and st': "st' = st\<lparr>remote := w\<rparr>"
    by (auto simp: remote_run_Return)
  from assms [OF run(1)] good_remote [OF st(1), of I w] st(2) run(2)
  show "moves I (remote st) (remote st') \<and> good st' \<and> (\<forall>a. r = Inr a \<longrightarrow> my_profiles st' this = Some self \<and> Q a (remote st'))"
    by (auto simp: st')
qed

lemma acts_remote_op:
  assumes "\<And>w r w'. f w = (r, w') \<Longrightarrow> moves I w w' \<and> (\<forall>a. r = Inr a \<longrightarrow> Q a w')"
  shows "acts (moves I) good (\<lambda>st. my_profiles st this = Some self) (remote_op e f) (\<lambda>a st. my_profiles st this = Some self \<and> Q a (remote st))"
  unfolding remote_op_run by (rule acts_remote_run) (use assms in auto)

lemma acts_request:
  assumes "\<And>w. moves I w (snd (f w))"
  shows "acts (moves I) good (\<lambda>st. my_profiles st this = Some self) (remote_op e f) (\<lambda>_ st. my_profiles st this = Some self)"
  by (rule acts_weaken [OF acts_remote_op [where Q = "\<lambda>_ _. True"]]) (use assms in \<open>metis snd_conv\<close>, simp)

section \<open>Operations\<close>

lemma acts_connect:
  "acts (moves {signer_profile_id sg}) good (\<lambda>st. my_profiles st this = Some self) (connect_home2 env h sg)
     (\<lambda>home st. my_profiles st this = Some self \<and> conn_of (signer_profile_id sg) home)"
  unfolding connect_home2_def
proof (rule acts_and_then [OF moves_rel(2) acts_repo_load [OF moves_rel(1)]])
  fix hp
  have "(\<lambda>st. run_bind (home_connector env hp sg (remote st)) (\<lambda>(r, w). Return (r, st\<lparr>remote := w\<rparr>))) st = Return (r, st')
      \<longleftrightarrow> (\<exists>w. home_connector env hp sg (remote st) = Return (r, w) \<and> st' = st\<lparr>remote := w\<rparr>)" for st st' :: "('r, 's, 'c, 'w) Client" and r
    by auto
  then show "acts (moves {signer_profile_id sg}) good (\<lambda>st. my_profiles st this = Some self)
      (\<lambda>st. run_bind (home_connector env hp sg (remote st)) (\<lambda>(r, w). Return (r, st\<lparr>remote := w\<rparr>)))
      (\<lambda>home st. my_profiles st this = Some self \<and> conn_of (signer_profile_id sg) home)"
    by (intro actsI) (auto dest!: connect intro: good_remote)
qed

lemma acts_connect_home:
  assumes "i = signer_profile_id (mp_signer self)"
  shows "acts (moves {i}) good (\<lambda>st. my_profiles st this = Some self) (connect_home env this h)
    (\<lambda>home st. my_profiles st this = Some self \<and> conn_of i home)"
  unfolding connect_home_def assms by (rule acts_with_self) (rule acts_connect)

lemma acts_home_conn_fut:
  "acts (moves {signer_profile_id sg}) good (\<lambda>st. my_profiles st this = Some self) (home_conn_fut env prof sg hp)
     (\<lambda>(p, home) st. my_profiles st this = Some self \<and> conn_of (signer_profile_id sg) home)"
  by (cases "peer_id hp (profile_id prof)")
    (auto simp: home_conn_fut_def intro: acts_err [OF moves_rel(1)] acts_map acts_connect)

lemma acts_any_home:
  "acts (moves {signer_profile_id sg}) good (\<lambda>st. my_profiles st this = Some self) (any_home_of2 env prof sg)
     (\<lambda>x st. my_profiles st this = Some self \<and> conn_of (signer_profile_id sg) (snd x))"
proof (cases "facet prof")
  case (Persona persona)
  let ?futs = "map (home_conn_fut env prof sg) (homes persona)"
  have "acts (moves {signer_profile_id sg}) good (\<lambda>st. my_profiles st this = Some self) (select_ok (select_order env) ?futs)
      (\<lambda>x st. my_profiles st this = Some self \<and> conn_of (signer_profile_id sg) (snd x))"
    unfolding select_ok_def
  proof (rule acts_first_ok [OF moves_rel(2)])
    fix f assume "f \<in> set (map (\<lambda>i. ?futs ! i) (select_order env (length ?futs)))"
    then obtain hp where f: "f = home_conn_fut env prof sg hp" unfolding selected_futures(1) [OF select] by auto
    show "acts (moves {signer_profile_id sg}) good (\<lambda>st. my_profiles st this = Some self) f
        (\<lambda>x st. my_profiles st this = Some self \<and> conn_of (signer_profile_id sg) (snd x))"
      unfolding f by (rule acts_weaken [OF acts_home_conn_fut]) auto
    show "my_profiles st' this = Some self" if "f st = Return (r, st')" "my_profiles st this = Some self" for st r st'
      using home_conn_fut_only_remote [OF that(1) [unfolded f]] that(2) by (simp add: only_remoteD)
  qed
  with Persona show ?thesis by (auto simp: any_home_of2_def Let_def intro: acts_err [OF moves_rel(1)])
qed (auto simp: any_home_of2_def intro: acts_err [OF moves_rel(1)])

text \<open>A request to any home of a profile.\<close>

lemma acts_home_request:
  assumes "\<And>home w. conn_of (signer_profile_id sg) home \<Longrightarrow> moves {signer_profile_id sg} w (snd (f home w))"
  shows "acts (moves {signer_profile_id sg}) good (\<lambda>st. my_profiles st this = Some self)
    (future_and_then (any_home_of2 env prof sg) (\<lambda>(p, home). remote_op e (f home))) (\<lambda>_ st. my_profiles st this = Some self)"
  by (rule acts_and_then [OF moves_rel(2) acts_any_home])
    (auto split: prod.split intro!: acts_pure acts_request assms)

lemma acts_initiate:
  assumes "i = signer_profile_id (mp_signer self)"
  shows "acts (moves {i}) good (\<lambda>st. my_profiles st this = Some self) (initiate_relation env this rel_type with_id) (\<lambda>_ _. True)"
  unfolding initiate_relation_def assms Let_def
  by (intro acts_with_self acts_and_then [OF moves_rel(2) acts_repo_load [OF moves_rel(1)]] acts_weaken [OF acts_home_request] pair_request TrueI)

lemma acts_call:
  assumes "i = signer_profile_id (mp_signer self)"
  shows "acts (moves {i}) good (\<lambda>st. my_profiles st this = Some self) (MyProfile_call env this rel app payload sink) (\<lambda>_ _. True)"
  unfolding MyProfile_call_def assms
  by (intro acts_with_self) (auto split: sum.split intro!: acts_err [OF moves_rel(1)]
      acts_and_then [OF moves_rel(2) acts_repo_load [OF moves_rel(1)]] acts_weaken [OF acts_home_request] call)

lemma acts_new_relation: "acts (moves I) good P (on_new_relation this p) (\<lambda>_ _. True)"
  by (rule actsI) (auto simp: on_new_relation_def moves_refl intro!: good_update_self split: option.splits, simp_all add: update_self_def moves_refl)

lemma acts_accept:
  assumes "i = signer_profile_id (mp_signer self)"
  shows "acts (moves {i}) good (\<lambda>st. my_profiles st this = Some self) (accept_relation env this half) (\<lambda>_ _. True)"
  unfolding accept_relation_def assms
  by (intro acts_with_self) (auto split: sum.split intro!: acts_err [OF moves_rel(1)]
      acts_and_then [OF moves_rel(2) acts_repo_load [OF moves_rel(1)]] acts_and_then [OF moves_rel(2) acts_any_home]
      acts_pure acts_and_then [OF moves_rel(2) acts_request] pair_response acts_map acts_new_relation)

lemma acts_join:
  assumes "i = signer_profile_id (mp_signer self)"
  shows "acts (moves {i}) good (\<lambda>st. my_profiles st this = Some self) (join_home env this h invite) (\<lambda>_ _. True)"
proof -
  let ?live = "\<lambda>st. my_profiles st this = Some self"
  have stored: "acts (moves {i}) good P (\<lambda>st. Return (Ok (), (update_self this (\<lambda>self. self\<lparr>own_profile := own\<rparr>) st)
      \<lparr>repo := snd (SimpleProfileRepo_insert (repo_ops env) (profile own) (repo st))\<rparr>)) (\<lambda>_ _. True)" for P own
  proof (rule actsI)
    fix st st' :: "('r, 's, 'c, 'w) Client" and r :: "(unit, ConnectErrorKind) result"
    let ?st = "(update_self this (\<lambda>self. self\<lparr>own_profile := own\<rparr>) st)\<lparr>repo := snd (SimpleProfileRepo_insert (repo_ops env) (profile own) (repo st))\<rparr>"
    assume "good st" and "Return (Ok (), ?st) = Return (r, st')"
    moreover from this have "good ?st" by (intro good_repo good_update_self) simp_all
    ultimately show "moves {i} (remote st) (remote st') \<and> good st' \<and> (\<forall>a. r = Inr a \<longrightarrow> True)"
      by (auto simp: moves_refl update_self_def)
  qed
  have reg: "acts (moves {i}) good ?live (remote_run e (home_register (home_ops env) home own half invite)) (\<lambda>_. ?live)"
    if "conn_of i home" for e home own half
    by (rule acts_weaken [OF acts_remote_run [where Q = "\<lambda>_ _. True"]]) (use register [OF that] in auto)
  show ?thesis
    unfolding join_home_def Let_def
    by (rule acts_with_self, rule acts_and_then [OF moves_rel(2) acts_connect_home [OF assms]])
      (rule acts_pure, rule acts_and_then [OF moves_rel(2) reg stored])
qed

text \<open>A new session is entered under the profile it belongs to.\<close>

lemma acts_open_session:
  assumes "i = signer_profile_id (mp_signer self)"
  shows "acts (moves {i}) good (\<lambda>st. my_profiles st this = Some self \<and> session_of i (remote st) s) (open_session env this h s)
    (\<lambda>sid st. \<exists>t. my_sessions st sid = Some t \<and> session_of i (remote st) (session t))"
proof (rule actsI)
  fix st r st' assume "good st" and live: "my_profiles st this = Some self \<and> session_of i (remote st) s"
    and run: "open_session env this h s st = Return (r, st')"
  obtain stream w where ev: "HomeOps.session_events (home_ops env) s (remote st) = (stream, w)" by fastforce
  note st' = run [unfolded open_session_Return [OF ev], simplified, THEN conjunct2, symmetric]
  have moved: "moves {i} (remote st) w" using session_events [of i "remote st" s] live ev by simp
  have stays: "session_of j (remote st) x \<Longrightarrow> session_of j w x" for j x using session_stays moved by blast
  have inv: "client_inv st" "owned session_of st" using \<open>good st\<close> by (simp_all add: good_def)
  have fresh: "my_sessions st (client_next st) = None" using client_invD(5) [OF inv(1)] by fastforce
  have old: "sid \<noteq> client_next st" if "my_profiles st p = Some self'" "(k, sid) \<in> set (session_cache self')" for p self' k sid
    using client_invD(1) [OF inv(1)] fresh that unfolding caches_ok_def by force
  have "owned session_of st'"
    unfolding owned_def
  proof (intro allI impI)
    fix p self' k sid t assume p: "my_profiles st' p = Some self'" "(k, sid) \<in> set (session_cache self')" "my_sessions st' sid = Some t"
    show "session_of (signer_profile_id (mp_signer self')) (remote st') (session t)"
    proof (cases "sid = client_next st")
      case True
      with p live old [of p self' k sid] show ?thesis by (auto simp: st' assms stays split: if_splits)
    next
      case False
      with p live alist_update_in [of k sid h "client_next st" "session_cache self"] ownedD [OF inv(2), of p _ k sid t] stays show ?thesis
        by (auto simp: st' split: if_splits)
    qed
  qed
  with inv_open_session [OF inv(1) run] moved live run ev stays
  show "moves {i} (remote st) (remote st') \<and> good st' \<and> (\<forall>sid. r = Inr sid \<longrightarrow> (\<exists>t. my_sessions st' sid = Some t \<and> session_of i (remote st') (session t)))"
    by (auto simp: st' good_def open_session_Return)
qed

lemma acts_login:
  assumes "conn_of i home"
  shows "acts (moves {i}) good (\<lambda>st. my_profiles st this = Some self) (remote_op e (home_login (home_ops env) home rel))
    (\<lambda>s st. my_profiles st this = Some self \<and> session_of i (remote st) s)"
  by (rule acts_remote_op) (use login [OF assms] in blast)

text \<open>A session that is cached belongs to the profile, too.\<close>

lemma acts_cached:
  assumes "i = signer_profile_id (mp_signer self)" and "(h, sid) \<in> set (session_cache self)"
  shows "acts (moves {i}) good (\<lambda>st. my_profiles st this = Some self) (future_ok sid)
    (\<lambda>sid st. \<exists>t. my_sessions st sid = Some t \<and> session_of i (remote st) (session t))"
proof (rule acts_ok [OF moves_rel(1)])
  fix st assume "good st" and live: "my_profiles st this = Some self"
  then have inv: "client_inv st" "owned session_of st" by (simp_all add: good_def)
  have "sid \<in> dom (my_sessions st)" using client_invD(1) [OF inv(1)] live assms(2) unfolding caches_ok_def by force
  then show "\<exists>t. my_sessions st sid = Some t \<and> session_of i (remote st) (session t)"
    using ownedD [OF inv(2) live assms(2)] assms(1) by auto
qed

lemma acts_login_home:
  assumes "i = signer_profile_id (mp_signer self)"
  shows "acts (moves {i}) good (\<lambda>st. my_profiles st this = Some self) (login_home env this h)
    (\<lambda>sid st. \<exists>t. my_sessions st sid = Some t \<and> session_of i (remote st) (session t))"
  unfolding login_home_def Let_def
proof (rule acts_with_self, cases "map_of (session_cache self) h")
  case (Some sid)
  then show "acts (moves {i}) good (\<lambda>st. my_profiles st this = Some self) (case map_of (session_cache self) h of Some session_rc \<Rightarrow> future_ok session_rc | None \<Rightarrow> f)
      (\<lambda>sid st. \<exists>t. my_sessions st sid = Some t \<and> session_of i (remote st) (session t))" for f
    using acts_cached [OF assms, of h sid] by (simp add: map_of_SomeD)
next
  case None
  have opened: "acts (moves {i}) good (\<lambda>st. my_profiles st this = Some self) (future_and_then (connect_home2 env h (mp_signer self)) (\<lambda>home.
      future_and_then (remote_op LoginFailed (home_login (home_ops env) home rel)) (open_session env this h)))
      (\<lambda>sid st. \<exists>t. my_sessions st sid = Some t \<and> session_of i (remote st) (session t))" for rel
    by (rule acts_and_then [OF moves_rel(2) acts_connect [of "mp_signer self", folded assms]])
      (rule acts_pure, rule acts_and_then [OF moves_rel(2) acts_login acts_open_session [OF assms]])
  show "acts (moves {i}) good (\<lambda>st. my_profiles st this = Some self) (case map_of (session_cache self) h of Some session_rc \<Rightarrow> future_ok session_rc
      | None \<Rightarrow> future_and_then (repo_load env FailedToLoadProfile (signer_profile_id (mp_signer self))) (\<lambda>prof.
          future_and_then (future_result (find_home_proof prof (signer_profile_id (mp_signer self)) h)) (\<lambda>home_proof.
          future_and_then (connect_home2 env h (mp_signer self)) (\<lambda>home.
          future_and_then (remote_op LoginFailed (home_login (home_ops env) home home_proof)) (open_session env this h)))))
      (\<lambda>sid st. \<exists>t. my_sessions st sid = Some t \<and> session_of i (remote st) (session t))"
    unfolding None option.case
    by (rule acts_and_then [OF moves_rel(2) acts_repo_load [OF moves_rel(1)]], rule acts_and_then [OF moves_rel(2) acts_result [OF moves_rel(1)]])
      (rule acts_pure, rule opened)
qed

lemma acts_MyProfile_login:
  assumes "i = signer_profile_id (mp_signer self)"
  shows "acts (moves {i}) good (\<lambda>st. my_profiles st this = Some self) (MyProfile_login env this)
    (\<lambda>sid st. \<exists>t. my_sessions st sid = Some t \<and> session_of i (remote st) (session t))"
  unfolding MyProfile_login_def Let_def
proof (rule acts_with_self, cases "iter_order env (session_cache self)")
  case (Cons x xs)
  obtain h sid where x: "x = (h, sid)" by fastforce
  with iter [of "session_cache self"] Cons have "(h, sid) \<in> set (session_cache self)" by auto
  then show "acts (moves {i}) good (\<lambda>st. my_profiles st this = Some self) (case iter_order env (session_cache self) of (_, session_rc) # _ \<Rightarrow> future_ok session_rc | [] \<Rightarrow> f)
      (\<lambda>sid st. \<exists>t. my_sessions st sid = Some t \<and> session_of i (remote st) (session t))" for f
    using acts_cached [OF assms] Cons x by simp
next
  case Nil
  have opened: "acts (moves {i}) good (\<lambda>st. my_profiles st this = Some self) (case peer_id (fst x) i of Inl _ \<Rightarrow> future_err FailedToAuthorize
      | Inr home_id \<Rightarrow> future_and_then (remote_op LoginFailed (home_login (home_ops env) (snd x) (fst x))) (open_session env this home_id))
      (\<lambda>sid st. \<exists>t. my_sessions st sid = Some t \<and> session_of i (remote st) (session t))" if "conn_of i (snd x)" for x
    by (cases "peer_id (fst x) i") (auto intro: acts_err [OF moves_rel(1)] acts_and_then [OF moves_rel(2) acts_login [OF that] acts_open_session [OF assms]])
  show "acts (moves {i}) good (\<lambda>st. my_profiles st this = Some self) (case iter_order env (session_cache self) of (_, session_rc) # _ \<Rightarrow> future_ok session_rc
      | [] \<Rightarrow> future_and_then (repo_load env LoginFailed (signer_profile_id (mp_signer self))) (\<lambda>prof.
          future_and_then (any_home_of2 env prof (mp_signer self)) (\<lambda>(home_proof, home).
            case peer_id home_proof (signer_profile_id (mp_signer self)) of Inl _ \<Rightarrow> future_err FailedToAuthorize
            | Inr home_id \<Rightarrow> future_and_then (remote_op LoginFailed (home_login (home_ops env) home home_proof)) (open_session env this home_id))))
      (\<lambda>sid st. \<exists>t. my_sessions st sid = Some t \<and> session_of i (remote st) (session t))"
    unfolding Nil list.case assms [symmetric] case_prod_beta
    by (rule acts_and_then [OF moves_rel(2) acts_repo_load [OF moves_rel(1)]], rule acts_and_then [OF moves_rel(2) acts_any_home [of "mp_signer self", folded assms]])
      (rule acts_pure, rule opened)
qed

lemma acts_leave:
  assumes "i = signer_profile_id (mp_signer self)"
  shows "acts (moves {i}) good (\<lambda>st. my_profiles st this = Some self) (leave_home env this h newhome) (\<lambda>_ _. True)"
  unfolding leave_home_def
proof (rule acts_and_then [OF moves_rel(2) acts_map_err [OF acts_login_home [OF assms]]])
  fix sid
  show "acts (moves {i}) good (\<lambda>st. \<exists>t. my_sessions st sid = Some t \<and> session_of i (remote st) (session t))
      (with_session sid (\<lambda>s. remote_run DeregistrationFailed (session_unregister (home_ops env) (session s) newhome))) (\<lambda>_ _. True)"
  proof (rule actsI)
    fix st st' and r :: "(unit, ConnectErrorKind) result" assume "good st" and "\<exists>t. my_sessions st sid = Some t \<and> session_of i (remote st) (session t)"
      and run: "with_session sid (\<lambda>s. remote_run DeregistrationFailed (session_unregister (home_ops env) (session s) newhome)) st = Return (r, st')"
    then obtain t where t: "my_sessions st sid = Some t" "session_of i (remote st) (session t)" by blast
    with run obtain q w where u: "session_unregister (home_ops env) (session t) newhome (remote st) = Return (q, w)" and st': "st' = st\<lparr>remote := w\<rparr>"
      unfolding with_session_def t(1) option.case remote_run_Return by blast
    from t(2) u have "moves {i} (remote st) w" by (rule unregister)
    with good_remote [OF \<open>good st\<close> this] show "moves {i} (remote st) (remote st') \<and> good st' \<and> (\<forall>a. r = Inr a \<longrightarrow> True)" by (simp add: st')
  qed
qed

lemma good_events:
  assumes "good st" and "my_sessions st sid = Some s" and "MyHomeSession_events sid st = (l, st')"
  shows "good st' \<and> remote st' = remote st"
proof -
  have "client_inv st'" using assms by (auto simp: good_def intro: inv_add_listener)
  moreover have "remote st' = remote st" using assms(3) by (auto simp: MyHomeSession_events_def add_listener_def update_session_def Let_def)
  ultimately show ?thesis
    using assms by (auto simp: MyHomeSession_events_def add_listener_def update_session_def Let_def moves_refl option.map_comp comp_def
        intro!: good_same [of st _ "{}"])
qed

lemma acts_checkin:
  assumes "i = signer_profile_id (mp_signer self)"
  shows "acts (moves {i}) good (\<lambda>st. my_profiles st (dapp_profile d) = Some self) (checkin env d) (\<lambda>_ _. True)"
  unfolding checkin_def
proof (rule acts_and_then [OF moves_rel(2) acts_MyProfile_login [OF assms]])
  fix sid
  show "acts (moves {i}) good (\<lambda>st. \<exists>t. my_sessions st sid = Some t \<and> session_of i (remote st) (session t))
      (with_session sid (\<lambda>s st. case session_checkin_app (home_ops env) (session s) (dapp_app_id d) (remote st) of (calls, w) \<Rightarrow>
         case MyHomeSession_events sid (st\<lparr>remote := w\<rparr>) of (events, st) \<Rightarrow> Return (Ok (calls, events), st))) (\<lambda>_ _. True)"
  proof (rule actsI)
    fix st st' and r :: "('c \<times> channel_id, ConnectErrorKind) result"
    assume "good st" "\<exists>t. my_sessions st sid = Some t \<and> session_of i (remote st) (session t)"
      and run: "with_session sid (\<lambda>s st. case session_checkin_app (home_ops env) (session s) (dapp_app_id d) (remote st) of (calls, w) \<Rightarrow>
         case MyHomeSession_events sid (st\<lparr>remote := w\<rparr>) of (events, st) \<Rightarrow> Return (Ok (calls, events), st)) st = Return (r, st')"
    then obtain t calls w l where t: "my_sessions st sid = Some t" "session_checkin_app (home_ops env) (session t) (dapp_app_id d) (remote st) = (calls, w)"
      and l: "MyHomeSession_events sid (st\<lparr>remote := w\<rparr>) = (l, st')" and own: "session_of i (remote st) (session t)"
      by (auto simp: with_session_def split: prod.splits)
    have "moves {i} (remote st) w" using checkin_app [OF own, of "dapp_app_id d"] t(2) by simp
    with good_events [OF good_remote [OF \<open>good st\<close> this], of sid t l st'] t(1) l
    show "moves {i} (remote st) (remote st') \<and> good st' \<and> (\<forall>a. r = Inr a \<longrightarrow> True)" by simp
  qed
qed

section \<open>Steps\<close>

lemma good_poll:
  assumes "good st"
  shows "moves {} (remote st) (remote (client_poll env k st)) \<and> good (client_poll env k st)"
proof (cases "k < length (client_tasks st)")
  case True
  obtain rest st1 where run: "run_client_task env (client_tasks st ! k) st = (rest, st1)" by fastforce
  have same: "map_option (\<lambda>self. (mp_signer self, session_cache self)) (my_profiles st1 p) = map_option (\<lambda>self. (mp_signer self, session_cache self)) (my_profiles st p)"
    "map_option session (my_sessions st1 sid) = map_option session (my_sessions st sid)" "moves {} (remote st) (remote st1)" for p sid
    using run next_event [of "remote st"]
    by (cases "client_tasks st ! k"; auto simp: forward_event_safe_def forward_done_def update_session_def handle_event_def on_new_relation_def
        update_self_def future_ok_def option.map_comp comp_def moves_refl
        split: prod.splits poll.splits option.splits sum.splits list.splits ProfileEvent.splits if_splits; metis snd_conv)+
  have "client_inv (client_poll env k st)" using assms by (simp add: good_def inv_client_poll)
  with True run same show ?thesis by (auto simp: client_poll_def intro!: good_same [OF assms, of _ "{}"])
qed (simp add: client_poll_def assms moves_refl)

lemma good_alloc:
  assumes "good st" and "alloc_profile own signer st = (this, st')"
  shows "good st' \<and> remote st' = remote st"
proof -
  have inv: "client_inv st" "owned session_of st" using assms(1) by (simp_all add: good_def)
  have "client_inv st'" using inv(1) assms(2) by (rule inv_alloc_profile)
  moreover have "owned session_of st'" using inv(2) assms(2) by (auto simp: alloc_profile_def owned_def MyProfileImpl_new_def split: if_splits)
  ultimately show ?thesis using assms(2) by (auto simp: good_def alloc_profile_def)
qed

text \<open>No step of a client does anything under an identity that is not one of its profiles.\<close>

lemma acts_as_self:
  assumes "my_profiles st this = Some self" and "good st" and "f st = Return (r, st')"
    and "acts (moves {signer_profile_id (mp_signer self)}) good (\<lambda>st. my_profiles st this = Some self) f Q"
  shows "moves (identities st) (remote st) (remote st') \<and> good st'"
proof -
  have "moves {signer_profile_id (mp_signer self)} (remote st) (remote st')" "good st'"
    using actsD(1,2) [OF assms(4,2) _ assms(3)] assms(1) by simp_all
  then show ?thesis using moves_mono [of "{signer_profile_id (mp_signer self)}" "identities st"] identities_I [OF assms(1)] by simp
qed

lemmas self_rules = acts_as_self [OF _ _ _ acts_login_home [OF refl]] acts_as_self [OF _ _ _ acts_MyProfile_login [OF refl]]
  acts_as_self [OF _ _ _ acts_join [OF refl]] acts_as_self [OF _ _ _ acts_leave [OF refl]] acts_as_self [OF _ _ _ acts_initiate [OF refl]]
  acts_as_self [OF _ _ _ acts_accept [OF refl]] acts_as_self [OF _ _ _ acts_call [OF refl]] acts_as_self [OF _ _ _ acts_checkin [OF refl]]

lemma client_step_good:
  assumes "good st" and "client_step env st st'"
  shows "moves (identities st) (remote st) (remote st') \<and> good st'"
  using assms(2)
proof cases
  case (poll i)
  then show ?thesis using good_poll [OF assms(1), of i] moves_mono [of "{}" "identities st"] by simp
next
  case (close l)
  have "client_inv st'" using assms(1) close by (simp add: good_def inv_close_listener)
  then show ?thesis using assms(1) by (auto simp: close close_listener_def moves_refl intro!: good_same [of st _ "{}"])
next
  case (new_profile own signer this)
  then show ?thesis using good_alloc [OF assms(1)] moves_refl by simp
next
  case (events sid s l)
  then show ?thesis using good_events [OF assms(1)] moves_refl by simp
next
  case login_home
  with op_alive(1) self_rules(1) [OF _ assms(1)] show ?thesis by blast
next
  case login
  with op_alive(2) self_rules(2) [OF _ assms(1)] show ?thesis by blast
next
  case join_home
  with op_alive(3) self_rules(3) [OF _ assms(1)] show ?thesis by blast
next
  case leave_home
  with op_alive(4) self_rules(4) [OF _ assms(1)] show ?thesis by blast
next
  case initiate
  with op_alive(5) self_rules(5) [OF _ assms(1)] show ?thesis by blast
next
  case accept
  with op_alive(6) self_rules(6) [OF _ assms(1)] show ?thesis by blast
next
  case call
  with op_alive(7) self_rules(7) [OF _ assms(1)] show ?thesis by blast
qed

lemma checkin_good:
  assumes "good st" and "checkin env d st = Return (r, st')"
  shows "moves (identities st) (remote st) (remote st') \<and> good st'"
proof -
  obtain self where "my_profiles st (dapp_profile d) = Some self"
    using assms(2) by (cases "my_profiles st (dapp_profile d)") (auto simp: checkin_def future_and_then_def MyProfile_login_def with_self_def)
  then show ?thesis using self_rules(8) [OF _ assms] by blast
qed

end

end
