(* ===== verification/Node_Acts.thy ===== *)
theory Node_Acts
  imports Capnp_Home
begin

text \<open>
  What single peers do at a node.  \<open>node_act env I\<close> is a step of the node on behalf of a peer whose id
  is in \<open>I\<close>, or one that the node or a receiver takes by itself.  Such a step changes the hosted
  profiles of no one else, creates sessions under new names only, and keeps \<open>node_inv\<close>: that every
  hosted profile is genuine and every session has a validated context.  Unlike \<open>home_inv\<close> this
  survives a restart, which loses everything but the hosted profiles.
\<close>

inductive node_act :: "('d, 'b) HomeEnv \<Rightarrow> ProfileId set \<Rightarrow> ('d, 'b) HomeServer \<Rightarrow> ('d, 'b) HomeServer \<Rightarrow> bool"
  for env :: "('d, 'b) HomeEnv" and I :: "ProfileId set" where
  act_register: "HomeConnectionServer_new env ctx = Inr conn \<Longrightarrow> ctx_peer_id conn \<in> I \<Longrightarrow> wire_profile (profile own)
    \<Longrightarrow> node_act env I st (snd (register env conn own half invite st))"
| act_login: "HomeConnectionServer_new env ctx = Inr conn \<Longrightarrow> ctx_peer_id conn \<in> I
    \<Longrightarrow> node_act env I st (snd (login env conn rel st))"
| act_pair_request: "HomeConnectionServer_new env ctx = Inr conn \<Longrightarrow> ctx_peer_id conn \<in> I
    \<Longrightarrow> node_act env I st (snd (pair_request env conn half st))"
| act_pair_response: "HomeConnectionServer_new env ctx = Inr conn \<Longrightarrow> ctx_peer_id conn \<in> I
    \<Longrightarrow> node_act env I st (snd (pair_response env conn rel st))"
| act_call: "HomeConnectionServer_new env ctx = Inr conn \<Longrightarrow> ctx_peer_id conn \<in> I
    \<Longrightarrow> node_act env I st (snd (call env conn app req timer st))"
| act_update: "session_heap st sid = Some s \<Longrightarrow> ctx_peer_id (ss_context s) \<in> I \<Longrightarrow> wire_profile (profile own)
    \<Longrightarrow> node_act env I st (snd (update env (ss_context s) own st))"
| act_unregister: "session_heap st sid = Some s \<Longrightarrow> ctx_peer_id (ss_context s) \<in> I
    \<Longrightarrow> node_act env I st (snd (unregister env (ss_context s) newhome st))"
| act_checkin_app: "session_heap st sid = Some s \<Longrightarrow> ctx_peer_id (ss_context s) \<in> I
    \<Longrightarrow> node_act env I st (snd (checkin_app sid s app st))"
| act_events: "session_heap st sid = Some s \<Longrightarrow> ctx_peer_id (ss_context s) \<in> I \<Longrightarrow> node_act env I st (snd (events sid s st))"
| act_answer: "node_act env I st (snd (answer c to_callee st))"
| act_drop: "session_heap st sid = Some s \<Longrightarrow> node_act env I st (drop_session sid s st)"
| act_poll: "node_act env I st (reactor_poll i st)"
| act_receive: "node_act env I st (snd (receive_event c st))"
| act_close: "node_act env I st (close_events c st)"

lemma node_act_mono: "node_act env I st st' \<Longrightarrow> I \<subseteq> K \<Longrightarrow> node_act env K st st'"
  by (induction rule: node_act.induct) (auto intro: node_act.intros)

text \<open>They are steps of the node as before.\<close>

lemma node_act_step: "node_act env I st st' \<Longrightarrow> home_step env st st'"
  by (induction rule: node_act.induct) (auto intro: home_step.intros)

section \<open>Names are not reused\<close>

lemma next_drop_call [simp]: "next_id (drop_call c st) = next_id st"
  by (simp add: drop_call_def)

lemma next_drop_calls [simp]: "next_id (drop_calls cs st) = next_id st"
  by (induction cs st rule: drop_calls.induct) simp_all

lemma next_push_event [simp]: "next_id (snd (push_event env p ev st)) = next_id st"
  by (auto simp: push_event_def session_push_event_def split: sum.split option.split ServerSink.split prod.split)

lemma next_push_call [simp]: "next_id (snd (push_call env p app c st)) = next_id st"
proof -
  have "next_id (snd (session_push_call sid s app c st)) = next_id st" for sid s
    by (cases "case map_of (apps s) app of Some sink \<Rightarrow> sink | None \<Rightarrow> Buffer []")
      (auto simp: session_push_call_def split: prod.split)
  then show ?thesis by (auto simp: push_call_def split: sum.split option.split)
qed

lemma next_pair_request: "next_id (snd (pair_request env ctx h st)) = next_id st"
  by (simp add: pair_request_def)

lemma next_pair_response: "next_id (snd (pair_response env ctx rel st)) = next_id st"
  by (simp add: pair_response_def split: sum.split)

lemma next_call: "next_id st \<le> next_id (snd (call env ctx app req timer st))"
proof (cases "peer_id (relation req) (ctx_peer_id ctx)")
  case (Inr p)
  let ?st1 = "st\<lparr>oneshots := (oneshots st)(next_id st \<mapsto> Pending), next_id := next_id st + 1\<rparr>"
  obtain q st2 where push: "push_call env p app (Call_new req (next_id st)) ?st1 = (q, st2)" by fastforce
  have "next_id st2 = next_id st + 1" using next_push_call [of env p app "Call_new req (next_id st)" ?st1] unfolding push by simp
  with Inr push show ?thesis by (auto simp: call_def Let_def split: sum.split)
qed (simp add: call_def)

lemma next_run_task: "next_id (snd (run_task t st)) = next_id st"
proof (induction t st rule: run_task.induct)
  case (4 c m ms st)
  then show ?case by (auto split: prod.split bool.split simp del: drop_calls.simps)
qed (auto split: prod.split bool.split)

lemma next_reactor_poll: "next_id (reactor_poll i st) = next_id st"
  using next_run_task [of "spawned st ! i" st] by (auto simp: reactor_poll_def split: prod.split)

lemma next_own: "next_id (snd (answer c a st)) = next_id st" "next_id (snd (receive_event k st)) = next_id st"
  "next_id (close_events k st) = next_id st" "next_id (drop_session sid s st) = next_id st"
  by (auto simp: answer_def receive_event_def close_events_def drop_session_def split: option.split list.split)

lemma next_session: "next_id st \<le> next_id (snd (checkin_app sid s app st))" "next_id st \<le> next_id (snd (events sid s st))"
  by (auto simp: checkin_app_def events_def Let_def split: ServerSink.split option.split)

text \<open>Sessions of the later state are old ones with the context they had, or have new names.\<close>

definition named_after :: "('d, 'b) HomeServer \<Rightarrow> ('d, 'b) HomeServer \<Rightarrow> bool" where
  "named_after st st' \<longleftrightarrow> next_id st \<le> next_id st' \<and> (\<forall>k s'. session_heap st' k = Some s' \<longrightarrow>
     (\<exists>s. session_heap st k = Some s \<and> ss_context s' = ss_context s) \<or> next_id st \<le> k)"

lemma named_after_refl [simp]: "named_after st st"
  by (auto simp: named_after_def)

lemma named_after_trans: "named_after a b \<Longrightarrow> named_after b c \<Longrightarrow> named_after a c"
  unfolding named_after_def by (metis le_trans)

lemma named_after_core:
  assumes "core st' = core st" and "next_id st \<le> next_id st'"
  shows "named_after st st'"
  unfolding named_after_def
proof (intro conjI allI impI)
  fix k s' assume "session_heap st' k = Some s'"
  with core_eqD(4) [OF assms(1), of k] show "(\<exists>s. session_heap st k = Some s \<and> ss_context s' = ss_context s) \<or> next_id st \<le> k"
    by (cases "session_heap st k") auto
qed (rule assms(2))

lemma named_drop: "named_after st (drop_session sid s st)"
proof -
  let ?st = "st\<lparr>sessions := (sessions st)(ctx_peer_id (ss_context s) := None), session_heap := (session_heap st)(sid := None)\<rparr>"
  have "named_after st ?st" by (auto simp: named_after_def)
  moreover have "named_after ?st (drop_session sid s st)" by (rule named_after_core) (simp_all add: drop_session_def)
  ultimately show ?thesis by (rule named_after_trans)
qed

lemma heap_stored:
  "session_heap (snd (register env ctx own half invite st)) = session_heap st" "next_id (snd (register env ctx own half invite st)) = next_id st"
  "session_heap (snd (update env ctx own st)) = session_heap st" "next_id (snd (update env ctx own st)) = next_id st"
  "session_heap (snd (unregister env ctx newhome st)) = session_heap st" "next_id (snd (unregister env ctx newhome st)) = next_id st"
  by (auto simp: register_def register_store_def update_def unregister_def Let_def split: sum.split prod.split ProfileFacet.split)

text \<open>Whatever the stores do, no act gives a session another context or an old name.\<close>

lemma named_act:
  assumes "node_act env I st st'"
  shows "named_after st st'"
proof -
  have login: "named_after st (snd (login env conn rel st))" for conn rel
    using login_cases [of env conn rel st] by (auto simp: named_after_def logged_in_def HomeSessionServer_new_def)
  from assms show ?thesis
  proof cases
    case act_register then show ?thesis by (simp add: named_after_def heap_stored)
  next
    case act_login then show ?thesis using login by simp
  next
    case act_update then show ?thesis by (simp add: named_after_def heap_stored)
  next
    case act_unregister then show ?thesis by (simp add: named_after_def heap_stored)
  next
    case act_drop then show ?thesis by (simp add: named_drop)
  qed (auto intro!: named_after_core simp: core_simps next_pair_request next_pair_response next_call next_session next_own next_reactor_poll)
qed

lemma named_acts: "(node_act env I)\<^sup>*\<^sup>* st st' \<Longrightarrow> named_after st st'"
  by (induction rule: rtranclp_induct) (auto dest: named_act intro: named_after_trans)

section \<open>The invariant\<close>

definition node_inv :: "('d, 'b) HomeEnv \<Rightarrow> ('b \<Rightarrow> ProfileId \<Rightarrow> OwnProfile option) \<Rightarrow> ('d, 'b) HomeServer \<Rightarrow> bool" where
  "node_inv env ba st \<longleftrightarrow> wire_inv ba st
     \<and> (\<forall>i own. ba (hosted_profile_db st) i = Some own \<longrightarrow> genuine (validator env) i (profile own))
     \<and> (\<forall>k s. session_heap st k = Some s \<longrightarrow> k < next_id st \<and> PeerContext_validate (ss_context s) (validator env) = Inr ())"

text \<open>Only the hosted profiles of the given peers may differ.\<close>

definition hosted_but :: "('b \<Rightarrow> ProfileId \<Rightarrow> OwnProfile option) \<Rightarrow> ProfileId set \<Rightarrow> ('d, 'b) HomeServer \<Rightarrow> ('d, 'b) HomeServer \<Rightarrow> bool" where
  "hosted_but ba I st st' \<longleftrightarrow> (\<forall>j. j \<notin> I \<longrightarrow> ba (hosted_profile_db st') j = ba (hosted_profile_db st) j)"

definition acted :: "('d, 'b) HomeEnv \<Rightarrow> ('b \<Rightarrow> ProfileId \<Rightarrow> OwnProfile option) \<Rightarrow> ProfileId set \<Rightarrow> ('d, 'b) HomeServer \<Rightarrow> ('d, 'b) HomeServer \<Rightarrow> bool" where
  "acted env ba I st st' \<longleftrightarrow> hosted_but ba I st st' \<and> named_after st st' \<and> (node_inv env ba st \<longrightarrow> node_inv env ba st')"

lemma acted_refl [simp]: "acted env ba I st st"
  by (simp add: acted_def hosted_but_def)

lemma acted_trans: "acted env ba I a b \<Longrightarrow> acted env ba I b c \<Longrightarrow> acted env ba I a c"
  unfolding acted_def hosted_but_def using named_after_trans by (metis (no_types, lifting))

lemma acted_core:
  assumes "core st' = core st" and "next_id st \<le> next_id st'"
  shows "acted env ba I st st'"
proof -
  have "node_inv env ba st'" if "node_inv env ba st"
    unfolding node_inv_def
  proof (intro conjI allI impI)
    show "wire_inv ba st'" using that wire_inv_db [OF _ core_eqD(2) [OF assms(1)]] by (simp add: node_inv_def)
    fix k s' assume "session_heap st' k = Some s'"
    with core_eqD(4) [OF assms(1), of k] obtain s where "session_heap st k = Some s" "ss_context s' = ss_context s"
      by (cases "session_heap st k") auto
    with that assms(2) show "k < next_id st'" "PeerContext_validate (ss_context s') (validator env) = Inr ()"
      unfolding node_inv_def by (metis order_less_le_trans) (use that \<open>ss_context s' = ss_context s\<close> \<open>session_heap st k = Some s\<close> in \<open>simp add: node_inv_def\<close>)
  qed (use that core_eqD(2) [OF assms(1)] in \<open>simp add: node_inv_def\<close>)
  then show ?thesis
    using named_after_core [OF assms] core_eqD(2) [OF assms(1)] by (simp add: acted_def hosted_but_def)
qed

section \<open>Every act keeps to its peers\<close>

lemma acted_drop: "acted env ba I st (drop_session sid s st)"
proof -
  let ?st = "st\<lparr>sessions := (sessions st)(ctx_peer_id (ss_context s) := None), session_heap := (session_heap st)(sid := None)\<rparr>"
  have "acted env ba I st ?st" by (auto simp: acted_def hosted_but_def named_after_def node_inv_def wire_inv_def)
  moreover have "acted env ba I ?st (drop_session sid s st)"
    by (rule acted_core) (simp_all add: drop_session_def)
  ultimately show ?thesis by (rule acted_trans)
qed

lemma acted_logged_in:
  assumes "PeerContext_validate ctx (validator env) = Inr ()"
  shows "acted env ba I st (logged_in ctx prof st)"
  using assms by (auto simp: acted_def hosted_but_def named_after_def node_inv_def wire_inv_def logged_in_def HomeSessionServer_new_def)
    (meson less_SucI)

context home_node
begin

lemma acted_publish:
  assumes "publish da ba own st st'" and "profile_id (profile own) \<in> I" and "genuine (validator env) (profile_id (profile own)) (profile own)"
    and "facet (profile own) = Persona f" and "length (homes f) \<le> 2"
  shows "acted env ba I st st'"
proof -
  have st': "session_heap st' = session_heap st" "next_id st' = next_id st"
    using assms(1) unfolding publish_def by (metis HomeServer.select_convs HomeServer.surjective HomeServer.update_convs(1,2))+
  have b: "ba (hosted_profile_db st') = (ba (hosted_profile_db st))(profile_id (profile own) \<mapsto> own)"
    using assms(1) by (simp add: publish_def)
  have "node_inv env ba st'" if "node_inv env ba st"
    using that assms(3) wire_inv_publish [OF _ assms(1,4,5)] by (auto simp: node_inv_def st' b)
  then show ?thesis using assms(2) by (auto simp: acted_def hosted_but_def named_after_def st' b)
qed

lemma acted_register:
  assumes "PeerContext_validate ctx (validator env) = Inr ()" and "ctx_peer_id ctx \<in> I" and "wire_profile (profile own)"
  shows "acted env ba I st (snd (register env ctx own half invite st))"
proof -
  let ?own = "add_home (home_proof_of env ctx half) own"
  obtain f where "facet (profile ?own) = Persona f" "length (homes f) \<le> 2" using add_home_wire [OF assms(3)] by blast
  moreover have "profile_id (profile ?own) \<in> I" "genuine (validator env) (profile_id (profile ?own)) (profile ?own)" if "registrable env ctx own half"
    using that assms(1,2) by (auto simp: genuine_def registrable_def PeerContext_validate_iff simp del: add_home.simps)
  ultimately show ?thesis using register_cases [of ctx own half invite st] by (auto intro: acted_publish simp del: add_home.simps)
qed

lemma acted_update:
  assumes "PeerContext_validate ctx (validator env) = Inr ()" and "ctx_peer_id ctx \<in> I" and "wire_profile (profile own)"
  shows "acted env ba I st (snd (update env ctx own st))"
proof -
  obtain f where "facet (profile own) = Persona f" "length (homes f) \<le> 2" using assms(3) by (auto simp: wire_profile_def)
  then show ?thesis
    using update_cases [of ctx own st] assms(1,2) by (auto simp: genuine_def PeerContext_validate_iff intro: acted_publish)
qed

lemma acted_unregister:
  assumes "ctx_peer_id ctx \<in> I"
  shows "acted env ba I st (snd (unregister env ctx newhome st))"
proof -
  obtain r st' where u: "unregister env ctx newhome st = (r, st')"
    and st': "ba (hosted_profile_db st') = (ba (hosted_profile_db st))(ctx_peer_id ctx := None)"
      "st' = st\<lparr>sessions := (sessions st)(ctx_peer_id ctx := None),
          hosted_profile_db := hosted_profile_db st', public_profile_dht := public_profile_dht st'\<rparr>"
    using unregister_cases [of ctx newhome st] by blast
  have same: "session_heap st' = session_heap st" "next_id st' = next_id st"
    using arg_cong [OF st'(2), of session_heap] arg_cong [OF st'(2), of next_id] by simp_all
  show ?thesis using assms
    by (auto simp: u acted_def hosted_but_def named_after_def node_inv_def wire_inv_def same st'(1) split: if_splits)
qed

lemma acted_act:
  assumes "node_act env I st st'" and "node_inv env ba st"
  shows "acted env ba I st st'"
proof -
  have ctx: "session_heap st sid = Some s \<Longrightarrow> PeerContext_validate (ss_context s) (validator env) = Inr ()" for sid s
    using assms(2) by (simp add: node_inv_def)
  have login: "acted env ba I st (snd (login env conn rel st))" if "PeerContext_validate conn (validator env) = Inr ()" for conn rel
    using login_cases [of env conn rel st] acted_logged_in [OF that] by auto
  from assms(1) show ?thesis
  proof cases
    case act_register then show ?thesis using acted_register by (simp add: HomeConnectionServer_new_Ok)
  next
    case act_login then show ?thesis using login by (simp add: HomeConnectionServer_new_Ok)
  next
    case act_update then show ?thesis using acted_update ctx by simp
  next
    case act_unregister then show ?thesis using acted_unregister by simp
  next
    case act_drop then show ?thesis by (simp add: acted_drop)
  qed (auto intro!: acted_core simp: core_simps next_pair_request next_pair_response next_call next_session next_own next_reactor_poll)
qed

lemma acted_acts:
  assumes "(node_act env I)\<^sup>*\<^sup>* st st'" and "node_inv env ba st"
  shows "acted env ba I st st'"
  using assms(1)
proof induction
  case (step a b)
  have "node_inv env ba a" using step(3) assms(2) by (simp add: acted_def)
  from acted_trans [OF step(3) acted_act [OF step(2) this]] show ?case .
qed simp

end

end
