(* ===== verification/Network_Acts.thy ===== *)
theory Network_Acts
  imports Client_Acts Node_Acts Network_Properties
begin

text \<open>
  What clients do to the nodes of the network.  The interpretation of \<open>outside\<close> discharges the
  contract of the client for the network: what a client does under an identity is what a peer with that
  id does at the nodes, over the proxies and dispatchers, and a session it is given is a session of that
  peer for as long as the node has it.
\<close>

section \<open>Requests at a node\<close>

lemma pry_cases:
  assumes "pry r f w = Return (q, w')"
  obtains (unread) e where "q = Inl e" "w' = w" | (read) a where "r = Inr a" "f a w = Return (q, w')"
  using assms by (cases r) (auto simp: pry_def)

lemma respond_Return:
  "respond e read f w = Return (r, w') \<longleftrightarrow> (\<exists>q. f w = Return (q, w') \<and> r = map_err (\<lambda>_. e) (and_then q read))"
  by (auto simp: respond_def)

lemma register_request:
  assumes "client_register (dispatch_register dbg home) own half invite w = Return (r, w')"
  shows "w' = w \<or> (\<exists>own' half' invite'. wire_profile (profile own') \<and> w' = snd (trait_register home own' half' invite' w))"
  using assms unfolding client_register_def dispatch_register_def Let_def
  by (auto simp: respond_Return elim!: pry_cases) (blast dest: dispatch_state OwnProfile_try_from_wire)

lemma login_request:
  assumes "client_login (dispatch_login dbg home) rel w = Return (r, w')"
  shows "(\<exists>e. r = Inl e) \<and> w' = w \<or> (\<exists>rel' q. trait_login home rel' w = (q, w') \<and> (\<forall>s. r = Inr s \<longrightarrow> q = Inr s))"
  using assms unfolding client_login_def dispatch_login_def
  by (auto simp: respond_Return dispatch_def elim!: pry_cases split: prod.splits sum.splits)

lemma pair_request_request:
  assumes "client_pair_request (dispatch_pair_request dbg home) half w = Return (r, w')"
  shows "w' = w \<or> (\<exists>half'. w' = snd (trait_pair_request home half' w))"
  using assms unfolding client_pair_request_def dispatch_pair_request_def
  by (auto simp: respond_Return elim!: pry_cases dest!: dispatch_state)

lemma pair_response_request:
  assumes "client_pair_response (dispatch_pair_response dbg home) rel w = Return (r, w')"
  shows "w' = w \<or> (\<exists>rel'. w' = snd (trait_pair_response home rel' w))"
  using assms unfolding client_pair_response_def dispatch_pair_response_def
  by (auto simp: respond_Return elim!: pry_cases dest!: dispatch_state)

lemma call_request:
  assumes "client_call (dispatch_call dbg home) app req w = Return (r, w')"
  shows "w' = w \<or> (\<exists>app' req'. w' = snd (trait_call home app' req' w))"
  using assms unfolding client_call_def dispatch_call_def Let_def
  by (auto simp: respond_Return elim!: pry_cases dest!: dispatch_state)

lemma unregister_request:
  assumes "client_unregister (dispatch_unregister dbg sess) newhome w = Return (r, w')"
  shows "\<exists>newhome'. w' = snd (trait_unregister sess newhome' w)"
  using assms unfolding client_unregister_def dispatch_unregister_def Let_def
  by (auto simp: respond_Return dest!: dispatch_state)

lemma act1: "node_act env I st st' \<Longrightarrow> (node_act env I)\<^sup>*\<^sup>* st st'"
  by (rule r_into_rtranclp)

section \<open>Moves of the network\<close>

text \<open>What peers with ids in \<open>I\<close> do to the nodes, connections that were accepted for a peer, and sessions
  that are the peer's for as long as the node has them.\<close>

definition net_moves :: "('d, 'b) NetEnv \<Rightarrow> ProfileId set \<Rightarrow> ('d, 'b) net \<Rightarrow> ('d, 'b) net \<Rightarrow> bool" where
  "net_moves ne I w w' \<longleftrightarrow> (\<forall>h. rel_option (node_act (node_env ne) I)\<^sup>*\<^sup>* (w h) (w' h))"

definition net_conn_of :: "('d, 'b) NetEnv \<Rightarrow> ProfileId \<Rightarrow> home_conn \<Rightarrow> bool" where
  "net_conn_of ne i conn \<longleftrightarrow> (\<forall>ctx. snd conn = Some ctx \<longrightarrow> ctx_peer_id ctx = i \<and> HomeConnectionServer_new (node_env ne) ctx = Inr ctx)"

definition net_session_of :: "ProfileId \<Rightarrow> ('d, 'b) net \<Rightarrow> home_session \<Rightarrow> bool" where
  "net_session_of i w s \<longleftrightarrow> (\<exists>st. w (fst s) = Some st \<and> snd s < next_id st
     \<and> (\<forall>sess. session_heap st (snd s) = Some sess \<longrightarrow> ctx_peer_id (ss_context sess) = i))"

lemma net_moves_refl: "net_moves ne I w w"
  by (simp add: net_moves_def option.rel_refl)

lemma net_moves_trans:
  assumes "net_moves ne I w w1" and "net_moves ne I w1 w2"
  shows "net_moves ne I w w2"
  unfolding net_moves_def
proof
  fix h
  have "rel_option (node_act (node_env ne) I)\<^sup>*\<^sup>* (w h) (w1 h)" "rel_option (node_act (node_env ne) I)\<^sup>*\<^sup>* (w1 h) (w2 h)"
    using assms by (simp_all add: net_moves_def)
  then show "rel_option (node_act (node_env ne) I)\<^sup>*\<^sup>* (w h) (w2 h)"
    by (cases "w h"; cases "w1 h"; cases "w2 h") auto
qed

lemma net_moves_mono:
  assumes "I \<subseteq> K" and "net_moves ne I w w'"
  shows "net_moves ne K w w'"
proof -
  have "(node_act env I)\<^sup>*\<^sup>* \<le> (node_act env K)\<^sup>*\<^sup>*" for env :: "('d, 'b) HomeEnv"
    using assms(1) by (intro rtranclp_mono) (auto intro: node_act_mono)
  with assms(2) show ?thesis unfolding net_moves_def by (metis (no_types, lifting) option.rel_mono_strong predicate2D)
qed

lemma net_moves_node:
  assumes "w h = Some st" and "(node_act (node_env ne) I)\<^sup>*\<^sup>* st st'"
  shows "net_moves ne I w (w(h \<mapsto> st'))"
  using assms by (auto simp: net_moves_def intro: option.rel_refl)

lemma net_session_kept:
  assumes "net_session_of i w s" and "\<And>st. w (fst s) = Some st \<Longrightarrow> \<exists>st'. w' (fst s) = Some st' \<and> named_after st st'"
  shows "net_session_of i w' s"
proof -
  obtain st where st: "w (fst s) = Some st" "snd s < next_id st"
    "\<forall>sess. session_heap st (snd s) = Some sess \<longrightarrow> ctx_peer_id (ss_context sess) = i"
    using assms(1) by (auto simp: net_session_of_def)
  with assms(2) obtain st' where "w' (fst s) = Some st'" and named: "named_after st st'" by blast
  moreover have "snd s < next_id st' \<and> (\<forall>sess. session_heap st' (snd s) = Some sess \<longrightarrow> ctx_peer_id (ss_context sess) = i)"
    using st(2,3) named unfolding named_after_def by (metis leD order_less_le_trans)
  ultimately show ?thesis by (simp add: net_session_of_def)
qed

text \<open>A request on a connection moves one node.\<close>

lemma on_conn_moves:
  assumes "net_conn_of ne i conn" and "on_conn e f conn w = (r, w')"
    and "\<And>ctx st r st'. ctx_peer_id ctx = i \<Longrightarrow> HomeConnectionServer_new (node_env ne) ctx = Inr ctx \<Longrightarrow> f ctx st = Return (r, st')
      \<Longrightarrow> (node_act (node_env ne) {i})\<^sup>*\<^sup>* st st'"
  shows "net_moves ne {i} w w'"
proof -
  obtain h ctxo where conn: "conn = (h, ctxo)" by fastforce
  show ?thesis
  proof (cases "w' = w")
    case False
    with assms(2) conn obtain st ctx st' where "w h = Some st" "ctxo = Some ctx" "f ctx st = Return (r, st')" "w' = w(h \<mapsto> st')"
      by (auto simp: on_conn_def split: option.splits run.splits)
    with assms(1,3) conn show ?thesis by (auto simp: net_conn_of_def intro: net_moves_node)
  qed (simp add: net_moves_refl)
qed

text \<open>While a call waits, the node goes on by itself.\<close>

definition waits_quietly :: "('d, 'b) NetEnv \<Rightarrow> bool" where
  "waits_quietly ne \<longleftrightarrow> (\<forall>st. (node_act (node_env ne) {})\<^sup>*\<^sup>* st (while_waiting ne st))"

lemma net_register_moves:
  assumes "net_conn_of ne i conn" and "net_register ne conn own half invite w = Return (r, w')"
  shows "net_moves ne {i} w w'"
proof -
  have "on_conn (own, RegisterFailed) (\<lambda>ctx. client_register (dispatch_register (register_err_text ne) (node_trait ne ctx)) own half invite) conn w = (r, w')"
    using assms(2) by (auto simp: net_register_def)
  then show ?thesis
  proof (rule on_conn_moves [OF assms(1)])
    fix ctx st r st' assume "ctx_peer_id ctx = i" "HomeConnectionServer_new (node_env ne) ctx = Inr ctx"
      and run: "client_register (dispatch_register (register_err_text ne) (node_trait ne ctx)) own half invite st = Return (r, st')"
    then show "(node_act (node_env ne) {i})\<^sup>*\<^sup>* st st'"
      using register_request [OF run] by (auto intro: act1 act_register)
  qed
qed

lemma net_login_moves:
  assumes "net_conn_of ne i conn" and "home_login (net_ops ne) conn rel w = (r, w')"
  shows "net_moves ne {i} w w' \<and> (\<forall>s. r = Inr s \<longrightarrow> net_session_of i w' s)"
proof -
  let ?f = "\<lambda>ctx. client_login (dispatch_login (err_text ne) (node_trait ne ctx)) rel"
  obtain q where run: "on_conn FailedToCreateSession ?f conn w = (q, w')" and r: "r = map_ok (Pair (fst conn)) q"
    using assms(2) by (cases "on_conn FailedToCreateSession ?f conn w") (auto simp: net_ops_def)
  have "net_moves ne {i} w w'"
    using run
  proof (rule on_conn_moves [OF assms(1)])
    fix ctx st r st' assume "ctx_peer_id ctx = i" "HomeConnectionServer_new (node_env ne) ctx = Inr ctx" and f: "?f ctx st = Return (r, st')"
    then show "(node_act (node_env ne) {i})\<^sup>*\<^sup>* st st'"
      using login_request [OF f] act_login [of "node_env ne" ctx ctx "{i}" st] by (auto simp:) (metis act1 snd_conv)
  qed
  moreover have "net_session_of i w' (fst conn, k)" if k: "q = Inr k" for k
  proof -
    obtain h ctx st st' where conn: "conn = (h, Some ctx)" "w h = Some st" and f: "?f ctx st = Return (Inr k, st')" and w': "w' = w(h \<mapsto> st')"
      using run k by (cases conn) (auto simp: on_conn_def split: option.splits run.splits)
    from login_request [OF f] obtain rel' where "login (node_env ne) ctx rel' st = (Inr k, st')" by (auto simp:)
    with login_cases [of "node_env ne" ctx rel' st] obtain prof where "k = next_id st" "st' = logged_in ctx prof st" by auto
    with assms(1) conn show ?thesis
      by (simp add: net_session_of_def w' logged_in_def HomeSessionServer_new_def net_conn_of_def)
  qed
  ultimately show ?thesis using r by auto
qed

lemma net_pair_moves:
  assumes "net_conn_of ne i conn"
  shows "net_moves ne {i} w (snd (home_pair_request (net_ops ne) conn half w))"
    and "net_moves ne {i} w (snd (home_pair_response (net_ops ne) conn rel w))"
proof -
  have act: "(node_act (node_env ne) {ctx_peer_id ctx})\<^sup>*\<^sup>* st (snd (pair_request (node_env ne) ctx half' st))"
    "(node_act (node_env ne) {ctx_peer_id ctx})\<^sup>*\<^sup>* st (snd (pair_response (node_env ne) ctx rel' st))"
    if "HomeConnectionServer_new (node_env ne) ctx = Inr ctx" for ctx half' rel' st
    using that by (auto intro: act1 act_pair_request act_pair_response)
  obtain r w1 where run: "home_pair_request (net_ops ne) conn half w = (r, w1)" by fastforce
  have "net_moves ne {i} w w1"
    by (rule on_conn_moves [OF assms run [unfolded net_ops_def, simplified]]) (auto dest!: pair_request_request simp: act)
  then show "net_moves ne {i} w (snd (home_pair_request (net_ops ne) conn half w))" by (simp add: run)
  obtain q w2 where run: "home_pair_response (net_ops ne) conn rel w = (q, w2)" by fastforce
  have "net_moves ne {i} w w2"
    by (rule on_conn_moves [OF assms run [unfolded net_ops_def, simplified]]) (auto dest!: pair_response_request simp: act)
  then show "net_moves ne {i} w (snd (home_pair_response (net_ops ne) conn rel w))" by (simp add: run)
qed

lemma net_call_moves:
  assumes "net_conn_of ne i conn" and "waits_quietly ne"
  shows "net_moves ne {i} w (snd (home_call (net_ops ne) conn app req w))"
proof -
  obtain r w' where run: "home_call (net_ops ne) conn app req w = (r, w')" by fastforce
  have quiet: "(node_act (node_env ne) {i})\<^sup>*\<^sup>* st (while_waiting ne st)" for st
    using assms(2) rtranclp_mono [of "node_act (node_env ne) {}" "node_act (node_env ne) {i}"] node_act_mono [of "node_env ne" "{}" _ _ "{i}"]
    unfolding waits_quietly_def by blast
  have "net_moves ne {i} w w'"
  proof (rule on_conn_moves [OF assms(1) run [unfolded net_ops_def, simplified]])
    fix ctx st r st' assume ctx: "ctx_peer_id ctx = i" "HomeConnectionServer_new (node_env ne) ctx = Inr ctx"
      and f: "client_call (dispatch_call (err_text ne) (node_trait ne ctx)) app req st = Return (r, st')"
    have act: "(node_act (node_env ne) {i})\<^sup>*\<^sup>* st (snd (call (node_env ne) ctx app' req' (call_timer ne) st))" for app' req'
      using ctx by (intro act1 act_call) auto
    have "(node_act (node_env ne) {i})\<^sup>*\<^sup>* st (snd (trait_call (node_trait ne ctx) app' req' st))" for app' req'
    proof (cases "call (node_env ne) ctx app' req' (call_timer ne) st")
      case (Pair q st1)
      with act [of app' req'] rtranclp_trans [OF _ quiet, of st st1] show ?thesis
        by (cases q) (auto simp: HomeConnection_trait_def split: option.split)
    qed
    with call_request [of "err_text ne" "node_trait ne ctx" app req st r st'] f show "(node_act (node_env ne) {i})\<^sup>*\<^sup>* st st'" by auto
  qed
  then show ?thesis by (simp add: run)
qed

text \<open>Requests on a session are those of its owner.\<close>

lemma on_session_owner:
  assumes "net_session_of i w s" and "on_session w s = Some (st, sess)"
  shows "w (fst s) = Some st" "session_heap st (snd s) = Some sess" "ctx_peer_id (ss_context sess) = i"
  using assms by (auto simp: on_session_def net_session_of_def bind_eq_Some_conv)

lemma net_unregister_moves:
  assumes "net_session_of i w s" and "net_unregister ne s newhome w = Return (r, w')"
  shows "net_moves ne {i} w w'"
proof (cases "on_session w s")
  case None
  with assms(2) show ?thesis by (auto simp: net_unregister_def net_moves_refl)
next
  case (Some x)
  then obtain st sess where on: "on_session w s = Some (st, sess)" by (cases x) auto
  note own = on_session_owner [OF assms(1) on]
  from assms(2) on own(1) have "w' = w \<or> (\<exists>q st'. client_unregister (dispatch_unregister (err_text ne) (HomeSession_trait (node_env ne) (ss_context sess))) newhome st = Return (q, st')
      \<and> w' = w(fst s \<mapsto> st'))"
    by (auto simp: net_unregister_def on_conn_def split: run.splits)
  then show ?thesis
  proof (elim disjE exE conjE)
    fix q st' assume "client_unregister (dispatch_unregister (err_text ne) (HomeSession_trait (node_env ne) (ss_context sess))) newhome st = Return (q, st')"
      and w': "w' = w(fst s \<mapsto> st')"
    then obtain new where "st' = snd (unregister (node_env ne) (ss_context sess) new st)"
      using unregister_request by (fastforce simp: HomeSession_trait_def)
    then have "node_act (node_env ne) {i} st st'" using act_unregister [OF own(2)] own(3) by simp
    then show ?thesis unfolding w' by (intro net_moves_node [where st = st] own(1) act1)
  qed (simp add: net_moves_refl)
qed

lemma net_session_moves:
  assumes "net_session_of i w s"
  shows "net_moves ne {i} w (snd (net_events s w))" and "net_moves ne {i} w (snd (net_checkin_app s app w))"
proof -
  have "net_moves ne {i} w (w(fst s \<mapsto> st'))" if "on_session w s = Some (st, sess)" "node_act (node_env ne) {i} st st'" for st sess st'
    using on_session_owner(1) [OF assms that(1)] that(2) by (intro net_moves_node [where st = st] act1)
  moreover have "node_act (node_env ne) {i} st (snd (events (snd s) sess st))" "node_act (node_env ne) {i} st (snd (checkin_app (snd s) sess app st))"
    if "on_session w s = Some (st, sess)" for st sess
    using on_session_owner(2,3) [OF assms that] by (auto intro: act_events act_checkin_app)
  ultimately show "net_moves ne {i} w (snd (net_events s w))" "net_moves ne {i} w (snd (net_checkin_app s app w))"
    by (auto simp: net_events_def net_checkin_app_def net_moves_refl split: option.split prod.split)
qed

lemma net_next_event_moves: "net_moves ne {} w (snd (net_next_event stream w))"
proof -
  obtain h c where stream: "stream = (h, c)" by fastforce
  have "net_moves ne {} w (w(h \<mapsto> st'))" if "w h = Some st" "receive_event k st = (m, st')" for st k m st'
    using act_receive [of "node_env ne" "{}" st k] that by (intro net_moves_node [where st = st] that(1) act1) simp
  then show ?thesis by (auto simp: stream net_next_event_def net_moves_refl split: option.split prod.split)
qed

lemma net_connect_moves:
  assumes "net_connector ne hp sg w = Return (r, w')"
  shows "net_moves ne {signer_profile_id sg} w w' \<and> (\<forall>home. r = Inr home \<longrightarrow> net_conn_of ne (signer_profile_id sg) home)"
proof -
  have "w' = w" using assms by (auto simp: net_connector_def Let_def split: ProfileFacet.splits option.splits)
  moreover have "net_conn_of ne (signer_profile_id sg) home" if "r = Inr home" for home
    using assms that by (auto simp: net_connector_def Let_def net_conn_of_def PeerContext_new_def HomeConnectionServer_new_Ok
        split: ProfileFacet.splits option.splits elim!: ok.elims)
  ultimately show ?thesis by (simp add: net_moves_refl)
qed

section \<open>The network keeps the contract\<close>

text \<open>A client on the network, over nodes that go on by themselves while a call waits.\<close>

locale net_client =
  fixes ne :: "('d, 'b) NetEnv" and env :: "('r, home_conn, home_session, event_stream, ('d, 'b) net) ClientEnv"
  assumes on: "on_net ne env" and order: "set (iter_order env xs) = set xs" and quiet: "waits_quietly ne"

lemma net_session_moved:
  assumes "net_session_of i w s" and "net_moves ne I w w'"
  shows "net_session_of i w' s"
proof (rule net_session_kept [OF assms(1)])
  fix st assume "w (fst s) = Some st"
  then show "\<exists>st'. w' (fst s) = Some st' \<and> named_after st st'"
    using assms(2) by (auto simp: net_moves_def option_rel_Some1 dest!: spec [of _ "fst s"] named_acts)
qed

sublocale net_client \<subseteq> out: outside env "net_moves ne" "net_conn_of ne" net_session_of
proof
  show "completes_all (select_order env)" using on by (simp add: on_net_def)
  show "set (iter_order env xs) = set xs" for xs by (rule order)
  have env: "home_connector env = net_connector ne" "home_ops env = net_ops ne" using on by (simp_all add: on_net_def)
  note sel = net_ops_def [of ne]
  show "net_moves ne {signer_profile_id sg} w w' \<and> (\<forall>home. r = Inr home \<longrightarrow> net_conn_of ne (signer_profile_id sg) home)"
    if "home_connector env hp sg w = Return (r, w')" for hp sg w r w'
    using that unfolding env by (rule net_connect_moves)
  show "net_moves ne {i} w w'" if "net_conn_of ne i home" "home_register (home_ops env) home own half invite w = Return (r, w')"
    for i home own half invite w r w'
    using that net_register_moves by (simp add: env sel)
  show "net_moves ne {i} w w' \<and> (\<forall>s. r = Inr s \<longrightarrow> net_session_of i w' s)"
    if "net_conn_of ne i home" "home_login (home_ops env) home rel w = (r, w')" for i home rel w r w'
    using that unfolding env by (rule net_login_moves)
  show "net_moves ne {i} w w'" if "net_session_of i w s" "session_unregister (home_ops env) s newhome w = Return (r, w')"
    for i w s newhome r w'
    using that net_unregister_moves by (simp add: env sel)
  show "net_moves ne {i} w (snd (home_pair_request (home_ops env) home half w))"
    "net_moves ne {i} w (snd (home_pair_response (home_ops env) home rel w))"
    "net_moves ne {i} w (snd (home_call (home_ops env) home app req w))" if "net_conn_of ne i home" for i w home half rel app req
    using net_pair_moves [OF that] net_call_moves [OF that quiet] by (simp_all add: env)
  show "net_moves ne {i} w (snd (session_events (home_ops env) s w))"
    "net_moves ne {i} w (snd (session_checkin_app (home_ops env) s app w))" if "net_session_of i w s" for i w s app
    using net_session_moves [OF that] by (simp_all add: env sel)
  show "net_moves ne {} w (snd (next_event (home_ops env) c w))" for w c
    using net_next_event_moves [of ne w c] by (simp add: env sel)
qed (auto intro: net_moves_refl net_moves_trans net_moves_mono net_session_moved)

context net_client
begin

lemma step_good:
  assumes "client_inv st" and "owned net_session_of st" and "client_step env st st'"
  shows "net_moves ne (identities st) (remote st) (remote st') \<and> client_inv st' \<and> owned net_session_of st'"
  using out.client_step_good [of st st'] assms by (simp add: out.good_def)

lemma checkin_good:
  assumes "client_inv st" and "owned net_session_of st" and "checkin env d st = Return (r, st')"
  shows "net_moves ne (identities st) (remote st) (remote st') \<and> client_inv st' \<and> owned net_session_of st'"
  using out.checkin_good [of st d r st'] assms by (simp add: out.good_def)

end

text \<open>Nodes on in-memory stores that run their first future while a call waits, and clients with any
  repository.\<close>

definition memory_net ::
  "bincode \<Rightarrow> Validator \<Rightarrow> (ProfileId \<Rightarrow> Signer) \<Rightarrow> (unit, string) result
     \<Rightarrow> ((ProfileId, Profile) InMemoryStore, (ProfileId, OwnProfile) InMemoryStore) NetEnv" where
  "memory_net ser v node_keys timer = \<lparr>node_env = memory_env ser v, node_signer = node_keys, err_text = (\<lambda>_. []),
     register_err_text = (\<lambda>_. []), call_timer = timer, while_waiting = reactor_poll 0\<rparr>"

definition net_client_of ::
  "('d, 'b) NetEnv \<Rightarrow> ('r, ProfileId, Profile) KeyValueStore \<Rightarrow> ('r, home_conn, home_session, event_stream, ('d, 'b) net) ClientEnv" where
  "net_client_of ne ops = \<lparr>client_ser = bincode_ser (node_env ne), repo_ops = ops, home_ops = net_ops ne,
     home_connector = net_connector ne, select_order = (\<lambda>n. [0..<n]), iter_order = (\<lambda>xs. xs)\<rparr>"

interpretation memory_client: net_client "memory_net ser v node_keys timer" "net_client_of (memory_net ser v node_keys timer) ops"
  for ser v node_keys timer ops
  by unfold_locales (auto simp: on_net_def net_client_of_def memory_net_def completes_all_def waits_quietly_def intro: act1 act_poll)

end
