(* ===== verification/System.thy ===== *)
theory System
  imports Network_Acts
begin

text \<open>
  The whole system as one transition system: any number of clients on one network of nodes.  In a step a
  client starts, acts or stops, a stranger sends requests to a node, a node or a receiver does
  something by itself, or a node starts, or starts again on its database.  A step is labelled with the
  ids of the peers that act in it.
\<close>

section \<open>The transition system\<close>

text \<open>The clients are numbered; each has its own environment.  The network a client sees is the one all
  share.\<close>

type_synonym ('r, 'd, 'b) net_client = "('r, home_session, event_stream, ('d, 'b) net) Client"
type_synonym ('r, 'd, 'b) net_client_env = "('r, home_conn, home_session, event_stream, ('d, 'b) net) ClientEnv"

record ('r, 'd, 'b) System =
  net_of :: "('d, 'b) net"
  clients :: "nat \<rightharpoonup> ('r, 'd, 'b) net_client"

abbreviation sees :: "('r, 'd, 'b) System \<Rightarrow> ('r, 'd, 'b) net_client \<Rightarrow> ('r, 'd, 'b) net_client" where
  "sees S c \<equiv> c\<lparr>remote := net_of S\<rparr>"

text \<open>A node that starts again has the hosted profiles it had; sessions, channels and calls are gone.
  The names of its objects go on, so that a name a client holds from before means nothing.\<close>

definition restarted :: "'d \<Rightarrow> ('d, 'b) HomeServer \<Rightarrow> ('d, 'b) HomeServer" where
  "restarted d st = (HomeServer_new d (hosted_profile_db st))\<lparr>next_id := next_id st\<rparr>"

inductive system_step ::
  "('d, 'b) NetEnv \<Rightarrow> (nat \<Rightarrow> ('r, 'd, 'b) net_client_env) \<Rightarrow> ('b \<Rightarrow> bool) \<Rightarrow> ProfileId set \<Rightarrow> ('r, 'd, 'b) System \<Rightarrow> ('r, 'd, 'b) System \<Rightarrow> bool"
  for ne :: "('d, 'b) NetEnv" and envs :: "nat \<Rightarrow> ('r, 'd, 'b) net_client_env" and fresh :: "'b \<Rightarrow> bool" where
  client_starts: "clients S n = None \<Longrightarrow> system_step ne envs fresh {} S (S\<lparr>clients := (clients S)(n \<mapsto> client_init r (net_of S))\<rparr>)"
| client_acts: "clients S n = Some c \<Longrightarrow> client_step (envs n) (sees S c) c'
    \<Longrightarrow> system_step ne envs fresh (identities c) S (S\<lparr>net_of := remote c', clients := (clients S)(n \<mapsto> c')\<rparr>)"
| client_checks_in: "clients S n = Some c \<Longrightarrow> checkin (envs n) dapp (sees S c) = Return (r, c')
    \<Longrightarrow> system_step ne envs fresh (identities c) S (S\<lparr>net_of := remote c', clients := (clients S)(n \<mapsto> c')\<rparr>)"
| client_stops: "system_step ne envs fresh {} S (S\<lparr>clients := (clients S)(n := None)\<rparr>)"
| peers_act: "net_of S h = Some st \<Longrightarrow> node_act (node_env ne) I st st'
    \<Longrightarrow> system_step ne envs fresh I S (S\<lparr>net_of := (net_of S)(h \<mapsto> st')\<rparr>)"
| node_starts: "net_of S h = None \<Longrightarrow> fresh b \<Longrightarrow> system_step ne envs fresh {} S (S\<lparr>net_of := (net_of S)(h \<mapsto> HomeServer_new d b)\<rparr>)"
| node_restarts: "net_of S h = Some st \<Longrightarrow> system_step ne envs fresh {} S (S\<lparr>net_of := (net_of S)(h \<mapsto> restarted d st)\<rparr>)"

text \<open>Runs in which every peer that acts is one of \<open>A\<close>.\<close>

inductive system_run ::
  "('d, 'b) NetEnv \<Rightarrow> (nat \<Rightarrow> ('r, 'd, 'b) net_client_env) \<Rightarrow> ('b \<Rightarrow> bool) \<Rightarrow> ProfileId set \<Rightarrow> ('r, 'd, 'b) System \<Rightarrow> ('r, 'd, 'b) System \<Rightarrow> bool"
  for ne :: "('d, 'b) NetEnv" and envs :: "nat \<Rightarrow> ('r, 'd, 'b) net_client_env" and fresh :: "'b \<Rightarrow> bool" and A :: "ProfileId set" where
  run_refl: "system_run ne envs fresh A S S"
| run_step: "system_run ne envs fresh A S S1 \<Longrightarrow> system_step ne envs fresh I S1 S2 \<Longrightarrow> I \<subseteq> A \<Longrightarrow> system_run ne envs fresh A S S2"

definition system_init :: "('r, 'd, 'b) System" where
  "system_init = \<lparr>net_of = Map.empty, clients = Map.empty\<rparr>"

abbreviation system_reachable ::
  "('d, 'b) NetEnv \<Rightarrow> (nat \<Rightarrow> ('r, 'd, 'b) net_client_env) \<Rightarrow> ('b \<Rightarrow> bool) \<Rightarrow> ('r, 'd, 'b) System \<Rightarrow> bool" where
  "system_reachable ne envs fresh \<equiv> system_run ne envs fresh UNIV system_init"

lemma system_run_trans:
  assumes "system_run ne envs fresh A S1 S2" and "system_run ne envs fresh A S S1"
  shows "system_run ne envs fresh A S S2"
  using assms by (induction rule: system_run.induct) (auto intro: system_run.intros)

lemma system_run_mono: "system_run ne envs fresh A S S' \<Longrightarrow> A \<subseteq> B \<Longrightarrow> system_run ne envs fresh B S S'"
  by (induction rule: system_run.induct) (auto intro: system_run.intros)

section \<open>Sessions belong to the clients that hold them\<close>

definition clients_good :: "('r, 'd, 'b) System \<Rightarrow> bool" where
  "clients_good S \<longleftrightarrow> (\<forall>n c. clients S n = Some c \<longrightarrow> client_inv (sees S c) \<and> owned net_session_of (sees S c))"

text \<open>What a step does to the network: the nodes move, or one starts (again).\<close>

definition sessions_stay :: "('d, 'b) net \<Rightarrow> ('d, 'b) net \<Rightarrow> bool" where
  "sessions_stay w w' \<longleftrightarrow> (\<forall>i s. net_session_of i w s \<longrightarrow> net_session_of i w' s)"

lemma client_good_stays:
  assumes "client_inv (sees S c)" and "owned net_session_of (sees S c)" and "sessions_stay (net_of S) (net_of S')"
  shows "client_inv (sees S' c) \<and> owned net_session_of (sees S' c)"
proof
  show "client_inv (sees S' c)" using assms(1) by (simp add: client_inv_def)
  show "owned net_session_of (sees S' c)"
    by (rule owned_same [OF assms(2)]) (use assms(3) in \<open>auto simp: sessions_stay_def\<close>)
qed

lemma sessions_stay_moves: "net_moves ne I w w' \<Longrightarrow> sessions_stay w w'"
  by (auto simp: sessions_stay_def intro: net_session_moved)

lemma named_restarted: "named_after st (restarted d st)"
  by (simp add: named_after_def restarted_def HomeServer_new_def)

text \<open>What a step does to the network: nodes move on behalf of the peers of the label, or one starts, or
  starts again.\<close>

definition net_steps :: "('d, 'b) NetEnv \<Rightarrow> ('b \<Rightarrow> bool) \<Rightarrow> ProfileId set \<Rightarrow> ('d, 'b) net \<Rightarrow> ('d, 'b) net \<Rightarrow> bool" where
  "net_steps ne fresh I w w' \<longleftrightarrow> net_moves ne I w w' \<or> (\<exists>h b d. w h = None \<and> fresh b \<and> w' = w(h \<mapsto> HomeServer_new d b))
     \<or> (\<exists>h st d. w h = Some st \<and> w' = w(h \<mapsto> restarted d st))"

lemma sessions_stay_steps:
  assumes "net_steps ne fresh I w w'"
  shows "sessions_stay w w'"
proof -
  have "net_session_of i w' s" if "\<exists>h st. w' = w(h \<mapsto> st) \<and> (\<forall>st0. w h = Some st0 \<longrightarrow> named_after st0 st)" "net_session_of i w s" for i s
    using that(1) by (elim exE conjE) (rule net_session_kept [OF that(2)], auto)
  then have "sessions_stay w w'" if "\<exists>h st. w' = w(h \<mapsto> st) \<and> (\<forall>st0. w h = Some st0 \<longrightarrow> named_after st0 st)"
    using that unfolding sessions_stay_def by blast
  then show ?thesis
    using assms named_restarted unfolding net_steps_def by (elim disjE) (blast intro: sessions_stay_moves, fastforce, fastforce)
qed

text \<open>The hypotheses on the clients, as the locale has them.\<close>

lemma net_clients:
  assumes "\<And>n. on_net ne (envs n)" and "\<And>n xs. set (iter_order (envs n) xs) = set xs" and "waits_quietly ne"
  shows "\<forall>n. net_client ne (envs n)"
  using assms by (intro allI) unfold_locales

lemma clients_good_init: "clients_good system_init"
  by (simp add: clients_good_def system_init_def)

lemma client_init_good: "client_inv (client_init r w)" "owned f (client_init r w)"
  by (rule client_inv_init, simp add: owned_def client_init_def)

lemma system_step_good:
  assumes "\<forall>n. net_client ne (envs n)" and "clients_good S" and "system_step ne envs fresh I S S'"
  shows "net_steps ne fresh I (net_of S) (net_of S') \<and> clients_good S'"
proof -
  have others: "clients_good (S\<lparr>net_of := w, clients := (clients S)(n \<mapsto> c')\<rparr>)"
    if "net_moves ne K (net_of S) w" "client_inv c'" "owned net_session_of c'" "remote c' = w" for n K w c'
  proof -
    have "c'\<lparr>remote := w\<rparr> = c'" using that(4) by simp
    with that client_good_stays [where S' = "S\<lparr>net_of := w, clients := (clients S)(n \<mapsto> c')\<rparr>" and S = S] assms(2) sessions_stay_moves [OF that(1)]
    show ?thesis unfolding clients_good_def by auto
  qed
  have nodes: "clients_good (S\<lparr>net_of := w\<rparr>)" if "net_steps ne fresh I (net_of S) w" for w
    using sessions_stay_steps [OF that] client_good_stays [where S = S and S' = "S\<lparr>net_of := w\<rparr>"] assms(2) unfolding clients_good_def by auto
  from assms(3) show ?thesis
  proof cases
    case (client_starts n r)
    with assms(2) client_init_good show ?thesis by (auto simp: clients_good_def net_steps_def net_moves_refl client_init_def)
  next
    case (client_acts n c c')
    with net_client.step_good [OF assms(1) [rule_format], of "sees S c" n c'] assms(2)
    have "net_moves ne I (net_of S) (remote c') \<and> client_inv c' \<and> owned net_session_of c'" by (simp add: clients_good_def identities_def)
    with others [of I "remote c'" c' n] show ?thesis by (simp add: client_acts net_steps_def)
  next
    case (client_checks_in n c dapp r c')
    with net_client.checkin_good [OF assms(1) [rule_format], of "sees S c" n dapp r c'] assms(2)
    have "net_moves ne I (net_of S) (remote c') \<and> client_inv c' \<and> owned net_session_of c'" by (simp add: clients_good_def identities_def)
    with others [of I "remote c'" c' n] show ?thesis by (simp add: client_checks_in net_steps_def)
  next
    case (client_stops n)
    with assms(2) show ?thesis by (auto simp: clients_good_def net_steps_def net_moves_refl)
  next
    case (peers_act h st st')
    then have "net_moves ne I (net_of S) ((net_of S)(h \<mapsto> st'))" by (intro net_moves_node [where st = st] act1)
    with nodes show ?thesis by (simp add: peers_act net_steps_def)
  next
    case (node_starts h b d)
    then have "net_steps ne fresh I (net_of S) ((net_of S)(h \<mapsto> HomeServer_new d b))" unfolding net_steps_def by blast
    with nodes show ?thesis by (simp add: node_starts)
  next
    case (node_restarts h st d)
    then have "net_steps ne fresh I (net_of S) ((net_of S)(h \<mapsto> restarted d st))" unfolding net_steps_def by blast
    with nodes show ?thesis by (simp add: node_restarts)
  qed
qed

lemma system_run_good:
  assumes "\<forall>n. net_client ne (envs n)" and "system_run ne envs fresh A S S'" and "clients_good S"
  shows "clients_good S'"
  using assms(2,3) by (induction rule: system_run.induct) (auto dest: system_step_good [OF assms(1)])

section \<open>Hosted profiles belong to their owners\<close>

definition nodes_good :: "('d, 'b) HomeEnv \<Rightarrow> ('b \<Rightarrow> ProfileId \<Rightarrow> OwnProfile option) \<Rightarrow> ('d, 'b) net \<Rightarrow> bool" where
  "nodes_good env ba w \<longleftrightarrow> (\<forall>h st. w h = Some st \<longrightarrow> node_inv env ba st)"

text \<open>What is hosted for others stays, at every node.\<close>

definition hosted_stays :: "('b \<Rightarrow> ProfileId \<Rightarrow> OwnProfile option) \<Rightarrow> ProfileId set \<Rightarrow> ('d, 'b) net \<Rightarrow> ('d, 'b) net \<Rightarrow> bool" where
  "hosted_stays ba I w w' \<longleftrightarrow> (\<forall>h st. w h = Some st \<longrightarrow> (\<exists>st'. w' h = Some st' \<and> hosted_but ba I st st'))"

lemma hosted_stays_refl: "hosted_stays ba I w w"
  by (simp add: hosted_stays_def hosted_but_def)

lemma hosted_stays_trans: "hosted_stays ba I w w1 \<Longrightarrow> hosted_stays ba I w1 w2 \<Longrightarrow> hosted_stays ba I w w2"
  unfolding hosted_stays_def hosted_but_def by (metis (no_types, lifting))

lemma hosted_stays_mono: "hosted_stays ba I w w' \<Longrightarrow> I \<subseteq> K \<Longrightarrow> hosted_stays ba K w w'"
  unfolding hosted_stays_def hosted_but_def by (metis subsetD)

lemma node_inv_restarted: "node_inv env ba st \<Longrightarrow> node_inv env ba (restarted d st) \<and> hosted_but ba I st (restarted d st)"
  by (simp add: node_inv_def wire_inv_def restarted_def HomeServer_new_def hosted_but_def)

lemma node_inv_new: "(\<And>i. ba b i = None) \<Longrightarrow> node_inv env ba (HomeServer_new d b)"
  by (simp add: node_inv_def wire_inv_def HomeServer_new_def)

context home_node
begin

lemma net_steps_nodes:
  assumes "net_steps ne fresh I w w'" and "node_env ne = env" and "\<And>b i. fresh b \<Longrightarrow> ba b i = None" and "nodes_good env ba w"
  shows "nodes_good env ba w' \<and> hosted_stays ba I w w'"
  using assms(1) unfolding net_steps_def
proof (elim disjE exE conjE)
  assume moves: "net_moves ne I w w'"
  have acted: "acted env ba I st st'" if "w h = Some st" "w' h = Some st'" for h st st'
  proof (rule acted_acts)
    show "(node_act env I)\<^sup>*\<^sup>* st st'" using moves that assms(2) by (auto simp: net_moves_def dest!: spec [of _ h])
    show "node_inv env ba st" using assms(4) that(1) by (simp add: nodes_good_def)
  qed
  have "\<exists>st. w h = Some st" if "w' h = Some st'" for h st' using moves that by (auto simp: net_moves_def option_rel_Some2 dest!: spec [of _ h])
  moreover have "\<exists>st'. w' h = Some st'" if "w h = Some st" for h st using moves that by (auto simp: net_moves_def option_rel_Some1 dest!: spec [of _ h])
  ultimately show ?thesis using acted assms(4) unfolding nodes_good_def hosted_stays_def acted_def by metis
next
  fix h b d assume "w h = None" "fresh b" "w' = w(h \<mapsto> HomeServer_new d b)"
  then show ?thesis using assms(3,4) node_inv_new [of ba b env d] by (auto simp: nodes_good_def hosted_stays_def hosted_but_def)
next
  fix h st d assume "w h = Some st" "w' = w(h \<mapsto> restarted d st)"
  then show ?thesis using assms(4) node_inv_restarted [of env ba st d I] by (auto simp: nodes_good_def hosted_stays_def hosted_but_def)
qed

lemma system_run_nodes:
  assumes "\<forall>n. net_client ne (envs n)" and "node_env ne = env" and "\<And>b i. fresh b \<Longrightarrow> ba b i = None"
    and "system_run ne envs fresh A S S'" and "clients_good S" and "nodes_good env ba (net_of S)"
  shows "nodes_good env ba (net_of S') \<and> hosted_stays ba A (net_of S) (net_of S')"
  using assms(4-6)
proof (induction rule: system_run.induct)
  case (run_step S S1 I S2)
  then have "nodes_good env ba (net_of S1)" "hosted_stays ba A (net_of S) (net_of S1)" by simp_all
  moreover have "net_steps ne fresh I (net_of S1) (net_of S2)"
    using system_step_good [OF assms(1) system_run_good [OF assms(1) run_step(1,5)] run_step(2)] by simp
  ultimately show ?case
    using net_steps_nodes [OF _ assms(2,3)] hosted_stays_trans hosted_stays_mono run_step(3) by blast
qed (simp add: hosted_stays_refl)

end

section \<open>Properties\<close>

text \<open>C2: in every reachable state of the whole system, whatever clients and strangers have done and
  however often nodes were restarted, a session that a client has cached for one of its profiles is an
  object of the client with a session at a node of the network; and if the node still has that session, it
  was opened by a peer with the id of that very profile.  No client ever acts on a session of
  somebody else.\<close>

theorem client_sessions_own:
  assumes "\<And>n. on_net ne (envs n)" and "\<And>n xs. set (iter_order (envs n) xs) = set xs" and "waits_quietly ne"
    and "system_reachable ne envs fresh S" and "clients S n = Some c"
    and "my_profiles c p = Some self" and "(h, sid) \<in> set (session_cache self)"
  shows "\<exists>s st. my_sessions c sid = Some s \<and> net_of S (fst (session s)) = Some st
    \<and> (\<forall>sess. session_heap st (snd (session s)) = Some sess \<longrightarrow> ctx_peer_id (ss_context sess) = signer_profile_id (mp_signer self))"
proof -
  have "clients_good S" by (rule system_run_good [OF net_clients [OF assms(1-3)] assms(4) clients_good_init])
  then have c: "client_inv (sees S c)" "owned net_session_of (sees S c)" using assms(5) by (simp_all add: clients_good_def)
  have "snd (h, sid) \<in> dom (my_sessions c)" using client_invD(1) [OF c(1)] assms(6,7) unfolding caches_ok_def by fastforce
  then obtain s where s: "my_sessions c sid = Some s" by auto
  with ownedD [OF c(2), of p self h sid s] assms(6,7) have "net_session_of (signer_profile_id (mp_signer self)) (net_of S) (session s)" by simp
  with s show ?thesis by (auto simp: net_session_of_def)
qed


section \<open>A sample system\<close>

text \<open>One node and one client, which creates a profile, joins the home and logs in.\<close>

abbreviation sample_run ::
  "ProfileId set \<Rightarrow> ((ProfileId, Profile) InMemoryStore, (ProfileId, Profile) InMemoryStore, (ProfileId, OwnProfile) InMemoryStore) System
     \<Rightarrow> ((ProfileId, Profile) InMemoryStore, (ProfileId, Profile) InMemoryStore, (ProfileId, OwnProfile) InMemoryStore) System \<Rightarrow> bool" where
  "sample_run \<equiv> system_run sample_net_env (\<lambda>_. net_client_env) (\<lambda>b. b = InMemoryStore_new)"

lemma sample_hypotheses:
  "on_net sample_net_env net_client_env" "set (iter_order net_client_env xs) = set xs" "waits_quietly sample_net_env"
  "node_env sample_net_env = memory_env sample_bincode (default_validator sample_multihash sample_ed25519)"
  using net_sample_ok by (simp_all add: net_client_env_def waits_quietly_def sample_net_env_def duo_env_def)

lemma sample_system:
  obtains st sid self where "sample_run UNIV system_init \<lparr>net_of = remote st, clients = [0 \<mapsto> st]\<rparr>"
    "my_profiles st 0 = Some self" "(ProfileId [8], sid) \<in> set (session_cache self)" "mp_signer self = sample_signer [1]"
    "\<exists>nst own. remote st (ProfileId [8]) = Some nst \<and> imap (hosted_profile_db nst) (ProfileId [27, 1]) = Some own"
proof -
  let ?net = "[ProfileId [8] \<mapsto> HomeServer_new InMemoryStore_new InMemoryStore_new]"
  let ?c0 = "client_init \<lparr>imap = [ProfileId [8] \<mapsto> net_home_profile 8]\<rparr> ?net"
  let ?S = "\<lambda>st. \<lparr>net_of = remote st, clients = [0 \<mapsto> st]\<rparr>"
  obtain st1 sid st2 self i j c l where join: "join_home net_client_env 0 (ProfileId [8]) None fresh_client = Return (Inr (), st1)"
    and login: "login_home net_client_env 0 (ProfileId [8]) st1 = Return (Inr sid, st2)"
    and self: "listening st2 0 self i j (ProfileId [8]) c l" "mp_signer self = mp_signer (net_self 1 [])"
    and hosted: "receives_at (node_env sample_net_env) (remote st2) (ProfileId [8]) (signer_profile_id (mp_signer (net_self 1 []))) (PublicKey [1]) c"
    using join_and_login_net [OF net_sample_ok(1) sample_ok(1) sample_hypotheses(4) net_sample_ok(4) fresh_client_ok, of None] by blast
  have "sample_run UNIV system_init \<lparr>net_of = ?net, clients = Map.empty\<rparr>"
    using run_step [OF run_refl node_starts [where ne = sample_net_env and envs = "\<lambda>_. net_client_env" and fresh = "\<lambda>b. b = InMemoryStore_new"
        and S = system_init and h = "ProfileId [8]" and b = InMemoryStore_new and d = InMemoryStore_new]]
    by (simp add: system_init_def)
  from run_step [OF this client_starts [where n = 0 and r = "\<lparr>imap = [ProfileId [8] \<mapsto> net_home_profile 8]\<rparr>"]]
  have "sample_run UNIV system_init (?S ?c0)" by (simp add: client_init_def)
  moreover have more: "sample_run UNIV system_init (?S st')" if "sample_run UNIV system_init (?S st)" "client_step net_client_env st st'" for st st'
    using run_step [OF that(1) client_acts [where n = 0 and c = st and c' = st']] that(2) by simp
  moreover have "client_step net_client_env ?c0 fresh_client"
    by (rule new_profile [of _ _ _ "fst (alloc_profile (OwnProfile_new (net_profile 1 []) []) (sample_signer [1]) ?c0)"]) (simp add: fresh_client_def prod_eq_iff)
  ultimately have run1: "sample_run UNIV system_init (?S st1)" using client_step.join_home [OF join] by blast
  with more client_step.login_home [OF login] have run2: "sample_run UNIV system_init (?S st2)" by blast
  have "clients_good (?S st1)" by (rule system_run_good [OF _ run1 clients_good_init]) (rule net_clients [OF sample_hypotheses(1-3)])
  then have "client_inv st1" by (auto simp: clients_good_def dest!: spec [of _ 0])
  moreover obtain self1 where "my_profiles st1 0 = Some self1" using op_alive(1) [OF login] by blast
  ultimately obtain cache where "my_profiles st2 0 = Some (self1\<lparr>session_cache := cache\<rparr>)"
    "map_of cache = (map_of (session_cache self1))(ProfileId [8] \<mapsto> sid)"
    using login_home_cached [of st1 0 self1 net_client_env "ProfileId [8]" sid st2] login by auto
  with self have "(ProfileId [8], sid) \<in> set (session_cache self)" by (auto simp: listening_def intro!: map_of_SomeD)
  with run2 show ?thesis
    using that [of st2 self sid] self hosted by (auto simp: listening_def receives_at_def sample_hypotheses(4) InMemoryStore_get_def map_of_SomeD split: option.splits)
qed

theorem client_sessions_own_witness:
  "\<exists>S c self sid s st. sample_run UNIV system_init S \<and> clients S 0 = Some c \<and> my_profiles c 0 = Some self
     \<and> (ProfileId [8], sid) \<in> set (session_cache self) \<and> my_sessions c sid = Some s \<and> net_of S (fst (session s)) = Some st
     \<and> (\<forall>sess. session_heap st (snd (session s)) = Some sess \<longrightarrow> ctx_peer_id (ss_context sess) = ProfileId [27, 1])"
proof -
  obtain st sid self where run: "sample_run UNIV system_init \<lparr>net_of = remote st, clients = [0 \<mapsto> st]\<rparr>"
    "my_profiles st 0 = Some self" "(ProfileId [8], sid) \<in> set (session_cache self)" "mp_signer self = sample_signer [1]"
    by (rule sample_system)
  from client_sessions_own [where n = 0 and c = st, OF sample_hypotheses(1-3) run(1) _ run(2,3)] run
  show ?thesis by fastforce
qed


end
