(* ===== verification/Json_Rpc.thy ===== *)
theory Json_Rpc
  imports Connect_Service
begin

text \<open>
  The JSON-RPC interface of the client service (\<^verbatim>\<open>connect/src/jsonrpc/api.rs\<close>): an
  application opens a session over its connection, subscribes to events and unsubscribes.  A
  subscription is a spawned future that checks in at the home and forwards application events to
  the connection; it is cancelled through a oneshot channel whose sender the connection's
  \<^verbatim>\<open>SessionData\<close> holds.

  The dispatch of method names and the JSON text are of the packages \<^verbatim>\<open>jsonrpc_core\<close>,
  \<^verbatim>\<open>jsonrpc_pubsub\<close> and \<^verbatim>\<open>serde_json\<close>; what the handlers use of them are fields of
  \<open>RpcEnv\<close>.  \<open>rpc_poll\<close> is one poll of a subscription's future, taking at most one item from its
  stream.  That the home learns of a dropped stream of calls is left to the home.
\<close>

section \<open>Sessions\<close>

datatype Value = VNull | VBool bool | VNumber int | VString string | VArray "Value list" | VObject "(string \<times> Value) list"

datatype Params = ParamsNone | ParamsArray "Value list" | ParamsMap "(string \<times> Value) list"

datatype RpcErrorCode = InvalidParams | InternalError

text \<open>The notifications written to a connection, and whether its other end is gone.\<close>

record transport =
  sent :: "(string \<times> Params) list"
  peer_gone :: bool

record SessionData =
  pubsub_session :: transport
  dapp_session :: "DAppSessionImpl option"
  cancel_events :: "nat option"

definition SessionData_new :: "transport \<Rightarrow> SessionData" where
  "SessionData_new transport_tx = \<lparr>pubsub_session = transport_tx, dapp_session = None, cancel_events = None\<rparr>"

text \<open>A oneshot channel: nothing has happened, the value was sent, the sender or the receiver was
  dropped.\<close>

datatype oneshot = Waiting | Sent | TxDropped | RxDropped

datatype 'c fwd_events =
    CheckingIn DAppSessionImpl
  | FwdEvents DAppSessionImpl 'c channel_id bool

record 'c subscription =
  sub_conn :: nat
  sub_cancel :: nat
  sub_fut :: "'c fwd_events"

record ('p, 'r, 's, 'c, 'w) RpcServer =
  svc :: "('p, 'r, 's, 'c, 'w) Service"
  rpc_sessions :: "nat \<rightharpoonup> SessionData"
  oneshots :: "nat \<rightharpoonup> oneshot"
  subscriptions :: "'c subscription list"
  rpc_next :: nat

record ('p, 'r, 'h, 's, 'c, 'w, 'i) RpcEnv =
  client_env :: "('r, 'h, 's, 'c, 'w) ClientEnv"
  service_env :: "('p, 'r, 's, 'c, 'w) ServiceEnv"
  request_from_value :: "(string \<times> Value) list \<Rightarrow> (ApplicationId \<times> bytes option, string) result"
  response_to_value :: "string \<Rightarrow> (Value, string) result"
  id_text :: "bytes \<Rightarrow> string"
  next_call :: "'c \<Rightarrow> 'w \<Rightarrow> ('i, string) result poll \<times> 'w"

definition set_data :: "nat \<Rightarrow> (SessionData \<Rightarrow> SessionData) \<Rightarrow> ('p, 'r, 's, 'c, 'w) RpcServer \<Rightarrow> ('p, 'r, 's, 'c, 'w) RpcServer" where
  "set_data k f st = st\<lparr>rpc_sessions := (rpc_sessions st)(k := map_option f (rpc_sessions st k))\<rparr>"

definition Session_new :: "transport \<Rightarrow> ('p, 'r, 's, 'c, 'w) RpcServer \<Rightarrow> nat \<times> ('p, 'r, 's, 'c, 'w) RpcServer" where
  "Session_new transport_tx st = (rpc_next st,
     st\<lparr>rpc_sessions := (rpc_sessions st)(rpc_next st \<mapsto> SessionData_new transport_tx), rpc_next := rpc_next st + 1\<rparr>)"

definition Session_dapp_session :: "nat \<Rightarrow> ('p, 'r, 's, 'c, 'w) RpcServer \<Rightarrow> DAppSessionImpl option" where
  "Session_dapp_session k st = Option.bind (rpc_sessions st k) dapp_session"

definition set_dapp_session :: "nat \<Rightarrow> DAppSessionImpl \<Rightarrow> ('p, 'r, 's, 'c, 'w) RpcServer \<Rightarrow> ('p, 'r, 's, 'c, 'w) RpcServer" where
  "set_dapp_session k d = set_data k (\<lambda>sd. sd\<lparr>dapp_session := Some d\<rparr>)"

text \<open>Dropping a sender that has sent nothing cancels the receiver.\<close>

definition drop_sender :: "nat option \<Rightarrow> (nat \<rightharpoonup> oneshot) \<Rightarrow> (nat \<rightharpoonup> oneshot)" where
  "drop_sender tx chans = (case tx of None \<Rightarrow> chans
     | Some n \<Rightarrow> if chans n = Some Waiting then chans(n \<mapsto> TxDropped) else chans)"

definition take_cancel_events :: "nat \<Rightarrow> ('p, 'r, 's, 'c, 'w) RpcServer \<Rightarrow> nat option \<times> ('p, 'r, 's, 'c, 'w) RpcServer" where
  "take_cancel_events k st = (Option.bind (rpc_sessions st k) cancel_events, set_data k (\<lambda>sd. sd\<lparr>cancel_events := None\<rparr>) st)"

definition set_cancel_events :: "nat \<Rightarrow> nat \<Rightarrow> ('p, 'r, 's, 'c, 'w) RpcServer \<Rightarrow> ('p, 'r, 's, 'c, 'w) RpcServer" where
  "set_cancel_events k tx st =
     (set_data k (\<lambda>sd. sd\<lparr>cancel_events := Some tx\<rparr>) st)
       \<lparr>oneshots := drop_sender (Option.bind (rpc_sessions st k) cancel_events) (oneshots st)\<rparr>"

text \<open>The last handle to a connection's data goes when the connection is no longer served.\<close>

definition Session_drop :: "nat \<Rightarrow> ('p, 'r, 's, 'c, 'w) RpcServer \<Rightarrow> ('p, 'r, 's, 'c, 'w) RpcServer" where
  "Session_drop k st = st\<lparr>rpc_sessions := (rpc_sessions st)(k := None),
     oneshots := drop_sender (Option.bind (rpc_sessions st k) cancel_events) (oneshots st)\<rparr>"

section \<open>Handlers\<close>

definition get_session ::
  "('p, 'r, 'h, 's, 'c, 'w, 'i) RpcEnv \<Rightarrow> Params \<Rightarrow> nat \<Rightarrow> ('p, 'r, 's, 'c, 'w) RpcServer
     \<Rightarrow> ((Value, RpcErrorCode) result \<times> ('p, 'r, 's, 'c, 'w) RpcServer) run" where
  "get_session renv params meta st =
     (case params of
        ParamsNone \<Rightarrow> Return (Err InvalidParams, st)
      | ParamsArray _ \<Rightarrow> Return (Err InvalidParams, st)
      | ParamsMap param_map \<Rightarrow>
          (case request_from_value renv param_map of
             Inl _ \<Rightarrow> Return (Err InvalidParams, st)
           | Inr (application_id, permissions) \<Rightarrow>
               (case ConnectService_dapp_session (service_env renv) application_id (svc st) of
                  (Inl _, sv) \<Rightarrow> Return (Err InternalError, st\<lparr>svc := sv\<rparr>)
                | (Inr dapp_endpoint, sv) \<Rightarrow>
                    run_bind (selected_profile dapp_endpoint (client sv)) (\<lambda>(p, _).
                      Return (and_then (map_err (\<lambda>_. InternalError) p) (\<lambda>prof_id.
                          map_err (\<lambda>_. InternalError) (response_to_value renv (ProfileId_to_string (\<lambda>_. id_text renv) () prof_id))),
                        set_dapp_session meta dapp_endpoint (st\<lparr>svc := sv\<rparr>))))))"

definition subscription_id :: string where
  "subscription_id = ''TODO_set_a_better_id_here''"

text \<open>\<open>assigned\<close> is the outcome of \<^verbatim>\<open>assign_id\<close>, which answers the request with the id.\<close>

definition subscribe_events ::
  "(unit, unit) result \<Rightarrow> nat \<Rightarrow> ('p, 'r, 's, 'c, 'w) RpcServer \<Rightarrow> string option \<times> ('p, 'r, 's, 'c, 'w) RpcServer" where
  "subscribe_events assigned meta st =
     (case assigned of
        Inl _ \<Rightarrow> (None, st)
      | Inr _ \<Rightarrow> (Some subscription_id,
          (case Session_dapp_session meta st of
             None \<Rightarrow> st
           | Some d \<Rightarrow>
               (let cancel = rpc_next st;
                    st1 = set_cancel_events meta cancel (st\<lparr>oneshots := (oneshots st)(cancel \<mapsto> Waiting), rpc_next := cancel + 1\<rparr>)
                in st1\<lparr>subscriptions := subscriptions st1 @ [\<lparr>sub_conn = meta, sub_cancel = cancel, sub_fut = CheckingIn d\<rparr>]\<rparr>))))"

definition unsubscribe_events ::
  "nat \<Rightarrow> ('p, 'r, 's, 'c, 'w) RpcServer \<Rightarrow> (Value, RpcErrorCode) result \<times> ('p, 'r, 's, 'c, 'w) RpcServer" where
  "unsubscribe_events meta st =
     (case take_cancel_events meta st of
        (None, st) \<Rightarrow> (Err InternalError, st)
      | (Some cancel, st) \<Rightarrow>
          if oneshots st cancel = Some RxDropped then (Err InternalError, st)
          else (Ok (VBool True), st\<lparr>oneshots := (oneshots st)(cancel \<mapsto> Sent)\<rparr>))"

section \<open>The future of a subscription\<close>

definition event_params :: "'i DAppEvent \<Rightarrow> Params" where
  "event_params event = (case event of
     DAppEvent_PairingResponse _ \<Rightarrow> ParamsArray [VString ''Pairing response'']
   | DAppEvent_Call _ \<Rightarrow> ParamsArray [VString ''Call''])"

text \<open>The future of a subscription after a poll: it goes on, it wants to send, it waits, or it is
  over.\<close>

datatype 'c fwd_poll = FwdOn "'c fwd_events" | FwdSend Params "'c fwd_events" | FwdWaits "'c fwd_events" | FwdOver

definition poll_fwd ::
  "('p, 'r, 'h, 's, 'c, 'w, 'i) RpcEnv \<Rightarrow> bool \<Rightarrow> 'c fwd_events \<Rightarrow> ('r, 's, 'c, 'w) Client
     \<Rightarrow> ('c fwd_poll \<times> ('r, 's, 'c, 'w) Client) run" where
  "poll_fwd renv ready fut c =
     (case fut of
        CheckingIn d \<Rightarrow>
          if \<not> ready then Return (FwdWaits fut, c)
          else run_bind (checkin (client_env renv) d c) (\<lambda>(r, c).
            Return (case r of Inl _ \<Rightarrow> FwdOver | Inr (calls, l) \<Rightarrow> FwdOn (FwdEvents d calls l False), c))
      | FwdEvents d calls l flag \<Rightarrow>
          (case poll_select (next_call renv) d calls l flag c of (x, flag, c) \<Rightarrow>
             Return (case x of
                 SrcItem e \<Rightarrow> FwdSend (event_params e) (FwdEvents d calls l flag)
               | SrcSkip \<Rightarrow> FwdOn (FwdEvents d calls l flag)
               | SrcNotReady \<Rightarrow> FwdWaits (FwdEvents d calls l flag)
               | SrcDone \<Rightarrow> FwdOver, c)))"

text \<open>When the future is over its stream and its end of the oneshot are dropped.\<close>

definition drop_fwd :: "'c fwd_events \<Rightarrow> ('r, 's, 'c, 'w) Client \<Rightarrow> ('r, 's, 'c, 'w) Client" where
  "drop_fwd fut c = (case fut of CheckingIn _ \<Rightarrow> c | FwdEvents _ _ l _ \<Rightarrow> close_listener l c)"

definition set_client :: "('r, 's, 'c, 'w) Client \<Rightarrow> ('p, 'r, 's, 'c, 'w) RpcServer \<Rightarrow> ('p, 'r, 's, 'c, 'w) RpcServer" where
  "set_client c st = st\<lparr>svc := (svc st)\<lparr>client := c\<rparr>\<rparr>"

definition end_subscription ::
  "nat \<Rightarrow> ('r, 's, 'c, 'w) Client \<Rightarrow> ('p, 'r, 's, 'c, 'w) RpcServer \<Rightarrow> ('p, 'r, 's, 'c, 'w) RpcServer" where
  "end_subscription i c st =
     (let sub = subscriptions st ! i in
      (set_client (drop_fwd (sub_fut sub) c) st)
        \<lparr>subscriptions := take i (subscriptions st) @ drop (Suc i) (subscriptions st),
         oneshots := (oneshots st)(sub_cancel sub \<mapsto> RxDropped)\<rparr>)"

definition go_on ::
  "nat \<Rightarrow> 'c fwd_events \<Rightarrow> ('r, 's, 'c, 'w) Client \<Rightarrow> ('p, 'r, 's, 'c, 'w) RpcServer \<Rightarrow> ('p, 'r, 's, 'c, 'w) RpcServer" where
  "go_on i fut c st =
     (set_client c st)\<lparr>subscriptions := (subscriptions st)[i := (subscriptions st ! i)\<lparr>sub_fut := fut\<rparr>]\<rparr>"

definition rpc_poll ::
  "('p, 'r, 'h, 's, 'c, 'w, 'i) RpcEnv \<Rightarrow> bool \<Rightarrow> nat \<Rightarrow> ('p, 'r, 's, 'c, 'w) RpcServer \<Rightarrow> ('p, 'r, 's, 'c, 'w) RpcServer run" where
  "rpc_poll renv ready i st =
     (if i < length (subscriptions st) then
        (let sub = subscriptions st ! i in
         run_bind (poll_fwd renv ready (sub_fut sub) (client (svc st))) (\<lambda>(x, c). Return (case x of
             FwdOn fut \<Rightarrow> go_on i fut c st
           | FwdSend params fut \<Rightarrow>
               (case rpc_sessions st (sub_conn sub) of
                  None \<Rightarrow> end_subscription i c st
                | Some sd \<Rightarrow>
                    if peer_gone (pubsub_session sd) then end_subscription i c st
                    else go_on i fut c (set_data (sub_conn sub) (\<lambda>sd. sd\<lparr>pubsub_session :=
                      (pubsub_session sd)\<lparr>sent := sent (pubsub_session sd) @ [(subscription_id, params)]\<rparr>\<rparr>) st))
           | FwdWaits fut \<Rightarrow> if oneshots st (sub_cancel sub) = Some Waiting then go_on i fut c st else end_subscription i c st
           | FwdOver \<Rightarrow> end_subscription i c st)))
      else Return st)"

end
