(* ===== verification/Json_Server.thy ===== *)
theory Json_Server
  imports Json_Rpc
begin

text \<open>
  Serving one JSON-RPC connection (\<^verbatim>\<open>connect/src/jsonrpc/server_dispatcher.rs\<close>).  Three
  futures run side by side: one reads requests from the socket into a bounded channel, one handles
  them one after the other and sends the responses, one writes the responses to the socket.  The
  connection is over as soon as one of the three is.

  \<open>handle\<close> is the dispatcher of \<^verbatim>\<open>jsonrpc_pubsub\<close> applied to one line, which completes within
  the poll that starts it.  What the socket has to read and how many responses it takes are given
  with each poll.  As \<^verbatim>\<open>futures::sync::mpsc\<close> documents, a channel holds its buffer size and
  one message for each sender; every response is sent by a fresh clone of the sender, so it never
  waits.
\<close>

section \<open>The three futures\<close>

definition CHANNEL_CAPACITY :: nat where
  "CHANNEL_CAPACITY = 1"

datatype fut_status = Pending | Done | Failed

record 'st duplex =
  net_in :: "(string, unit) result list"
  net_eof :: bool
  req_stream :: "string list"
  resp_stream :: "string list"
  net_out :: "string list"
  dispatcher :: 'st

text \<open>\<^verbatim>\<open>net_stream.forward(req_sink)\<close>: until the socket has nothing more or the channel is
  full.\<close>

fun fwd_req_fut ::
  "(string, unit) result list \<Rightarrow> bool \<Rightarrow> string list \<Rightarrow> fut_status \<times> (string, unit) result list \<times> string list" where
  "fwd_req_fut [] eof reqs = (if eof then Done else Pending, [], reqs)"
| "fwd_req_fut (Inl _ # lines) eof reqs = (Failed, lines, reqs)"
| "fwd_req_fut (Inr line # lines) eof reqs =
     (if length reqs \<le> CHANNEL_CAPACITY then fwd_req_fut lines eof (reqs @ [line]) else (Pending, Inr line # lines, reqs))"

fun serve_client_requests ::
  "(string \<Rightarrow> 'st \<Rightarrow> (string option, unit) result \<times> 'st) \<Rightarrow> string list \<Rightarrow> string list \<Rightarrow> 'st
     \<Rightarrow> fut_status \<times> string list \<times> string list \<times> 'st" where
  "serve_client_requests handle [] resps st = (Pending, [], resps, st)"
| "serve_client_requests handle (line # lines) resps st =
     (case handle line st of
        (Inl _, st) \<Rightarrow> (Failed, lines, resps, st)
      | (Inr resp_opt, st) \<Rightarrow>
          (case resp_opt of
             None \<Rightarrow> serve_client_requests handle lines resps st
           | Some response \<Rightarrow> serve_client_requests handle lines (resps @ [response]) st))"

text \<open>\<^verbatim>\<open>resp_stream.forward(net_sink)\<close>: \<open>accepts\<close> responses fit into the socket, or writing
  fails.\<close>

definition fwd_resp_fut :: "(nat, unit) result \<Rightarrow> string list \<Rightarrow> string list \<Rightarrow> fut_status \<times> string list \<times> string list" where
  "fwd_resp_fut accepts resps out =
     (case accepts of
        Inl _ \<Rightarrow> (Failed, resps, out)
      | Inr n \<Rightarrow> (Pending, drop n resps, out @ take n resps))"

text \<open>One poll of the future \<^verbatim>\<open>serve_duplex_stream\<close> returns: the futures in the order in which
  \<^verbatim>\<open>select\<close> polls them, up to the first that is over.\<close>

definition serve_duplex_stream ::
  "(string \<Rightarrow> 'st \<Rightarrow> (string option, unit) result \<times> 'st) \<Rightarrow> (nat, unit) result \<Rightarrow> 'st duplex \<Rightarrow> fut_status \<times> 'st duplex" where
  "serve_duplex_stream handle accepts s =
     (case serve_client_requests handle (req_stream s) (resp_stream s) (dispatcher s) of (served, reqs, resps, st) \<Rightarrow>
        let s = s\<lparr>req_stream := reqs, resp_stream := resps, dispatcher := st\<rparr> in
        if served \<noteq> Pending then (served, s)
        else (case fwd_req_fut (net_in s) (net_eof s) (req_stream s) of (readd, lines, reqs) \<Rightarrow>
          let s = s\<lparr>net_in := lines, req_stream := reqs\<rparr> in
          if readd \<noteq> Pending then (readd, s)
          else (case fwd_resp_fut accepts (resp_stream s) (net_out s) of (written, resps, out) \<Rightarrow>
            (written, s\<lparr>resp_stream := resps, net_out := out\<rparr>))))"

section \<open>Runs\<close>

definition duplex_init :: "'st \<Rightarrow> 'st duplex" where
  "duplex_init st = \<lparr>net_in = [], net_eof = False, req_stream = [], resp_stream = [], net_out = [], dispatcher = st\<rparr>"

text \<open>\<open>duplex_run handle st ins s\<close>: the socket has received \<open>ins\<close> so far and the future is not over.\<close>

inductive duplex_run ::
  "(string \<Rightarrow> 'st \<Rightarrow> (string option, unit) result \<times> 'st) \<Rightarrow> 'st \<Rightarrow> (string, unit) result list \<Rightarrow> 'st duplex \<Rightarrow> bool"
  for handle st where
  start: "duplex_run handle st [] (duplex_init st)"
| arrive: "duplex_run handle st ins s \<Longrightarrow> \<not> net_eof s
    \<Longrightarrow> duplex_run handle st (ins @ lines) (s\<lparr>net_in := net_in s @ lines, net_eof := eof\<rparr>)"
| poll: "duplex_run handle st ins s \<Longrightarrow> serve_duplex_stream handle accepts s = (Pending, s')
    \<Longrightarrow> duplex_run handle st ins s'"

text \<open>The reference: requests handled one after the other.\<close>

fun respond :: "(string \<Rightarrow> 'st \<Rightarrow> (string option, unit) result \<times> 'st) \<Rightarrow> string list \<Rightarrow> 'st \<Rightarrow> (string list \<times> 'st) option" where
  "respond handle [] st = Some ([], st)"
| "respond handle (line # lines) st =
     (case handle line st of
        (Inl _, st) \<Rightarrow> None
      | (Inr resp_opt, st) \<Rightarrow> map_option (apfst (append (case resp_opt of None \<Rightarrow> [] | Some r \<Rightarrow> [r]))) (respond handle lines st))"

lemma respond_append:
  "respond handle (xs @ ys) st = Option.bind (respond handle xs st) (\<lambda>(rs, st). map_option (apfst (append rs)) (respond handle ys st))"
proof (induction xs arbitrary: st)
  case Nil
  show ?case by (cases "respond handle ys st") auto
next
  case (Cons x xs)
  then show ?case
    by (cases "handle x st"; cases "fst (handle x st)")
      (auto split: option.splits bind_splits simp: option.map_comp comp_def apfst_def map_prod_def intro!: map_option_cong)
qed

lemma fwd_req_fut_moves:
  assumes "fwd_req_fut lines eof reqs = (status, lines', reqs')" and "status \<noteq> Failed"
  shows "map Inr reqs' @ lines' = map Inr reqs @ lines"
  using assms by (induction lines eof reqs rule: fwd_req_fut.induct) (auto split: if_splits)

lemma fwd_req_fut_bound:
  assumes "fwd_req_fut lines eof reqs = (status, lines', reqs')" and "length reqs \<le> CHANNEL_CAPACITY + 1"
  shows "length reqs' \<le> CHANNEL_CAPACITY + 1"
  using assms by (induction lines eof reqs rule: fwd_req_fut.induct) (auto split: if_splits)

lemma serve_pending:
  assumes "serve_client_requests handle lines resps st = (Pending, lines', resps', st')"
  shows "lines' = [] \<and> (\<exists>rs. respond handle lines st = Some (rs, st') \<and> resps' = resps @ rs)"
  using assms
proof (induction handle lines resps st rule: serve_client_requests.induct)
  case (2 handle line lines resps st)
  then show ?case by (fastforce split: prod.splits sum.splits option.splits simp: apfst_def)
qed simp

text \<open>A poll that leaves the connection open: all waiting requests are handled, then others are read.\<close>

lemma duplex_poll:
  assumes "serve_duplex_stream handle accepts s = (Pending, s')"
  shows "\<exists>rs. respond handle (req_stream s) (dispatcher s) = Some (rs, dispatcher s')
    \<and> net_out s' @ resp_stream s' = net_out s @ resp_stream s @ rs
    \<and> map Inr (req_stream s') @ net_in s' = net_in s \<and> length (req_stream s') \<le> CHANNEL_CAPACITY + 1"
proof -
  obtain rs where 1: "respond handle (req_stream s) (dispatcher s) = Some (rs, dispatcher s')"
    and 2: "fwd_req_fut (net_in s) (net_eof s) [] = (Pending, net_in s', req_stream s')"
    and 3: "net_out s' @ resp_stream s' = net_out s @ resp_stream s @ rs"
    using assms serve_pending [of handle "req_stream s" "resp_stream s" "dispatcher s"]
    by (auto simp: serve_duplex_stream_def fwd_resp_fut_def Let_def split: prod.splits if_splits sum.splits simp del: take_append drop_append)
  with fwd_req_fut_moves [OF 2] fwd_req_fut_bound [OF 2] show ?thesis by auto
qed

lemma duplex_inv:
  assumes "duplex_run handle st ins s"
  shows "length (req_stream s) \<le> CHANNEL_CAPACITY + 1
    \<and> (\<exists>served. map Inr (served @ req_stream s) @ net_in s = ins
        \<and> respond handle served st = Some (net_out s @ resp_stream s, dispatcher s))"
  using assms
proof (induction rule: duplex_run.induct)
  case start
  show ?case by (simp add: duplex_init_def)
next
  case (arrive ins s lines eof)
  then show ?case by auto
next
  case (poll ins s accepts s')
  obtain served where IH: "map Inr (served @ req_stream s) @ net_in s = ins"
    "respond handle served st = Some (net_out s @ resp_stream s, dispatcher s)" using poll.IH by blast
  obtain rs where 2: "respond handle (req_stream s) (dispatcher s) = Some (rs, dispatcher s')"
    and 3: "map Inr (req_stream s') @ net_in s' = net_in s" "length (req_stream s') \<le> CHANNEL_CAPACITY + 1"
    and 4: "net_out s' @ resp_stream s' = net_out s @ resp_stream s @ rs"
    using duplex_poll [OF poll.hyps(2)] by blast
  have "respond handle (served @ req_stream s) st = Some (net_out s' @ resp_stream s', dispatcher s')"
    by (simp add: respond_append IH(2) 2 4)
  moreover have "map Inr ((served @ req_stream s) @ req_stream s') @ net_in s' = ins"
    using 3(1) IH(1) by simp
  ultimately show ?case using 3(2) by blast
qed

text \<open>Requests are handled one after the other in the order in which they arrive, and
  what has been written to the socket followed by what is queued for it are exactly the responses of
  the requests handled so far, in that order; nothing that arrived is lost or duplicated while the
  connection is served, and never more than two requests wait in the channel.\<close>

lemma requests_in_order:
  assumes "duplex_run handle st ins s"
  shows "length (req_stream s) \<le> 2
    \<and> (\<exists>served. map Inr (served @ req_stream s) @ net_in s = ins
        \<and> respond handle served st = Some (net_out s @ resp_stream s, dispatcher s))"
  using duplex_inv [OF assms] by (simp add: CHANNEL_CAPACITY_def numeral_2_eq_2)

section \<open>A client that does not read\<close>

lemma flood_step:
  assumes answers: "\<And>line st. \<exists>r st'. handle line st = (Inr (Some r), st')"
    and "duplex_run handle st ins s" and "net_out s = []" and "req_stream s = [l]" and "net_in s = []" and "\<not> net_eof s"
  shows "\<exists>ins' s'. duplex_run handle st ins' s' \<and> net_out s' = [] \<and> req_stream s' = [l] \<and> net_in s' = [] \<and> \<not> net_eof s'
    \<and> length (resp_stream s') = Suc (length (resp_stream s))"
proof -
  obtain r st' where h: "handle l (dispatcher s) = (Inr (Some r), st')" using answers by blast
  let ?s = "s\<lparr>net_in := net_in s @ [Inr l], net_eof := False\<rparr>"
  have run: "duplex_run handle st (ins @ [Inr l]) ?s" using assms(2,6) by (rule duplex_run.arrive)
  let ?s' = "?s\<lparr>req_stream := [l], resp_stream := resp_stream s @ [r], dispatcher := st', net_in := []\<rparr>"
  have "serve_duplex_stream handle (Inr 0) ?s = (Pending, ?s')"
    using h assms(3-5) by (simp add: serve_duplex_stream_def fwd_resp_fut_def)
  with run have "duplex_run handle st (ins @ [Inr l]) ?s'" by (rule duplex_run.poll)
  then show ?thesis using assms(3) by (intro exI [of _ "ins @ [Inr l]"] exI [of _ ?s']) simp
qed

text \<open>Reading requests does not wait for the client to read responses.  When
  every request has a response, a client that never reads makes the queue of responses grow beyond
  every bound: the capacity of the response channel does not limit it.\<close>

lemma responses_unbounded:
  assumes "\<And>line st. \<exists>r st'. handle line st = (Inr (Some r), st')"
  shows "\<exists>ins s. duplex_run handle st ins s \<and> net_out s = [] \<and> length (resp_stream s) = n"
proof -
  let ?l = "[] :: string"
  have "\<exists>ins s. duplex_run handle st ins s \<and> net_out s = [] \<and> req_stream s = [?l] \<and> net_in s = [] \<and> \<not> net_eof s
      \<and> length (resp_stream s) = n"
  proof (induction n)
    case 0
    let ?s = "(duplex_init st)\<lparr>net_in := net_in (duplex_init st) @ [Inr ?l], net_eof := False\<rparr>"
    have "duplex_run handle st ([] @ [Inr ?l]) ?s"
      by (rule duplex_run.arrive [OF duplex_run.start]) (simp add: duplex_init_def)
    moreover have "serve_duplex_stream handle (Inr 0) ?s = (Pending, ?s\<lparr>net_in := [], req_stream := [?l]\<rparr>)"
      by (simp add: serve_duplex_stream_def fwd_resp_fut_def duplex_init_def)
    ultimately have "duplex_run handle st ([] @ [Inr ?l]) (?s\<lparr>net_in := [], req_stream := [?l]\<rparr>)" by (rule duplex_run.poll)
    then show ?case by (intro exI [of _ "[] @ [Inr ?l]"] exI [of _ "?s\<lparr>net_in := [], req_stream := [?l]\<rparr>"]) (simp add: duplex_init_def)
  next
    case (Suc n)
    then obtain ins s where "duplex_run handle st ins s" "net_out s = []" "req_stream s = [?l]" "net_in s = []" "\<not> net_eof s"
      "length (resp_stream s) = n" by blast
    with flood_step [of handle st ins s ?l, OF assms] show ?case by auto
  qed
  then show ?thesis by blast
qed

text \<open>A client that sends its requests and closes its sending side at once is not served.  When
  the end of the input is found while requests wait, the connection is over: no request is handled
  and nothing is written.\<close>

lemma half_close_unserved:
  assumes "length lines \<le> 2"
  shows "serve_duplex_stream handle accepts ((duplex_init st)\<lparr>net_in := map Inr lines, net_eof := True\<rparr>)
    = (Done, (duplex_init st)\<lparr>net_eof := True, req_stream := lines\<rparr>)"
proof -
  consider "lines = []" | a where "lines = [a]" | a b where "lines = [a, b]"
    using assms by (cases lines; cases "tl lines"; cases "tl (tl lines)") auto
  then show ?thesis
    by cases (simp_all add: serve_duplex_stream_def duplex_init_def CHANNEL_CAPACITY_def)
qed

end
