(* ===== verification/Json_Rpc_Properties.thy ===== *)
theory Json_Rpc_Properties
  imports Json_Rpc Client_Properties
begin

text \<open>
  The JSON-RPC service as a state machine.  \<open>rpc_step\<close> is a connection that comes or goes, a
  request, a poll of a subscription, or anything else the service does.  Whether a subscription is
  live depends on who holds which end of the oneshot channels only, so the invariant is stated on
  that part of the state.
\<close>

section \<open>Steps\<close>

inductive rpc_step ::
  "('p, 'r, 'h, 's, 'c, 'w, 'i) RpcEnv \<Rightarrow> ('p, 'r, 's, 'c, 'w) RpcServer \<Rightarrow> ('p, 'r, 's, 'c, 'w) RpcServer \<Rightarrow> bool"
  for renv where
  connected: "Session_new tr st = (k, st') \<Longrightarrow> rpc_step renv st st'"
| disconnected: "rpc_step renv st (Session_drop k st)"
| get_session: "get_session renv params k st = Return (r, st') \<Longrightarrow> rpc_step renv st st'"
| subscribe: "subscribe_events assigned k st = (r, st') \<Longrightarrow> rpc_step renv st st'"
| unsubscribe: "unsubscribe_events k st = (r, st') \<Longrightarrow> rpc_step renv st st'"
| poll: "rpc_poll renv ready i st = Return st' \<Longrightarrow> rpc_step renv st st'"
| peer_gone: "rpc_step renv st (set_data k (\<lambda>sd. sd\<lparr>pubsub_session := (pubsub_session sd)\<lparr>peer_gone := True\<rparr>\<rparr>) st)"
| service: "rpc_step renv st (st\<lparr>svc := sv\<rparr>)"

definition rpc_init :: "('p, 'r, 's, 'c, 'w) Service \<Rightarrow> ('p, 'r, 's, 'c, 'w) RpcServer" where
  "rpc_init sv = \<lparr>svc = sv, rpc_sessions = Map.empty, oneshots = Map.empty, subscriptions = [], rpc_next = 0\<rparr>"

inductive rpc_reachable :: "('p, 'r, 'h, 's, 'c, 'w, 'i) RpcEnv \<Rightarrow> ('p, 'r, 's, 'c, 'w) RpcServer \<Rightarrow> bool" for renv where
  init: "rpc_reachable renv (rpc_init sv)"
| step: "rpc_reachable renv st \<Longrightarrow> rpc_step renv st st' \<Longrightarrow> rpc_reachable renv st'"

section \<open>Who holds what\<close>

definition held :: "('p, 'r, 's, 'c, 'w) RpcServer \<Rightarrow> nat \<Rightarrow> nat option" where
  "held st k = Option.bind (rpc_sessions st k) cancel_events"

definition subs :: "('p, 'r, 's, 'c, 'w) RpcServer \<Rightarrow> (nat \<times> nat) list" where
  "subs st = map (\<lambda>s. (sub_conn s, sub_cancel s)) (subscriptions st)"

definition ends_ok :: "(nat \<Rightarrow> nat option) \<Rightarrow> (nat \<rightharpoonup> oneshot) \<Rightarrow> (nat \<times> nat) list \<Rightarrow> nat \<Rightarrow> bool" where
  "ends_ok hold chans ss n \<longleftrightarrow> distinct (map snd ss)
     \<and> (\<forall>k tx. (k, tx) \<in> set ss \<longrightarrow> tx < n \<and> chans tx \<in> {Some Sent, Some TxDropped, Some Waiting} \<and> (chans tx = Some Waiting \<longrightarrow> hold k = Some tx))
     \<and> (\<forall>k tx. hold k = Some tx \<longrightarrow> tx < n \<and> k < n \<and> (chans tx = Some RxDropped \<or> chans tx = Some Waiting \<and> (k, tx) \<in> set ss))"

definition rpc_inv :: "('p, 'r, 's, 'c, 'w) RpcServer \<Rightarrow> bool" where
  "rpc_inv st \<longleftrightarrow> ends_ok (held st) (oneshots st) (subs st) (rpc_next st) \<and> dom (rpc_sessions st) \<subseteq> {..<rpc_next st}"

lemma held_simps [simp]:
  "held (st\<lparr>svc := sv\<rparr>) = held st" "held (st\<lparr>oneshots := os\<rparr>) = held st"
  "held (st\<lparr>subscriptions := ss\<rparr>) = held st" "held (st\<lparr>rpc_next := n\<rparr>) = held st"
  by (simp_all add: held_def fun_eq_iff)

lemma subs_simps [simp]:
  "subs (st\<lparr>svc := sv\<rparr>) = subs st" "subs (st\<lparr>oneshots := os\<rparr>) = subs st"
  "subs (st\<lparr>rpc_sessions := rs\<rparr>) = subs st" "subs (st\<lparr>rpc_next := n\<rparr>) = subs st"
  "subs (st\<lparr>subscriptions := ss\<rparr>) = map (\<lambda>s. (sub_conn s, sub_cancel s)) ss"
  by (simp_all add: subs_def)

lemma set_data_simps [simp]:
  "svc (set_data k f st) = svc st" "oneshots (set_data k f st) = oneshots st"
  "subscriptions (set_data k f st) = subscriptions st" "rpc_next (set_data k f st) = rpc_next st"
  "subs (set_data k f st) = subs st" "dom (rpc_sessions (set_data k f st)) = dom (rpc_sessions st)"
  "rpc_sessions (set_data k f st) k' = (if k' = k then map_option f (rpc_sessions st k) else rpc_sessions st k')"
  by (auto simp: set_data_def)

lemma held_set_data:
  "(\<And>sd. cancel_events (f sd) = cancel_events sd) \<Longrightarrow> held (set_data k f st) = held st"
  by (auto simp: held_def fun_eq_iff split: option.splits bind_splits)

lemma held_set_cancel:
  "held (set_data k (\<lambda>sd. sd\<lparr>cancel_events := x\<rparr>) st) = (if rpc_sessions st k = None then held st else (held st)(k := x))"
  by (auto simp: held_def fun_eq_iff)

lemma rpc_inv_keep:
  assumes "rpc_inv st" and "held st' = held st" and "oneshots st' = oneshots st" and "subs st' = subs st"
    and "rpc_next st' = rpc_next st" and "dom (rpc_sessions st') = dom (rpc_sessions st)"
  shows "rpc_inv st'"
  using assms by (simp add: rpc_inv_def)

section \<open>Every step keeps the invariant\<close>

lemma distinct_map_snd_unique: "distinct (map snd ss) \<Longrightarrow> (k, x) \<in> set ss \<Longrightarrow> (k', x) \<in> set ss \<Longrightarrow> k' = k"
  by (induction ss) (auto simp: image_iff)

lemma ends_okD:
  assumes "ends_ok hold chans ss n"
  shows "distinct (map snd ss)" and "(k, tx) \<in> set ss \<Longrightarrow> tx < n"
    and "(k, tx) \<in> set ss \<Longrightarrow> chans tx = Some Sent \<or> chans tx = Some TxDropped \<or> chans tx = Some Waiting"
    and "(k, tx) \<in> set ss \<Longrightarrow> chans tx = Some Waiting \<Longrightarrow> hold k = Some tx"
    and "hold k = Some tx \<Longrightarrow> tx < n" and "hold k = Some tx \<Longrightarrow> k < n"
    and "hold k = Some tx \<Longrightarrow> chans tx = Some RxDropped \<or> chans tx = Some Waiting \<and> (k, tx) \<in> set ss"
  using assms unfolding ends_ok_def by blast+

lemma ends_okI:
  assumes "distinct (map snd ss)"
    and "\<And>k tx. (k, tx) \<in> set ss \<Longrightarrow> tx < n \<and> (chans tx = Some Sent \<or> chans tx = Some TxDropped \<or> chans tx = Some Waiting \<and> hold k = Some tx)"
    and "\<And>k tx. hold k = Some tx \<Longrightarrow> tx < n \<and> k < n \<and> (chans tx = Some RxDropped \<or> chans tx = Some Waiting \<and> (k, tx) \<in> set ss)"
  shows "ends_ok hold chans ss n"
  using assms unfolding ends_ok_def by fastforce

lemma ends_ok_unique: "ends_ok hold chans ss n \<Longrightarrow> (k, tx) \<in> set ss \<Longrightarrow> (k', tx) \<in> set ss \<Longrightarrow> k' = k"
  using distinct_map_snd_unique ends_okD(1) by fastforce

lemma ends_ok_release:
  assumes "ends_ok hold chans ss n" and "\<And>tx. hold k = Some tx \<Longrightarrow> chans tx \<noteq> Some Waiting"
  shows "ends_ok (hold(k := None)) chans ss n"
proof (rule ends_okI)
  note D = ends_okD [OF assms(1)]
  show "distinct (map snd ss)" by (rule D(1))
  show "tx < n \<and> (chans tx = Some Sent \<or> chans tx = Some TxDropped \<or> chans tx = Some Waiting \<and> (hold(k := None)) k' = Some tx)"
    if "(k', tx) \<in> set ss" for k' tx
    using D(2-4) [OF that] assms(2) by (cases "k' = k") auto
  show "tx < n \<and> k' < n \<and> (chans tx = Some RxDropped \<or> chans tx = Some Waiting \<and> (k', tx) \<in> set ss)"
    if "(hold(k := None)) k' = Some tx" for k' tx
    using that D(5-7) [of k' tx] by (auto split: if_splits)
qed

text \<open>A sender that is used or dropped moves its channel on; its receiver, if any, is of the same
  connection.\<close>

lemma ends_ok_move:
  assumes "ends_ok hold chans ss n" and "hold k = Some tx" and "x \<in> {Sent, TxDropped}"
  shows "ends_ok (hold(k := None)) (chans(tx \<mapsto> x)) ss n \<or> chans tx = Some RxDropped"
proof (cases "chans tx = Some RxDropped")
  case False
  note D = ends_okD [OF assms(1)]
  have mine: "(k, tx) \<in> set ss" using D(7) [OF assms(2)] False by blast
  have "ends_ok (hold(k := None)) (chans(tx \<mapsto> x)) ss n"
  proof (rule ends_okI)
    show "distinct (map snd ss)" by (rule D(1))
    show "t < n \<and> ((chans(tx \<mapsto> x)) t = Some Sent \<or> (chans(tx \<mapsto> x)) t = Some TxDropped
        \<or> (chans(tx \<mapsto> x)) t = Some Waiting \<and> (hold(k := None)) k' = Some t)" if "(k', t) \<in> set ss" for k' t
      using D(2-4) [OF that] assms(2,3) by (cases "t = tx"; cases "k' = k") auto
    show "t < n \<and> k' < n \<and> ((chans(tx \<mapsto> x)) t = Some RxDropped \<or> (chans(tx \<mapsto> x)) t = Some Waiting \<and> (k', t) \<in> set ss)"
      if "(hold(k := None)) k' = Some t" for k' t
    proof -
      from that have h: "hold k' = Some t" "k' \<noteq> k" by (auto split: if_splits)
      have "t \<noteq> tx" using D(7) [OF h(1)] ends_ok_unique [OF assms(1) mine] False h(2) by blast
      then show ?thesis using D(5-7) [OF h(1)] by simp
    qed
  qed
  then show ?thesis ..
qed simp

lemma ends_ok_drop_sender:
  assumes "ends_ok hold chans ss n"
  shows "ends_ok (hold(k := None)) (drop_sender (hold k) chans) ss n"
proof (cases "hold k")
  case None
  with assms show ?thesis by (simp add: drop_sender_def fun_upd_idem)
next
  case (Some tx)
  show ?thesis
  proof (cases "chans tx = Some Waiting")
    case True
    with ends_ok_move [OF assms Some, of TxDropped] Some show ?thesis by (simp add: drop_sender_def)
  next
    case False
    have "ends_ok (hold(k := None)) chans ss n" using assms by (rule ends_ok_release) (simp add: Some False)
    with Some False show ?thesis by (simp add: drop_sender_def)
  qed
qed

lemma ends_ok_new:
  assumes "ends_ok hold chans ss n" and "hold k = None" and "k < n"
  shows "ends_ok (hold(k \<mapsto> n)) (chans(n \<mapsto> Waiting)) (ss @ [(k, n)]) (n + 1)"
proof (rule ends_okI)
  note D = ends_okD [OF assms(1)]
  have fresh: "(k', n) \<notin> set ss" for k' using D(2) by blast
  then show "distinct (map snd (ss @ [(k, n)]))" using D(1) by (auto simp: image_iff)
  show "tx < n + 1 \<and> ((chans(n \<mapsto> Waiting)) tx = Some Sent \<or> (chans(n \<mapsto> Waiting)) tx = Some TxDropped
      \<or> (chans(n \<mapsto> Waiting)) tx = Some Waiting \<and> (hold(k \<mapsto> n)) k' = Some tx)" if "(k', tx) \<in> set (ss @ [(k, n)])" for k' tx
    using that D(2-4) [of k' tx] fresh assms(2) by (cases "tx = n"; cases "k' = k") auto
  show "tx < n + 1 \<and> k' < n + 1 \<and> ((chans(n \<mapsto> Waiting)) tx = Some RxDropped
      \<or> (chans(n \<mapsto> Waiting)) tx = Some Waiting \<and> (k', tx) \<in> set (ss @ [(k, n)]))" if "(hold(k \<mapsto> n)) k' = Some tx" for k' tx
    using that D(5-7) [of k' tx] assms(3) by (cases "k' = k") auto
qed

lemma ends_ok_end:
  assumes "ends_ok hold chans (xs @ (k, tx) # ys) n"
  shows "ends_ok hold (chans(tx \<mapsto> RxDropped)) (xs @ ys) n"
proof (rule ends_okI)
  note D = ends_okD [OF assms]
  show "distinct (map snd (xs @ ys))" using D(1) by auto
  have other: "t \<noteq> tx" if "(k', t) \<in> set (xs @ ys)" for k' t using D(1) that by force
  show "t < n \<and> ((chans(tx \<mapsto> RxDropped)) t = Some Sent \<or> (chans(tx \<mapsto> RxDropped)) t = Some TxDropped
      \<or> (chans(tx \<mapsto> RxDropped)) t = Some Waiting \<and> hold k' = Some t)" if "(k', t) \<in> set (xs @ ys)" for k' t
    using D(2-4) [of k' t] that other [OF that] by auto
  show "t < n \<and> k' < n \<and> ((chans(tx \<mapsto> RxDropped)) t = Some RxDropped
      \<or> (chans(tx \<mapsto> RxDropped)) t = Some Waiting \<and> (k', t) \<in> set (xs @ ys))" if "hold k' = Some t" for k' t
    using D(5-7) [OF that] by auto
qed

lemma held_dom: "rpc_sessions st k = None \<Longrightarrow> held st k = None"
  by (simp add: held_def)

lemma inv_connected:
  assumes "rpc_inv st" and "Session_new tr st = (k, st')"
  shows "rpc_inv st'"
proof -
  have st': "st' = st\<lparr>rpc_sessions := (rpc_sessions st)(rpc_next st \<mapsto> SessionData_new tr), rpc_next := rpc_next st + 1\<rparr>"
    using assms(2) by (auto simp: Session_new_def)
  have "held st (rpc_next st) = None" using assms(1) by (intro held_dom) (auto simp: rpc_inv_def)
  then have "held st' = held st" by (auto simp: st' held_def SessionData_new_def fun_eq_iff)
  with assms(1) show ?thesis unfolding rpc_inv_def ends_ok_def by (auto simp: st' less_Suc_eq)
qed

lemma inv_disconnected: "rpc_inv st \<Longrightarrow> rpc_inv (Session_drop k st)"
proof -
  assume inv: "rpc_inv st"
  have "held (Session_drop k st) = (held st)(k := None)" by (auto simp: Session_drop_def held_def fun_eq_iff)
  with ends_ok_drop_sender [of "held st" "oneshots st" "subs st" "rpc_next st" k] inv
  show ?thesis unfolding rpc_inv_def by (auto simp: Session_drop_def held_def [symmetric])
qed

lemma inv_set_data:
  "rpc_inv st \<Longrightarrow> (\<And>sd. cancel_events (f sd) = cancel_events sd) \<Longrightarrow> rpc_inv (set_data k f st)"
  by (erule rpc_inv_keep) (simp_all add: held_set_data)

lemma inv_svc: "rpc_inv st \<Longrightarrow> rpc_inv (st\<lparr>svc := sv\<rparr>)"
  by (erule rpc_inv_keep) simp_all

lemma inv_get_session:
  assumes "rpc_inv st" and "get_session renv params k st = Return (r, st')"
  shows "rpc_inv st'"
proof -
  have "st' = st \<or> (\<exists>sv. st' = st\<lparr>svc := sv\<rparr>) \<or> (\<exists>sv d. st' = set_dapp_session k d (st\<lparr>svc := sv\<rparr>))"
    using assms(2) unfolding get_session_def by (auto split: Params.splits sum.splits prod.splits)
  then show ?thesis
    using assms(1) by (auto simp: set_dapp_session_def intro!: inv_set_data inv_svc)
qed

lemma subscribed:
  assumes "subscribe_events (Inr ()) k st = (i, st')" and "Session_dapp_session k st = Some d"
  shows "held st' = (held st)(k \<mapsto> rpc_next st)" "rpc_next st' = rpc_next st + 1" "dom (rpc_sessions st') = dom (rpc_sessions st)"
    "oneshots st' = drop_sender (held st k) ((oneshots st)(rpc_next st \<mapsto> Waiting))"
    "subscriptions st' = subscriptions st @ [\<lparr>sub_conn = k, sub_cancel = rpc_next st, sub_fut = CheckingIn d\<rparr>]"
    "k \<in> dom (rpc_sessions st)"
proof -
  have k: "k \<in> dom (rpc_sessions st)" using assms(2) by (auto simp: Session_dapp_session_def bind_eq_Some_conv)
  then show "held st' = (held st)(k \<mapsto> rpc_next st)" "rpc_next st' = rpc_next st + 1" "dom (rpc_sessions st') = dom (rpc_sessions st)"
    "oneshots st' = drop_sender (held st k) ((oneshots st)(rpc_next st \<mapsto> Waiting))"
    "subscriptions st' = subscriptions st @ [\<lparr>sub_conn = k, sub_cancel = rpc_next st, sub_fut = CheckingIn d\<rparr>]"
    "k \<in> dom (rpc_sessions st)"
    using assms by (auto simp: subscribe_events_def set_cancel_events_def Let_def held_set_cancel held_def split: if_splits)
qed

lemma not_subscribed:
  "subscribe_events assigned k st = (i, st') \<Longrightarrow> Session_dapp_session k st = None \<or> is_err assigned \<Longrightarrow> st' = st"
  by (cases assigned) (auto simp: subscribe_events_def)

lemma drop_sender_fresh:
  "tx \<noteq> Some n \<Longrightarrow> drop_sender tx (chans(n \<mapsto> x)) = (drop_sender tx chans)(n \<mapsto> x)"
  by (auto simp: drop_sender_def fun_eq_iff split: option.splits)

lemma inv_subscribe:
  assumes "rpc_inv st" and "subscribe_events assigned k st = (i, st')"
  shows "rpc_inv st'"
proof (cases "Session_dapp_session k st = None \<or> is_err assigned")
  case True
  with assms show ?thesis using not_subscribed by blast
next
  case False
  then obtain d where d: "Session_dapp_session k st = Some d" and ok: "assigned = Inr ()" by (auto simp: is_ok_iff)
  note s = subscribed [OF assms(2) [unfolded ok] d]
  have inv: "ends_ok (held st) (oneshots st) (subs st) (rpc_next st)" "dom (rpc_sessions st) \<subseteq> {..<rpc_next st}"
    using assms(1) by (simp_all add: rpc_inv_def)
  have "ends_ok ((held st)(k := None, k \<mapsto> rpc_next st)) ((drop_sender (held st k) (oneshots st))(rpc_next st \<mapsto> Waiting))
      (subs st @ [(k, rpc_next st)]) (rpc_next st + 1)"
    using ends_ok_drop_sender [OF inv(1)] by (rule ends_ok_new) (use s(6) inv(2) in auto)
  moreover have "held st k \<noteq> Some (rpc_next st)" using ends_okD(5) [OF inv(1)] by blast
  moreover have "subs st' = subs st @ [(k, rpc_next st)]" by (simp add: subs_def s(5))
  ultimately show ?thesis using s inv(2) by (auto simp: rpc_inv_def drop_sender_fresh)
qed

lemma unsubscribe_cases:
  assumes "unsubscribe_events k st = (r, st')"
  obtains (none) "held st k = None" "r = Inl InternalError" "st' = set_data k (\<lambda>sd. sd\<lparr>cancel_events := None\<rparr>) st"
  | (over) tx where "held st k = Some tx" "oneshots st tx = Some RxDropped" "r = Inl InternalError"
      "st' = set_data k (\<lambda>sd. sd\<lparr>cancel_events := None\<rparr>) st"
  | (cancelled) tx where "held st k = Some tx" "oneshots st tx \<noteq> Some RxDropped" "r = Inr (VBool True)"
      "st' = (set_data k (\<lambda>sd. sd\<lparr>cancel_events := None\<rparr>) st)\<lparr>oneshots := (oneshots st)(tx \<mapsto> Sent)\<rparr>"
  using assms by (auto simp: unsubscribe_events_def take_cancel_events_def held_def [symmetric] split: option.splits if_splits)

lemma held_released: "held (set_data k (\<lambda>sd. sd\<lparr>cancel_events := None\<rparr>) st) = (held st)(k := None)"
  by (auto simp: held_set_cancel held_dom fun_upd_idem)

lemma inv_unsubscribe:
  assumes "rpc_inv st" and "unsubscribe_events k st = (r, st')"
  shows "rpc_inv st'"
  using assms(2)
proof (cases rule: unsubscribe_cases)
  case (cancelled tx)
  with ends_ok_move [of "held st" "oneshots st" "subs st" "rpc_next st" k tx Sent] assms(1) show ?thesis
    by (simp add: rpc_inv_def held_released)
qed (use assms(1) in \<open>auto simp: rpc_inv_def held_released intro!: ends_ok_release\<close>)

lemma subs_go_on: "i < length (subscriptions st) \<Longrightarrow> subs (go_on i fut c st) = subs st"
  by (simp add: go_on_def set_client_def subs_def map_update list_update_same_conv)

lemma inv_go_on: "rpc_inv st \<Longrightarrow> i < length (subscriptions st) \<Longrightarrow> rpc_inv (go_on i fut c st)"
  by (erule rpc_inv_keep) (simp_all add: subs_go_on, simp_all add: go_on_def set_client_def)

lemma inv_end_subscription:
  assumes "rpc_inv st" and "i < length (subscriptions st)"
  shows "rpc_inv (end_subscription i c st)"
proof -
  let ?sub = "subscriptions st ! i"
  have "subs st = map (\<lambda>s. (sub_conn s, sub_cancel s)) (take i (subscriptions st)) @ (sub_conn ?sub, sub_cancel ?sub)
      # map (\<lambda>s. (sub_conn s, sub_cancel s)) (drop (Suc i) (subscriptions st))"
    using id_take_nth_drop [OF assms(2)] by (simp add: subs_def) (metis (no_types, lifting) list.simps(9) map_append)
  with assms(1) show ?thesis
    unfolding rpc_inv_def end_subscription_def Let_def set_client_def by (auto intro: ends_ok_end)
qed

lemma inv_poll:
  assumes "rpc_inv st" and "rpc_poll renv ready i st = Return st'"
  shows "rpc_inv st'"
proof (cases "i < length (subscriptions st)")
  case True
  with assms(2) obtain x c where "st' = (case x of FwdOn fut \<Rightarrow> go_on i fut c st
      | FwdSend params fut \<Rightarrow> (case rpc_sessions st (sub_conn (subscriptions st ! i)) of None \<Rightarrow> end_subscription i c st
          | Some sd \<Rightarrow> if peer_gone (pubsub_session sd) then end_subscription i c st
              else go_on i fut c (set_data (sub_conn (subscriptions st ! i)) (\<lambda>sd. sd\<lparr>pubsub_session :=
                (pubsub_session sd)\<lparr>sent := sent (pubsub_session sd) @ [(subscription_id, params)]\<rparr>\<rparr>) st))
      | FwdWaits fut \<Rightarrow> if oneshots st (sub_cancel (subscriptions st ! i)) = Some Waiting then go_on i fut c st else end_subscription i c st
      | FwdOver \<Rightarrow> end_subscription i c st)"
    by (auto simp: rpc_poll_def Let_def)
  with assms(1) True show ?thesis
    by (auto split: fwd_poll.splits option.splits if_splits intro!: inv_go_on inv_end_subscription inv_set_data)
qed (use assms in \<open>simp add: rpc_poll_def\<close>)

lemma rpc_inv_step: "rpc_step renv st st' \<Longrightarrow> rpc_inv st \<Longrightarrow> rpc_inv st'"
  by (induction rule: rpc_step.induct)
    (auto intro: inv_connected inv_disconnected inv_get_session inv_subscribe inv_unsubscribe inv_poll inv_set_data inv_svc)

lemma rpc_inv_reachable: "rpc_reachable renv st \<Longrightarrow> rpc_inv st"
proof (induction rule: rpc_reachable.induct)
  case (init sv)
  show ?case by (simp add: rpc_inv_def rpc_init_def ends_ok_def held_def subs_def)
qed (rule rpc_inv_step)

section \<open>Live subscriptions\<close>

text \<open>The subscriptions of a connection that nobody has cancelled.\<close>

definition live :: "nat \<Rightarrow> ('p, 'r, 's, 'c, 'w) RpcServer \<Rightarrow> 'c subscription list" where
  "live k st = filter (\<lambda>s. sub_conn s = k \<and> oneshots st (sub_cancel s) = Some Waiting) (subscriptions st)"

lemma in_subs: "s \<in> set (subscriptions st) \<Longrightarrow> (sub_conn s, sub_cancel s) \<in> set (subs st)"
  by (auto simp: subs_def)

lemma live_cancel:
  assumes "rpc_inv st" and "s \<in> set (live k st)"
  shows "held st k = Some (sub_cancel s)" and "oneshots st (sub_cancel s) = Some Waiting"
proof -
  have s: "s \<in> set (subscriptions st)" "sub_conn s = k" "oneshots st (sub_cancel s) = Some Waiting"
    using assms(2) by (auto simp: live_def)
  then show "oneshots st (sub_cancel s) = Some Waiting" by simp
  have "ends_ok (held st) (oneshots st) (subs st) (rpc_next st)" using assms(1) by (simp add: rpc_inv_def)
  from ends_okD(4) [OF this in_subs [OF s(1)] s(3)] s(2) show "held st k = Some (sub_cancel s)" by simp
qed

lemma at_most_one_live:
  assumes "rpc_inv st"
  shows "length (live k st) \<le> 1"
proof (rule ccontr)
  assume "\<not> length (live k st) \<le> 1"
  then obtain a b ss where ab: "live k st = a # b # ss" by (cases "live k st"; cases "tl (live k st)") auto
  then have "sub_cancel a = sub_cancel b" using live_cancel(1) [OF assms, of _ k] by (metis list.set_intros option.inject)
  moreover have "distinct (map sub_cancel (live k st))"
    using assms by (auto simp: rpc_inv_def ends_ok_def subs_def live_def comp_def intro: distinct_map_filter)
  ultimately show False using ab by simp
qed

lemma live_iff_held:
  assumes "rpc_inv st"
  shows "live k st \<noteq> [] \<longleftrightarrow> (\<exists>tx. held st k = Some tx \<and> oneshots st tx \<noteq> Some RxDropped)"
proof
  assume "live k st \<noteq> []"
  then obtain s where "s \<in> set (live k st)" by (cases "live k st") auto
  then show "\<exists>tx. held st k = Some tx \<and> oneshots st tx \<noteq> Some RxDropped" using live_cancel [OF assms] by fastforce
next
  assume "\<exists>tx. held st k = Some tx \<and> oneshots st tx \<noteq> Some RxDropped"
  then obtain tx where "oneshots st tx = Some Waiting" "(k, tx) \<in> set (subs st)"
    using assms ends_okD(7) unfolding rpc_inv_def by blast
  then show "live k st \<noteq> []" by (auto simp: live_def subs_def filter_empty_conv)
qed

text \<open>A channel that moves on takes only the subscription of its connection with it.\<close>

lemma live_other:
  assumes "rpc_inv st" and "held st k = Some tx" and "k' \<noteq> k"
  shows "filter (\<lambda>s. sub_conn s = k' \<and> ((oneshots st)(tx \<mapsto> x)) (sub_cancel s) = Some Waiting) (subscriptions st) = live k' st"
  unfolding live_def
proof (rule filter_cong [OF refl])
  fix s assume s: "s \<in> set (subscriptions st)"
  have ok: "ends_ok (held st) (oneshots st) (subs st) (rpc_next st)" using assms(1) by (simp add: rpc_inv_def)
  have "sub_cancel s \<noteq> tx" if "sub_conn s = k'"
  proof
    assume "sub_cancel s = tx"
    with in_subs [OF s] that have mine: "(k', tx) \<in> set (subs st)" by simp
    with ends_okD(3) [OF ok mine] ends_okD(7) [OF ok assms(2)] have "(k, tx) \<in> set (subs st)" by auto
    from ends_ok_unique [OF ok this mine] assms(3) show False by simp
  qed
  then show "(sub_conn s = k' \<and> ((oneshots st)(tx \<mapsto> x)) (sub_cancel s) = Some Waiting)
      = (sub_conn s = k' \<and> oneshots st (sub_cancel s) = Some Waiting)" by auto
qed

lemma live_drop_sender:
  assumes "rpc_inv st" and "k' \<noteq> k"
  shows "filter (\<lambda>s. sub_conn s = k' \<and> (drop_sender (held st k) (oneshots st)) (sub_cancel s) = Some Waiting) (subscriptions st) = live k' st"
  using live_other [OF assms(1) _ assms(2)] by (cases "held st k") (simp_all add: drop_sender_def live_def)

lemma live_unsubscribe:
  assumes "rpc_inv st" and "unsubscribe_events k st = (r, st')"
  shows "is_ok r \<longleftrightarrow> live k st \<noteq> []" and "live k st' = []" and "k' \<noteq> k \<Longrightarrow> live k' st' = live k' st"
    and "held st' k = None"
proof -
  have inv': "rpc_inv st'" using assms by (rule inv_unsubscribe)
  show "is_ok r \<longleftrightarrow> live k st \<noteq> []"
    using assms(2) unfolding live_iff_held [OF assms(1)] by (cases rule: unsubscribe_cases) auto
  show h: "held st' k = None" using assms(2) by (cases rule: unsubscribe_cases) (simp_all add: held_released)
  then show "live k st' = []" using live_iff_held [OF inv', of k] by simp
  show "live k' st' = live k' st" if "k' \<noteq> k"
    using assms(2)
  proof (cases rule: unsubscribe_cases)
    case (cancelled tx)
    with live_other [OF assms(1) cancelled(1) that, of Sent] show ?thesis by (simp add: live_def)
  qed (simp_all add: live_def)
qed

lemma live_subscribe:
  assumes "rpc_inv st" and "subscribe_events (Inr ()) k st = (i, st')" and "Session_dapp_session k st = Some d"
  shows "live k st' = [\<lparr>sub_conn = k, sub_cancel = rpc_next st, sub_fut = CheckingIn d\<rparr>]"
    and "k' \<noteq> k \<Longrightarrow> live k' st' = live k' st"
proof -
  note s = subscribed [OF assms(2,3)]
  let ?new = "\<lparr>sub_conn = k, sub_cancel = rpc_next st, sub_fut = CheckingIn d\<rparr>"
  have inv': "rpc_inv st'" using assms(1,2) by (rule inv_subscribe)
  have ok: "ends_ok (held st) (oneshots st) (subs st) (rpc_next st)" using assms(1) by (simp add: rpc_inv_def)
  have chans: "oneshots st' = (drop_sender (held st k) (oneshots st))(rpc_next st \<mapsto> Waiting)"
    unfolding s(4) using ends_okD(5) [OF ok] by (intro drop_sender_fresh) blast
  then have "?new \<in> set (live k st')" by (simp add: live_def s(5))
  with at_most_one_live [OF inv', of k] show "live k st' = [?new]" by (cases "live k st'") (auto split: if_splits)
  have fresh: "sub_cancel s \<noteq> rpc_next st" if "s \<in> set (subscriptions st)" for s
    using ends_okD(2) [OF ok in_subs [OF that]] by simp
  assume k': "k' \<noteq> k"
  have "live k' st' = filter (\<lambda>s. sub_conn s = k' \<and> (drop_sender (held st k) (oneshots st)) (sub_cancel s) = Some Waiting) (subscriptions st)"
    using k' fresh by (simp add: live_def s(5) chans cong: filter_cong)
  also have "\<dots> = live k' st" using assms(1) k' by (rule live_drop_sender)
  finally show "live k' st' = live k' st" .
qed

text \<open>C39: in every reachable state of the JSON-RPC service a connection has at most one live
  subscription, however its requests, the polls of its futures and everything else interleave.
  Subscribing again cancels the earlier subscription and starts one for the present application
  session; without a session an id is assigned and nothing is subscribed.  Unsubscribing succeeds exactly when the connection has a live
  subscription, leaves it none, and fails when repeated; neither touches the subscriptions of other
  connections.\<close>

theorem one_live_subscription:
  assumes "rpc_reachable renv st"
  shows "length (live k st) \<le> 1
    \<and> (case subscribe_events (Inr ()) k st of (i, st') \<Rightarrow> i = Some subscription_id
        \<and> live k st' = (case Session_dapp_session k st of None \<Rightarrow> live k st
            | Some d \<Rightarrow> [\<lparr>sub_conn = k, sub_cancel = rpc_next st, sub_fut = CheckingIn d\<rparr>])
        \<and> (k' \<noteq> k \<longrightarrow> live k' st' = live k' st))
    \<and> (case unsubscribe_events k st of (r, st') \<Rightarrow> (is_ok r \<longleftrightarrow> live k st \<noteq> []) \<and> live k st' = []
        \<and> fst (unsubscribe_events k st') = Inl InternalError
        \<and> (k' \<noteq> k \<longrightarrow> live k' st' = live k' st))"
proof -
  have inv: "rpc_inv st" using assms by (rule rpc_inv_reachable)
  obtain i st1 where s: "subscribe_events (Inr ()) k st = (i, st1)" by fastforce
  then have i: "i = Some subscription_id" by (simp add: subscribe_events_def)
  have sub: "live k st1 = (case Session_dapp_session k st of None \<Rightarrow> live k st
            | Some d \<Rightarrow> [\<lparr>sub_conn = k, sub_cancel = rpc_next st, sub_fut = CheckingIn d\<rparr>])
        \<and> (k' \<noteq> k \<longrightarrow> live k' st1 = live k' st)"
    using not_subscribed [OF s] live_subscribe [OF inv s] by (cases "Session_dapp_session k st") auto
  obtain r st2 where u: "unsubscribe_events k st = (r, st2)" by fastforce
  note un = live_unsubscribe [OF inv u]
  have "fst (unsubscribe_events k st2) = Inl InternalError"
    using un(4) by (simp add: unsubscribe_events_def take_cancel_events_def held_def)
  with at_most_one_live [OF inv] i sub un s u show ?thesis by simp
qed

section \<open>Events on their way to an application\<close>

fun rpc_polls :: "('p, 'r, 'h, 's, 'c, 'w, 'i) RpcEnv \<Rightarrow> nat \<Rightarrow> nat \<Rightarrow> ('p, 'r, 's, 'c, 'w) RpcServer \<Rightarrow> ('p, 'r, 's, 'c, 'w) RpcServer run" where
  "rpc_polls renv 0 i st = Return st"
| "rpc_polls renv (Suc n) i st = run_bind (rpc_poll renv True i st) (rpc_polls renv n i)"

definition for_app :: "DAppSessionImpl \<Rightarrow> ProfileEvent \<Rightarrow> bool" where
  "for_app d event = (case event of PairingResponse proof \<Rightarrow> accessible_by proof (dapp_app_id d) | _ \<Rightarrow> False)"

abbreviation pairing_note :: "string \<times> Params" where
  "pairing_note \<equiv> (subscription_id, ParamsArray [VString ''Pairing response''])"

text \<open>Subscription \<open>i\<close> streams the events of listener \<open>l\<close>, of which \<open>events\<close> are still to come, to
  connection \<open>k\<close>, where \<open>out\<close> has been written.\<close>

definition streaming ::
  "nat \<Rightarrow> nat \<Rightarrow> nat \<Rightarrow> DAppSessionImpl \<Rightarrow> 'c \<Rightarrow> channel_id \<Rightarrow> ProfileEvent list \<Rightarrow> (string \<times> Params) list
     \<Rightarrow> ('p, 'r, 's, 'c, 'w) RpcServer \<Rightarrow> bool" where
  "streaming i k tx d calls l events out st \<longleftrightarrow> i < length (subscriptions st)
     \<and> (\<exists>flag. subscriptions st ! i = \<lparr>sub_conn = k, sub_cancel = tx, sub_fut = FwdEvents d calls l flag\<rparr>)
     \<and> (\<exists>sd. rpc_sessions st k = Some sd \<and> \<not> peer_gone (pubsub_session sd) \<and> sent (pubsub_session sd) = out)
     \<and> (\<exists>ch. listeners (client (svc st)) l = Some ch \<and> pending_events ch = events)"

definition no_calls :: "('p, 'r, 'h, 's, 'c, 'w, 'i) RpcEnv \<Rightarrow> 'c \<Rightarrow> ('p, 'r, 's, 'c, 'w) RpcServer \<Rightarrow> bool" where
  "no_calls renv calls st \<longleftrightarrow> next_call renv calls (remote (client (svc st))) = (NotReady, remote (client (svc st)))"

lemma checkin_event_for_app:
  "checkin_event d e = (if for_app d e then Some (DAppEvent_PairingResponse (relation_from d (case e of PairingResponse p \<Rightarrow> p))) else None)"
  by (cases e) (auto simp: checkin_event_def for_app_def)

lemma poll_streaming:
  assumes s: "streaming i k tx d calls l (e # events) out st" and nc: "no_calls renv calls st"
  obtains st' where "rpc_poll renv True i st = Return st'"
    and "streaming i k tx d calls l events (if for_app d e then out @ [pairing_note] else out) st'"
    and "no_calls renv calls st'" and "oneshots st' = oneshots st" and "length (subscriptions st') = length (subscriptions st)"
proof -
  obtain flag sd ch where i: "i < length (subscriptions st)"
    and sub: "subscriptions st ! i = \<lparr>sub_conn = k, sub_cancel = tx, sub_fut = FwdEvents d calls l flag\<rparr>"
    and sd: "rpc_sessions st k = Some sd" "\<not> peer_gone (pubsub_session sd)" "sent (pubsub_session sd) = out"
    and ch: "listeners (client (svc st)) l = Some ch" "pending_events ch = e # events"
    using s by (auto simp: streaming_def)
  let ?c = "(client (svc st))\<lparr>listeners := (listeners (client (svc st)))(l \<mapsto> ch\<lparr>pending_events := events\<rparr>)\<rparr>"
  let ?x = "if for_app d e then SrcItem (DAppEvent_PairingResponse (relation_from d (case e of PairingResponse p \<Rightarrow> p))) else SrcSkip"
  obtain flag' where sel: "poll_select (next_call renv) d calls l flag (client (svc st)) = (?x, flag', ?c)"
    using poll_select_event [where next_call = "next_call renv" and calls = calls, OF ch nc [unfolded no_calls_def], of d flag]
    by (cases "for_app d e") (auto simp: checkin_event_for_app)
  let ?fut = "FwdEvents d calls l flag'"
  let ?st = "if for_app d e then set_data k (\<lambda>sd. sd\<lparr>pubsub_session :=
      (pubsub_session sd)\<lparr>sent := sent (pubsub_session sd) @ [pairing_note]\<rparr>\<rparr>) st else st"
  have "rpc_poll renv True i st = Return (go_on i ?fut ?c ?st)"
    using i sub sel sd by (simp add: rpc_poll_def poll_fwd_def event_params_def)
  moreover have "streaming i k tx d calls l events (if for_app d e then out @ [pairing_note] else out) (go_on i ?fut ?c ?st)"
    using i sub sd by (simp add: streaming_def go_on_def set_client_def)
  moreover have "no_calls renv calls (go_on i ?fut ?c ?st)" using nc by (simp add: no_calls_def go_on_def set_client_def)
  moreover have "oneshots (go_on i ?fut ?c ?st) = oneshots st" "length (subscriptions (go_on i ?fut ?c ?st)) = length (subscriptions st)"
    by (simp_all add: go_on_def set_client_def)
  ultimately show ?thesis using that by blast
qed

lemma polls_streaming:
  assumes "streaming i k tx d calls l events out st" and "no_calls renv calls st"
  obtains st' where "rpc_polls renv (length events) i st = Return st'"
    and "streaming i k tx d calls l [] (out @ replicate (length (filter (for_app d) events)) pairing_note) st'"
    and "no_calls renv calls st'" and "oneshots st' = oneshots st" and "length (subscriptions st') = length (subscriptions st)"
  using assms
proof (induction events arbitrary: st out thesis)
  case (Cons e events)
  obtain st1 where 1: "rpc_poll renv True i st = Return st1"
    "streaming i k tx d calls l events (if for_app d e then out @ [pairing_note] else out) st1"
    "no_calls renv calls st1" "oneshots st1 = oneshots st" "length (subscriptions st1) = length (subscriptions st)"
    using Cons.prems(2,3) by (rule poll_streaming)
  obtain st' where 2: "rpc_polls renv (length events) i st1 = Return st'"
    "streaming i k tx d calls l [] ((if for_app d e then out @ [pairing_note] else out) @ replicate (length (filter (for_app d) events)) pairing_note) st'"
    "no_calls renv calls st'" "oneshots st' = oneshots st1" "length (subscriptions st') = length (subscriptions st1)"
    by (rule Cons.IH [OF _ 1(2,3)])
  show ?case using 1 2 by (intro Cons.prems(1) [of st']) (auto split: if_splits)
qed simp

lemma poll_idle:
  assumes s: "streaming i k tx d calls l [] out st" and nc: "no_calls renv calls st"
  shows "\<exists>st'. rpc_poll renv True i st = Return st' \<and>
    (if oneshots st tx = Some Waiting then streaming i k tx d calls l [] out st' \<and> subs st' = subs st
     else subscriptions st' = take i (subscriptions st) @ drop (Suc i) (subscriptions st)
       \<and> oneshots st' tx = Some RxDropped \<and> (\<exists>ch. listeners (client (svc st')) l = Some ch \<and> listener_closed ch))"
proof -
  obtain flag sd ch where i: "i < length (subscriptions st)"
    and sub: "subscriptions st ! i = \<lparr>sub_conn = k, sub_cancel = tx, sub_fut = FwdEvents d calls l flag\<rparr>"
    and sd: "rpc_sessions st k = Some sd" "\<not> peer_gone (pubsub_session sd)" "sent (pubsub_session sd) = out"
    and ch: "listeners (client (svc st)) l = Some ch" "pending_events ch = []"
    using s by (auto simp: streaming_def)
  have sel: "poll_select (next_call renv) d calls l flag (client (svc st)) = (SrcNotReady, \<not> flag, client (svc st))"
    using poll_select_idle [where next_call = "next_call renv" and calls = calls, OF ch nc [unfolded no_calls_def]] .
  show ?thesis
  proof (cases "oneshots st tx = Some Waiting")
    case True
    have "streaming i k tx d calls l [] out (go_on i (FwdEvents d calls l (\<not> flag)) (client (svc st)) st)"
      using i sub sd ch by (simp add: streaming_def go_on_def set_client_def)
    with True i sub sel show ?thesis by (simp add: rpc_poll_def poll_fwd_def subs_go_on)
  next
    case False
    with i sub sel ch show ?thesis
      by (simp add: rpc_poll_def poll_fwd_def end_subscription_def set_client_def drop_fwd_def close_listener_def)
  qed
qed


section \<open>A sample service\<close>

definition sample_rpc_env :: "((ProfileId, OwnProfile) InMemoryStore, (ProfileId, Profile) InMemoryStore, unit, unit, unit, nat, unit) RpcEnv" where
  "sample_rpc_env = \<lparr>client_env = sample_client_env,
     service_env = \<lparr>signer_factory = SignerFactory_new [ProfileId [1] \<mapsto> sample_peer 1], store_ops = InMemoryStore_ops,
       my_profile_ids = [ProfileId [1]], ui_select_profile = DummyUserInterface_select_profile [ProfileId [1]]\<rparr>,
     request_from_value = (\<lambda>_. Inr (ApplicationId ''friend'', None)), response_to_value = (\<lambda>s. Inr (VObject [(''profile_id'', VString s)])),
     id_text = (\<lambda>_. ''m''), next_call = (\<lambda>c w. (NotReady, w))\<rparr>"

definition sample_service :: "((ProfileId, OwnProfile) InMemoryStore, (ProfileId, Profile) InMemoryStore, unit, unit, nat) Service" where
  "sample_service = \<lparr>client = client_init sample_repo 0, factory_cache = Map.empty,
     profile_store = \<lparr>imap = [ProfileId [1] \<mapsto> \<lparr>profile = sample_persona 1, priv_data = []\<rparr>]\<rparr>\<rparr>"

definition sample_app :: DAppSessionImpl where
  "sample_app = \<lparr>dapp_profile = 0, dapp_app_id = ApplicationId ''friend''\<rparr>"

definition sample_wire :: transport where
  "sample_wire = \<lparr>sent = [], peer_gone = False\<rparr>"

text \<open>An application connects and opens a session.\<close>

definition sample_rpc :: "((ProfileId, OwnProfile) InMemoryStore, (ProfileId, Profile) InMemoryStore, unit, unit, nat) RpcServer" where
  "sample_rpc = \<lparr>svc = sample_service\<lparr>client := sample_client, factory_cache := [ProfileId [1] \<mapsto> 0]\<rparr>,
     rpc_sessions = [0 \<mapsto> (SessionData_new sample_wire)\<lparr>dapp_session := Some sample_app\<rparr>],
     oneshots = Map.empty, subscriptions = [], rpc_next = 1\<rparr>"

lemma sample_get_session:
  "get_session sample_rpc_env (ParamsMap []) 0 (snd (Session_new sample_wire (rpc_init sample_service)))
     = Return (Inr (VObject [(''profile_id'', VString ''m'')]), sample_rpc)"
  by (simp add: get_session_def sample_rpc_env_def ConnectService_dapp_session_def sample_service_def Session_new_def rpc_init_def
      DummyUserInterface_select_profile_def InMemoryStore_ops_def InMemoryStore_get_def MyProfileFactory_create_def SignerFactory_signer_def
      SignerFactory_new_def sample_client_defs selected_profile_def with_self_def future_ok_def DAppSessionImpl_new_def
      set_dapp_session_def set_data_def sample_rpc_def sample_app_def ProfileId_to_string_def Let_def fun_eq_iff)

lemma sample_rpc_reachable: "rpc_reachable sample_rpc_env sample_rpc"
proof -
  let ?c = "snd (Session_new sample_wire (rpc_init sample_service))"
  have "rpc_step sample_rpc_env (rpc_init sample_service) ?c" by (rule rpc_step.connected [OF prod.collapse [symmetric]])
  with rpc_reachable.init have "rpc_reachable sample_rpc_env ?c" by (rule rpc_reachable.step)
  then show ?thesis using rpc_step.get_session [OF sample_get_session] by (rule rpc_reachable.step)
qed

theorem one_live_subscription_witness:
  "live 0 (snd (subscribe_events (Inr ()) 0 sample_rpc)) = [\<lparr>sub_conn = 0, sub_cancel = 1, sub_fut = CheckingIn sample_app\<rparr>]"
  using one_live_subscription [OF sample_rpc_reachable, of 0 1]
  by (simp add: sample_rpc_def Session_dapp_session_def SessionData_new_def split: prod.splits)

text \<open>The same after checking in, with a response and a request waiting for the application, and the
  subscription cancelled.\<close>

definition sample_streaming :: "((ProfileId, OwnProfile) InMemoryStore, (ProfileId, Profile) InMemoryStore, unit, unit, nat) RpcServer" where
  "sample_streaming = sample_rpc\<lparr>
     svc := (svc sample_rpc)\<lparr>client := sample_client\<lparr>listeners := [5 \<mapsto> \<lparr>pending_events = [sample_event, PairingRequest sample_half], listener_closed = False\<rparr>]\<rparr>\<rparr>,
     oneshots := [1 \<mapsto> Sent], rpc_next := 2,
     subscriptions := [\<lparr>sub_conn = 0, sub_cancel = 1, sub_fut = FwdEvents sample_app () 5 True\<rparr>]\<rparr>"


end
