(* ===== verification/Connect_Daemon.thy ===== *)
theory Connect_Daemon
  imports Connect_Service Crypto
begin

text \<open>
  Start-up of the client service (\<^verbatim>\<open>connect/src/bin/service-daemon.rs\<close>, function
  \<^verbatim>\<open>init_connect_service\<close>): keys are read, the profile repository is populated when it does
  not know the profile yet, and the parts of the service are built.  Reading files, parsing a socket
  address and converting it to a multiaddress are parameters, and so are the two stores; \<open>boxed\<close>
  makes the signer object of an Ed25519 signer.  Every \<^verbatim>\<open>unwrap\<close> is a panic.
\<close>

section \<open>Constructors\<close>

text \<open>\<^verbatim>\<open>MyProfileFactory::new\<close> and \<^verbatim>\<open>ConnectService::new\<close>: the immutable members and
  the state.\<close>

definition ConnectService_new ::
  "(ProfileId, ConnectErrorKind) result \<Rightarrow> ProfileId list \<Rightarrow> ('p, ProfileId, OwnProfile) KeyValueStore \<Rightarrow> SignerFactory
     \<Rightarrow> ('p, 'r, 's, 'c, 'w) ServiceEnv" where
  "ConnectService_new ui ids store factory =
     \<lparr>signer_factory = factory, store_ops = store, my_profile_ids = ids, ui_select_profile = ui\<rparr>"

definition MyProfileFactory_new :: "'r \<Rightarrow> 'w \<Rightarrow> 'p \<Rightarrow> ('p, 'r, 's, 'c, 'w) Service" where
  "MyProfileFactory_new profile_repo w store =
     \<lparr>client = client_init profile_repo w, factory_cache = Map.empty, profile_store = store\<rparr>"

text \<open>The answer of \<^verbatim>\<open>admin_session\<close>: the session has the members of the service.\<close>

definition admin_session :: "('p, 'r, 's, 'c, 'w) ServiceEnv \<Rightarrow> bytes option \<Rightarrow> (('p, 'r, 's, 'c, 'w) ServiceEnv, ConnectErrorKind) result" where
  "admin_session senv authorization = Ok senv"

section \<open>Start-up\<close>

definition populate ::
  "('r, ProfileId, Profile) KeyValueStore \<Rightarrow> ProfileId \<Rightarrow> Profile \<Rightarrow> Profile \<Rightarrow> 'r \<Rightarrow> 'r run" where
  "populate ops my_profile_id home_profile my_profile r =
     (if is_err (SimpleProfileRepo_load ops r my_profile_id) then
        (case SimpleProfileRepo_insert ops home_profile r of
           (Inl _, _) \<Rightarrow> Panic
         | (Inr _, r) \<Rightarrow>
             (case SimpleProfileRepo_insert ops my_profile r of
                (Inl _, _) \<Rightarrow> Panic
              | (Inr _, r) \<Rightarrow> Return r))
      else Return r)"

record ('alg, 'seed, 'edsigner, 'edkey, 'edsig, 'addr) DaemonEnv =
  mh_lib :: "'alg multihash_lib"
  ed_lib :: "('seed, 'edsigner, 'edkey, 'edsig) ed25519_lib"
  boxed :: "'edsigner Ed25519Signer \<Rightarrow> Signer"
  read_file :: "string \<Rightarrow> (bytes, string) result"
  parse_addr :: "string \<Rightarrow> ('addr, string) result"
  to_multiaddr :: "'addr \<Rightarrow> (Multiaddr, string) result"

definition init_connect_service ::
  "('alg, 'seed, 'edsigner, 'edkey, 'edsig, 'addr) DaemonEnv \<Rightarrow> ('r, ProfileId, Profile) KeyValueStore \<Rightarrow> ('p, ProfileId, OwnProfile) KeyValueStore
     \<Rightarrow> string \<Rightarrow> string \<Rightarrow> string \<Rightarrow> 'r \<Rightarrow> 'p \<Rightarrow> 'w
     \<Rightarrow> (('p, 'r, 's, 'c, 'w) ServiceEnv \<times> ('p, 'r, 's, 'c, 'w) Service \<times> ProfileId \<times> ProfileId, ConnectErrorKind) result run" where
  "init_connect_service denv rops sops my_profile_privkey_file home_pubkey_file home_addr_str r p w =
     (case read_file denv home_pubkey_file of
        Inl _ \<Rightarrow> Return (Err LookupFailed)
      | Inr home_pubkey_bytes \<Rightarrow>
          run_bind (ProfileId_from_public_key (mh_lib denv) (PublicKey home_pubkey_bytes)) (\<lambda>home_id.
          case parse_addr denv home_addr_str of
            Inl _ \<Rightarrow> Return (Err LookupFailed)
          | Inr home_addr \<Rightarrow>
          (case to_multiaddr denv home_addr of
             Inl _ \<Rightarrow> Panic
           | Inr home_multiaddr \<Rightarrow>
             (let home_profile = Profile_new_home home_id (PublicKey home_pubkey_bytes) home_multiaddr in
              case read_file denv my_profile_privkey_file of
                Inl _ \<Rightarrow> Return (Err LookupFailed)
              | Inr my_private_key_bytes \<Rightarrow>
                  run_bind (Ed25519Signer_new (mh_lib denv) (ed_lib denv) (PrivateKey my_private_key_bytes)) (\<lambda>signer_res.
                  case signer_res of
                    Inl _ \<Rightarrow> Panic
                  | Inr es \<Rightarrow>
                      (let my_signer = boxed denv es;
                           my_profile_id = signer_profile_id my_signer;
                           my_profile = Profile_new my_profile_id (signer_public_key my_signer) (Persona \<lparr>homes = [], persona_data = []\<rparr>)
                       in run_bind (populate rops my_profile_id home_profile my_profile r) (\<lambda>r.
                         let my_profiles = [my_profile_id];
                             factory = SignerFactory_new [my_profile_id \<mapsto> my_signer]
                         in case kv_set sops p my_profile_id (OwnProfile_new my_profile []) of
                              (Inl _, _) \<Rightarrow> Panic
                            | (Inr _, p) \<Rightarrow>
                                Return (Ok (ConnectService_new (DummyUserInterface_select_profile my_profiles) my_profiles sops factory,
                                  MyProfileFactory_new r w p, my_profile_id, home_id)))))))))"

section \<open>Properties\<close>

lemma populate_total:
  assumes "total_kv_store ops content (\<lambda>_. True)"
  obtains r' where "populate ops i hp mp r = Return r'"
    "content r i \<noteq> None \<longrightarrow> r' = r"
    "content r i = None \<longrightarrow> content r' = (content r)(profile_id hp \<mapsto> hp, profile_id mp \<mapsto> mp)"
proof -
  show ?thesis
  proof (cases "content r i")
    case (Some q)
    with total_kv_store.get_iff [OF assms, where k = i and s = r and v = q] have "populate ops i hp mp r = Return r"
      by (simp add: populate_def SimpleProfileRepo_load_def)
    with Some show ?thesis using that by simp
  next
    case None
    then have miss: "is_err (SimpleProfileRepo_load ops r i)"
      using total_kv_store.get_iff [OF assms, where k = i and s = r] by (auto simp: SimpleProfileRepo_load_def is_err_iff)
        (metis option.distinct(1) sum.exhaust)
    obtain r1 where r1: "kv_set ops r (profile_id hp) hp = (Inr (), r1)" "content r1 (profile_id hp) = Some hp"
      "\<And>k'. k' \<noteq> profile_id hp \<Longrightarrow> content r1 k' = content r k'"
      using total_kv_store.set_eqE [OF assms, where k = "profile_id hp" and s = r and v = hp] by auto
    obtain r2 where r2: "kv_set ops r1 (profile_id mp) mp = (Inr (), r2)" "content r2 (profile_id mp) = Some mp"
      "\<And>k'. k' \<noteq> profile_id mp \<Longrightarrow> content r2 k' = content r1 k'"
      using total_kv_store.set_eqE [OF assms, where k = "profile_id mp" and s = r1 and v = mp] by auto
    have "populate ops i hp mp r = Return r2" using miss r1(1) r2(1) by (simp add: populate_def SimpleProfileRepo_insert_def)
    moreover have "content r2 = (content r)(profile_id hp \<mapsto> hp, profile_id mp \<mapsto> mp)"
      using r1(2,3) r2(2,3) by (auto simp: fun_eq_iff)
    ultimately show ?thesis using that None by simp
  qed
qed

lemma fresh_session:
  assumes "kv_get sops p i = Inr own" and "signer_profile_id sg = i" and "profile_id (profile own) = i"
  shows "\<exists>d (sv' :: ('p, 'r, 's, 'c, 'w) Service). ConnectService_dapp_session
        (ConnectService_new (DummyUserInterface_select_profile [i]) [i] sops (SignerFactory_new [i \<mapsto> sg])) app (MyProfileFactory_new r w p) = (Inr d, sv')
      \<and> dapp_app_id d = app \<and> (\<exists>c. selected_profile d (client sv') = Return (Inr i, c)) \<and> service_inv (SignerFactory_new [i \<mapsto> sg]) sv'"
proof -
  let ?sv = "MyProfileFactory_new r w p :: ('p, 'r, 's, 'c, 'w) Service"
  let ?sv' = "?sv\<lparr>client := snd (alloc_profile own sg (client ?sv)), factory_cache := [i \<mapsto> 0]\<rparr>"
  have "ConnectService_dapp_session (ConnectService_new (DummyUserInterface_select_profile [i]) [i] sops (SignerFactory_new [i \<mapsto> sg])) app ?sv
      = (Inr (DAppSessionImpl_new 0 app), ?sv')"
    using assms by (simp add: ConnectService_dapp_session_def ConnectService_new_def DummyUserInterface_select_profile_def
        MyProfileFactory_new_def MyProfileFactory_create_def SignerFactory_signer_def SignerFactory_new_def alloc_profile_def client_init_def)
  moreover have "selected_profile (DAppSessionImpl_new 0 app) (client ?sv') = Return (Inr i, client ?sv')"
    by (simp add: selected_profile_def with_self_def DAppSessionImpl_new_def MyProfileFactory_new_def alloc_profile_def client_init_def
        MyProfileImpl_new_def assms(2))
  moreover have "service_inv (SignerFactory_new [i \<mapsto> sg]) ?sv'"
    by (auto simp: service_inv_def SignerFactory_new_def SignerFactory_signer_def MyProfileFactory_new_def
        alloc_profile_def client_init_def MyProfileImpl_new_def client_inv_defs)
  ultimately show ?thesis by (simp add: DAppSessionImpl_new_def)
qed

text \<open>Start-up with readable key files, a valid key and address, and working stores yields a
  service that opens a session in the name of the configured profile for every application.  The repository
  keeps what it knew of the profile, or else has the profile and its home with the configured
  address.  The stored own profile is reset to one without homes in either case, whatever was stored
  before.\<close>

lemma daemon_ready:
  assumes rstore: "total_kv_store rops rabs (\<lambda>_. True)" and pstore: "total_kv_store sops pabs (\<lambda>_. True)"
    and "read_file denv pub = Inr hk" and hid: "ProfileId_from_public_key (mh_lib denv) (PublicKey hk) = Return hid"
    and "parse_addr denv a = Inr sa" and "to_multiaddr denv sa = Inr ma" and "read_file denv priv = Inr key"
    and es: "Ed25519Signer_new (mh_lib denv) (ed_lib denv) (PrivateKey key) = Return (Inr es)"
    and boxed: "backed_by (ed_lib denv) es (boxed denv es)"
  shows "\<exists>senv sv. init_connect_service denv rops sops priv pub a r p w = Return (Inr (senv, sv, es_profile_id es, hid))
    \<and> (\<exists>d sv'. ConnectService_dapp_session senv app sv = (Inr d, sv') \<and> dapp_app_id d = app
        \<and> (\<exists>c. selected_profile d (client sv') = Return (Inr (es_profile_id es), c)) \<and> service_inv (signer_factory senv) sv')
    \<and> (case rabs r (es_profile_id es) of Some q \<Rightarrow> repo (client sv) = r
        | None \<Rightarrow> rabs (repo (client sv)) (es_profile_id es) = Some (Profile_new (es_profile_id es) (es_public_key es) (Persona \<lparr>homes = [], persona_data = []\<rparr>))
            \<and> (hid \<noteq> es_profile_id es \<longrightarrow> rabs (repo (client sv)) hid = Some (Profile_new_home hid (PublicKey hk) ma)))
    \<and> pabs (profile_store sv) (es_profile_id es)
        = Some (OwnProfile_new (Profile_new (es_profile_id es) (es_public_key es) (Persona \<lparr>homes = [], persona_data = []\<rparr>)) [])"
proof -
  let ?i = "es_profile_id es"
  let ?mp = "Profile_new ?i (es_public_key es) (Persona \<lparr>homes = [], persona_data = []\<rparr>)"
  let ?hp = "Profile_new_home hid (PublicKey hk) ma"
  let ?senv = "ConnectService_new (DummyUserInterface_select_profile [?i]) [?i] sops (SignerFactory_new [?i \<mapsto> boxed denv es])"
  have sg: "signer_profile_id (boxed denv es) = ?i" "signer_public_key (boxed denv es) = es_public_key es"
    using boxed by (simp_all add: backed_by_def)
  obtain r' where r': "populate rops ?i ?hp ?mp r = Return r'" "rabs r ?i \<noteq> None \<longrightarrow> r' = r"
    "rabs r ?i = None \<longrightarrow> rabs r' = (rabs r)(profile_id ?hp \<mapsto> ?hp, profile_id ?mp \<mapsto> ?mp)"
    by (rule populate_total [OF rstore, where i = ?i and hp = ?hp and mp = ?mp and r = r])
  obtain p' where p': "kv_set sops p ?i (OwnProfile_new ?mp []) = (Inr (), p')" "pabs p' ?i = Some (OwnProfile_new ?mp [])"
    using total_kv_store.set_eqE [OF pstore, where k = ?i and s = p and v = "OwnProfile_new ?mp []"] by auto
  let ?sv = "MyProfileFactory_new r' w p'"
  have run: "init_connect_service denv rops sops priv pub a r p w = Return (Inr (?senv, ?sv, ?i, hid))"
    using assms(3-8) r'(1) p'(1) by (simp add: init_connect_service_def sg Let_def)
  have get: "kv_get sops p' ?i = Inr (OwnProfile_new ?mp [])"
    using total_kv_store.get_iff [OF pstore, where k = ?i and s = p'] p'(2) by simp
  have "\<exists>d sv'. ConnectService_dapp_session ?senv app ?sv = (Inr d, sv') \<and> dapp_app_id d = app
        \<and> (\<exists>c. selected_profile d (client sv') = Return (Inr ?i, c)) \<and> service_inv (signer_factory ?senv) sv'"
    using fresh_session [OF get sg(1), of app r' w] by (simp add: Profile_new_def OwnProfile_new_def ConnectService_new_def)
  moreover have "profile_id ?hp = hid" "profile_id ?mp = ?i" by (simp_all add: Profile_new_home_def Profile_new_def)
  ultimately show ?thesis
    using run r'(2,3) p'(2)
    by (intro exI [of _ ?senv] exI [of _ ?sv]) (auto simp: MyProfileFactory_new_def client_init_def split: option.splits)
qed

section \<open>Witness\<close>

definition sample_daemon_env :: "(u8, bytes, bytes, bytes, bytes, unit) DaemonEnv" where
  "sample_daemon_env = \<lparr>mh_lib = sample_multihash, ed_lib = sample_ed25519, boxed = (\<lambda>es. sample_signer (es_signer es)),
     read_file = (\<lambda>f. if f = ''client.id'' then Inr [1] else if f = ''homenode.id.pub'' then Inr [7] else Inl ''not found''),
     parse_addr = (\<lambda>s. Inr ()), to_multiaddr = (\<lambda>_. Inr [IP4 [127, 0, 0, 1], TCP 2077])\<rparr>"

end
