(* ===== verification/Configuration.thy ===== *)
theory Configuration
  imports Connect_Types Crypto Key_Value_Store
begin

text \<open>
  What the programs read at start-up: the configuration file that completes the command line
  (\<^verbatim>\<open>home-protocol/src/util.rs\<close>), the configuration of the home node
  (\<^verbatim>\<open>home-node/src/config.rs\<close>) and the arguments of the example application
  (\<^verbatim>\<open>server_config.rs\<close> and \<^verbatim>\<open>client_config.rs\<close> of \<^verbatim>\<open>TheButton\<close>).

  The packages \<^verbatim>\<open>clap\<close> and \<^verbatim>\<open>toml\<close> are parameters: the former turns a list of arguments
  into the values of the options or ends the process, the latter turns text into key-value pairs in
  the order in which the hash map yields them.  The parsing of numbers and the check of UTF-8 are
  those of the standard library.  A path is a string of bytes.
\<close>

section \<open>Text\<close>

definition utf8_cont :: "nat \<Rightarrow> bool" where
  "utf8_cont b \<longleftrightarrow> 0x80 \<le> b \<and> b \<le> 0xBF"

text \<open>Well-formed UTF-8, as \<^verbatim>\<open>str::from_utf8\<close> accepts it: no overlong encodings, no
  surrogates, nothing above U+10FFFF.\<close>

fun valid_utf8 :: "nat list \<Rightarrow> bool" where
  "valid_utf8 [] = True"
| "valid_utf8 (a # bs) =
     (if a < 0x80 then valid_utf8 bs
      else if 0xC2 \<le> a \<and> a \<le> 0xDF then
        (case bs of b # bs \<Rightarrow> utf8_cont b \<and> valid_utf8 bs | _ \<Rightarrow> False)
      else if 0xE0 \<le> a \<and> a \<le> 0xEF then
        (case bs of b # c # bs \<Rightarrow> utf8_cont b \<and> (a = 0xE0 \<longrightarrow> 0xA0 \<le> b) \<and> (a = 0xED \<longrightarrow> b \<le> 0x9F)
            \<and> utf8_cont c \<and> valid_utf8 bs | _ \<Rightarrow> False)
      else if 0xF0 \<le> a \<and> a \<le> 0xF4 then
        (case bs of b # c # d # bs \<Rightarrow> utf8_cont b \<and> (a = 0xF0 \<longrightarrow> 0x90 \<le> b) \<and> (a = 0xF4 \<longrightarrow> b \<le> 0x8F)
            \<and> utf8_cont c \<and> utf8_cont d \<and> valid_utf8 bs | _ \<Rightarrow> False)
      else False)"

definition path_to_str :: "string \<Rightarrow> string option" where
  "path_to_str p = (if valid_utf8 (map of_char p) then Some p else None)"

definition read_to_string :: "fs \<Rightarrow> string \<Rightarrow> (string, string) result" where
  "read_to_string disk p = and_then (fs_read disk p) (\<lambda>bs.
     if valid_utf8 (map unat bs) then Ok (map (\<lambda>b. char_of (unat b)) bs) else Err ''stream did not contain valid UTF-8'')"

section \<open>The configuration file\<close>

type_synonym toml = "string \<Rightarrow> ((string \<times> string) list, string) result"

definition read_config_file :: "toml \<Rightarrow> fs \<Rightarrow> string \<Rightarrow> (string list, unit) result" where
  "read_config_file toml_from_str disk config_path =
     (case read_to_string disk config_path of
        Inl _ \<Rightarrow> Err ()
      | Inr file_contents \<Rightarrow>
          (case toml_from_str file_contents of
             Inl _ \<Rightarrow> Err ()
           | Inr file_keyvals \<Rightarrow> Ok (concat (map (\<lambda>(key, val). [''--'' @ key, val]) file_keyvals))))"

definition parse_config :: "toml \<Rightarrow> (string list \<Rightarrow> 'm option) \<Rightarrow> fs \<Rightarrow> string list \<Rightarrow> string \<Rightarrow> 'm option" where
  "parse_config toml_from_str get_matches_from disk cli_args config_path =
     (let file_args = (case read_config_file toml_from_str disk config_path of Inr args \<Rightarrow> args | Inl _ \<Rightarrow> [])
      in get_matches_from (cli_args @ file_args))"

section \<open>The home node\<close>

record CliConfig =
  private_key_file :: string
  cli_storage_path :: string
  socket_addr :: string

definition CONFIG_PATH :: string where
  "CONFIG_PATH = ''home.cfg''"

definition CliConfig_new :: "toml \<Rightarrow> (string list \<Rightarrow> CliConfig option) \<Rightarrow> fs \<Rightarrow> string list \<Rightarrow> CliConfig option" where
  "CliConfig_new toml_from_str get_matches_from disk cli_args =
     parse_config toml_from_str get_matches_from disk cli_args CONFIG_PATH"

record 'addr Config =
  storage_path :: string
  config_signer :: Signer
  listen_socket :: 'addr

text \<open>The packages the configuration uses, and name resolution.\<close>

record ('alg, 'seed, 'edsigner, 'edkey, 'edsig, 'addr) ConfigEnv =
  cfg_mh :: "'alg multihash_lib"
  cfg_ed :: "('seed, 'edsigner, 'edkey, 'edsig) ed25519_lib"
  cfg_boxed :: "'edsigner Ed25519Signer \<Rightarrow> Signer"
  to_socket_addrs :: "string \<Rightarrow> ('addr list, string) result"

definition Config_new ::
  "('alg, 'seed, 'edsigner, 'edkey, 'edsig, 'addr) ConfigEnv \<Rightarrow> CliConfig \<Rightarrow> fs \<Rightarrow> 'addr Config run" where
  "Config_new cenv cli disk =
     (case path_to_str (cli_storage_path cli) of
        None \<Rightarrow> Panic
      | Some path \<Rightarrow>
          (case fs_read disk (private_key_file cli) of
             Inl _ \<Rightarrow> Panic
           | Inr key \<Rightarrow>
               run_bind (Ed25519Signer_new (cfg_mh cenv) (cfg_ed cenv) (PrivateKey key)) (\<lambda>signer.
               case signer of
                 Inl _ \<Rightarrow> Panic
               | Inr es \<Rightarrow>
                   (case to_socket_addrs cenv (socket_addr cli) of
                      Inr (a # _) \<Rightarrow> Return \<lparr>storage_path = path, config_signer = cfg_boxed cenv es, listen_socket = a\<rparr>
                    | _ \<Rightarrow> Panic))))"

section \<open>Numbers\<close>

type_synonym u64 = "64 word"

definition to_digit :: "char \<Rightarrow> nat option" where
  "to_digit c = (let n = of_char c :: nat in if 48 \<le> n \<and> n \<le> 57 then Some (n - 48) else None)"

definition checked_mul :: "u64 \<Rightarrow> u64 \<Rightarrow> u64 option" where
  "checked_mul a b = (if unat a * unat b < 2 ^ 64 then Some (a * b) else None)"

definition checked_add :: "u64 \<Rightarrow> u64 \<Rightarrow> u64 option" where
  "checked_add a b = (if unat a + unat b < 2 ^ 64 then Some (a + b) else None)"

text \<open>\<^verbatim>\<open>str::parse::<u64>\<close>: an optional sign and at least one digit, with overflow checked at
  every digit.\<close>

fun parse_digits :: "u64 \<Rightarrow> string \<Rightarrow> u64 option" where
  "parse_digits result [] = Some result"
| "parse_digits result (c # cs) =
     Option.bind (to_digit c) (\<lambda>x.
     Option.bind (checked_mul result 10) (\<lambda>result.
     Option.bind (checked_add result (of_nat x)) (\<lambda>result. parse_digits result cs)))"

definition parse_u64 :: "string \<Rightarrow> u64 option" where
  "parse_u64 s =
     (let digits = (case s of [] \<Rightarrow> [] | c # cs \<Rightarrow> if c = CHR ''+'' then cs else s)
      in if digits = [] then None else parse_digits 0 digits)"

section \<open>Arguments of the example application\<close>

text \<open>\<^verbatim>\<open>ArgMatches::value_of\<close>.\<close>

type_synonym arg_matches = "string \<Rightarrow> string option"

record ServerConfig =
  event_timer :: "u64 option"

definition ServerConfig_try_from :: "arg_matches \<Rightarrow> (ServerConfig, ConnectErrorKind) result" where
  "ServerConfig_try_from args =
     (case args ''event-timer'' of
        Some s \<Rightarrow> map_ok (\<lambda>i. \<lparr>event_timer = Some i\<rparr>) (ok_or LookupFailed (parse_u64 s))
      | None \<Rightarrow> Ok \<lparr>event_timer = None\<rparr>)"

datatype OnFail = Terminate | Retry

record ClientConfig =
  callee_profile_id :: ProfileId
  on_fail :: OnFail

definition ClientConfig_try_from ::
  "(string \<Rightarrow> ('base \<times> bytes, string) result) \<Rightarrow> arg_matches \<Rightarrow> (ClientConfig, ConnectErrorKind) result run" where
  "ClientConfig_try_from multibase_decode args =
     (case (case args ''on-fail'' of
              Some fail \<Rightarrow> if fail = ''retry'' then Ok Retry else if fail = ''terminate'' then Ok Terminate else Err LookupFailed
            | None \<Rightarrow> Ok Terminate) of
        Inl e \<Rightarrow> Return (Err e)
      | Inr fail \<Rightarrow>
          (case args ''server-profile'' of
             None \<Rightarrow> Panic
           | Some callee_id_str \<Rightarrow>
               (case multibase_decode callee_id_str of
                  Inl _ \<Rightarrow> Panic
                | Inr (_, callee_id_decoded) \<Rightarrow>
                    Return (Ok \<lparr>callee_profile_id = ProfileId callee_id_decoded, on_fail = fail\<rparr>))))"

section \<open>Properties\<close>

text \<open>The number a string of digits stands for.\<close>

definition decimal :: "string \<Rightarrow> nat" where
  "decimal s = foldl (\<lambda>n c. n * 10 + the (to_digit c)) 0 s"

lemma to_digit_less: "to_digit c = Some x \<Longrightarrow> x < 10"
  by (auto simp: to_digit_def Let_def split: if_splits)

lemma digits_grow: "n \<le> foldl (\<lambda>n c. n * 10 + the (to_digit c)) n s"
proof (induction s arbitrary: n)
  case (Cons c s)
  show ?case using Cons [of "n * 10 + the (to_digit c)"] by simp
qed simp

lemma checked_step:
  assumes "x < 10"
  shows "Option.bind (checked_mul r 10) (\<lambda>r. checked_add r (of_nat x))
    = (if unat r * 10 + x < 2 ^ 64 then Some (r * 10 + of_nat x) else None)"
proof -
  have ten: "unat (10 :: u64) = 10" by simp
  have x: "unat (of_nat x :: u64) = x" using assms by (simp add: unat_of_nat)
  have mul: "unat (r * 10) = unat r * 10" if "unat r * 10 < 2 ^ 64"
    using that ten by (simp add: unat_mult_lem [THEN iffD1])
  then show ?thesis by (auto simp: checked_mul_def checked_add_def ten x)
qed

lemma parse_digits_iff:
  "parse_digits r s = Some n \<longleftrightarrow> (\<forall>c \<in> set s. to_digit c \<noteq> None)
     \<and> foldl (\<lambda>n c. n * 10 + the (to_digit c)) (unat r) s = unat n"
proof (induction s arbitrary: r)
  case Nil
  show ?case by (auto intro: unsigned_word_eqI)
next
  case (Cons c s)
  show ?case
  proof (cases "to_digit c")
    case (Some x)
    note x = to_digit_less [OF Some]
    have bind: "parse_digits r (c # s) = Option.bind (if unat r * 10 + x < 2 ^ 64 then Some (r * 10 + of_nat x) else None)
        (\<lambda>r. parse_digits r s)"
      unfolding checked_step [OF x, symmetric] by (simp add: Some Option.bind_assoc)
    show ?thesis
    proof (cases "unat r * 10 + x < 2 ^ 64")
      case True
      then have "unat (r * 10 + of_nat x) = unat r * 10 + x"
        using x by (simp add: unat_word_ariths unat_of_nat)
      with True Some bind show ?thesis by (simp add: Cons)
    next
      case False
      have "unat n < 2 ^ 64" using unsigned_less [of n, where ?'a = nat] by simp
      then have "foldl (\<lambda>n c. n * 10 + the (to_digit c)) (unat r * 10 + x) s \<noteq> unat n"
        using False digits_grow [of "unat r * 10 + x" s] by simp
      with False Some bind show ?thesis by simp
    qed
  qed simp
qed

lemma parse_u64_iff:
  "parse_u64 s = Some n \<longleftrightarrow> (\<exists>ds. ds \<noteq> [] \<and> (\<forall>c \<in> set ds. to_digit c \<noteq> None) \<and> decimal ds = unat n
     \<and> (s = ds \<or> s = CHR ''+'' # ds))"
proof -
  have plus: "to_digit CHR ''+'' = None" by (simp add: to_digit_def)
  show ?thesis
    by (cases s) (auto simp: parse_u64_def Let_def parse_digits_iff decimal_def plus)
qed

text \<open>C24: the interval of the example's timer is taken exactly as it is written.  The configuration is accepted
  if the argument is absent, or if it consists of one or more decimal digits, with an optional plus sign in front,
  whose value fits into 64 bits; then the interval is that value.  Nothing wraps around: digits that stand
  for a larger number are refused, like every other text.\<close>

theorem server_config_bounds:
  "ServerConfig_try_from args = Inr cfg \<longleftrightarrow>
     (case args ''event-timer'' of
        None \<Rightarrow> event_timer cfg = None
      | Some s \<Rightarrow> \<exists>ds. s \<in> {ds, CHR ''+'' # ds} \<and> ds \<noteq> [] \<and> list_all (\<lambda>c. to_digit c \<noteq> None) ds
          \<and> decimal ds < 2 ^ 64 \<and> event_timer cfg = Some (of_nat (decimal ds)))"
proof (cases "args ''event-timer''")
  case None
  then show ?thesis by (auto simp: ServerConfig_try_from_def intro: ServerConfig.equality)
next
  case (Some s)
  have "ServerConfig_try_from args = Inr cfg \<longleftrightarrow> (\<exists>n. parse_u64 s = Some n \<and> cfg = \<lparr>event_timer = Some n\<rparr>)"
    using Some by (cases "parse_u64 s") (auto simp: ServerConfig_try_from_def)
  moreover have "cfg = \<lparr>event_timer = Some n\<rparr> \<longleftrightarrow> event_timer cfg = Some n" for n by (cases cfg) auto
  moreover have "decimal ds = unat n \<longleftrightarrow> decimal ds < 2 ^ 64 \<and> n = of_nat (decimal ds)" for ds and n :: u64
    using unsigned_less [of n, where ?'a = nat] by (auto simp: unat_of_nat)
  ultimately show ?thesis using Some by (auto simp: parse_u64_iff list_all_iff)
qed

end
