(* ===== verification/Uds_Server.thy ===== *)
theory Uds_Server
  imports Json_Server Json_Rpc_Properties Connect_Daemon Configuration
begin

text \<open>
  The service as a whole (\<^verbatim>\<open>connect/src/jsonrpc/mod.rs\<close>, \<^verbatim>\<open>create\<close> of
  \<^verbatim>\<open>jsonrpc/api.rs\<close> and \<^verbatim>\<open>main\<close> of \<^verbatim>\<open>service-daemon.rs\<close>): a listening socket
  accepts any number of connections, each is served by a future of its own, and all of them share
  one dispatcher with one service behind it.

  The first part serves connections for any shared state; the second part is the dispatcher with
  the methods the source registers.  Parsing and printing JSON and the rest of the package
  \<^verbatim>\<open>jsonrpc_core\<close> are the fields of \<open>JsonText\<close>.
\<close>

section \<open>Many connections\<close>

text \<open>The future of a connection owns its streams; \<open>dispatcher\<close> of a stored connection is what the
  shared state was when it was polled last.\<close>

record 'st UdsServer =
  uds_conns :: "nat \<rightharpoonup> 'st duplex"
  uds_service :: 'st
  uds_result :: "(unit, ConnectErrorKind) result option"

text \<open>\<^verbatim>\<open>UdsServer::new\<close>: binding a socket to a path creates its file and fails when the
  path exists; nothing in the program removes the file.  Then \<^verbatim>\<open>dispatch\<close> before the first
  connection.\<close>

definition UdsServer_new :: "string \<Rightarrow> string set \<Rightarrow> (unit, string) result \<times> string set" where
  "UdsServer_new sock_path paths =
     (if sock_path \<in> paths then (Err ''Address already in use'', paths) else (Ok (), insert sock_path paths))"

definition uds_dispatch :: "'st \<Rightarrow> 'st UdsServer" where
  "uds_dispatch service = \<lparr>uds_conns = Map.empty, uds_service = service, uds_result = None\<rparr>"

text \<open>An item of the listener's stream of connections, or its end.\<close>

definition uds_incoming ::
  "('st \<Rightarrow> nat \<times> 'st) \<Rightarrow> (unit, string) result option \<Rightarrow> 'st UdsServer \<Rightarrow> 'st UdsServer" where
  "uds_incoming new_session item u =
     (case item of
        None \<Rightarrow> u\<lparr>uds_result := Some (Ok ())\<rparr>
      | Some (Inl _) \<Rightarrow> u\<lparr>uds_result := Some (Err ImplementationError)\<rparr>
      | Some (Inr _) \<Rightarrow>
          (case new_session (uds_service u) of (k, st) \<Rightarrow>
             u\<lparr>uds_conns := (uds_conns u)(k \<mapsto> duplex_init st), uds_service := st\<rparr>))"

text \<open>A poll of the future that serves connection \<open>k\<close>; when it is over, with or without an error,
  the connection and its session are dropped.\<close>

definition uds_serve ::
  "(nat \<Rightarrow> string \<Rightarrow> 'st \<Rightarrow> (string option, unit) result \<times> 'st) \<Rightarrow> (nat \<Rightarrow> 'st \<Rightarrow> 'st) \<Rightarrow> (nat, unit) result \<Rightarrow> nat
     \<Rightarrow> 'st UdsServer \<Rightarrow> 'st UdsServer" where
  "uds_serve handle drop_session accepts k u =
     (case uds_conns u k of
        None \<Rightarrow> u
      | Some s \<Rightarrow>
          (case serve_duplex_stream (handle k) accepts (s\<lparr>dispatcher := uds_service u\<rparr>) of (status, s) \<Rightarrow>
             if status = Pending then u\<lparr>uds_conns := (uds_conns u)(k \<mapsto> s), uds_service := dispatcher s\<rparr>
             else u\<lparr>uds_conns := (uds_conns u)(k := None), uds_service := drop_session k (dispatcher s)\<rparr>))"

text \<open>Messages that the service sends on its own go to the response channel of their connection.\<close>

definition messages_to :: "nat \<Rightarrow> (nat \<times> string) list \<Rightarrow> string list" where
  "messages_to k ms = map snd (filter (\<lambda>m. fst m = k) ms)"

definition uds_notify :: "(nat \<times> string) list \<times> 'st \<Rightarrow> 'st UdsServer \<Rightarrow> 'st UdsServer" where
  "uds_notify r u = u\<lparr>uds_service := snd r,
     uds_conns := (\<lambda>k. map_option (\<lambda>s. s\<lparr>resp_stream := resp_stream s @ messages_to k (fst r)\<rparr>) (uds_conns u k))\<rparr>"

definition uds_receive :: "nat \<Rightarrow> (string, unit) result list \<Rightarrow> bool \<Rightarrow> 'st UdsServer \<Rightarrow> 'st UdsServer" where
  "uds_receive k lines eof u = u\<lparr>uds_conns := (\<lambda>k'. if k' = k
     then map_option (\<lambda>s. s\<lparr>net_in := net_in s @ lines, net_eof := eof\<rparr>) (uds_conns u k) else uds_conns u k')\<rparr>"

text \<open>\<open>uds_run \<dots> ins u\<close>: the connections have received \<open>ins\<close> so far and the server is not over.\<close>

inductive uds_run ::
  "(nat \<Rightarrow> string \<Rightarrow> 'st \<Rightarrow> (string option, unit) result \<times> 'st) \<Rightarrow> ('st \<Rightarrow> nat \<times> 'st) \<Rightarrow> (nat \<Rightarrow> 'st \<Rightarrow> 'st)
     \<Rightarrow> ('e \<Rightarrow> 'st \<Rightarrow> (nat \<times> string) list \<times> 'st) \<Rightarrow> 'st \<Rightarrow> (nat \<Rightarrow> (string, unit) result list) \<Rightarrow> 'st UdsServer \<Rightarrow> bool"
  for handle new_session drop_session own_step st where
  start: "uds_run handle new_session drop_session own_step st (\<lambda>_. []) (uds_dispatch st)"
| incoming: "uds_run handle new_session drop_session own_step st ins u
    \<Longrightarrow> uds_run handle new_session drop_session own_step st ins (uds_incoming new_session (Some (Inr ())) u)"
| receive: "uds_run handle new_session drop_session own_step st ins u \<Longrightarrow> uds_conns u k = Some s \<Longrightarrow> \<not> net_eof s
    \<Longrightarrow> uds_run handle new_session drop_session own_step st (ins(k := ins k @ lines)) (uds_receive k lines eof u)"
| serve: "uds_run handle new_session drop_session own_step st ins u
    \<Longrightarrow> uds_run handle new_session drop_session own_step st ins (uds_serve handle drop_session accepts k u)"
| notify: "uds_run handle new_session drop_session own_step st ins u
    \<Longrightarrow> uds_run handle new_session drop_session own_step st ins (uds_notify (own_step e (uds_service u)) u)"

section \<open>The reference: one thing at a time\<close>

datatype 'e uds_entry = Opened | Handled nat string | Closed nat | OwnStep 'e

fun effect ::
  "(nat \<Rightarrow> string \<Rightarrow> 'st \<Rightarrow> (string option, unit) result \<times> 'st) \<Rightarrow> ('st \<Rightarrow> nat \<times> 'st) \<Rightarrow> (nat \<Rightarrow> 'st \<Rightarrow> 'st)
     \<Rightarrow> ('e \<Rightarrow> 'st \<Rightarrow> (nat \<times> string) list \<times> 'st) \<Rightarrow> 'e uds_entry \<Rightarrow> 'st \<Rightarrow> (nat \<times> string) list \<times> 'st" where
  "effect handle new_session drop_session own_step Opened st = ([], snd (new_session st))"
| "effect handle new_session drop_session own_step (Handled k line) st =
     (case handle k line st of (r, st) \<Rightarrow> (case r of Inr (Some resp) \<Rightarrow> [(k, resp)] | _ \<Rightarrow> [], st))"
| "effect handle new_session drop_session own_step (Closed k) st = ([], drop_session k st)"
| "effect handle new_session drop_session own_step (OwnStep e) st = own_step e st"

fun replay ::
  "('e uds_entry \<Rightarrow> 'st \<Rightarrow> (nat \<times> string) list \<times> 'st) \<Rightarrow> 'e uds_entry list \<Rightarrow> 'st \<Rightarrow> (nat \<times> string) list \<times> 'st" where
  "replay eff [] st = ([], st)"
| "replay eff (x # xs) st = (case eff x st of (ms, st) \<Rightarrow> apfst (append ms) (replay eff xs st))"

fun lines_of :: "nat \<Rightarrow> 'e uds_entry list \<Rightarrow> string list" where
  "lines_of k [] = []"
| "lines_of k (Handled k' line # xs) = (if k' = k then line # lines_of k xs else lines_of k xs)"
| "lines_of k (_ # xs) = lines_of k xs"

lemma replay_append:
  "replay eff (xs @ ys) st = (case replay eff xs st of (ms, st) \<Rightarrow> apfst (append ms) (replay eff ys st))"
proof (induction xs arbitrary: st)
  case (Cons x xs)
  show ?case by (simp add: Cons apfst_def map_prod_def split: prod.split)
qed (simp add: apfst_def map_prod_def)

lemma lines_of_append [simp]: "lines_of k (xs @ ys) = lines_of k xs @ lines_of k ys"
  by (induction k xs rule: lines_of.induct) auto

lemma lines_of_handled [simp]: "lines_of k (map (Handled k') ls) = (if k' = k then ls else [])"
  by (induction ls) auto

lemma messages_to_simps [simp]:
  "messages_to k [] = []" "messages_to k (xs @ ys) = messages_to k xs @ messages_to k ys"
  "messages_to k (map (Pair k') rs) = (if k' = k then rs else [])"
  by (simp_all add: messages_to_def comp_def)

lemma handled_responses:
  "respond (handle k) lines st = Some (rs, st')
     \<Longrightarrow> replay (effect handle new_session drop_session own_step) (map (Handled k) lines) st = (map (Pair k) rs, st')"
proof (induction lines arbitrary: st rs)
  case (Cons line lines)
  then show ?case by (fastforce split: prod.splits sum.splits option.splits simp: apfst_def)
qed simp

text \<open>Whatever a poll of a connection does to the shared state, handling a prefix of its requests does.\<close>

lemma serve_handles:
  "serve_client_requests (handle k) lines resps st = (status, rest, resps', st')
     \<Longrightarrow> \<exists>served. st' = snd (replay (effect handle new_session drop_session own_step) (map (Handled k) served) st)"
proof (induction lines arbitrary: st resps)
  case Nil
  then show ?case by (auto intro: exI [of _ "[]"])
next
  case (Cons line lines)
  obtain r st1 where h: "handle k line st = (r, st1)" by fastforce
  show ?case
  proof (cases r)
    case (Inl e)
    with Cons.prems h show ?thesis by (auto intro: exI [of _ "[line]"])
  next
    case (Inr resp_opt)
    with Cons.prems h obtain resps1 where "serve_client_requests (handle k) lines resps1 st1 = (status, rest, resps', st')"
      by (auto split: option.splits)
    from Cons.IH [OF this] obtain served where "st' = snd (replay (effect handle new_session drop_session own_step) (map (Handled k) served) st1)" by blast
    with h show ?thesis by (intro exI [of _ "line # served"]) (simp add: apfst_def)
  qed
qed

lemma duplex_handles:
  assumes "serve_duplex_stream (handle k) accepts s = (status, s')"
  shows "\<exists>served. dispatcher s' = snd (replay (effect handle new_session drop_session own_step) (map (Handled k) served) (dispatcher s))"
proof -
  obtain served rest resps st' where c: "serve_client_requests (handle k) (req_stream s) (resp_stream s) (dispatcher s) = (served, rest, resps, st')"
    by (metis prod_cases4)
  with assms have "dispatcher s' = st'"
    by (auto simp: serve_duplex_stream_def Let_def split: prod.splits if_splits)
  with serve_handles [where handle = handle and k = k, OF c, of new_session drop_session own_step] show ?thesis by blast
qed

section \<open>Connections do not disturb each other\<close>

text \<open>What serving many connections relies on: session ids are fresh, and the service sends only to
  sessions that exist.\<close>

locale session_host =
  fixes handle :: "nat \<Rightarrow> string \<Rightarrow> 'st \<Rightarrow> (string option, unit) result \<times> 'st"
    and new_session :: "'st \<Rightarrow> nat \<times> 'st"
    and drop_session :: "nat \<Rightarrow> 'st \<Rightarrow> 'st"
    and own_step :: "'e \<Rightarrow> 'st \<Rightarrow> (nat \<times> string) list \<times> 'st"
    and ids :: "'st \<Rightarrow> nat"
    and inv :: "'st \<Rightarrow> bool"
  assumes new_keeps: "inv st \<Longrightarrow> new_session st = (k, st') \<Longrightarrow> inv st' \<and> ids st \<le> k \<and> k < ids st'"
    and handle_keeps: "inv st \<Longrightarrow> inv (snd (handle k line st)) \<and> ids st \<le> ids (snd (handle k line st))"
    and drop_keeps: "inv st \<Longrightarrow> inv (drop_session k st) \<and> ids st \<le> ids (drop_session k st)"
    and own_keeps: "inv st \<Longrightarrow> own_step e st = (ms, st') \<Longrightarrow> inv st' \<and> ids st \<le> ids st' \<and> (\<forall>m \<in> set ms. fst m < ids st)"
begin

abbreviation eff :: "'e uds_entry \<Rightarrow> 'st \<Rightarrow> (nat \<times> string) list \<times> 'st" where
  "eff \<equiv> effect handle new_session drop_session own_step"

lemma replay_handled_keeps:
  "inv st \<Longrightarrow> inv (snd (replay eff (map (Handled k) ls) st)) \<and> ids st \<le> ids (snd (replay eff (map (Handled k) ls) st))"
proof (induction ls arbitrary: st)
  case (Cons l ls)
  obtain r st1 where h: "handle k l st = (r, st1)" by fastforce
  with handle_keeps [OF Cons.prems, of k l] Cons.IH [of st1] show ?case by (auto simp: apfst_def)
qed simp

lemma replay_handled_to: "k' \<noteq> k \<Longrightarrow> messages_to k' (fst (replay eff (map (Handled k) ls) st)) = []"
proof (induction ls arbitrary: st)
  case (Cons l ls)
  obtain r st1 where "handle k l st = (r, st1)" by fastforce
  with Cons show ?case by (auto simp: messages_to_def split: sum.split option.split)
qed simp

text \<open>A connection agrees with the log: its requests so far and everything sent to it.\<close>

definition conn_ok :: "(nat \<Rightarrow> (string, unit) result list) \<Rightarrow> (nat \<times> string) list \<Rightarrow> 'e uds_entry list \<Rightarrow> nat \<Rightarrow> 'st duplex \<Rightarrow> bool" where
  "conn_ok ins ms log k s \<longleftrightarrow> map Inr (lines_of k log @ req_stream s) @ net_in s = ins k
     \<and> net_out s @ resp_stream s = messages_to k ms \<and> length (req_stream s) \<le> CHANNEL_CAPACITY + 1"

definition unused :: "(nat \<Rightarrow> (string, unit) result list) \<Rightarrow> (nat \<times> string) list \<Rightarrow> 'e uds_entry list \<Rightarrow> nat \<Rightarrow> bool" where
  "unused ins ms log n \<longleftrightarrow> (\<forall>k \<ge> n. lines_of k log = [] \<and> messages_to k ms = [] \<and> ins k = [])"

inductive explained :: "'st \<Rightarrow> (nat \<Rightarrow> (string, unit) result list) \<Rightarrow> 'st UdsServer \<Rightarrow> 'e uds_entry list \<Rightarrow> bool" where
  "replay eff log st = (ms, uds_service u) \<Longrightarrow> inv (uds_service u) \<Longrightarrow> unused ins ms log (ids (uds_service u))
     \<Longrightarrow> \<forall>k s. uds_conns u k = Some s \<longrightarrow> k < ids (uds_service u)
     \<Longrightarrow> \<forall>k s. uds_conns u k = Some s \<longrightarrow> conn_ok ins ms log k s \<Longrightarrow> explained st ins u log"

lemma explained_start: "inv st \<Longrightarrow> explained st (\<lambda>_. []) (uds_dispatch st) []"
  by (rule explained.intros [of _ _ "[]"]) (auto simp: uds_dispatch_def unused_def)

lemma explained_incoming:
  assumes "explained st ins u log"
  shows "explained st ins (uds_incoming new_session (Some (Inr ())) u) (log @ [Opened])"
  using assms
proof cases
  case (1 ms)
  obtain k st' where n: "new_session (uds_service u) = (k, st')" by fastforce
  note fresh = new_keeps [OF 1(2) n]
  have u: "uds_incoming new_session (Some (Inr ())) u = u\<lparr>uds_conns := (uds_conns u)(k \<mapsto> duplex_init st'), uds_service := st'\<rparr>"
    by (simp add: uds_incoming_def n)
  show ?thesis unfolding u
  proof (rule explained.intros [of _ _ ms])
    show "unused ins ms (log @ [Opened]) (ids (uds_service (u\<lparr>uds_conns := (uds_conns u)(k \<mapsto> duplex_init st'), uds_service := st'\<rparr>)))"
      using 1(3) fresh by (simp add: unused_def)
  qed (use 1 fresh n in \<open>auto simp: replay_append apfst_def conn_ok_def unused_def duplex_init_def dest: less_le_trans\<close>)
qed

lemma explained_receive:
  assumes "explained st ins u log" and "uds_conns u k = Some s"
  shows "explained st (ins(k := ins k @ lines)) (uds_receive k lines eof u) log"
  using assms(1)
proof cases
  case (1 ms)
  have "k < ids (uds_service u)" using 1(4) assms(2) by blast
  then show ?thesis
    by (intro explained.intros [of _ _ ms]) (use 1 in \<open>auto simp: uds_receive_def conn_ok_def unused_def\<close>)
qed

lemma messages_to_later: "\<forall>m \<in> set ms. fst m < n \<Longrightarrow> n \<le> k \<Longrightarrow> messages_to k ms = []"
  by (auto simp: messages_to_def filter_empty_conv)

lemma explained_notify:
  assumes "explained st ins u log"
  shows "explained st ins (uds_notify (own_step e (uds_service u)) u) (log @ [OwnStep e])"
  using assms
proof cases
  case (1 ms)
  obtain ns st' where n: "own_step e (uds_service u) = (ns, st')" by fastforce
  note keep = own_keeps [OF 1(2) n]
  then have none: "messages_to k ns = []" if "ids (uds_service u) \<le> k" for k using messages_to_later that by blast
  show ?thesis
  proof (rule explained.intros [of _ _ "ms @ ns"])
    show "replay eff (log @ [OwnStep e]) st = (ms @ ns, uds_service (uds_notify (own_step e (uds_service u)) u))"
      by (simp add: replay_append 1(1) n uds_notify_def apfst_def)
    show "unused ins (ms @ ns) (log @ [OwnStep e]) (ids (uds_service (uds_notify (own_step e (uds_service u)) u)))"
      using 1(3) keep none by (auto simp: unused_def uds_notify_def n)
    show "\<forall>k s. uds_conns (uds_notify (own_step e (uds_service u)) u) k = Some s \<longrightarrow> k < ids (uds_service (uds_notify (own_step e (uds_service u)) u))"
      using 1(4) keep by (auto simp: uds_notify_def n dest: less_le_trans)
  qed (use 1 keep in \<open>auto simp: uds_notify_def n conn_ok_def\<close>)
qed

lemma served_explained:
  assumes "explained st ins u log" and "uds_conns u k = Some s"
    and "serve_duplex_stream (handle k) accepts (s\<lparr>dispatcher := uds_service u\<rparr>) = (Pending, s')"
  shows "explained st ins (u\<lparr>uds_conns := (uds_conns u)(k \<mapsto> s'), uds_service := dispatcher s'\<rparr>) (log @ map (Handled k) (req_stream s))"
  using assms(1)
proof cases
  case (1 ms)
  obtain rs where rs: "respond (handle k) (req_stream s) (uds_service u) = Some (rs, dispatcher s')"
    "net_out s' @ resp_stream s' = net_out s @ resp_stream s @ rs"
    "map Inr (req_stream s') @ net_in s' = net_in s" "length (req_stream s') \<le> CHANNEL_CAPACITY + 1"
    using duplex_poll [OF assms(3)] by auto
  note h = handled_responses [where handle = handle and k = k and new_session = new_session and drop_session = drop_session and own_step = own_step, OF rs(1)]
  have keep: "inv (dispatcher s')" "ids (uds_service u) \<le> ids (dispatcher s')"
    using replay_handled_keeps [OF 1(2), of k "req_stream s"] by (simp_all add: h)
  have k: "k < ids (uds_service u)" using 1(4) assms(2) by blast
  show ?thesis
  proof (rule explained.intros [of _ _ "ms @ map (Pair k) rs"])
    show "\<forall>k' s1. uds_conns (u\<lparr>uds_conns := (uds_conns u)(k \<mapsto> s'), uds_service := dispatcher s'\<rparr>) k' = Some s1 \<longrightarrow>
        conn_ok ins (ms @ map (Pair k) rs) (log @ map (Handled k) (req_stream s)) k' s1"
      using 1(5) assms(2) rs(2-4) by (auto simp: conn_ok_def)
  qed (use 1 k keep in \<open>auto simp: replay_append h apfst_def unused_def dest: less_le_trans\<close>)
qed

lemma ended_explained:
  assumes "explained st ins u log" and "uds_conns u k = Some s"
    and "serve_duplex_stream (handle k) accepts (s\<lparr>dispatcher := uds_service u\<rparr>) = (status, s')"
  shows "\<exists>log'. explained st ins (u\<lparr>uds_conns := (uds_conns u)(k := None), uds_service := drop_session k (dispatcher s')\<rparr>) log'"
  using assms(1)
proof cases
  case (1 ms)
  obtain served where "dispatcher s' = snd (replay eff (map (Handled k) served) (uds_service u))"
    using duplex_handles [where handle = handle and k = k, OF assms(3), of new_session drop_session own_step] by auto
  then obtain ns where h: "replay eff (map (Handled k) served) (uds_service u) = (ns, dispatcher s')" by (metis prod.collapse)
  have keep: "inv (dispatcher s')" "ids (uds_service u) \<le> ids (dispatcher s')"
    using replay_handled_keeps [OF 1(2), of k served] by (simp_all add: h)
  note drop = drop_keeps [OF keep(1), of k]
  have k: "k < ids (uds_service u)" using 1(4) assms(2) by blast
  have others: "messages_to k' ns = []" if "k' \<noteq> k" for k'
    using replay_handled_to [OF that, of served "uds_service u"] by (simp add: h)
  have "explained st ins (u\<lparr>uds_conns := (uds_conns u)(k := None), uds_service := drop_session k (dispatcher s')\<rparr>) (log @ map (Handled k) served @ [Closed k])"
    by (rule explained.intros [of _ _ "ms @ ns"])
      (use 1 k keep drop others in \<open>auto simp: replay_append h apfst_def unused_def conn_ok_def dest: less_le_trans\<close>)
  then show ?thesis by blast
qed

lemma explained_serve:
  assumes "explained st ins u log"
  shows "\<exists>log'. explained st ins (uds_serve handle drop_session accepts k u) log'"
proof (cases "uds_conns u k")
  case None
  with assms show ?thesis by (auto simp: uds_serve_def)
next
  case (Some s)
  obtain status s' where p: "serve_duplex_stream (handle k) accepts (s\<lparr>dispatcher := uds_service u\<rparr>) = (status, s')" by fastforce
  with Some served_explained [OF assms Some] ended_explained [OF assms Some p] show ?thesis
    by (cases "status = Pending") (auto simp: uds_serve_def)
qed

lemma run_explained:
  assumes "uds_run handle new_session drop_session own_step st ins u" and "inv st"
  shows "\<exists>log. explained st ins u log"
  using assms
proof (induction rule: uds_run.induct)
  case start
  then show ?case using explained_start by blast
next
  case (incoming ins u)
  then show ?case using explained_incoming by blast
next
  case (receive ins u k s lines eof)
  then show ?case using explained_receive by blast
next
  case (serve ins u accepts k)
  then show ?case using explained_serve by blast
next
  case (notify ins u e)
  then show ?case using explained_notify by blast
qed

lemma linearized:
  assumes "uds_run handle new_session drop_session own_step st ins u" and "inv st"
  shows "\<exists>log ms. replay eff log st = (ms, uds_service u)
    \<and> (\<forall>k s. uds_conns u k = Some s \<longrightarrow> map Inr (lines_of k log @ req_stream s) @ net_in s = ins k
        \<and> net_out s @ resp_stream s = messages_to k ms \<and> length (req_stream s) \<le> CHANNEL_CAPACITY + 1)"
  using run_explained [OF assms] unfolding conn_ok_def [symmetric] by (meson explained.cases)

end

section \<open>The dispatcher\<close>

datatype rpc_outcome = MethodNotFound | Answer "(Value, RpcErrorCode) result" | Subscribed "string option"

text \<open>The text of requests, responses and notifications; a line may hold several calls.
  \<open>assign_id\<close> is the outcome of \<^verbatim>\<open>Subscriber::assign_id\<close>, \<open>subscription_param\<close> whether the
  parameters name a subscription.\<close>

record JsonText =
  decode_calls :: "string \<Rightarrow> (string \<times> Params) list"
  encode_outcomes :: "string \<Rightarrow> rpc_outcome list \<Rightarrow> string option"
  note_text :: "string \<times> Params \<Rightarrow> string"
  assign_id :: "(unit, unit) result"
  subscription_param :: "Params \<Rightarrow> bool"

text \<open>The methods and the subscription that \<^verbatim>\<open>create\<close> registers.\<close>

definition create_dispatch ::
  "('p, 'r, 'h, 's, 'c, 'w, 'i) RpcEnv \<Rightarrow> JsonText \<Rightarrow> nat \<Rightarrow> string \<times> Params \<Rightarrow> ('p, 'r, 's, 'c, 'w) RpcServer
     \<Rightarrow> (rpc_outcome \<times> ('p, 'r, 's, 'c, 'w) RpcServer) run" where
  "create_dispatch renv txt meta req st =
     (case req of (method, params) \<Rightarrow>
        if method = ''get_session'' then run_bind (get_session renv params meta st) (\<lambda>(r, st). Return (Answer r, st))
        else if method = ''subscribe_events'' then
          (case subscribe_events (assign_id txt) meta st of (i, st) \<Rightarrow> Return (Subscribed i, st))
        else if method = ''unsubscribe_events'' then
          (if subscription_param txt params then (case unsubscribe_events meta st of (r, st) \<Rightarrow> Return (Answer r, st))
           else Return (Answer (Err InvalidParams), st))
        else Return (MethodNotFound, st))"

fun dispatch_calls ::
  "('p, 'r, 'h, 's, 'c, 'w, 'i) RpcEnv \<Rightarrow> JsonText \<Rightarrow> nat \<Rightarrow> (string \<times> Params) list \<Rightarrow> ('p, 'r, 's, 'c, 'w) RpcServer
     \<Rightarrow> (rpc_outcome list \<times> ('p, 'r, 's, 'c, 'w) RpcServer) run" where
  "dispatch_calls renv txt meta [] st = Return ([], st)"
| "dispatch_calls renv txt meta (req # reqs) st =
     run_bind (create_dispatch renv txt meta req st) (\<lambda>(x, st).
     run_bind (dispatch_calls renv txt meta reqs st) (\<lambda>(xs, st). Return (x # xs, st)))"

text \<open>The process; a panic ends it.\<close>

record ('p, 'r, 's, 'c, 'w) RpcHost =
  rpc_state :: "('p, 'r, 's, 'c, 'w) RpcServer"
  panicked :: bool

definition handle_request ::
  "('p, 'r, 'h, 's, 'c, 'w, 'i) RpcEnv \<Rightarrow> JsonText \<Rightarrow> nat \<Rightarrow> string \<Rightarrow> ('p, 'r, 's, 'c, 'w) RpcHost
     \<Rightarrow> (string option, unit) result \<times> ('p, 'r, 's, 'c, 'w) RpcHost" where
  "handle_request renv txt meta line h =
     (if panicked h then (Err (), h)
      else (case dispatch_calls renv txt meta (decode_calls txt line) (rpc_state h) of
              Panic \<Rightarrow> (Err (), h\<lparr>panicked := True\<rparr>)
            | Return (xs, st) \<Rightarrow> (Ok (encode_outcomes txt line xs), h\<lparr>rpc_state := st\<rparr>)))"

definition host_session :: "('p, 'r, 's, 'c, 'w) RpcHost \<Rightarrow> nat \<times> ('p, 'r, 's, 'c, 'w) RpcHost" where
  "host_session h = (case Session_new \<lparr>sent = [], peer_gone = False\<rparr> (rpc_state h) of (k, st) \<Rightarrow> (k, h\<lparr>rpc_state := st\<rparr>))"

definition host_drop :: "nat \<Rightarrow> ('p, 'r, 's, 'c, 'w) RpcHost \<Rightarrow> ('p, 'r, 's, 'c, 'w) RpcHost" where
  "host_drop k h = h\<lparr>rpc_state := Session_drop k (rpc_state h)\<rparr>"

text \<open>What the process does between requests: a poll of a subscription, whose notifications go to its
  connection, or anything else that happens in the client.\<close>

datatype ('r, 's, 'c, 'w) host_event = PollSubscription bool nat | ClientMoves "('r, 's, 'c, 'w) Client"

definition sent_to :: "nat \<Rightarrow> ('p, 'r, 's, 'c, 'w) RpcServer \<Rightarrow> (string \<times> Params) list" where
  "sent_to k st = (case rpc_sessions st k of None \<Rightarrow> [] | Some sd \<Rightarrow> sent (pubsub_session sd))"

definition host_step ::
  "('p, 'r, 'h, 's, 'c, 'w, 'i) RpcEnv \<Rightarrow> JsonText \<Rightarrow> ('r, 's, 'c, 'w) host_event \<Rightarrow> ('p, 'r, 's, 'c, 'w) RpcHost
     \<Rightarrow> (nat \<times> string) list \<times> ('p, 'r, 's, 'c, 'w) RpcHost" where
  "host_step renv txt e h =
     (if panicked h then ([], h)
      else case e of
        ClientMoves c \<Rightarrow> ([], h\<lparr>rpc_state := set_client c (rpc_state h)\<rparr>)
      | PollSubscription ready i \<Rightarrow>
          (if i < length (subscriptions (rpc_state h)) then
             (let st = rpc_state h; k = sub_conn (subscriptions st ! i) in
              case rpc_poll renv ready i st of
                Panic \<Rightarrow> ([], h\<lparr>panicked := True\<rparr>)
              | Return st' \<Rightarrow> (map (\<lambda>n. (k, note_text txt n)) (drop (length (sent_to k st)) (sent_to k st')), h\<lparr>rpc_state := st'\<rparr>))
           else ([], h)))"

section \<open>The service keeps the contract\<close>

lemma create_dispatch_step:
  assumes "create_dispatch renv txt k req st = Return (x, st')"
  shows "rpc_step renv st st' \<or> st' = st"
  using assms
  by (auto simp: create_dispatch_def split: prod.splits if_splits
      intro: rpc_step.get_session rpc_step.subscribe rpc_step.unsubscribe)

lemma get_session_next: "get_session renv params k st = Return (r, st') \<Longrightarrow> rpc_next st' = rpc_next st"
  by (auto simp: get_session_def set_dapp_session_def split: Params.splits sum.splits prod.splits)

lemma subscribe_next: "subscribe_events assigned k st = (r, st') \<Longrightarrow> rpc_next st \<le> rpc_next st'"
  by (auto simp: subscribe_events_def Let_def set_cancel_events_def split: sum.splits option.splits)

lemma unsubscribe_next: "unsubscribe_events k st = (r, st') \<Longrightarrow> rpc_next st' = rpc_next st"
  by (auto simp: unsubscribe_events_def take_cancel_events_def split: prod.splits option.splits if_splits)

lemma create_dispatch_next:
  assumes "create_dispatch renv txt k req st = Return (x, st')"
  shows "rpc_next st \<le> rpc_next st'"
  using assms get_session_next [of renv _ k st] subscribe_next [of _ k st] unsubscribe_next [of k st]
  by (fastforce simp: create_dispatch_def split: prod.splits if_splits)

lemma dispatch_calls_keeps:
  "dispatch_calls renv txt k reqs st = Return (xs, st') \<Longrightarrow> rpc_inv st \<Longrightarrow> rpc_inv st' \<and> rpc_next st \<le> rpc_next st'"
proof (induction reqs arbitrary: st xs)
  case (Cons req reqs)
  then obtain x st1 ys where 1: "create_dispatch renv txt k req st = Return (x, st1)" "dispatch_calls renv txt k reqs st1 = Return (ys, st')"
    by (auto)
  have "rpc_inv st1" using create_dispatch_step [OF 1(1)] Cons.prems(2) rpc_inv_step by blast
  from Cons.IH [OF 1(2) this] create_dispatch_next [OF 1(1)] show ?case by simp
qed simp

lemma rpc_poll_ends:
  "rpc_next (go_on i fut c st) = rpc_next st" "rpc_sessions (go_on i fut c st) = rpc_sessions st"
  "rpc_next (end_subscription i c st) = rpc_next st" "rpc_sessions (end_subscription i c st) = rpc_sessions st"
  by (simp_all add: go_on_def end_subscription_def set_client_def Let_def)

lemma rpc_poll_frame:
  assumes "rpc_poll renv ready i st = Return st'"
  shows "rpc_next st' = rpc_next st \<and> dom (rpc_sessions st') = dom (rpc_sessions st)"
proof (cases "i < length (subscriptions st)")
  case True
  with assms obtain x c where "poll_fwd renv ready (sub_fut (subscriptions st ! i)) (client (svc st)) = Return (x, c)"
    by (auto simp: rpc_poll_def Let_def)
  with assms True show ?thesis
    by (cases x) (auto simp: rpc_poll_def Let_def rpc_poll_ends simp del: dom_fun_upd split: if_splits option.splits)
qed (use assms in \<open>simp add: rpc_poll_def\<close>)

lemma sent_to_dom: "sent_to k st \<noteq> [] \<Longrightarrow> k \<in> dom (rpc_sessions st)"
  by (auto simp: sent_to_def split: option.splits)

lemma host_step_keeps:
  assumes "rpc_inv (rpc_state h)" and "host_step renv txt e h = (ms, h')"
  shows "rpc_inv (rpc_state h') \<and> rpc_next (rpc_state h) \<le> rpc_next (rpc_state h') \<and> (\<forall>m \<in> set ms. fst m < rpc_next (rpc_state h))"
proof (cases e)
  case (ClientMoves c)
  with assms inv_svc show ?thesis by (auto simp: host_step_def set_client_def split: if_splits)
next
  case (PollSubscription ready i)
  let ?st = "rpc_state h" and ?k = "sub_conn (subscriptions (rpc_state h) ! i)"
  show ?thesis
  proof (cases "panicked h \<or> \<not> i < length (subscriptions ?st) \<or> rpc_poll renv ready i ?st = Panic")
    case True
    with assms PollSubscription show ?thesis by (auto simp: host_step_def Let_def split: if_splits)
  next
    case False
    then obtain st' where p: "rpc_poll renv ready i ?st = Return st'" by (cases "rpc_poll renv ready i ?st") auto
    with False assms(2) PollSubscription have h': "h' = h\<lparr>rpc_state := st'\<rparr>"
      and ms: "ms = map (\<lambda>n. (?k, note_text txt n)) (drop (length (sent_to ?k ?st)) (sent_to ?k st'))"
      by (auto simp: host_step_def Let_def)
    have "?k < rpc_next ?st" if "ms \<noteq> []"
    proof -
      have "sent_to ?k st' \<noteq> []" using that ms by auto
      with sent_to_dom rpc_poll_frame [OF p] assms(1) show ?thesis by (fastforce simp: rpc_inv_def)
    qed
    then show ?thesis using rpc_poll_frame [OF p] inv_poll [OF assms(1) p] ms by (cases "ms = []") (auto simp: h')
  qed
qed

lemma handle_request_keeps:
  assumes "rpc_inv (rpc_state h)"
  shows "rpc_inv (rpc_state (snd (handle_request renv txt k line h)))
    \<and> rpc_next (rpc_state h) \<le> rpc_next (rpc_state (snd (handle_request renv txt k line h)))"
  using assms dispatch_calls_keeps [of renv "txt" k "decode_calls txt line" "rpc_state h"]
  by (auto simp: handle_request_def split: run.split prod.split)

interpretation rpc_host: session_host "handle_request renv txt" host_session host_drop "host_step renv txt"
  "\<lambda>h. rpc_next (rpc_state h)" "\<lambda>h. rpc_inv (rpc_state h)"
proof
  show "rpc_inv (rpc_state h') \<and> rpc_next (rpc_state h) \<le> k \<and> k < rpc_next (rpc_state h')"
    if "rpc_inv (rpc_state h)" "host_session h = (k, h')" for h h' k
    using that inv_connected [of "rpc_state h"] by (auto simp: host_session_def Session_new_def)
  show "rpc_inv (rpc_state (host_drop k h)) \<and> rpc_next (rpc_state h) \<le> rpc_next (rpc_state (host_drop k h))"
    if "rpc_inv (rpc_state h)" for h k
    using that inv_disconnected [of "rpc_state h"] by (simp add: host_drop_def Session_drop_def)
qed (fact handle_request_keeps, fact host_step_keeps)

text \<open>C18: serving any number of connections at once is the same as doing one thing at a time.
  Whatever the order in which connections come and go, lines arrive, futures are polled and the
  client goes on in between, there is one sequence of complete requests, connections opened and closed and
  polls of subscriptions that, done one after the other, leaves the service in the same state; the
  requests of every open connection appear in it in the order in which they arrived, none lost and none twice,
  and what the connection was or will be sent are exactly its responses and notifications in that
  sequence.  At most two requests of a connection wait.\<close>

theorem connections_linearized:
  assumes "uds_run (handle_request renv txt) host_session host_drop (host_step renv txt) h ins u" and "rpc_inv (rpc_state h)"
  shows "\<exists>log ms. replay (effect (handle_request renv txt) host_session host_drop (host_step renv txt)) log h = (ms, uds_service u)
    \<and> (\<forall>k s. uds_conns u k = Some s \<longrightarrow> map Inr (lines_of k log @ req_stream s) @ net_in s = ins k
        \<and> net_out s @ resp_stream s = messages_to k ms \<and> length (req_stream s) \<le> 2)"
  using rpc_host.linearized [OF assms] by (simp add: CHANNEL_CAPACITY_def numeral_2_eq_2)

section \<open>The program\<close>

record DaemonConfig =
  my_private_key_file :: string
  home_public_key_file :: string
  home_address :: string
  uds_path :: string

definition DAEMON_CONFIG_PATH :: string where
  "DAEMON_CONFIG_PATH = ''connect.cfg''"

definition DaemonConfig_new :: "toml \<Rightarrow> (string list \<Rightarrow> DaemonConfig option) \<Rightarrow> fs \<Rightarrow> string list \<Rightarrow> DaemonConfig option" where
  "DaemonConfig_new toml_from_str get_matches_from disk cli_args =
     parse_config toml_from_str get_matches_from disk cli_args DAEMON_CONFIG_PATH"

text \<open>\<^verbatim>\<open>JsonRpcServer::new\<close>: the dispatcher of a service without connections.\<close>

definition JsonRpcServer_new :: "('p, 'r, 's, 'c, 'w) Service \<Rightarrow> ('p, 'r, 's, 'c, 'w) RpcHost" where
  "JsonRpcServer_new sv = \<lparr>rpc_state = rpc_init sv, panicked = False\<rparr>"

text \<open>\<^verbatim>\<open>main\<close> up to the moment at which it serves connections, with the paths that exist.\<close>

definition daemon_main ::
  "('alg, 'seed, 'edsigner, 'edkey, 'edsig, 'addr) DaemonEnv \<Rightarrow> ('r, ProfileId, Profile) KeyValueStore \<Rightarrow> ('p, ProfileId, OwnProfile) KeyValueStore
     \<Rightarrow> DaemonConfig \<Rightarrow> string set \<Rightarrow> 'r \<Rightarrow> 'p \<Rightarrow> 'w
     \<Rightarrow> (('p, 'r, 's, 'c, 'w) ServiceEnv \<times> ('p, 'r, 's, 'c, 'w) RpcHost UdsServer \<times> string set, ConnectErrorKind) result run" where
  "daemon_main denv rops sops cfg paths r p w =
     run_bind (init_connect_service denv rops sops (my_private_key_file cfg) (home_public_key_file cfg) (home_address cfg) r p w) (\<lambda>x.
       case x of
         Inl e \<Rightarrow> Return (Err e)
       | Inr (senv, sv, _, _) \<Rightarrow>
           (case UdsServer_new (uds_path cfg) paths of
              (Inl _, _) \<Rightarrow> Panic
            | (Inr _, paths) \<Rightarrow> Return (Ok (senv, uds_dispatch (JsonRpcServer_new sv), paths))))"

lemma daemon_mainE:
  fixes u :: "('p, 'r, 's, 'c, 'w) RpcHost UdsServer"
  assumes "daemon_main denv rops sops cfg paths r p w = Return (Inr (senv, u, paths'))"
  obtains sv where "u = uds_dispatch (JsonRpcServer_new sv)" "uds_path cfg \<notin> paths" "paths' = insert (uds_path cfg) paths"
proof -
  obtain x where x: "(init_connect_service denv rops sops (my_private_key_file cfg) (home_public_key_file cfg) (home_address cfg) r p w
      :: (('p, 'r, 's, 'c, 'w) ServiceEnv \<times> ('p, 'r, 's, 'c, 'w) Service \<times> ProfileId \<times> ProfileId, ConnectErrorKind) result run) = Return x"
    using assms by (auto simp: daemon_main_def)
  with assms that show ?thesis
    by (cases x) (auto simp: daemon_main_def UdsServer_new_def split: if_splits)
qed

lemma daemon_serves_ok:
  assumes "daemon_main denv rops sops cfg paths r p w = Return (Inr (senv, u, paths'))"
  shows "rpc_inv (rpc_state (uds_service u)) \<and> uds_conns u = Map.empty \<and> \<not> panicked (uds_service u)"
  using assms rpc_inv_reachable [OF rpc_reachable.init]
  by (auto elim!: daemon_mainE simp: JsonRpcServer_new_def uds_dispatch_def)

text \<open>The file of the socket stays, so the program does not start a second time by itself.\<close>

lemma restart_blocked:
  fixes u :: "('p, 'r, 's, 'c, 'w) RpcHost UdsServer"
  assumes "daemon_main denv rops sops cfg paths r p w = Return (Inr (senv, u, paths'))"
  shows "\<nexists>y :: ('p, 'r, 's, 'c, 'w) ServiceEnv \<times> ('p, 'r, 's, 'c, 'w) RpcHost UdsServer \<times> string set.
    daemon_main denv rops sops cfg paths' r' p' w' = Return (Inr y)"
proof
  assume "\<exists>y :: ('p, 'r, 's, 'c, 'w) ServiceEnv \<times> ('p, 'r, 's, 'c, 'w) RpcHost UdsServer \<times> string set.
    daemon_main denv rops sops cfg paths' r' p' w' = Return (Inr y)"
  with assms show False by (metis daemon_mainE insertI1 prod_cases3)
qed

section \<open>Witness\<close>

definition sample_text :: JsonText where
  "sample_text = \<lparr>decode_calls = (\<lambda>line. [(line, ParamsMap [])]), encode_outcomes = (\<lambda>line xs. Some line), note_text = fst,
     assign_id = Inr (), subscription_param = (\<lambda>_. True)\<rparr>"

theorem connections_linearized_witness:
  "\<exists>log ms st'. replay (effect (handle_request sample_rpc_env sample_text) host_session host_drop (host_step sample_rpc_env sample_text)) log
       (JsonRpcServer_new sample_service) = (ms, st')
     \<and> lines_of 1 log = [''hello''] \<and> messages_to 1 ms = [''hello''] \<and> lines_of 0 log = []"
proof -
  let ?run = "uds_run (handle_request sample_rpc_env sample_text) host_session host_drop (host_step sample_rpc_env sample_text) (JsonRpcServer_new sample_service)"
  let ?open = "uds_incoming host_session (Some (Inr ()))"
  let ?u2 = "?open (?open (uds_dispatch (JsonRpcServer_new sample_service)))"
  have "?run (\<lambda>_. []) ?u2" by (intro uds_run.incoming uds_run.start)
  moreover obtain s where s: "uds_conns ?u2 1 = Some s" "\<not> net_eof s"
    by (simp add: uds_incoming_def uds_dispatch_def host_session_def Session_new_def JsonRpcServer_new_def rpc_init_def duplex_init_def)
  ultimately have 3: "?run ((\<lambda>_. [])(1 := (\<lambda>_. []) 1 @ [Inr ''hello''])) (uds_receive 1 [Inr ''hello''] False ?u2)" (is "uds_run _ _ _ _ _ ?ins ?u3")
    by (rule uds_run.receive)
  let ?serve = "uds_serve (handle_request sample_rpc_env sample_text) host_drop (Inr 0) 1"
  from 3 have run: "?run ?ins (?serve (?serve ?u3))" by (intro uds_run.serve)
  have inv: "rpc_inv (rpc_state (JsonRpcServer_new sample_service))"
    using rpc_inv_reachable [OF rpc_reachable.init] by (simp add: JsonRpcServer_new_def)
  obtain s0 s1 where conns: "uds_conns (?serve (?serve ?u3)) 0 = Some s0" "req_stream s0 = []" "net_in s0 = []"
    "uds_conns (?serve (?serve ?u3)) 1 = Some s1" "req_stream s1 = []" "net_in s1 = []" "net_out s1 @ resp_stream s1 = [''hello'']"
    by (simp add: uds_serve_def uds_receive_def uds_incoming_def uds_dispatch_def host_session_def Session_new_def JsonRpcServer_new_def rpc_init_def
        duplex_init_def serve_duplex_stream_def fwd_resp_fut_def handle_request_def sample_text_def create_dispatch_def)
  obtain log ms where log: "replay (effect (handle_request sample_rpc_env sample_text) host_session host_drop (host_step sample_rpc_env sample_text)) log
      (JsonRpcServer_new sample_service) = (ms, uds_service (?serve (?serve ?u3)))"
    "\<forall>k s. uds_conns (?serve (?serve ?u3)) k = Some s \<longrightarrow> map Inr (lines_of k log @ req_stream s) @ net_in s = ?ins k
      \<and> net_out s @ resp_stream s = messages_to k ms \<and> length (req_stream s) \<le> 2"
    using connections_linearized [OF run inv] by blast
  have "map Inr (lines_of 1 log) = [Inr ''hello'' :: (string, unit) result]" "messages_to 1 ms = [''hello'']"
    "map Inr (lines_of 0 log) = ([] :: (string, unit) result list)"
    using log(2) [rule_format, OF conns(4)] log(2) [rule_format, OF conns(1)] conns by auto
  with log(1) show ?thesis by auto
qed

end
