(* ===== verification/Home_Node.thy ===== *)
theory Home_Node
  imports Configuration Network_Properties
begin

text \<open>
  The program of the home node (\<^verbatim>\<open>home-node/src/bin/mercury-home.rs\<close>): it keeps hosted
  profiles in files and public profiles in memory, and serves every client that connects.  The
  packages it uses are the fields of \<open>NodeMain\<close>; the disk is the file system of Key_Value_Store.  A
  restart is a second start on the disk the first run left.
\<close>

section \<open>Start-up\<close>

record ('alg, 'seed, 'edsigner, 'edkey, 'edsig, 'addr, 'base) NodeMain =
  main_cfg :: "('alg, 'seed, 'edsigner, 'edkey, 'edsig, 'addr) ConfigEnv"
  main_bincode :: bincode
  mb_encode :: "'base \<Rightarrow> bytes \<Rightarrow> string"
  mb_base64url :: 'base
  own_to_vec :: "OwnProfile \<Rightarrow> (bytes, string) result"
  own_from_slice :: "bytes \<Rightarrow> (OwnProfile, string) result"
  auth_to_vec :: "AuthenticationInfo \<Rightarrow> (bytes, unit) result"
  auth_from_slice :: "bytes \<Rightarrow> (AuthenticationInfo, unit) result"
  tcp_bind :: "'addr \<Rightarrow> (unit, string) result"

text \<open>The stores and the validator the server is built with.\<close>

definition home_main_env ::
  "('alg, 'seed, 'edsigner, 'edkey, 'edsig, 'addr, 'base) NodeMain \<Rightarrow> string \<Rightarrow> ((ProfileId, Profile) InMemoryStore, fs) HomeEnv" where
  "home_main_env m path =
     \<lparr>bincode_ser = main_bincode m, validator = default_validator (cfg_mh (main_cfg m)) (cfg_ed (main_cfg m)),
      dht_ops = InMemoryStore_ops,
      db_ops = KeyAdapter_ops (ProfileId_to_string (mb_encode m) (mb_base64url m))
        (BlockingFileStore_ops (own_to_vec m) (own_from_slice m) path)\<rparr>"

definition home_main ::
  "('alg, 'seed, 'edsigner, 'edkey, 'edsig, 'addr, 'base) NodeMain \<Rightarrow> CliConfig \<Rightarrow> fs
     \<Rightarrow> (((ProfileId, Profile) InMemoryStore, fs) HomeEnv \<times> Signer \<times> ((ProfileId, Profile) InMemoryStore, fs) HomeServer) run" where
  "home_main m cli disk =
     run_bind (Config_new (main_cfg m) cli disk) (\<lambda>config.
       let server = HomeServer_new InMemoryStore_new disk in
       case tcp_bind m (listen_socket config) of
         Inl _ \<Rightarrow> Panic
       | Inr _ \<Rightarrow> Return (home_main_env m (storage_path config), config_signer config, server))"

text \<open>An incoming connection: the outcome of \<^verbatim>\<open>set_nodelay\<close>, after how many bytes writing
  fails, and what the client sends.\<close>

record tcp_socket =
  sock_nodelay :: "(unit, unit) result"
  sock_write_fails :: "nat option"
  sock_in :: bytes

text \<open>\<^verbatim>\<open>socket.incoming().for_each(..)\<close>: every connection gets a future of its own; an error of the
  listening socket ends the program.  The connections that are served, with their contexts.\<close>

fun home_serve ::
  "('alg, 'seed, 'edsigner, 'edkey, 'edsig, 'addr, 'base) NodeMain \<Rightarrow> ('d, 'b) HomeEnv \<Rightarrow> Signer
     \<Rightarrow> (tcp_socket, string) result list \<Rightarrow> (unit, string) result \<times> (bytes \<times> PeerContext) list" where
  "home_serve m env signer [] = (Ok (), [])"
| "home_serve m env signer (Inl e # sockets) = (Err e, [])"
| "home_serve m env signer (Inr socket # sockets) =
     (case home_accept (auth_to_vec m) (auth_from_slice m) env (sock_nodelay socket) (sock_write_fails socket) (sock_in socket) signer of
        (accepted, _) \<Rightarrow>
          (case home_serve m env signer sockets of (r, conns) \<Rightarrow>
             (r, (case accepted of None \<Rightarrow> [] | Some conn \<Rightarrow> [conn]) @ conns)))"

section \<open>Clients do not affect each other\<close>

text \<open>Whatever a client sends, the ones after it are served as if it had not come.\<close>

lemma home_serve_independent:
  "fst (home_serve m env signer (map Inr socks @ sockets)) = fst (home_serve m env signer sockets)
   \<and> (\<exists>served. snd (home_serve m env signer (map Inr socks @ sockets)) = served @ snd (home_serve m env signer sockets))"
  by (induction socks) (auto split: prod.split option.split)

section \<open>Restart\<close>

lemma Config_new_path: "Config_new cenv cli disk = Return cfg \<Longrightarrow> path_to_str (cli_storage_path cli) = Some (storage_path cfg)"
  by (cases "to_socket_addrs cenv (socket_addr cli)"; auto simp: Config_new_def split: option.splits sum.splits list.splits elim: neither_ok_nor_err)
      (metis Config.select_convs(1) list.exhaust sum.exhaust)

lemma home_mainD:
  assumes "home_main m cli disk = Return (env, signer, st)" and "path_to_str (cli_storage_path cli) = Some path"
  shows "env = home_main_env m path" and "st = HomeServer_new InMemoryStore_new disk"
proof -
  obtain cfg where cfg: "Config_new (main_cfg m) cli disk = Return cfg"
    using assms(1) by (cases "Config_new (main_cfg m) cli disk") (auto simp: home_main_def)
  with assms Config_new_path [OF cfg] show "env = home_main_env m path" "st = HomeServer_new InMemoryStore_new disk"
    by (auto simp: home_main_def Let_def split: sum.splits)
qed

lemma fresh_node [simp]:
  "public_profile_dht (HomeServer_new d b) = d" "hosted_profile_db (HomeServer_new d b) = b"
  "sessions (HomeServer_new d b) = Map.empty" "next_id (HomeServer_new d b) = 0"
  by (simp_all add: HomeServer_new_def)

lemma home_main_env_sel [simp]:
  "dht_ops (home_main_env m path) = InMemoryStore_ops"
  "db_ops (home_main_env m path) = KeyAdapter_ops (ProfileId_to_string (mb_encode m) (mb_base64url m))
     (BlockingFileStore_ops (own_to_vec m) (own_from_slice m) path)"
  by (simp_all add: home_main_env_def)

lemma nothing_published: "load (home_main_env m path) (HomeServer_new InMemoryStore_new disk) i = Inl DhtLookupFailed"
  by (simp add: load_def InMemoryStore_get_def InMemoryStore_new_def)

text \<open>What the file store holds after a successful registration.\<close>

lemma register_on_disk:
  assumes reg: "register (home_main_env m path) ctx own half invite st = (Inr own', st')"
    and codec: "\<And>v bs. own_to_vec m v = Inr bs \<Longrightarrow> own_from_slice m bs = Inr v"
    and disk: "healthy (hosted_profile_db st)"
  shows "profile_id (profile own') = ctx_peer_id ctx" and "healthy (hosted_profile_db st')"
    and "kv_get (db_ops (home_main_env m path)) (hosted_profile_db st') (ctx_peer_id ctx) = Inr own'"
proof -
  let ?env = "home_main_env m path" and ?key = "ProfileId_to_string (mb_encode m) (mb_base64url m) (ctx_peer_id ctx)"
  note r = register_Ok [OF reg]
  show id: "profile_id (profile own') = ctx_peer_id ctx" using r by (simp add: registrable_def del: add_home.simps)
  have "register_store ?env own own' st = (Inr own', st')" using reg r by (simp add: register_eq del: add_home.simps)
  then obtain w' where w': "BlockingFileStore_set (own_to_vec m) path (hosted_profile_db st) ?key own' = (Inr (), w')" "hosted_profile_db st' = w'"
    using id by (auto simp: register_store_def Let_def KeyAdapter_set_def split: sum.splits prod.splits)
  then obtain bs where bs: "own_to_vec m own' = Inr bs" by (auto simp: BlockingFileStore_set_Ok)
  from healthy_set [of _ "own_to_vec m", OF disk bs, of path ?key] w'
  have disk': "healthy w'" "files w' (path_join path ?key) = Some bs" by auto
  then show "healthy (hosted_profile_db st')" using w'(2) by simp
  show "kv_get (db_ops ?env) (hosted_profile_db st') (ctx_peer_id ctx) = Inr own'"
    using healthy_get [of w' path ?key bs "own_from_slice m", OF disk' codec [OF bs]] w'(2) by (simp add: KeyAdapter_get_def)
qed

text \<open>A profile the node hosts cannot be registered again.\<close>

lemma register_hosted:
  assumes "kv_get (db_ops env) (hosted_profile_db st) (ctx_peer_id ctx) = Inr own'"
  shows "\<exists>e. register env ctx own half invite st = (Inl (own, e), st)"
proof (cases "registrable env ctx own half")
  case True
  then have "profile_id (profile own) = ctx_peer_id ctx" by (simp add: registrable_def)
  with assms register_eq [OF True, of invite st] show ?thesis by (simp add: register_store_def)
next
  case False
  from register_refused [OF this, of invite st] show ?thesis by blast
qed

lemma register_net_hosted:
  assumes "node_env ne = memory_env ser v" and "w h = Some nst" and "wire_inv imap nst" and "imap (hosted_profile_db nst) (ctx_peer_id ctx) = Some own0"
    and "sendable (profile own)"
  shows "home_register (net_ops ne) (h, Some ctx) own half invite w = Return (Inl (own, RegisterFailed), w)"
proof -
  have "kv_get (db_ops (memory_env ser v)) (hosted_profile_db nst) (ctx_peer_id ctx) = Inr own0"
    using assms(4) by (simp add: InMemoryStore_get_def)
  then obtain e where "register (memory_env ser v) ctx (carried_own own) half (Some todo_invitation) nst = (Inl (carried_own own, e), nst)"
    using register_hosted by blast
  from net_register_sent [where w = w and h = h, OF assms(2,3,5,1) this, of invite] assms(2) show ?thesis by (simp add: fun_upd_idem)
qed

lemma update_on_disk:
  assumes "kv_get (db_ops (home_main_env m path)) (hosted_profile_db st) (ctx_peer_id ctx) = Inr own'" and "healthy (hosted_profile_db st)"
    and "profile_id (profile own) = ctx_peer_id ctx" and "public_key (profile own) = peer_pubkey ctx" and "own_to_vec m own = Inr bs"
  shows "\<exists>st'. update (home_main_env m path) ctx own st = (Inr (), st') \<and> load (home_main_env m path) st' (ctx_peer_id ctx) = Inr (profile own)"
proof -
  let ?key = "ProfileId_to_string (mb_encode m) (mb_base64url m) (ctx_peer_id ctx)"
  obtain w' where "BlockingFileStore_set (own_to_vec m) path (hosted_profile_db st) ?key own = (Inr (), w')"
    using healthy_set [of _ "own_to_vec m", OF assms(2,5), of path ?key] by blast
  with assms(1,3,4) show ?thesis
    by (simp add: update_def KeyAdapter_set_def InMemoryStore_set_def load_def InMemoryStore_get_def)
qed

text \<open>C17: a profile registered at a node survives a restart of the node, its publication does not.  After a
  restart on the disk the first run left, the owner can claim exactly the profile the registration returned
  and log in with the home's proof in it, on any connection; registering again is refused.  But no
  session is left, and no profile can be loaded from the node until its owner sends an update.\<close>

theorem registration_survives_restart:
  assumes node: "path_to_str (cli_storage_path cli) = Some path" and env: "env = home_main_env m path"
    and codec: "\<And>v bs. own_to_vec m v = Inr bs \<Longrightarrow> own_from_slice m bs = Inr v"
    and disk: "healthy (hosted_profile_db st)"
    and reg: "register env ctx own half invite st = (Inr own', st')"
    and restart: "home_main m cli (hosted_profile_db st') = Return (env2, signer2, st2)"
  shows "env2 = env \<and> sessions st2 = Map.empty
    \<and> claim env ctx st2 (ctx_peer_id ctx) = Inr own'
    \<and> (\<exists>persona p. facet (profile own') = Persona persona \<and> p \<in> set (homes persona)
        \<and> (\<forall>ctx'. my_signer ctx' = my_signer ctx \<longrightarrow> (\<exists>st3. login env ctx' p st2 = (Inr (next_id st2), st3) \<and> sessions st3 (ctx_peer_id ctx) = Some (next_id st2))))
    \<and> (\<forall>own2 half2 invite2. \<exists>e. register env ctx own2 half2 invite2 st2 = (Inl (own2, e), st2))
    \<and> (\<forall>i. load env st2 i = Inl DhtLookupFailed)
    \<and> (\<forall>own2 bs. profile_id (profile own2) = ctx_peer_id ctx \<and> public_key (profile own2) = peer_pubkey ctx \<and> own_to_vec m own2 = Inr bs
        \<longrightarrow> (\<exists>st3. update env ctx own2 st2 = (Inr (), st3) \<and> load env st3 (ctx_peer_id ctx) = Inr (profile own2)))"
proof -
  note d = register_on_disk [OF reg [unfolded env] codec disk]
  note main = home_mainD [OF restart node]
  note r = register_Ok [OF reg]
  let ?p = "home_proof_of env ctx half"
  have get: "kv_get (db_ops env) (hosted_profile_db st2) (ctx_peer_id ctx) = Inr own'" using d(3) by (simp add: env main(2))
  have "\<exists>persona. facet (profile own') = Persona persona \<and> ?p \<in> set (homes persona)"
    using r by (auto simp: registrable_def)
  moreover have "\<exists>st3. login env ctx' ?p st2 = (Inr (next_id st2), st3) \<and> sessions st3 (ctx_peer_id ctx) = Some (next_id st2)"
    if "my_signer ctx' = my_signer ctx" for ctx'
    using get home_proof_peer [OF r(1)] that by (simp add: login_def main(2))
  moreover have "claim env ctx st2 (ctx_peer_id ctx) = Inr own'" using get by (simp add: claim_def)
  moreover have "\<exists>st3. update env ctx own2 st2 = (Inr (), st3) \<and> load env st3 (ctx_peer_id ctx) = Inr (profile own2)"
    if "profile_id (profile own2) = ctx_peer_id ctx" "public_key (profile own2) = peer_pubkey ctx" "own_to_vec m own2 = Inr bs" for own2 bs
    using update_on_disk [of m path st2 ctx own' own2 bs] get d(2) that by (simp add: env main(2))
  ultimately show ?thesis
    using register_hosted [OF get] nothing_published [of m path] by (auto simp: main env)
qed

section \<open>Witness\<close>

text \<open>A node with the sample keys that stores one profile; its serializer knows only this one.\<close>

definition node_disk :: fs where
  "node_disk = empty_disk\<lparr>files := [''homenode.id'' \<mapsto> [8]]\<rparr>"

definition node_cli :: CliConfig where
  "node_cli = \<lparr>private_key_file = ''homenode.id'', cli_storage_path = ''profiles'', socket_addr = ''0.0.0.0:2077''\<rparr>"

definition node_guest :: OwnProfile where
  "node_guest = OwnProfile_new (Profile_new (ProfileId [27, 1]) (PublicKey [1]) (Persona \<lparr>homes = [], persona_data = []\<rparr>)) []"

definition node_half :: RelationHalfProof where
  "node_half = RelationHalfProof_new sample_bincode RELATION_TYPE_HOSTED_ON_HOME (ProfileId [27, 8]) (sample_signer [1])"

definition node_ctx :: PeerContext where
  "node_ctx = PeerContext_new (sample_signer [8]) (PublicKey [1]) (ProfileId [27, 1])"

definition node_stored :: OwnProfile where
  "node_stored = (case sign_remaining_half sample_bincode node_half (sample_signer [8]) of
     Inr p \<Rightarrow> add_home p node_guest | Inl _ \<Rightarrow> node_guest)"

definition sample_node :: "(u8, bytes, bytes, bytes, bytes, unit, unit) NodeMain" where
  "sample_node = \<lparr>main_cfg = \<lparr>cfg_mh = sample_multihash, cfg_ed = sample_ed25519, cfg_boxed = (\<lambda>es. sample_signer (es_signer es)),
       to_socket_addrs = (\<lambda>_. Inr [()])\<rparr>,
     main_bincode = sample_bincode, mb_encode = (\<lambda>_ bs. CHR ''m'' # concat (map (\<lambda>b. if b = 0 then ''A'' else ''B'') bs)), mb_base64url = (),
     own_to_vec = (\<lambda>v. if v = node_stored then Inr [1] else Inl ''unknown''),
     own_from_slice = (\<lambda>bs. if bs = [1] then Inr node_stored else Inl ''unknown''),
     auth_to_vec = (\<lambda>_. Inr []), auth_from_slice = (\<lambda>_. Inl ()), tcp_bind = (\<lambda>_. Inr ())\<rparr>"

lemma sample_node_register:
  "\<exists>st'. register (home_main_env sample_node ''profiles'') node_ctx node_guest node_half None (HomeServer_new InMemoryStore_new node_disk)
      = (Inr node_stored, st') \<and> files (hosted_profile_db st') ''homenode.id'' = Some [8] \<and> fail_read (hosted_profile_db st') = Map.empty"
proof -
  let ?env = "home_main_env sample_node ''profiles''"
  have env: "bincode_ser ?env = sample_bincode" "validator ?env = default_validator sample_multihash sample_ed25519"
    by (simp_all add: home_main_env_def sample_node_def)
  have reg: "registrable ?env node_ctx node_guest node_half"
    using ed25519.half_proof_valid [OF sample_owns [of "[1]"], of sample_bincode RELATION_TYPE_HOSTED_ON_HOME "ProfileId [27, 8]"]
    by (simp add: registrable_def env node_ctx_def node_guest_def node_half_def PeerContext_new_def OwnProfile_new_def Profile_new_def
        RelationHalfProof_new_def Let_def sample_signer_def)
  have stored: "add_home (home_proof_of ?env node_ctx node_half) node_guest = node_stored"
    by (simp add: node_stored_def home_proof_of_def sign_remaining_half_def Let_def node_half_def RelationHalfProof_new_def env node_ctx_def
        PeerContext_new_def sample_signer_def RelationSignablePart_sign_def serialized_def del: add_home.simps)
  have id: "profile_id (profile node_guest) = ProfileId [27, 1]" "profile_id (profile node_stored) = ProfileId [27, 1]"
    unfolding stored [symmetric] by (simp_all add: node_guest_def OwnProfile_new_def Profile_new_def)
  show ?thesis
    unfolding register_eq [OF reg] stored
    by (simp add: register_store_def id KeyAdapter_get_def KeyAdapter_set_def BlockingFileStore_get_def get_bytes_def fs_read_def
        node_disk_def empty_disk_def path_join_def ProfileId_to_string_def sample_node_def InMemoryStore_set_def BlockingFileStore_set_def
        set_bytes_def fs_create_dir_all_def fs_create_def fs_write_all_def Let_def)
qed

theorem registration_survives_restart_witness:
  "\<exists>disk env signer st. home_main sample_node node_cli disk = Return (env, signer, st)
     \<and> claim env node_ctx st (ProfileId [27, 1]) = Inr node_stored \<and> load env st (ProfileId [27, 1]) = Inl DhtLookupFailed"
proof -
  let ?env = "home_main_env sample_node ''profiles''" and ?st = "HomeServer_new InMemoryStore_new node_disk"
  obtain st' where reg: "register ?env node_ctx node_guest node_half None ?st = (Inr node_stored, st')"
    and key: "files (hosted_profile_db st') ''homenode.id'' = Some [8]" "fail_read (hosted_profile_db st') = Map.empty"
    using sample_node_register by blast
  have path: "path_to_str (cli_storage_path node_cli) = Some ''profiles''" by (simp add: path_to_str_def node_cli_def)
  have "Ed25519Signer_new sample_multihash sample_ed25519 (PrivateKey [8])
      = Return (Inr \<lparr>es_profile_id = ProfileId [27, 8], es_public_key = PublicKey [8], es_signer = [8]\<rparr>)"
    using sample_new [of "[8]"] by simp
  then have restart: "home_main sample_node node_cli (hosted_profile_db st')
      = Return (?env, sample_signer [8], HomeServer_new InMemoryStore_new (hosted_profile_db st'))"
    using path key by (simp add: home_main_def Config_new_def fs_read_def) (simp add: node_cli_def sample_node_def fs_read_def key)
  have codec: "own_to_vec sample_node v = Inr bs \<Longrightarrow> own_from_slice sample_node bs = Inr v" for v bs
    by (auto simp: sample_node_def split: if_splits)
  have disk: "healthy (hosted_profile_db ?st)" by (simp add: node_disk_def empty_disk_def healthy_def)
  have ctx: "ctx_peer_id node_ctx = ProfileId [27, 1]" by (simp add: node_ctx_def PeerContext_new_def)
  show ?thesis
    using registration_survives_restart [OF path refl codec disk reg restart] restart unfolding ctx by blast
qed

end
