(* ===== verification/Protocol_Sample.thy ===== *)
theory Protocol_Sample
  imports Network_Properties Connect_Daemon Home_Node
begin

text \<open>
  The sample client of the home protocol (\<^verbatim>\<open>connect/src/bin/protocol-sample.rs\<close>): it connects to a
  home, registers, logs in and sends a ping.  It uses the interface of the home directly, without
  the client's own operations.  The command line is a function from option names to values; every
  \<^verbatim>\<open>unwrap\<close> and \<^verbatim>\<open>expect\<close> is a panic.
\<close>

section \<open>The program\<close>

text \<open>A ping over the connection of a session.\<close>

definition net_ping :: "('d, 'b) NetEnv \<Rightarrow> home_session \<Rightarrow> string \<Rightarrow> ('d, 'b) net \<Rightarrow> (string, ErrorKind) result \<times> ('d, 'b) net" where
  "net_ping ne s msg w =
     (case on_session w s of
        None \<Rightarrow> (Err PingFailed, w)
      | Some (st, sess) \<Rightarrow>
          on_conn PingFailed (\<lambda>ctx. client_ping (\<lambda>ps. rpc_send Up (dispatch_ping (err_text ne)
            (HomeSession_trait (node_env ne) ctx) ps)) msg) (fst s, Some (ss_context sess)) w)"

definition first_home_proof :: "OwnProfile \<Rightarrow> RelationProof option" where
  "first_home_proof own =
     (case facet (profile own) of
        Persona persona \<Rightarrow> (case homes persona of [] \<Rightarrow> None | item # _ \<Rightarrow> Some item)
      | _ \<Rightarrow> None)"

text \<open>\<^verbatim>\<open>test_fut\<close>: connect, register, log in, ping.\<close>

definition test_fut ::
  "('r, 'h, 's, 'c, 'w) ClientEnv \<Rightarrow> ('s \<Rightarrow> string \<Rightarrow> 'w \<Rightarrow> (string, ErrorKind) result \<times> 'w) \<Rightarrow> nat \<Rightarrow> ProfileId \<Rightarrow> OwnProfile \<Rightarrow> Signer
     \<Rightarrow> ('r, 's, 'c, 'w) Client \<Rightarrow> ((string, ErrorKind) result \<times> ('r, 's, 'c, 'w) Client) run" where
  "test_fut env session_ping profile_gw server_id client_own_profile client_signer st =
     run_bind (connect_home env profile_gw server_id st) (\<lambda>(r, st).
       case r of
         Inl _ \<Rightarrow> Return (Err ErrorKind.ConnectionToHomeFailed, st)
       | Inr home \<Rightarrow>
           (let halfproof = RelationHalfProof_new (client_ser env) RELATION_TYPE_HOSTED_ON_HOME server_id client_signer in
            run_bind (home_register (home_ops env) home client_own_profile halfproof None (remote st)) (\<lambda>r. case r of
              (Inl (_, e), w) \<Rightarrow> Return (Err e, st\<lparr>remote := w\<rparr>)
            | (Inr own, w) \<Rightarrow>
                (case first_home_proof own of
                   None \<Rightarrow> Return (Err ErrorKind.LoginFailed, st\<lparr>remote := w\<rparr>)
                 | Some proof \<Rightarrow>
                     (case home_login (home_ops env) home proof w of
                        (Inl e, w) \<Rightarrow> Return (Err e, st\<lparr>remote := w\<rparr>)
                      | (Inr s, w) \<Rightarrow> (case session_ping s ''hahoooo'' w of (pong, w) \<Rightarrow> Return (pong, st\<lparr>remote := w\<rparr>)))))))"

definition protocol_sample ::
  "('alg, 'seed, 'edsigner, 'edkey, 'edsig, 'addr) DaemonEnv \<Rightarrow> ((ProfileId, Profile) InMemoryStore, 'h, 's, 'c, 'w) ClientEnv
     \<Rightarrow> ('s \<Rightarrow> string \<Rightarrow> 'w \<Rightarrow> (string, ErrorKind) result \<times> 'w) \<Rightarrow> arg_matches \<Rightarrow> 'w
     \<Rightarrow> ((string, ErrorKind) result \<times> ((ProfileId, Profile) InMemoryStore, 's, 'c, 'w) Client) run" where
  "protocol_sample denv env session_ping matches w =
     (case (case matches ''client-key-file'' of None \<Rightarrow> Panic | Some f \<Rightarrow> (case read_file denv f of Inl _ \<Rightarrow> Panic | Inr key \<Rightarrow> Return key)) of
        Panic \<Rightarrow> Panic
      | Return client_key \<Rightarrow>
          run_bind (Ed25519Signer_new (mh_lib denv) (ed_lib denv) (PrivateKey client_key)) (\<lambda>signer.
          case signer of
            Inl _ \<Rightarrow> Panic
          | Inr es \<Rightarrow>
              (let client_signer = boxed denv es;
                   client_profile = Profile_new (signer_profile_id client_signer) (signer_public_key client_signer) (Persona \<lparr>homes = [], persona_data = []\<rparr>);
                   client_own_profile = OwnProfile_new client_profile []
               in case (matches ''server-key-file'', matches ''server-addr'') of
                    (Some server_key_file, Some addr_str) \<Rightarrow>
                      (case parse_addr denv addr_str of
                         Inl _ \<Rightarrow> Panic
                       | Inr srv_addr \<Rightarrow>
                           (case to_multiaddr denv srv_addr of
                              Inl _ \<Rightarrow> Panic
                            | Inr addr \<Rightarrow>
                                (case read_file denv server_key_file of
                                   Inl _ \<Rightarrow> Panic
                                 | Inr server_key \<Rightarrow>
                                     run_bind (ProfileId_from_public_key (mh_lib denv) (PublicKey server_key)) (\<lambda>server_id.
                                       let home_profile = Profile_new_home server_id (PublicKey server_key) addr;
                                           profile_store = snd (SimpleProfileRepo_insert InMemoryStore_ops home_profile InMemoryStore_new)
                                       in case alloc_profile client_own_profile client_signer (client_init profile_store w) of (profile_gw, st) \<Rightarrow>
                                            test_fut env session_ping profile_gw server_id client_own_profile client_signer st))))
                  | _ \<Rightarrow> Panic)))"

section \<open>The sample works once per identity\<close>

lemma net_ping_session:
  assumes "w h = Some nst" and "session_heap nst sid = Some s"
  shows "net_ping ne (h, sid) msg w = (Inr msg, w(h \<mapsto> nst))"
  using assms
  by (simp add: net_ping_def on_session_def on_conn_def client_ping_def dispatch_ping_def Capnp_Rpc.respond_def rpc_send_def pry_def dispatch_def
      HomeSession_trait_def ping_def)

text \<open>What the program has when its arguments are in order.\<close>

definition sample_ready ::
  "('alg, 'seed, 'edsigner, 'edkey, 'edsig, 'addr) DaemonEnv \<Rightarrow> arg_matches \<Rightarrow> Signer \<Rightarrow> ProfileId \<Rightarrow> PublicKey \<Rightarrow> bool" where
  "sample_ready denv matches sg h pk \<longleftrightarrow> (\<exists>ckf skf a key es hk sa ma. matches ''client-key-file'' = Some ckf \<and> read_file denv ckf = Inr key
     \<and> Ed25519Signer_new (mh_lib denv) (ed_lib denv) (PrivateKey key) = Return (Inr es) \<and> boxed denv es = sg \<and> backed_by (ed_lib denv) es sg \<and> pk = es_public_key es
     \<and> matches ''server-key-file'' = Some skf \<and> matches ''server-addr'' = Some a \<and> parse_addr denv a = Inr sa \<and> to_multiaddr denv sa = Inr ma
     \<and> read_file denv skf = Inr hk \<and> ProfileId_from_public_key (mh_lib denv) (PublicKey hk) = Return h)"

lemma sample_ready_owns: "sample_ready denv matches sg h pk \<Longrightarrow> ed25519_ok (ed_lib denv) \<Longrightarrow> ed_owns (mh_lib denv) (ed_lib denv) pk sg"
  by (auto simp: sample_ready_def ed_owns_def)

lemma protocol_sample_ready:
  assumes "sample_ready denv matches sg h pk"
  shows "\<exists>self st. protocol_sample denv env session_ping matches w = test_fut env session_ping 0 h (own_profile self) sg st
    \<and> my_profiles st 0 = Some self \<and> mp_signer self = sg \<and> homeless pk self \<and> remote st = w
    \<and> (\<exists>hp hf. imap (repo st) h = Some hp \<and> profile_id hp = h \<and> facet hp = Home hf)"
proof -
  obtain ckf skf a key es hk sa ma where r: "matches ''client-key-file'' = Some ckf" "read_file denv ckf = Inr key"
    "Ed25519Signer_new (mh_lib denv) (ed_lib denv) (PrivateKey key) = Return (Inr es)" "boxed denv es = sg" "backed_by (ed_lib denv) es sg" "pk = es_public_key es"
    "matches ''server-key-file'' = Some skf" "matches ''server-addr'' = Some a" "parse_addr denv a = Inr sa" "to_multiaddr denv sa = Inr ma"
    "read_file denv skf = Inr hk" "ProfileId_from_public_key (mh_lib denv) (PublicKey hk) = Return h"
    using assms unfolding sample_ready_def by blast
  let ?own = "OwnProfile_new (Profile_new (signer_profile_id sg) (signer_public_key sg) (Persona \<lparr>homes = [], persona_data = []\<rparr>)) []"
  let ?repo = "snd (SimpleProfileRepo_insert InMemoryStore_ops (Profile_new_home h (PublicKey hk) ma) InMemoryStore_new)"
  let ?st = "snd (alloc_profile ?own sg (client_init ?repo w))"
  have "protocol_sample denv env session_ping matches w = test_fut env session_ping 0 h ?own sg ?st"
    using r by (simp add: protocol_sample_def Let_def alloc_profile_def client_init_def)
  moreover have "homeless pk (MyProfileImpl_new ?own sg)" "own_profile (MyProfileImpl_new ?own sg) = ?own"
    using r(5,6) by (simp_all add: homeless_def MyProfileImpl_new_def OwnProfile_new_def Profile_new_def backed_by_def)
  moreover have "my_profiles ?st 0 = Some (MyProfileImpl_new ?own sg)" "mp_signer (MyProfileImpl_new ?own sg) = sg" "remote ?st = w"
    by (simp_all add: alloc_profile_def client_init_def MyProfileImpl_new_def)
  moreover have "\<exists>hp hf. imap (repo ?st) h = Some hp \<and> profile_id hp = h \<and> facet hp = Home hf"
    by (simp add: alloc_profile_def client_init_def SimpleProfileRepo_insert_def InMemoryStore_set_def Profile_new_home_def)
  ultimately show ?thesis by metis
qed

text \<open>The ends of the program at a node that does not host the profile and at one that does.\<close>

lemma test_fut_pong:
  fixes st :: "((ProfileId, Profile) InMemoryStore, home_session, event_stream, ((ProfileId, Profile) InMemoryStore, (ProfileId, OwnProfile) InMemoryStore) net) Client"
  assumes net: "on_net ne env" "multihash_ok mh" "node_env ne = memory_env ser (default_validator mh ed)" "repo_ops env = InMemoryStore_ops"
    and self: "my_profiles st this = Some self" "ed_owns mh ed pk (mp_signer self)" "homeless pk self"
    and home: "free_home ne st (signer_profile_id (mp_signer self)) h"
  shows "\<exists>st' nst'. test_fut env (net_ping ne) this h (own_profile self) (mp_signer self) st = Return (Inr ''hahoooo'', st')
    \<and> remote st' h = Some nst' \<and> wire_inv imap nst' \<and> imap (hosted_profile_db nst') (signer_profile_id (mp_signer self)) \<noteq> None"
proof -
  let ?me = "signer_profile_id (mp_signer self)" and ?own = "own_profile self"
  let ?ctx = "PeerContext_new (node_signer ne h) pk ?me"
  obtain hp hf nst where h: "signer_profile_id (node_signer ne h) = h" "imap (repo st) h = Some hp" "profile_id hp = h" "facet hp = Home hf"
    "remote st h = Some nst" "wire_inv imap nst" "imap (hosted_profile_db nst) ?me = None"
    using home unfolding free_home_def by blast
  have own: "profile_id (profile ?own) = ?me" "public_key (profile ?own) = pk" "facet (profile ?own) = Persona \<lparr>homes = [], persona_data = []\<rparr>"
    using self(3) by (simp_all add: homeless_def)
  obtain p own' nst1 where reg: "home_register (net_ops ne) (h, Some ?ctx) ?own (RelationHalfProof_new ser RELATION_TYPE_HOSTED_ON_HOME h (mp_signer self)) None (remote st)
      = Return (Inr own', (remote st)(h \<mapsto> nst1))" "facet (profile own') = Persona \<lparr>homes = [p], persona_data = []\<rparr>"
    and p: "relation_type p = RELATION_TYPE_HOSTED_ON_HOME" "peer_id p h = Inr ?me"
    and nst1: "imap (hosted_profile_db nst1) ?me = Some own'" "wire_inv imap nst1"
    using register_net_free [where w = "remote st" and h = h and invite = None, OF net(3) self(2) own h(1,5-7) refl] by metis
  define nst2 where "nst2 = snd (login (node_env ne) ?ctx p nst1)"
  have login: "login (node_env ne) ?ctx p nst1 = (Inr (next_id nst1), nst2)" "session_heap nst2 (next_id nst1) \<noteq> None"
      "hosted_profile_db nst2 = hosted_profile_db nst1"
    using p nst1(1) h(1) by (simp_all add: nst2_def login_def net(3) InMemoryStore_get_def PeerContext_new_def)
  have "home_login (net_ops ne) (h, Some ?ctx) p ((remote st)(h \<mapsto> nst1)) = (Inr (h, next_id nst1), (remote st)(h \<mapsto> nst2))"
    using net_login [of "(remote st)(h \<mapsto> nst1)" h nst1, OF _ login(1)] by simp
  moreover have "net_ping ne (h, next_id nst1) ''hahoooo'' ((remote st)(h \<mapsto> nst2)) = (Inr ''hahoooo'', (remote st)(h \<mapsto> nst2))"
    using net_ping_session [of "(remote st)(h \<mapsto> nst2)" h nst2 "next_id nst1"] login(2) by auto
  moreover have "connect_home env this h st = Return (Inr (h, Some ?ctx), st)"
    using h net self(1) owner_accepted [OF net(2) self(2), of "memory_env ser (default_validator mh ed)"]
    by (simp add: connect_home_def connect_home2_Return on_net_def net_connector_def SimpleProfileRepo_load_def InMemoryStore_get_def)
  ultimately have "test_fut env (net_ping ne) this h ?own (mp_signer self) st = Return (Inr ''hahoooo'', st\<lparr>remote := (remote st)(h \<mapsto> nst2)\<rparr>)"
    using reg net(1,3) by (simp add: test_fut_def on_net_def first_home_proof_def Let_def)
  with nst1 login(3) wire_inv_db [of imap nst1 nst2] show ?thesis by auto
qed

lemma test_fut_refused:
  fixes st :: "((ProfileId, Profile) InMemoryStore, home_session, event_stream, ((ProfileId, Profile) InMemoryStore, (ProfileId, OwnProfile) InMemoryStore) net) Client"
  assumes net: "on_net ne env" "multihash_ok mh" "node_env ne = memory_env ser (default_validator mh ed)" "repo_ops env = InMemoryStore_ops"
    and self: "my_profiles st this = Some self" "ed_owns mh ed pk (mp_signer self)" "homeless pk self"
    and home: "imap (repo st) h = Some hp" "profile_id hp = h" "facet hp = Home hf" "remote st h = Some nst" "wire_inv imap nst"
      "imap (hosted_profile_db nst) (signer_profile_id (mp_signer self)) = Some own0"
  shows "test_fut env session_ping this h (own_profile self) (mp_signer self) st = Return (Inl RegisterFailed, st)"
proof -
  let ?ctx = "PeerContext_new (node_signer ne h) pk (signer_profile_id (mp_signer self))"
  have "sendable (profile (own_profile self))" using self(3) by (simp add: homeless_def sendable_def)
  with register_net_hosted [where w = "remote st" and h = h and ctx = ?ctx, OF net(3) home(4,5)] home(6)
  have "home_register (net_ops ne) (h, Some ?ctx) (own_profile self) half invite (remote st) = Return (Inl (own_profile self, RegisterFailed), remote st)" for half invite
    by (simp add: PeerContext_new_def)
  moreover have "connect_home env this h st = Return (Inr (h, Some ?ctx), st)"
    using home net self(1) owner_accepted [OF net(2) self(2), of "memory_env ser (default_validator mh ed)"]
    by (simp add: connect_home_def connect_home2_Return on_net_def net_connector_def SimpleProfileRepo_load_def InMemoryStore_get_def)
  ultimately show ?thesis using net(1) by (simp add: test_fut_def on_net_def Let_def)
qed

text \<open>C19: the sample client works once.  With its arguments in order, and at a home that does not
  host its profile, it connects, registers, logs in with the proof it got from the registration, and gets
  its own message back from its ping; afterwards the home hosts the profile.  At any later
  time, as long as the home hosts the profile, the same program fails to register and changes nothing.\<close>

theorem protocol_sample_once:
  fixes w :: "((ProfileId, Profile) InMemoryStore, (ProfileId, OwnProfile) InMemoryStore) net"
  assumes net: "on_net ne env" "node_env ne = memory_env ser (default_validator (mh_lib denv) (ed_lib denv))" "repo_ops env = InMemoryStore_ops"
    and libs: "multihash_ok (mh_lib denv)" "ed25519_ok (ed_lib denv)" and ready: "sample_ready denv matches sg h pk"
    and home: "signer_profile_id (node_signer ne h) = h" "w h = Some nst" "wire_inv imap nst" "sessions nst (signer_profile_id sg) = None"
      "imap (hosted_profile_db nst) (signer_profile_id sg) = None"
  shows "(\<exists>st nst'. protocol_sample denv env (net_ping ne) matches w = Return (Inr ''hahoooo'', st)
      \<and> remote st h = Some nst' \<and> wire_inv imap nst' \<and> imap (hosted_profile_db nst') (signer_profile_id sg) \<noteq> None)
    \<and> (\<forall>w2 n2. w2 h = Some n2 \<and> wire_inv imap n2 \<and> imap (hosted_profile_db n2) (signer_profile_id sg) \<noteq> None \<longrightarrow>
      (\<exists>st. protocol_sample denv env (net_ping ne) matches w2 = Return (Inl RegisterFailed, st) \<and> remote st = w2))"
proof (intro conjI allI impI)
  note owns = sample_ready_owns [OF ready libs(2)]
  obtain self st where 1: "protocol_sample denv env (net_ping ne) matches w = test_fut env (net_ping ne) 0 h (own_profile self) sg st"
    "my_profiles st 0 = Some self" "mp_signer self = sg" "homeless pk self" "remote st = w" "\<exists>hp hf. imap (repo st) h = Some hp \<and> profile_id hp = h \<and> facet hp = Home hf"
    using protocol_sample_ready [OF ready, of env "net_ping ne" w] by blast
  have "free_home ne st (signer_profile_id (mp_signer self)) h" using home 1(3,5,6) by (simp add: free_home_def)
  with test_fut_pong [OF net(1) libs(1) net(2,3) 1(2) _ 1(4)] owns 1(1,3)
  show "\<exists>st nst'. protocol_sample denv env (net_ping ne) matches w = Return (Inr ''hahoooo'', st)
      \<and> remote st h = Some nst' \<and> wire_inv imap nst' \<and> imap (hosted_profile_db nst') (signer_profile_id sg) \<noteq> None" by auto
  fix w2 :: "((ProfileId, Profile) InMemoryStore, (ProfileId, OwnProfile) InMemoryStore) net" and n2
  assume n2: "w2 h = Some n2 \<and> wire_inv imap n2 \<and> imap (hosted_profile_db n2) (signer_profile_id sg) \<noteq> None"
  obtain self st where 2: "protocol_sample denv env (net_ping ne) matches w2 = test_fut env (net_ping ne) 0 h (own_profile self) sg st"
    "my_profiles st 0 = Some self" "mp_signer self = sg" "homeless pk self" "remote st = w2" "\<exists>hp hf. imap (repo st) h = Some hp \<and> profile_id hp = h \<and> facet hp = Home hf"
    using protocol_sample_ready [OF ready, of env "net_ping ne" w2] by blast
  from 2(6) obtain hp hf where "imap (repo st) h = Some hp" "profile_id hp = h" "facet hp = Home hf" by blast
  with n2 2(3,5) test_fut_refused [OF net(1) libs(1) net(2,3) 2(2) _ 2(4), of h hp hf n2] owns
  show "\<exists>st. protocol_sample denv env (net_ping ne) matches w2 = Return (Inl RegisterFailed, st) \<and> remote st = w2"
    using 2(1) by auto
qed

section \<open>Witness\<close>

definition sample_matches :: arg_matches where
  "sample_matches = [''client-key-file'' \<mapsto> ''client.id'', ''server-key-file'' \<mapsto> ''homenode.id.pub'', ''server-addr'' \<mapsto> ''127.0.0.1:2077'']"

theorem protocol_sample_once_witness:
  "\<exists>st. protocol_sample sample_daemon_env net_client_env (net_ping sample_net_env) sample_matches
     [ProfileId [27, 7] \<mapsto> HomeServer_new InMemoryStore_new InMemoryStore_new] = Return (Inr ''hahoooo'', st)"
proof -
  let ?es = "\<lparr>es_profile_id = ProfileId [27, 1], es_public_key = PublicKey [1], es_signer = [1]\<rparr>"
  let ?w = "[ProfileId [27, 7] \<mapsto> HomeServer_new InMemoryStore_new InMemoryStore_new] :: ((ProfileId, Profile) InMemoryStore, (ProfileId, OwnProfile) InMemoryStore) net"
  have ready: "sample_ready sample_daemon_env sample_matches (sample_signer [1]) (ProfileId [27, 7]) (PublicKey [1])"
    using sample_new [of "[1]"] sample_backed [of "[1]"]
    by (simp add: sample_ready_def sample_matches_def sample_daemon_env_def ProfileId_from_public_key_def sample_multihash_def)
  have env: "node_env sample_net_env = memory_env sample_bincode (default_validator (mh_lib sample_daemon_env) (ed_lib sample_daemon_env))"
    by (simp add: net_sample_ok(2) duo_env_def sample_daemon_env_def)
  have libs: "multihash_ok (mh_lib sample_daemon_env)" "ed25519_ok (ed_lib sample_daemon_env)"
    using sample_ok by (simp_all add: sample_daemon_env_def)
  have node: "signer_profile_id (node_signer sample_net_env (ProfileId [27, 7])) = ProfileId [27, 7]"
    "?w (ProfileId [27, 7]) = Some (HomeServer_new InMemoryStore_new InMemoryStore_new)"
    "wire_inv imap (HomeServer_new InMemoryStore_new InMemoryStore_new :: ((ProfileId, Profile) InMemoryStore, (ProfileId, OwnProfile) InMemoryStore) HomeServer)"
    by (simp_all add: sample_net_env_def wire_inv_def HomeServer_new_def InMemoryStore_new_def)
  from protocol_sample_once [where w = ?w, OF net_sample_ok(1) env net_sample_ok(4) libs ready node] show ?thesis
    by (simp add: HomeServer_new_def InMemoryStore_new_def) blast
qed

end
