(* ===== verification/Button.thy ===== *)
theory Button
  imports Connect_Daemon Configuration Home_Server
begin

text \<open>
  The example application (\<^verbatim>\<open>examples/TheButton\<close>), a user of the client library: a server that
  accepts pairings and calls and notifies all its callers when the button is pressed, and a client
  that pairs with the server if it has to, calls it and listens.

  Each program is a state and the polls of its futures.  A server polls its futures side by side, so
  \<open>button_step\<close> takes one poll of one of them, a press, or a change in the world around; a run is any
  sequence of these.  The signal and the interval timer are inputs.  \<open>caller_chans\<close> are the channels
  to the callers, by the sink a call brings; a channel is the list of messages it accepted.
\<close>

section \<open>Start-up\<close>

record AppContext =
  client_id :: ProfileId
  home_id :: ProfileId
  app_id :: ApplicationId

text \<open>The service is built as in the service daemon, with profiles in files and own profiles in
  memory.\<close>

definition button_init_connect_service ::
  "('alg, 'seed, 'edsigner, 'edkey, 'edsig, 'addr) DaemonEnv \<Rightarrow> (ProfileId \<Rightarrow> string) \<Rightarrow> (Profile \<Rightarrow> (bytes, string) result) \<Rightarrow> (bytes \<Rightarrow> (Profile, string) result)
     \<Rightarrow> string \<Rightarrow> string \<Rightarrow> string \<Rightarrow> fs \<Rightarrow> 'w
     \<Rightarrow> (((ProfileId, OwnProfile) InMemoryStore, fs, 's, 'c, 'w) ServiceEnv \<times> ((ProfileId, OwnProfile) InMemoryStore, fs, 's, 'c, 'w) Service \<times> ProfileId \<times> ProfileId, ConnectErrorKind) result run" where
  "button_init_connect_service denv into to_vec from_slice my_private_profilekey_file home_id_str home_addr_str disk w =
     init_connect_service denv (KeyAdapter_ops into (BlockingFileStore_ops to_vec from_slice ''/tmp/mercury/thebutton-storage''))
       InMemoryStore_ops my_private_profilekey_file home_id_str home_addr_str disk InMemoryStore_new w"

definition AppContext_new ::
  "('alg, 'seed, 'edsigner, 'edkey, 'edsig, 'addr) DaemonEnv \<Rightarrow> (ProfileId \<Rightarrow> string) \<Rightarrow> (Profile \<Rightarrow> (bytes, string) result) \<Rightarrow> (bytes \<Rightarrow> (Profile, string) result)
     \<Rightarrow> string \<Rightarrow> string \<Rightarrow> string \<Rightarrow> fs \<Rightarrow> 'w
     \<Rightarrow> (((ProfileId, OwnProfile) InMemoryStore, fs, 's, 'c, 'w) ServiceEnv \<times> ((ProfileId, OwnProfile) InMemoryStore, fs, 's, 'c, 'w) Service \<times> AppContext, ConnectErrorKind) result run" where
  "AppContext_new denv into to_vec from_slice priv_key node_id node_addr disk w =
     run_bind (button_init_connect_service denv into to_vec from_slice priv_key node_id node_addr disk w) (\<lambda>r.
       Return (map_ok (\<lambda>(senv, sv, client_id, home_id).
         (senv, sv, \<lparr>client_id = client_id, home_id = home_id, app_id = ApplicationId ''TheButton-dApp-Sample''\<rparr>)) r))"

text \<open>What the application runs on: the client library, the streams of incoming calls, and the trait
  \<^verbatim>\<open>IncomingCall\<close> with what dropping a call does.\<close>

record ('p, 'r, 'h, 's, 'c, 'w, 'i) ButtonEnv =
  bt_client :: "('r, 'h, 's, 'c, 'w) ClientEnv"
  bt_senv :: "('p, 'r, 's, 'c, 'w) ServiceEnv"
  bt_next_call :: "'c \<Rightarrow> 'w \<Rightarrow> ('i, string) result poll \<times> 'w"
  bt_answer :: "'i \<Rightarrow> AppMsgSink option \<Rightarrow> 'w \<Rightarrow> CallRequestDetails \<times> 'w"
  bt_drop_call :: "'i \<Rightarrow> 'w \<Rightarrow> 'w"

definition init_app_common ::
  "('p, 'r, 'h, 's, 'c, 'w, 'i) ButtonEnv \<Rightarrow> AppContext \<Rightarrow> ('p, 'r, 's, 'c, 'w) Service
     \<Rightarrow> ((nat, ConnectErrorKind) result \<times> ('p, 'r, 's, 'c, 'w) Service) run" where
  "init_app_common benv cx sv =
     (case admin_session (bt_senv benv) None of
        Inl e \<Rightarrow> Return (Err e, sv)
      | Inr admin \<Rightarrow>
          (case AdminSession_profile admin (client_id cx) sv of
             (Inl e, sv) \<Rightarrow> Return (Err e, sv)
           | (Inr my_profile, sv) \<Rightarrow>
               run_bind (join_home (bt_client benv) my_profile (home_id cx) None (client sv)) (\<lambda>(r, c).
                 Return (map_ok (\<lambda>_. my_profile) r, sv\<lparr>client := c\<rparr>))))"

text \<open>\<^verbatim>\<open>init_server\<close> joins the home, logs in and spawns the future that accepts pairing requests,
  given by its profile and its listener.\<close>

definition init_server ::
  "('p, 'r, 'h, 's, 'c, 'w, 'i) ButtonEnv \<Rightarrow> AppContext \<Rightarrow> ('p, 'r, 's, 'c, 'w) Service
     \<Rightarrow> ((nat \<times> channel_id, ConnectErrorKind) result \<times> ('p, 'r, 's, 'c, 'w) Service) run" where
  "init_server benv cx sv =
     run_bind (init_app_common benv cx sv) (\<lambda>(r, sv).
       case r of
         Inl e \<Rightarrow> Return (Err e, sv)
       | Inr my_profile \<Rightarrow>
           run_bind (MyProfile_login (bt_client benv) my_profile (client sv)) (\<lambda>(r, c).
             case r of
               Inl e \<Rightarrow> Return (Err e, sv\<lparr>client := c\<rparr>)
             | Inr my_session \<Rightarrow>
                 (case MyHomeSession_events my_session c of (evs, c) \<Rightarrow> Return (Ok (my_profile, evs), sv\<lparr>client := c\<rparr>))))"

section \<open>The server\<close>

datatype 'c server_fut =
    Initializing
  | OpeningSession
  | Listening DAppSessionImpl 'c channel_id bool
  | ServerDone "(unit, ConnectErrorKind) result"

record ('p, 'r, 's, 'c, 'w) ButtonServer =
  server_cfg :: ServerConfig
  appctx :: AppContext
  active_calls :: "DAppCall list"
  bt_service :: "('p, 'r, 's, 'c, 'w) Service"
  server_fut :: "'c server_fut"
  accepting :: "(nat \<times> channel_id) option"
  button_presses :: nat
  spawned_sends :: "AppMsgSink list"
  caller_chans :: "AppMsgSink \<Rightarrow> AppMessageFrame channel"

definition Server_new :: "ServerConfig \<Rightarrow> AppContext \<Rightarrow> ('p, 'r, 's, 'c, 'w) Service \<Rightarrow> ('p, 'r, 's, 'c, 'w) ButtonServer" where
  "Server_new cfg cx sv =
     \<lparr>server_cfg = cfg, appctx = cx, active_calls = [], bt_service = sv, server_fut = Initializing, accepting = None,
      button_presses = 0, spawned_sends = [], caller_chans = (\<lambda>_. new_channel)\<rparr>"

definition set_bt_client :: "('r, 's, 'c, 'w) Client \<Rightarrow> ('p, 'r, 's, 'c, 'w) ButtonServer \<Rightarrow> ('p, 'r, 's, 'c, 'w) ButtonServer" where
  "set_bt_client c s = s\<lparr>bt_service := (bt_service s)\<lparr>client := c\<rparr>\<rparr>"

text \<open>The futures that \<^verbatim>\<open>select\<close> polls are polled while none of them is over.\<close>

definition serving :: "('p, 'r, 's, 'c, 'w) ButtonServer \<Rightarrow> bool" where
  "serving s = (case server_fut s of OpeningSession \<Rightarrow> True | Listening _ _ _ _ \<Rightarrow> True | _ \<Rightarrow> False)"

text \<open>\<^verbatim>\<open>init_server(&self).then(|_| server_fut)\<close>: the outcome is ignored.\<close>

definition poll_init :: "('p, 'r, 'h, 's, 'c, 'w, 'i) ButtonEnv \<Rightarrow> ('p, 'r, 's, 'c, 'w) ButtonServer \<Rightarrow> ('p, 'r, 's, 'c, 'w) ButtonServer run" where
  "poll_init benv s =
     (case server_fut s of
        Initializing \<Rightarrow>
          run_bind (init_server benv (appctx s) (bt_service s)) (\<lambda>(r, sv).
            Return (s\<lparr>bt_service := sv, accepting := ok r, server_fut := OpeningSession\<rparr>))
      | _ \<Rightarrow> Return s)"

text \<open>One event for the future that accepts pairing requests; an error ends it.\<close>

definition poll_accepting :: "('p, 'r, 'h, 's, 'c, 'w, 'i) ButtonEnv \<Rightarrow> ('p, 'r, 's, 'c, 'w) ButtonServer \<Rightarrow> ('p, 'r, 's, 'c, 'w) ButtonServer run" where
  "poll_accepting benv s =
     (case accepting s of
        None \<Rightarrow> Return s
      | Some (my_profile, evs) \<Rightarrow>
          (let c = client (bt_service s) in
           case listeners c evs of
             None \<Rightarrow> Return (s\<lparr>accepting := None\<rparr>)
           | Some ch \<Rightarrow>
               (case pending_events ch of
                  [] \<Rightarrow> Return s
                | event # rest \<Rightarrow>
                    (let c = c\<lparr>listeners := (listeners c)(evs \<mapsto> ch\<lparr>pending_events := rest\<rparr>)\<rparr> in
                     case event of
                       PairingRequest half_proof \<Rightarrow>
                         run_bind (accept_relation (bt_client benv) my_profile half_proof c) (\<lambda>(r, c).
                           Return (case r of
                               Inr _ \<Rightarrow> set_bt_client c s
                             | Inl _ \<Rightarrow> (set_bt_client (close_listener evs c) s)\<lparr>accepting := None\<rparr>))
                     | _ \<Rightarrow> Return (set_bt_client c s)))))"

definition on_dapp_event ::
  "('p, 'r, 'h, 's, 'c, 'w, 'i) ButtonEnv \<Rightarrow> 'i DAppEvent \<Rightarrow> ('p, 'r, 's, 'c, 'w) ButtonServer \<Rightarrow> ('p, 'r, 's, 'c, 'w) ButtonServer" where
  "on_dapp_event benv event s =
     (case event of
        DAppEvent_Call incoming_call \<Rightarrow>
          (let c = client (bt_service s); to_me = client_next c in
           case bt_answer benv incoming_call (Some to_me) (remote c) of (details, w) \<Rightarrow>
             let s = set_bt_client (c\<lparr>client_next := to_me + 1, remote := w\<rparr>) s in
             case to_caller details of
               Some sink \<Rightarrow> s\<lparr>active_calls := active_calls s @ [\<lparr>outgoing = sink, incoming = to_me\<rparr>]\<rparr>
             | None \<Rightarrow> s)
      | DAppEvent_PairingResponse _ \<Rightarrow> s)"

text \<open>What \<^verbatim>\<open>checkin\<close> makes of the future: it listens, or it is over.\<close>

definition dapp_events_fut :: "DAppSessionImpl \<Rightarrow> ('c \<times> channel_id, ConnectErrorKind) result \<Rightarrow> 'c server_fut" where
  "dapp_events_fut d r = (case r of Inl e \<Rightarrow> ServerDone (Err e) | Inr (calls, evs) \<Rightarrow> Listening d calls evs False)"

definition poll_dapp :: "('p, 'r, 'h, 's, 'c, 'w, 'i) ButtonEnv \<Rightarrow> ('p, 'r, 's, 'c, 'w) ButtonServer \<Rightarrow> ('p, 'r, 's, 'c, 'w) ButtonServer run" where
  "poll_dapp benv s =
     (case server_fut s of
        OpeningSession \<Rightarrow>
          (case ConnectService_dapp_session (bt_senv benv) (app_id (appctx s)) (bt_service s) of
             (Inl e, sv) \<Rightarrow> Return (s\<lparr>bt_service := sv, server_fut := ServerDone (Err e)\<rparr>)
           | (Inr d, sv) \<Rightarrow>
               run_bind (checkin (bt_client benv) d (client sv)) (\<lambda>(r, c).
                 Return (s\<lparr>bt_service := sv\<lparr>client := c\<rparr>, server_fut := dapp_events_fut d r\<rparr>)))
      | Listening d calls evs flag \<Rightarrow>
          (case poll_select (bt_next_call benv) d calls evs flag (client (bt_service s)) of (x, flag, c) \<Rightarrow>
             let s = (set_bt_client c s)\<lparr>server_fut := Listening d calls evs flag\<rparr> in
             Return (case x of
                 SrcItem event \<Rightarrow> on_dapp_event benv event s
               | SrcDone \<Rightarrow> s\<lparr>server_fut := ServerDone (Ok ())\<rparr>
               | _ \<Rightarrow> s))
      | _ \<Rightarrow> Return s)"

text \<open>A press is taken from its channel and sent to every caller by a future of its own.\<close>

definition fwd_pressed :: "('p, 'r, 's, 'c, 'w) ButtonServer \<Rightarrow> ('p, 'r, 's, 'c, 'w) ButtonServer" where
  "fwd_pressed s =
     (if serving s \<and> 0 < button_presses s then
        s\<lparr>button_presses := button_presses s - 1, spawned_sends := spawned_sends s @ map outgoing (active_calls s)\<rparr>
      else s)"

text \<open>An item of the stream of signals or of the interval timer.\<close>

definition press_on :: "(unit, unit) result \<Rightarrow> ('p, 'r, 's, 'c, 'w) ButtonServer \<Rightarrow> ('p, 'r, 's, 'c, 'w) ButtonServer" where
  "press_on item s =
     (if serving s then
        (case item of
           Inr _ \<Rightarrow> s\<lparr>button_presses := button_presses s + 1\<rparr>
         | Inl _ \<Rightarrow> s\<lparr>server_fut := ServerDone (Err ImplementationError)\<rparr>)
      else s)"

definition press_on_timer :: "(unit, unit) result \<Rightarrow> ('p, 'r, 's, 'c, 'w) ButtonServer \<Rightarrow> ('p, 'r, 's, 'c, 'w) ButtonServer" where
  "press_on_timer item s = (case event_timer (server_cfg s) of None \<Rightarrow> s | Some _ \<Rightarrow> press_on item s)"

definition pressed_msg :: "(AppMessageFrame, string) result" where
  "pressed_msg = Ok (AppMessageFrame [42])"

definition send_pressed :: "nat \<Rightarrow> ('p, 'r, 's, 'c, 'w) ButtonServer \<Rightarrow> ('p, 'r, 's, 'c, 'w) ButtonServer" where
  "send_pressed i s =
     (if i < length (spawned_sends s) then
        (let to_client = spawned_sends s ! i; ch = caller_chans s to_client in
         s\<lparr>spawned_sends := take i (spawned_sends s) @ drop (Suc i) (spawned_sends s),
           caller_chans := (if closed ch then caller_chans s
             else (caller_chans s)(to_client := ch\<lparr>queue := queue ch @ [pressed_msg]\<rparr>))\<rparr>)
      else s)"

section \<open>Runs of the server\<close>

datatype 'w button_event =
    PollInit
  | PollAccepting
  | PollDapp
  | PollPressed
  | SigUsr1 "(unit, unit) result"
  | Timer "(unit, unit) result"
  | PollSend nat
  | PollClient nat
  | CallerGone AppMsgSink
  | Elsewhere 'w

fun button_step ::
  "('p, 'r, 'h, 's, 'c, 'w, 'i) ButtonEnv \<Rightarrow> 'w button_event \<Rightarrow> ('p, 'r, 's, 'c, 'w) ButtonServer \<Rightarrow> ('p, 'r, 's, 'c, 'w) ButtonServer run" where
  "button_step benv PollInit s = poll_init benv s"
| "button_step benv PollAccepting s = poll_accepting benv s"
| "button_step benv PollDapp s = poll_dapp benv s"
| "button_step benv PollPressed s = Return (fwd_pressed s)"
| "button_step benv (SigUsr1 item) s = Return (press_on item s)"
| "button_step benv (Timer item) s = Return (press_on_timer item s)"
| "button_step benv (PollSend i) s = Return (send_pressed i s)"
| "button_step benv (PollClient i) s = Return (set_bt_client (client_poll (bt_client benv) i (client (bt_service s))) s)"
| "button_step benv (CallerGone c) s = Return (s\<lparr>caller_chans := (caller_chans s)(c := (caller_chans s c)\<lparr>closed := True\<rparr>)\<rparr>)"
| "button_step benv (Elsewhere w) s = Return (set_bt_client ((client (bt_service s))\<lparr>remote := w\<rparr>) s)"

fun button_run ::
  "('p, 'r, 'h, 's, 'c, 'w, 'i) ButtonEnv \<Rightarrow> 'w button_event list \<Rightarrow> ('p, 'r, 's, 'c, 'w) ButtonServer \<Rightarrow> ('p, 'r, 's, 'c, 'w) ButtonServer run" where
  "button_run benv [] s = Return s"
| "button_run benv (e # es) s = run_bind (button_step benv e s) (button_run benv es)"

section \<open>The client\<close>

datatype 'c client_fut =
    ClientInit
  | ClientStart
  | AwaitPairing DAppSessionImpl 'c channel_id bool
  | ContactReady RelationImpl
  | InCall DAppCall
  | ClientDone "(unit, ConnectErrorKind) result"

record ('p, 'r, 's, 'c, 'w) ButtonClient =
  client_cfg :: ClientConfig
  client_ctx :: AppContext
  client_service :: "('p, 'r, 's, 'c, 'w) Service"
  client_fut :: "'c client_fut"

definition Client_new :: "ClientConfig \<Rightarrow> AppContext \<Rightarrow> ('p, 'r, 's, 'c, 'w) Service \<Rightarrow> ('p, 'r, 's, 'c, 'w) ButtonClient" where
  "Client_new cfg cx sv = \<lparr>client_cfg = cfg, client_ctx = cx, client_service = sv, client_fut = ClientInit\<rparr>"

text \<open>The last of the contacts with the server, or else a request for one; the client listens before
  it sends the request.\<close>

definition get_or_create_contact ::
  "('p, 'r, 'h, 's, 'c, 'w, 'i) ButtonEnv \<Rightarrow> ClientConfig \<Rightarrow> DAppSessionImpl \<Rightarrow> (('r, 's, 'c, 'w) Client, 'c client_fut) async" where
  "get_or_create_contact benv cfg d =
     future_and_then (contacts_with_profile d (callee_profile_id cfg) None) (\<lambda>rels.
       if rels \<noteq> [] then future_ok (ContactReady (last rels))
       else future_and_then (checkin (bt_client benv) d) (\<lambda>(calls, evs).
         future_map (\<lambda>_. AwaitPairing d calls evs False) (initiate_contact (bt_client benv) d (callee_profile_id cfg))))"

text \<open>One poll of \<^verbatim>\<open>wait_for_pairing_response\<close>; calls are dropped, and so is the stream when
  the future is over.  The pause of ten milliseconds before the contact is used only delays it.\<close>

definition wait_for_pairing_response ::
  "('p, 'r, 'h, 's, 'c, 'w, 'i) ButtonEnv \<Rightarrow> ProfileId \<Rightarrow> DAppSessionImpl \<Rightarrow> 'c \<Rightarrow> channel_id \<Rightarrow> bool \<Rightarrow> ('r, 's, 'c, 'w) Client
     \<Rightarrow> 'c client_fut \<times> ('r, 's, 'c, 'w) Client" where
  "wait_for_pairing_response benv my_profile_id d calls evs flag c =
     (case poll_select (bt_next_call benv) d calls evs flag c of (x, flag, c) \<Rightarrow>
        (case x of
           SrcItem (DAppEvent_PairingResponse rel) \<Rightarrow>
             if is_ok (peer_id (relation_proof rel) my_profile_id) then (ContactReady rel, close_listener evs c)
             else (AwaitPairing d calls evs flag, c)
         | SrcItem (DAppEvent_Call incoming_call) \<Rightarrow>
             (AwaitPairing d calls evs flag, c\<lparr>remote := bt_drop_call benv incoming_call (remote c)\<rparr>)
         | SrcDone \<Rightarrow> (ClientDone (Err LookupFailed), close_listener evs c)
         | _ \<Rightarrow> (AwaitPairing d calls evs flag, c)))"

text \<open>An item of the call's incoming stream, or its end.\<close>

definition on_call_message :: "(AppMessageFrame, string) result option \<Rightarrow> DAppCall \<Rightarrow> 'c client_fut" where
  "on_call_message item dcall =
     (case item of
        Some (Inr frame) \<Rightarrow> InCall dcall
      | Some (Inl err) \<Rightarrow> ClientDone (Err CallFailed)
      | None \<Rightarrow> ClientDone (Ok ()))"

definition client_run_fut ::
  "('r, 's, 'c, 'w) Client \<times> 'c client_fut \<Rightarrow> ('p, 'r, 's, 'c, 'w) ButtonClient \<Rightarrow> ('p, 'r, 's, 'c, 'w) ButtonClient" where
  "client_run_fut cf b = b\<lparr>client_service := (client_service b)\<lparr>client := fst cf\<rparr>, client_fut := snd cf\<rparr>"

text \<open>One poll of the client's future; \<open>item\<close> is what its call has received.\<close>

definition poll_button_client ::
  "('p, 'r, 'h, 's, 'c, 'w, 'i) ButtonEnv \<Rightarrow> (AppMessageFrame, string) result option \<Rightarrow> ('p, 'r, 's, 'c, 'w) ButtonClient
     \<Rightarrow> ('p, 'r, 's, 'c, 'w) ButtonClient run" where
  "poll_button_client benv item b =
     (case client_fut b of
        ClientInit \<Rightarrow>
          run_bind (init_app_common benv (client_ctx b) (client_service b)) (\<lambda>(_, sv).
            Return (b\<lparr>client_service := sv, client_fut := ClientStart\<rparr>))
      | ClientStart \<Rightarrow>
          (case ConnectService_dapp_session (bt_senv benv) (app_id (client_ctx b)) (client_service b) of
             (Inl e, sv) \<Rightarrow> Return (b\<lparr>client_service := sv, client_fut := ClientDone (Err e)\<rparr>)
           | (Inr d, sv) \<Rightarrow>
               run_bind (get_or_create_contact benv (client_cfg b) d (client sv)) (\<lambda>(r, c).
                 Return (b\<lparr>client_service := sv\<lparr>client := c\<rparr>, client_fut := (case r of Inl e \<Rightarrow> ClientDone (Err e) | Inr f \<Rightarrow> f)\<rparr>)))
      | AwaitPairing d calls evs flag \<Rightarrow>
          (case wait_for_pairing_response benv (client_id (client_ctx b)) d calls evs flag (client (client_service b)) of (f, c) \<Rightarrow>
             Return (client_run_fut (c, f) b))
      | ContactReady contact \<Rightarrow>
          run_bind (Contact_call (bt_client benv) contact (AppMessageFrame []) (client (client_service b))) (\<lambda>(r, c).
            Return (client_run_fut (c, case r of Inl e \<Rightarrow> ClientDone (Err e) | Inr dcall \<Rightarrow> InCall dcall) b))
      | InCall dcall \<Rightarrow> Return (b\<lparr>client_fut := on_call_message item dcall\<rparr>)
      | ClientDone _ \<Rightarrow> Return b)"

section \<open>The program\<close>

text \<open>\<^verbatim>\<open>main\<close> after its arguments are parsed: which application a sub-command starts.\<close>

datatype ('p, 'r, 's, 'c, 'w) button_app =
    ButtonServerApp "('p, 'r, 's, 'c, 'w) ButtonServer"
  | ButtonClientApp "('p, 'r, 's, 'c, 'w) ButtonClient"

definition button_main ::
  "(string \<Rightarrow> ('base \<times> bytes, string) result) \<Rightarrow> string \<times> arg_matches option
     \<Rightarrow> (('p, 'r, 's, 'c, 'w) ServiceEnv \<times> ('p, 'r, 's, 'c, 'w) Service \<times> AppContext, ConnectErrorKind) result
     \<Rightarrow> (('p, 'r, 's, 'c, 'w) button_app, ConnectErrorKind) result run" where
  "button_main multibase_decode subcommand appcx =
     (case appcx of
        Inl e \<Rightarrow> Return (Err e)
      | Inr (senv, sv, cx) \<Rightarrow>
          (case subcommand of
             (sub_name, Some args) \<Rightarrow>
               if sub_name = ''server'' then
                 Return (map_ok (\<lambda>cfg. ButtonServerApp (Server_new cfg cx sv)) (ServerConfig_try_from args))
               else if sub_name = ''client'' then
                 run_bind (ClientConfig_try_from multibase_decode args) (\<lambda>r.
                   Return (map_ok (\<lambda>cfg. ButtonClientApp (Client_new cfg cx sv)) r))
               else Return (Err LookupFailed)
           | (_, None) \<Rightarrow> Return (Err LookupFailed)))"

end
