(* ===== verification/Button_Properties.thy ===== *)
theory Button_Properties
  imports Button Client_Properties
begin

text \<open>
  What the example application does: every press reaches every caller exactly once, the future that
  accepts pairings ends with its first failure, and which contact the client calls.
\<close>

section \<open>What the polls leave alone\<close>

definition press_state :: "('p, 'r, 's, 'c, 'w) ButtonServer \<Rightarrow> ServerConfig \<times> nat \<times> AppMsgSink list \<times> (AppMsgSink \<Rightarrow> AppMessageFrame channel)" where
  "press_state s = (server_cfg s, button_presses s, spawned_sends s, caller_chans s)"

lemma set_bt_client_sel [simp]:
  "press_state (set_bt_client c s) = press_state s" "server_fut (set_bt_client c s) = server_fut s"
  "active_calls (set_bt_client c s) = active_calls s" "accepting (set_bt_client c s) = accepting s"
  "appctx (set_bt_client c s) = appctx s" "bt_service (set_bt_client c s) = (bt_service s)\<lparr>client := c\<rparr>"
  by (simp_all add: set_bt_client_def press_state_def)

lemma press_state_upd [simp]:
  "press_state (s\<lparr>server_fut := f\<rparr>) = press_state s" "press_state (s\<lparr>bt_service := sv\<rparr>) = press_state s"
  "press_state (s\<lparr>accepting := a\<rparr>) = press_state s" "press_state (s\<lparr>active_calls := cs\<rparr>) = press_state s"
  by (simp_all add: press_state_def)

lemma on_dapp_event_frame:
  "press_state (on_dapp_event benv e s) = press_state s" "server_fut (on_dapp_event benv e s) = server_fut s"
  "accepting (on_dapp_event benv e s) = accepting s" "\<exists>cs. active_calls (on_dapp_event benv e s) = active_calls s @ cs"
  by (auto simp: on_dapp_event_def Let_def split: DAppEvent.split prod.split option.split)

lemma poll_init_frame:
  assumes "poll_init benv s = Return s'"
  shows "press_state s' = press_state s" "active_calls s' = active_calls s"
    "server_fut s \<noteq> Initializing \<longrightarrow> s' = s"
  using assms by (auto simp: poll_init_def split: server_fut.splits)

lemma poll_accepting_cases:
  assumes "poll_accepting benv s = Return s'"
  obtains (idle) "s' = s" | (ended) "s' = s\<lparr>accepting := None\<rparr>"
  | (handled) c where "s' = set_bt_client c s" | (failed) c where "s' = (set_bt_client c s)\<lparr>accepting := None\<rparr>"
  using assms
  by (auto simp: poll_accepting_def Let_def elim: neither_ok_nor_err
      split: option.splits prod.splits list.splits ProfileEvent.splits sum.splits)

lemma dapp_events_fut_started [simp]: "dapp_events_fut d r \<noteq> Initializing"
  by (auto simp: dapp_events_fut_def split: sum.split)

lemma poll_dapp_cases:
  assumes "poll_dapp benv s = Return s'"
  obtains (idle) "\<not> serving s" "s' = s"
  | (opened) sv f where "s' = s\<lparr>bt_service := sv, server_fut := f\<rparr>" "server_fut s = OpeningSession" "f \<noteq> Initializing"
  | (polled) d calls evs flag c f where "s' = (set_bt_client c s)\<lparr>server_fut := f\<rparr>" "server_fut s = Listening d calls evs flag" "f \<noteq> Initializing"
  | (taken) d calls evs flag flag' c e where "server_fut s = Listening d calls evs flag"
      "poll_select (bt_next_call benv) d calls evs flag (client (bt_service s)) = (SrcItem e, flag', c)"
      "s' = on_dapp_event benv e ((set_bt_client c s)\<lparr>server_fut := Listening d calls evs flag'\<rparr>)"
proof (cases "server_fut s")
  case OpeningSession
  with assms show ?thesis
    by (cases "ConnectService_dapp_session (bt_senv benv) (app_id (appctx s)) (bt_service s)";
        cases "fst (ConnectService_dapp_session (bt_senv benv) (app_id (appctx s)) (bt_service s))")
      (auto simp: poll_dapp_def intro: opened)
next
  case (Listening d calls evs flag)
  obtain x flag' c where sel: "poll_select (bt_next_call benv) d calls evs flag (client (bt_service s)) = (x, flag', c)"
    by (metis prod_cases3)
  with assms Listening show ?thesis
    by (cases x) (auto simp: poll_dapp_def Let_def intro: polled taken)
qed (use assms in \<open>auto simp: poll_dapp_def serving_def intro: idle\<close>)

lemma poll_accepting_frame:
  assumes "poll_accepting benv s = Return s'"
  shows "press_state s' = press_state s" "active_calls s' = active_calls s" "server_fut s' = server_fut s"
  using assms by (auto elim!: poll_accepting_cases)

lemma poll_dapp_frame:
  assumes "poll_dapp benv s = Return s'"
  shows "press_state s' = press_state s" "\<not> serving s \<longrightarrow> s' = s"
    "server_fut s \<noteq> Initializing \<longrightarrow> server_fut s' \<noteq> Initializing" "accepting s' = accepting s"
  using assms on_dapp_event_frame(1-3) [of benv] by (auto elim!: poll_dapp_cases simp: serving_def)

lemma poll_dapp_calls:
  assumes "poll_dapp benv s = Return s'"
  shows "\<exists>cs. active_calls s' = active_calls s @ cs"
  using assms
proof (cases rule: poll_dapp_cases)
  case (taken d calls evs flag flag' c e)
  with on_dapp_event_frame(4) [of benv e "(set_bt_client c s)\<lparr>server_fut := Listening d calls evs flag'\<rparr>"] show ?thesis by simp
qed auto

section \<open>Presses\<close>

fun is_press :: "ServerConfig \<Rightarrow> 'w button_event \<Rightarrow> bool" where
  "is_press cfg (SigUsr1 item) = is_ok item"
| "is_press cfg (Timer item) = (event_timer cfg \<noteq> None \<and> is_ok item)"
| "is_press cfg _ = False"

definition calls_with :: "AppMsgSink \<Rightarrow> ('p, 'r, 's, 'c, 'w) ButtonServer \<Rightarrow> nat" where
  "calls_with c s = count_list (map outgoing (active_calls s)) c"

text \<open>The messages a caller has got, those on their way and those it will get for presses in the
  queue.\<close>

definition owed :: "AppMsgSink \<Rightarrow> ('p, 'r, 's, 'c, 'w) ButtonServer \<Rightarrow> nat" where
  "owed c s = length (queue (caller_chans s c)) + count_list (spawned_sends s) c + calls_with c s * button_presses s"

lemma press_state_eq: "press_state s' = press_state s \<longleftrightarrow> server_cfg s' = server_cfg s \<and> button_presses s' = button_presses s
    \<and> spawned_sends s' = spawned_sends s \<and> caller_chans s' = caller_chans s"
  by (auto simp: press_state_def)

lemma button_step_calls:
  assumes "button_step benv e s = Return s'"
  shows "\<exists>cs. active_calls s' = active_calls s @ cs"
proof (cases e)
  case PollDapp
  with assms poll_dapp_calls show ?thesis by simp
qed (use assms poll_init_frame(2) [of benv s s'] poll_accepting_frame(2) [of benv s s'] in
      \<open>auto simp: fwd_pressed_def press_on_def press_on_timer_def send_pressed_def Let_def split: sum.splits option.splits if_splits\<close>)

lemma button_run_calls: "button_run benv es s = Return s' \<Longrightarrow> \<exists>cs. active_calls s' = active_calls s @ cs"
proof (induction es arbitrary: s)
  case (Cons e es)
  then show ?case using button_step_calls [of benv e s] by fastforce
qed simp

lemma calls_with_run: "button_run benv es s = Return s' \<Longrightarrow> calls_with c s \<le> calls_with c s'"
  using button_run_calls [of benv es s s'] by (auto simp: calls_with_def)

lemma press_fut:
  "server_fut (fwd_pressed s) = server_fut s" "server_fut (send_pressed i s) = server_fut s"
  "server_fut (press_on item s) = (if serving s \<and> is_err item then ServerDone (Err ImplementationError) else server_fut s)"
  "server_fut (press_on_timer item s) \<in> {server_fut s, server_fut (press_on item s)}"
  by (cases item; auto simp: fwd_pressed_def send_pressed_def Let_def press_on_def press_on_timer_def split: option.split)+

lemma serving_cong: "server_fut s' = server_fut s \<Longrightarrow> serving s' = serving s"
  by (simp add: serving_def)

lemma serving_iff: "serving s \<longleftrightarrow> server_fut s \<noteq> Initializing \<and> (\<forall>r. server_fut s \<noteq> ServerDone r)"
  by (auto simp: serving_def split: server_fut.split)

lemma button_step_over:
  assumes "button_step benv e s = Return s'" and "server_fut s \<noteq> Initializing"
  shows "server_fut s' \<noteq> Initializing \<and> (serving s' \<longrightarrow> serving s)"
proof (cases e)
  case PollInit
  with assms poll_init_frame(3) show ?thesis by auto
next
  case PollDapp
  with assms poll_dapp_frame(2,3) [of benv s s'] show ?thesis by auto
next
  case (Timer item)
  with assms press_fut(3,4) [of item s] show ?thesis by (auto simp: serving_iff split: if_splits)
next
  case (SigUsr1 item)
  with assms press_fut(3) [of item s] show ?thesis by (auto simp: serving_iff split: if_splits)
qed (use assms poll_accepting_frame(3) [of benv s s'] in \<open>auto simp: serving_def press_fut(1,2)\<close>)

lemma button_run_over:
  assumes "button_run benv es s = Return s'" and "server_fut s \<noteq> Initializing" and "serving s'"
  shows "serving s"
  using assms
proof (induction es arbitrary: s)
  case (Cons e es)
  then show ?case using button_step_over [of benv e s] by auto
qed simp

lemma count_list_remove:
  "i < length xs \<Longrightarrow> count_list xs x = count_list (take i xs @ drop (Suc i) xs) x + (if xs ! i = x then 1 else 0)"
  by (subst id_take_nth_drop [of i xs]) auto

definition got_pressed :: "AppMsgSink \<Rightarrow> ('p, 'r, 's, 'c, 'w) ButtonServer \<Rightarrow> ('p, 'r, 's, 'c, 'w) ButtonServer \<Rightarrow> bool" where
  "got_pressed c s s' \<longleftrightarrow> server_cfg s' = server_cfg s \<and> \<not> closed (caller_chans s' c)
     \<and> (\<exists>n. queue (caller_chans s' c) = queue (caller_chans s c) @ replicate n pressed_msg)"

lemma got_pressed_refl: "press_state s' = press_state s \<Longrightarrow> \<not> closed (caller_chans s c) \<Longrightarrow> got_pressed c s s'"
  by (auto simp: got_pressed_def press_state_eq intro: exI [of _ 0])

lemma got_pressed_trans: "got_pressed c s s1 \<Longrightarrow> got_pressed c s1 s2 \<Longrightarrow> got_pressed c s s2"
  by (auto simp: got_pressed_def simp flip: replicate_add)

lemma send_pressed_owed:
  assumes "\<not> closed (caller_chans s c)"
  shows "owed c (send_pressed i s) = owed c s \<and> got_pressed c s (send_pressed i s)"
proof (cases "i < length (spawned_sends s)")
  case True
  note c = count_list_remove [OF True, of c]
  show ?thesis
  proof (cases "spawned_sends s ! i = c")
    case True
    with c assms \<open>i < length (spawned_sends s)\<close> show ?thesis
      by (auto simp: owed_def send_pressed_def Let_def calls_with_def got_pressed_def intro: exI [of _ "Suc 0"])
  next
    case False
    with c assms \<open>i < length (spawned_sends s)\<close> show ?thesis
      by (auto simp: owed_def send_pressed_def Let_def calls_with_def got_pressed_def intro: exI [of _ 0])
  qed
qed (use assms in \<open>simp add: send_pressed_def got_pressed_refl\<close>)

lemma fwd_pressed_owed: "owed c (fwd_pressed s) = owed c s \<and> (\<not> closed (caller_chans s c) \<longrightarrow> got_pressed c s (fwd_pressed s))"
  by (cases "button_presses s") (auto simp: owed_def fwd_pressed_def calls_with_def got_pressed_def intro: exI [of _ 0])

lemma press_on_owed:
  assumes "serving s" "serving (press_on item s)"
  shows "owed c (press_on item s) = owed c s + calls_with c s \<and> (\<not> closed (caller_chans s c) \<longrightarrow> got_pressed c s (press_on item s))
    \<and> is_ok item"
  using assms by (cases item) (auto simp: press_on_def serving_def owed_def calls_with_def got_pressed_def intro: exI [of _ 0])

text \<open>One step: a press adds one message to what a caller is owed for each of its calls.\<close>

lemma button_step_owed:
  assumes step: "button_step benv e s = Return s'" and serving: "serving s" "serving s'" and calls: "calls_with c s' = calls_with c s"
    and "open": "\<not> closed (caller_chans s c)" and here: "e \<noteq> CallerGone c"
  shows "owed c s' = owed c s + (if is_press (server_cfg s) e then calls_with c s else 0) \<and> got_pressed c s s'"
proof -
  have same: ?thesis if "press_state s' = press_state s" "\<not> is_press (server_cfg s) e"
    using that calls got_pressed_refl [OF that(1) "open"] by (simp add: owed_def press_state_eq)
  show ?thesis
  proof (cases e)
    case (SigUsr1 item)
    with step serving "open" press_on_owed [of s item c] show ?thesis by auto
  next
    case (Timer item)
    with step serving "open" press_on_owed [of s item c] same show ?thesis
      by (cases "event_timer (server_cfg s)") (auto simp: press_on_timer_def)
  next
    case (CallerGone b)
    with step here "open" calls show ?thesis
      by (auto simp: owed_def calls_with_def got_pressed_def intro: exI [of _ 0])
  qed (use step "open" same poll_init_frame(1) [of benv s s'] poll_accepting_frame(1) [of benv s s'] poll_dapp_frame(1) [of benv s s']
        fwd_pressed_owed [of c s] send_pressed_owed [of s c] in auto)
qed

lemma button_run_owed:
  assumes "button_run benv es s = Return s'" and "serving s" "serving s'" and "calls_with c s' = calls_with c s"
    and "\<not> closed (caller_chans s c)" and "CallerGone c \<notin> set es"
  shows "owed c s' = owed c s + calls_with c s * length (filter (is_press (server_cfg s)) es) \<and> got_pressed c s s'"
  using assms
proof (induction es arbitrary: s)
  case Nil
  then show ?case by (simp add: got_pressed_refl)
next
  case (Cons e es)
  then obtain s1 where s1: "button_step benv e s = Return s1" "button_run benv es s1 = Return s'" by auto
  have started: "server_fut s \<noteq> Initializing" using Cons.prems(2) by (auto simp: serving_iff)
  have serving1: "serving s1" using button_step_over [OF s1(1) started] button_run_over [OF s1(2)] Cons.prems(3) by blast
  have "calls_with c s \<le> calls_with c s1" "calls_with c s1 \<le> calls_with c s'"
    using calls_with_run [of benv "[e]" s s1 c] calls_with_run [OF s1(2), of c] s1(1) by simp_all
  then have calls1: "calls_with c s1 = calls_with c s" using Cons.prems(4) by simp
  from button_step_owed [OF s1(1) Cons.prems(2) serving1 calls1 Cons.prems(5)] Cons.prems(6)
  have step: "owed c s1 = owed c s + (if is_press (server_cfg s) e then calls_with c s else 0)" "got_pressed c s s1" by auto
  have "owed c s' = owed c s1 + calls_with c s1 * length (filter (is_press (server_cfg s1)) es) \<and> got_pressed c s1 s'"
    by (rule Cons.IH [OF s1(2) serving1 Cons.prems(3)]) (use step(2) calls1 Cons.prems(4,6) in \<open>auto simp: got_pressed_def\<close>)
  with step calls1 show ?case
    using got_pressed_trans [OF step(2)] by (auto simp: got_pressed_def algebra_simps)
qed

lemma button_run_append: "button_run benv (xs @ ys) s = run_bind (button_run benv xs s) (button_run benv ys)"
proof (induction xs arbitrary: s)
  case (Cons e xs)
  show ?case by (cases "button_step benv e s") (simp_all add: Cons)
qed simp

text \<open>Polling until nothing is left to do.\<close>

lemma run_pressed:
  assumes "serving s" "button_presses s = n"
  shows "\<exists>s1. button_run benv (replicate n PollPressed) s = Return s1 \<and> serving s1 \<and> button_presses s1 = 0
    \<and> length (spawned_sends s1) = length (spawned_sends s) + n * length (active_calls s) \<and> active_calls s1 = active_calls s"
  using assms
proof (induction n arbitrary: s)
  case (Suc n)
  have "serving (fwd_pressed s)" using Suc.prems(1) serving_cong [OF press_fut(1)] by blast
  moreover have "button_presses (fwd_pressed s) = n" "active_calls (fwd_pressed s) = active_calls s"
    "length (spawned_sends (fwd_pressed s)) = length (spawned_sends s) + length (active_calls s)"
    using Suc.prems by (simp_all add: fwd_pressed_def)
  ultimately show ?case using Suc.IH [of "fwd_pressed s"] by auto
qed auto

lemma run_sends:
  assumes "length (spawned_sends s) = n"
  shows "\<exists>s1. button_run benv (replicate n (PollSend 0)) s = Return s1 \<and> server_fut s1 = server_fut s
    \<and> button_presses s1 = button_presses s \<and> spawned_sends s1 = [] \<and> active_calls s1 = active_calls s"
  using assms
proof (induction n arbitrary: s)
  case (Suc n)
  have "length (spawned_sends (send_pressed 0 s)) = n" "server_fut (send_pressed 0 s) = server_fut s"
    "button_presses (send_pressed 0 s) = button_presses s" "active_calls (send_pressed 0 s) = active_calls s"
    using Suc.prems by (simp_all add: send_pressed_def Let_def)
  then show ?case using Suc.IH [of "send_pressed 0 s"] by auto
qed simp

definition drain :: "('p, 'r, 's, 'c, 'w) ButtonServer \<Rightarrow> 'w button_event list" where
  "drain s = replicate (button_presses s) PollPressed
     @ replicate (length (spawned_sends s) + button_presses s * length (active_calls s)) (PollSend 0)"

lemma run_drain:
  assumes "serving s"
  shows "\<exists>s1. button_run benv (drain s) s = Return s1 \<and> serving s1 \<and> button_presses s1 = 0 \<and> spawned_sends s1 = []
    \<and> active_calls s1 = active_calls s"
proof -
  obtain s1 where s1: "button_run benv (replicate (button_presses s) PollPressed) s = Return s1" "serving s1" "button_presses s1 = 0"
    "length (spawned_sends s1) = length (spawned_sends s) + button_presses s * length (active_calls s)" "active_calls s1 = active_calls s"
    using run_pressed [OF assms refl, of benv] by blast
  obtain s2 where "button_run benv (replicate (length (spawned_sends s) + button_presses s * length (active_calls s)) (PollSend 0)) s1 = Return s2"
    "server_fut s2 = server_fut s1" "button_presses s2 = button_presses s1" "spawned_sends s2 = []" "active_calls s2 = active_calls s1"
    using run_sends [OF s1(4), of benv] by blast
  with s1 serving_cong [of s2 s1] show ?thesis by (simp add: drain_def button_run_append)
qed

lemma drain_no_press: "filter (is_press cfg) (drain s) = []" "CallerGone c \<notin> set (drain s)"
  by (auto simp: drain_def)

lemma presses_delivered_lemma:
  assumes run: "button_run benv es s = Return s'" and serving: "serving s" "serving s'"
    and idle: "button_presses s = 0" "spawned_sends s = []"
    and caller: "calls_with c s = 1" "calls_with c s' = 1" "\<not> closed (caller_chans s c)" "CallerGone c \<notin> set es"
  shows "\<exists>s''. button_run benv (drain s') s' = Return s'' \<and> serving s''
    \<and> queue (caller_chans s'' c) = queue (caller_chans s c) @ replicate (length (filter (is_press (server_cfg s)) es)) pressed_msg"
proof -
  obtain s'' where d: "button_run benv (drain s') s' = Return s''" "serving s''" "button_presses s'' = 0" "spawned_sends s'' = []"
    "active_calls s'' = active_calls s'" using run_drain [OF serving(2), of benv] by blast
  have run'': "button_run benv (es @ drain s') s = Return s''" by (simp add: button_run_append run d(1))
  have "calls_with c s'' = calls_with c s" using caller d(5) by (simp add: calls_with_def)
  from button_run_owed [OF run'' serving(1) d(2) this caller(3)] caller(4)
  have "owed c s'' = owed c s + calls_with c s * length (filter (is_press (server_cfg s)) es)" "got_pressed c s s''"
    by (simp_all add: drain_no_press)
  then have n: "length (queue (caller_chans s'' c)) = length (queue (caller_chans s c)) + length (filter (is_press (server_cfg s)) es)"
    using idle d(3,4) caller(1) by (simp add: owed_def)
  obtain n where "queue (caller_chans s'' c) = queue (caller_chans s c) @ replicate n pressed_msg"
    using \<open>got_pressed c s s''\<close> by (auto simp: got_pressed_def)
  with n d(1,2) show ?thesis by simp
qed

text \<open>C20: no press is lost and none is delivered twice.  From a moment when nothing is pending, while
  the server runs and whatever else happens in any order (other calls, pairings, callers that leave,
  polls of all futures), a caller that stays gets exactly one message for every signal and every
  firing of the timer, as soon as the presses and the sends that are left have been polled.\<close>

theorem presses_delivered:
  assumes "button_run benv es s = Return s'" and "serving s" "serving s'"
    and "button_presses s = 0" "spawned_sends s = []"
    and "calls_with c s = 1" "calls_with c s' = 1" "\<not> closed (caller_chans s c)" "CallerGone c \<notin> set es"
  shows "\<exists>s''. button_run benv (drain s') s' = Return s'' \<and> serving s''
    \<and> queue (caller_chans s'' c) = queue (caller_chans s c) @ replicate (length (filter (is_press (server_cfg s)) es)) pressed_msg"
  using assms by (rule presses_delivered_lemma)

section \<open>Accepting pairings\<close>

lemma accepting_press [simp]:
  "accepting (fwd_pressed s) = accepting s" "accepting (send_pressed i s) = accepting s"
  "accepting (press_on item s) = accepting s" "accepting (press_on_timer item s) = accepting s"
  by (auto simp: fwd_pressed_def send_pressed_def Let_def press_on_def press_on_timer_def split: sum.split option.split)

text \<open>Only the start of the program starts the future that accepts pairings.\<close>

lemma accepting_step:
  assumes "button_step benv e s = Return s'" and "server_fut s \<noteq> Initializing" and "accepting s = None"
  shows "accepting s' = None"
proof (cases e)
  case PollInit
  with assms poll_init_frame(3) show ?thesis by auto
next
  case PollAccepting
  with assms show ?thesis by (auto simp: poll_accepting_def)
next
  case PollDapp
  with assms poll_dapp_frame(4) [of benv s s'] show ?thesis by simp
qed (use assms in auto)

lemma accepting_run:
  assumes "button_run benv es s = Return s'" and "server_fut s \<noteq> Initializing" and "accepting s = None"
  shows "accepting s' = None \<and> server_fut s' \<noteq> Initializing"
  using assms
proof (induction es arbitrary: s)
  case (Cons e es)
  then show ?case using accepting_step [of benv e s] button_step_over [of benv e s] by auto
qed simp

lemma accept_unknown:
  assumes "my_profiles c p = Some self" and "hp_peer_id half = signer_profile_id (mp_signer self)"
    and "profile_id (profile (own_profile self)) = signer_profile_id (mp_signer self)"
    and "is_err (SimpleProfileRepo_load (repo_ops env) (repo c) (hp_signer_id half))"
  shows "accept_relation env p half c = Return (Inl FailedToLoadProfile, c)"
  using assms
  by (cases "SimpleProfileRepo_load (repo_ops env) (repo c) (hp_signer_id half)")
    (auto simp: accept_relation_def with_self_def sign_remaining_half_def Let_def future_and_then_def repo_load_def)

text \<open>One pairing request that cannot be answered stops the server from accepting any other.  When
  the next request comes from a profile that the server's repository does not know, the future that
  accepts requests ends; from then on, in every run, it stays ended and no request is accepted.\<close>

lemma stranger_stops_pairing:
  assumes "accepting s = Some (p, l)" and "server_fut s \<noteq> Initializing"
    and "listeners (client (bt_service s)) l = Some ch" and "pending_events ch = PairingRequest half # rest"
    and "my_profiles (client (bt_service s)) p = Some self" and "hp_peer_id half = signer_profile_id (mp_signer self)"
    and "profile_id (profile (own_profile self)) = signer_profile_id (mp_signer self)"
    and "is_err (SimpleProfileRepo_load (repo_ops (bt_client benv)) (repo (client (bt_service s))) (hp_signer_id half))"
    and "button_run benv (PollAccepting # es) s = Return s'"
  shows "accepting s' = None \<and> button_step benv PollAccepting s' = Return s'"
proof -
  let ?c = "(client (bt_service s))\<lparr>listeners := (listeners (client (bt_service s)))(l \<mapsto> ch\<lparr>pending_events := rest\<rparr>)\<rparr>"
  have "accept_relation (bt_client benv) p half ?c = Return (Inl FailedToLoadProfile, ?c)"
    by (rule accept_unknown [where self = self]) (use assms(5-8) in auto)
  then have "button_step benv PollAccepting s = Return ((set_bt_client (close_listener l ?c) s)\<lparr>accepting := None\<rparr>)" (is "_ = Return ?s1")
    using assms(1,3,4) by (simp add: poll_accepting_def Let_def)
  with assms(9) have "button_run benv es ?s1 = Return s'" by simp
  from accepting_run [OF this] assms(2) show ?thesis by (simp add: poll_accepting_def)
qed

section \<open>The client\<close>

fun client_polls ::
  "('p, 'r, 'h, 's, 'c, 'w, 'i) ButtonEnv \<Rightarrow> nat \<Rightarrow> ('p, 'r, 's, 'c, 'w) ButtonClient \<Rightarrow> ('p, 'r, 's, 'c, 'w) ButtonClient run" where
  "client_polls benv 0 b = Return b"
| "client_polls benv (Suc n) b = run_bind (poll_button_client benv None b) (client_polls benv n)"

text \<open>A pairing response made for the application that concerns the profile \<open>i\<close>.\<close>

definition answers :: "DAppSessionImpl \<Rightarrow> ProfileId \<Rightarrow> ProfileEvent \<Rightarrow> bool" where
  "answers d i e = (case e of PairingResponse p \<Rightarrow> accessible_by p (dapp_app_id d) \<and> is_ok (peer_id p i) | _ \<Rightarrow> False)"

definition waiting_client ::
  "('p, 'r, 'h, 's, 'c, 'w, 'i) ButtonEnv \<Rightarrow> DAppSessionImpl \<Rightarrow> 'c \<Rightarrow> channel_id \<Rightarrow> ProfileEvent list \<Rightarrow> ('p, 'r, 's, 'c, 'w) ButtonClient \<Rightarrow> bool" where
  "waiting_client benv d calls l evs b \<longleftrightarrow> (\<exists>flag ch. client_fut b = AwaitPairing d calls l flag
     \<and> listeners (client (client_service b)) l = Some ch \<and> pending_events ch = evs
     \<and> bt_next_call benv calls (remote (client (client_service b))) = (NotReady, remote (client (client_service b))))"

lemma poll_waiting:
  assumes "waiting_client benv d calls l (e # evs) b"
  shows "\<exists>b'. poll_button_client benv None b = Return b' \<and> client_ctx b' = client_ctx b \<and> client_cfg b' = client_cfg b
    \<and> (if answers d (client_id (client_ctx b)) e
       then (\<exists>p ch. e = PairingResponse p \<and> client_fut b' = ContactReady (relation_from d p)
         \<and> listeners (client (client_service b')) l = Some ch \<and> pending_events ch = evs \<and> listener_closed ch
         \<and> remote (client (client_service b')) = remote (client (client_service b)))
       else waiting_client benv d calls l evs b')"
proof -
  obtain flag ch where b: "client_fut b = AwaitPairing d calls l flag" "listeners (client (client_service b)) l = Some ch"
    "pending_events ch = e # evs" and nc: "bt_next_call benv calls (remote (client (client_service b))) = (NotReady, remote (client (client_service b)))"
    using assms by (auto simp: waiting_client_def)
  let ?c = "(client (client_service b))\<lparr>listeners := (listeners (client (client_service b)))(l \<mapsto> ch\<lparr>pending_events := evs\<rparr>)\<rparr>"
  obtain flag' where sel: "poll_select (bt_next_call benv) d calls l flag (client (client_service b))
      = (case checkin_event d e of None \<Rightarrow> SrcSkip | Some x \<Rightarrow> SrcItem x, flag', ?c)"
    using poll_select_event [where next_call = "bt_next_call benv" and calls = calls, OF b(2,3) nc, of d flag] by blast
  show ?thesis
    using b(1) nc
    by (cases e) (auto simp: poll_button_client_def wait_for_pairing_response_def sel checkin_event_def client_run_fut_def
        close_listener_def answers_def waiting_client_def relation_from_def RelationImpl_new_def)
qed

text \<open>While it waits for its pairing, the client takes as its contact the first pairing response
  made for the application in which it is one of the two parties, whoever the other party is; what it
  got before is ignored, what comes after is left, and the listener is closed.  The id of the server it
  wanted to pair with plays no part.\<close>

lemma first_response_taken:
  assumes "waiting_client benv d calls l (pre @ PairingResponse p # post) b"
    and "\<forall>e \<in> set pre. \<not> answers d (client_id (client_ctx b)) e" and "answers d (client_id (client_ctx b)) (PairingResponse p)"
  shows "\<exists>b' ch. client_polls benv (length pre + 1) b = Return b' \<and> client_fut b' = ContactReady (relation_from d p)
    \<and> listeners (client (client_service b')) l = Some ch \<and> pending_events ch = post \<and> listener_closed ch"
  using assms
proof (induction pre arbitrary: b)
  case Nil
  then show ?case using poll_waiting [of benv d calls l "PairingResponse p" post b] by auto
next
  case (Cons e pre)
  obtain b1 where b1: "poll_button_client benv None b = Return b1" "client_ctx b1 = client_ctx b"
    "waiting_client benv d calls l (pre @ PairingResponse p # post) b1"
    using poll_waiting [of benv d calls l e "pre @ PairingResponse p # post" b] Cons.prems by auto
  then show ?case using Cons.IH [OF b1(3)] Cons.prems by auto
qed

section \<open>Witnesses\<close>

definition sample_button_env :: "((ProfileId, OwnProfile) InMemoryStore, (ProfileId, Profile) InMemoryStore, unit, unit, unit, nat, unit) ButtonEnv" where
  "sample_button_env = \<lparr>bt_client = sample_client_env,
     bt_senv = ConnectService_new (DummyUserInterface_select_profile [ProfileId [1]]) [ProfileId [1]] InMemoryStore_ops (SignerFactory_new [ProfileId [1] \<mapsto> sample_peer 1]),
     bt_next_call = (\<lambda>c w. (NotReady, w)), bt_answer = (\<lambda>i a w. (\<lparr>relation = sample_home_proof, init_payload = AppMessageFrame [], to_caller = None\<rparr>, w)),
     bt_drop_call = (\<lambda>i w. w)\<rparr>"

definition sample_button_service :: "((ProfileId, OwnProfile) InMemoryStore, (ProfileId, Profile) InMemoryStore, unit, unit, nat) Service" where
  "sample_button_service = (MyProfileFactory_new sample_repo 0 InMemoryStore_new)\<lparr>client := sample_client\<rparr>"

definition sample_appctx :: AppContext where
  "sample_appctx = \<lparr>client_id = ProfileId [1], home_id = ProfileId [7], app_id = ApplicationId ''friend''\<rparr>"

definition sample_button :: "((ProfileId, OwnProfile) InMemoryStore, (ProfileId, Profile) InMemoryStore, unit, unit, nat) ButtonServer" where
  "sample_button = (Server_new \<lparr>event_timer = Some 10\<rparr> sample_appctx sample_button_service)\<lparr>server_fut := OpeningSession, active_calls := [\<lparr>outgoing = 5, incoming = 6\<rparr>]\<rparr>"

theorem presses_delivered_witness:
  "\<exists>s' s''. button_run sample_button_env [SigUsr1 (Inr ()), PollPressed, Timer (Inr ()), PollSend 0] sample_button = Return s'
     \<and> button_run sample_button_env (drain s') s' = Return s'' \<and> queue (caller_chans s'' 5) = [pressed_msg, pressed_msg]"
proof -
  let ?es = "[SigUsr1 (Inr ()), PollPressed, Timer (Inr ()), PollSend 0] :: nat button_event list"
  obtain s' where s': "button_run sample_button_env ?es sample_button = Return s'" "serving s'" "calls_with 5 s' = 1"
    by (simp add: sample_button_def Server_new_def press_on_def press_on_timer_def fwd_pressed_def send_pressed_def serving_def new_channel_def calls_with_def)
  from presses_delivered [OF s'(1) _ s'(2) _ _ _ s'(3)]
  have "\<exists>s''. button_run sample_button_env (drain s') s' = Return s'' \<and> queue (caller_chans s'' 5) = [pressed_msg, pressed_msg]"
    by (auto simp: sample_button_def Server_new_def serving_def new_channel_def calls_with_def)
  with s'(1) show ?thesis by blast
qed

end
