(* ===== verification/Button_Network.thy ===== *)
theory Button_Network
  imports Button_Properties Network_Calls Home_Node
begin

text \<open>
  The example application on the network of clients and homes: when its server accepts pairings, and
  a call from a client to the server that lets the presses through.
\<close>

section \<open>Joining a home twice\<close>

text \<open>A node that serves the home with id \<open>h\<close>, which the client knows, and hosts \<open>i\<close> already.\<close>

definition hosting_home ::
  "('d, (ProfileId, OwnProfile) InMemoryStore) NetEnv
     \<Rightarrow> ((ProfileId, Profile) InMemoryStore, home_session, event_stream, ('d, (ProfileId, OwnProfile) InMemoryStore) net) Client
     \<Rightarrow> ProfileId \<Rightarrow> ProfileId \<Rightarrow> bool" where
  "hosting_home ne st i h \<longleftrightarrow> signer_profile_id (node_signer ne h) = h
     \<and> (\<exists>hp hf. imap (repo st) h = Some hp \<and> profile_id hp = h \<and> facet hp = Home hf)
     \<and> (\<exists>nst. remote st h = Some nst \<and> wire_inv imap nst \<and> imap (hosted_profile_db nst) i \<noteq> None)"

lemma connect_net:
  assumes net: "on_net ne env" "multihash_ok mh" "validator (node_env ne) = default_validator mh ed" "repo_ops env = InMemoryStore_ops"
    and owner: "ed_owns mh ed pk sg"
    and home: "imap (repo st) h = Some hp" "profile_id hp = h" "facet hp = Home hf" "remote st h \<noteq> None"
  shows "connect_home2 env h sg st = Return (Inr (h, Some (PeerContext_new (node_signer ne h) pk (signer_profile_id sg))), st)"
  using assms owner_accepted [OF net(2) owner net(3)]
  by (auto simp: connect_home2_Return on_net_def net_connector_def SimpleProfileRepo_load_def InMemoryStore_get_def)

lemma join_hosted:
  fixes st :: "((ProfileId, Profile) InMemoryStore, home_session, event_stream, ((ProfileId, Profile) InMemoryStore, (ProfileId, OwnProfile) InMemoryStore) net) Client"
  assumes net: "on_net ne env" "multihash_ok mh" "node_env ne = memory_env ser (default_validator mh ed)" "repo_ops env = InMemoryStore_ops"
    and self: "my_profiles st this = Some self" "ed_owns mh ed pk (mp_signer self)" "homeless pk self"
    and home: "hosting_home ne st (signer_profile_id (mp_signer self)) h"
  shows "join_home env this h invite st = Return (Inl RegistrationFailed, st)"
proof -
  let ?me = "signer_profile_id (mp_signer self)" and ?own = "own_profile self" and ?env = "memory_env ser (default_validator mh ed)"
  let ?ctx = "PeerContext_new (node_signer ne h) pk ?me"
  let ?half = "RelationHalfProof_new (client_ser env) RELATION_TYPE_HOSTED_ON_HOME h (mp_signer self)"
  obtain hp hf nst own where h: "imap (repo st) h = Some hp" "profile_id hp = h" "facet hp = Home hf"
    "remote st h = Some nst" "wire_inv imap nst" "imap (hosted_profile_db nst) ?me = Some own"
    using home unfolding hosting_home_def by blast
  have "sendable (profile ?own)" using self(3) by (simp add: homeless_def sendable_def)
  with register_net_hosted [where w = "remote st" and h = h and ctx = ?ctx, OF net(3) h(4,5)] h(6)
  have "home_register (net_ops ne) (h, Some ?ctx) ?own ?half invite (remote st) = Return (Inl (?own, RegisterFailed), remote st)"
    by (simp add: PeerContext_new_def)
  moreover have "connect_home2 env h (mp_signer self) st = Return (Inr (h, Some ?ctx), st)"
    by (rule connect_net [OF net(1,2) _ net(4) self(2) h(1-3)]) (simp_all add: net(3) h(4))
  ultimately show ?thesis
    using self(1) net(1) by (simp add: join_home_def on_net_def Let_def connect_home_def remote_run_Return)
qed

section \<open>Starting the server\<close>

lemma login_joined:
  fixes st :: "((ProfileId, Profile) InMemoryStore, home_session, event_stream, ((ProfileId, Profile) InMemoryStore, (ProfileId, OwnProfile) InMemoryStore) net) Client"
  assumes net: "on_net ne env" "multihash_ok mh" "node_env ne = memory_env ser (default_validator mh ed)" "repo_ops env = InMemoryStore_ops"
      "iter_order env [] = []"
    and self: "my_profiles st this = Some self" "ed_owns mh ed pk (mp_signer self)" "session_cache self = []"
    and prof: "imap (repo st) (signer_profile_id (mp_signer self)) = Some prof" "profile_id prof = signer_profile_id (mp_signer self)"
      "facet prof = Persona \<lparr>homes = [p], persona_data = []\<rparr>" "relation_type p = RELATION_TYPE_HOSTED_ON_HOME"
      "peer_id p (signer_profile_id (mp_signer self)) = Inr h" "peer_id p h = Inr (signer_profile_id (mp_signer self))"
    and home: "signer_profile_id (node_signer ne h) = h" "imap (repo st) h = Some hp" "profile_id hp = h" "facet hp = Home hf"
      "remote st h = Some nst" "imap (hosted_profile_db nst) (signer_profile_id (mp_signer self)) = Some own"
      "profile_id (profile own) = signer_profile_id (mp_signer self)" "public_key (profile own) = pk" "sessions nst (signer_profile_id (mp_signer self)) = None"
  shows "\<exists>sid st'. MyProfile_login env this st = Return (Inr sid, st') \<and> my_sessions st' sid \<noteq> None"
proof -
  let ?me = "signer_profile_id (mp_signer self)" and ?ctx = "PeerContext_new (node_signer ne h) pk (signer_profile_id (mp_signer self))"
  have conn: "connect_home2 env h (mp_signer self) st = Return (Inr (h, Some ?ctx), st)"
    by (rule connect_net [OF net(1,2) _ net(4) self(2) home(2-4)]) (simp_all add: net(3) home(5))
  have order: "completes_all (select_order env)" using net(1) by (simp add: on_net_def)
  have any: "any_home_of2 env prof (mp_signer self) st = Return (Inr (p, h, Some ?ctx), st)"
    using conn prof by (simp add: any_home_of2_cases select_single [OF order] home_conn_fut_def future_map_def)
  have load: "SimpleProfileRepo_load (repo_ops env) (repo st) ?me = Inr prof"
    using prof(1) net(4) by (simp add: SimpleProfileRepo_load_def InMemoryStore_get_def)
  have get: "kv_get (db_ops (node_env ne)) (hosted_profile_db nst) ?me = Inr own"
    using home(6) by (simp add: net(3) InMemoryStore_get_def)
  obtain s w w' c where s: "home_login (net_ops ne) (h, Some ?ctx) p (remote st) = (Inr s, w)" "net_events s w = ((h, Some c), w')"
    using login_events_net [of st h nst ne, OF home(5) get home(9,7,8) prof(4), of ?ctx] prof(6) home(1) by (auto simp: PeerContext_new_def)
  have "session_events (home_ops env) s (remote (st\<lparr>remote := w\<rparr>)) = ((h, Some c), w')"
    using net(1) s(2) by (simp add: on_net_def net_ops_def)
  note opened = open_session_Return [OF this]
  have "MyProfile_login env this st = open_session env this h s (st\<lparr>remote := w\<rparr>)"
    using self net(1,5) load any prof(5) s(1)
    by (simp add: MyProfile_login_def on_net_def Let_def future_and_then_def repo_load_def remote_op_def)
  then show ?thesis using opened self(1) by auto
qed

type_synonym mem_net = "((ProfileId, Profile) InMemoryStore, (ProfileId, OwnProfile) InMemoryStore) net"
type_synonym ('p, 'i) net_button_env =
  "('p, (ProfileId, Profile) InMemoryStore, home_conn, home_session, event_stream, mem_net, 'i) ButtonEnv"
type_synonym 'p net_service = "('p, (ProfileId, Profile) InMemoryStore, home_session, event_stream, mem_net) Service"

text \<open>The service gives the application its profile, which has keys of its own and no home yet.\<close>

definition own_profile_ready ::
  "('p, 'i) net_button_env \<Rightarrow> ('alg multihash_lib \<times> ('seed, 'edsigner, 'edkey, 'edsig) ed25519_lib) \<Rightarrow> AppContext \<Rightarrow> PublicKey \<Rightarrow> 'p net_service \<Rightarrow> nat \<Rightarrow> 'p net_service \<Rightarrow> bool" where
  "own_profile_ready benv libs cx pk sv p sv1 \<longleftrightarrow> AdminSession_profile (bt_senv benv) (client_id cx) sv = (Inr p, sv1)
     \<and> (\<exists>self. my_profiles (client sv1) p = Some self \<and> signer_profile_id (mp_signer self) = client_id cx
          \<and> ed_owns (fst libs) (snd libs) pk (mp_signer self) \<and> homeless pk self)"

lemma poll_init_joined:
  assumes "AdminSession_profile (bt_senv benv) (client_id cx) sv = (Inr p, sv1)"
    and "join_home (bt_client benv) p (home_id cx) None (client sv1) = Return (Inr (), c1)"
    and "MyProfile_login (bt_client benv) p c1 = Return (Inr sid, c2)"
  shows "\<exists>s1 l. poll_init benv (Server_new cfg cx sv) = Return s1 \<and> serving s1 \<and> accepting s1 = Some (p, l)
    \<and> listeners (client (bt_service s1)) l = Some \<lparr>pending_events = [], listener_closed = False\<rparr>"
  using assms by (simp add: poll_init_def Server_new_def init_server_def init_app_common_def admin_session_def serving_def
      MyHomeSession_events_def Let_def add_listener_def update_session_def)

lemma poll_init_refused:
  assumes "AdminSession_profile (bt_senv benv) (client_id cx) sv = (Inr p, sv1)"
    and "join_home (bt_client benv) p (home_id cx) None (client sv1) = Return (Inl e, c1)"
  shows "\<exists>s1. poll_init benv (Server_new cfg cx sv) = Return s1 \<and> server_fut s1 = OpeningSession \<and> accepting s1 = None"
  using assms by (simp add: poll_init_def Server_new_def init_server_def init_app_common_def admin_session_def)

lemma first_start:
  fixes benv :: "('p, 'i) net_button_env"
  assumes net: "on_net ne (bt_client benv)" "multihash_ok mh" "node_env ne = memory_env ser (default_validator mh ed)"
      "repo_ops (bt_client benv) = InMemoryStore_ops" "iter_order (bt_client benv) [] = []"
    and prof: "own_profile_ready benv (mh, ed) cx pk sv p sv1"
    and home: "free_home ne (client sv1) (client_id cx) (home_id cx)" "client_id cx \<noteq> home_id cx"
  shows "\<exists>s1 l. poll_init benv (Server_new cfg cx sv) = Return s1 \<and> serving s1 \<and> accepting s1 = Some (p, l)
    \<and> listeners (client (bt_service s1)) l = Some \<lparr>pending_events = [], listener_closed = False\<rparr>"
proof -
  obtain self where admin: "AdminSession_profile (bt_senv benv) (client_id cx) sv = (Inr p, sv1)"
    and self: "my_profiles (client sv1) p = Some self" "ed_owns mh ed pk (mp_signer self)" "homeless pk self"
      and me: "client_id cx = signer_profile_id (mp_signer self)"
    using prof [unfolded own_profile_ready_def] by (metis fst_conv snd_conv)
  obtain hp hf where h: "signer_profile_id (node_signer ne (home_id cx)) = home_id cx" "imap (repo (client sv1)) (home_id cx) = Some hp"
    "profile_id hp = home_id cx" "facet hp = Home hf"
    using home(1) unfolding free_home_def by blast
  obtain q own' nst nst' c1 where own': "facet (profile own') = Persona \<lparr>homes = [q], persona_data = []\<rparr>"
      "profile_id (profile own') = client_id cx" "public_key (profile own') = pk"
    and q: "relation_type q = RELATION_TYPE_HOSTED_ON_HOME" "peer_id q (client_id cx) = Inr (home_id cx)" "peer_id q (home_id cx) = Inr (client_id cx)"
    and nst: "remote (client sv1) (home_id cx) = Some nst" "sessions nst' = sessions nst" "imap (hosted_profile_db nst') (client_id cx) = Some own'"
    and join: "join_home (bt_client benv) p (home_id cx) None (client sv1) = Return (Inr (), c1)"
    and c1: "c1 = (client sv1)\<lparr>my_profiles := (my_profiles (client sv1))(p \<mapsto> self\<lparr>own_profile := own'\<rparr>),
        repo := (repo (client sv1))\<lparr>imap := (imap (repo (client sv1)))(client_id cx \<mapsto> profile own')\<rparr>,
        remote := (remote (client sv1))(home_id cx \<mapsto> nst')\<rparr>"
    using join_net [OF net(1-4) self home [unfolded me], of None] unfolding me by blast
  have free: "sessions nst' (client_id cx) = None" using home(1) nst(1,2) by (auto simp: free_home_def)
  let ?self = "self\<lparr>own_profile := own'\<rparr>"
  have signer: "signer_profile_id (mp_signer ?self) = client_id cx" "ed_owns mh ed pk (mp_signer ?self)" "session_cache ?self = []"
    using self by (simp_all add: me homeless_def)
  have "\<exists>sid c2. MyProfile_login (bt_client benv) p c1 = Return (Inr sid, c2) \<and> my_sessions c2 sid \<noteq> None"
    by (rule login_joined [OF net _ signer(2,3), where prof = "profile own'" and p = q and h = "home_id cx" and hp = hp and hf = hf
          and nst = nst' and own = own', unfolded signer(1)])
      (use own' q nst(3) h free home(2) in \<open>simp_all add: c1\<close>)
  with poll_init_joined [OF admin join] show ?thesis by blast
qed

text \<open>C21: the example server accepts pairings only when it is started for the first time.  Started for a
  profile that no home hosts yet it joins its home, logs in and listens for pairing requests.  Started again,
  when its home already hosts the profile, joining is refused, and because the failure is ignored the
  server serves on without ever accepting a pairing request.\<close>

theorem restarted_server_deaf:
  fixes benv :: "('p, 'i) net_button_env"
  assumes net: "on_net ne (bt_client benv)" "multihash_ok mh" "node_env ne = memory_env ser (default_validator mh ed)"
      "repo_ops (bt_client benv) = InMemoryStore_ops" "iter_order (bt_client benv) [] = []"
    and prof: "own_profile_ready benv (mh, ed) cx pk sv p sv1"
  shows "(free_home ne (client sv1) (client_id cx) (home_id cx) \<and> client_id cx \<noteq> home_id cx \<longrightarrow>
      (\<exists>s1 l. poll_init benv (Server_new cfg cx sv) = Return s1 \<and> serving s1 \<and> accepting s1 = Some (p, l)
        \<and> listeners (client (bt_service s1)) l = Some \<lparr>pending_events = [], listener_closed = False\<rparr>))
    \<and> (hosting_home ne (client sv1) (client_id cx) (home_id cx) \<longrightarrow>
      (\<exists>s1. poll_init benv (Server_new cfg cx sv) = Return s1 \<and> serving s1
        \<and> (\<forall>es s'. button_run benv es s1 = Return s' \<longrightarrow> accepting s' = None)))"
proof -
  have "\<exists>s1. poll_init benv (Server_new cfg cx sv) = Return s1 \<and> serving s1
      \<and> (\<forall>es s'. button_run benv es s1 = Return s' \<longrightarrow> accepting s' = None)"
    if home: "hosting_home ne (client sv1) (client_id cx) (home_id cx)"
  proof -
    obtain self where admin: "AdminSession_profile (bt_senv benv) (client_id cx) sv = (Inr p, sv1)"
      and self: "my_profiles (client sv1) p = Some self" "ed_owns mh ed pk (mp_signer self)" "homeless pk self"
        and me: "client_id cx = signer_profile_id (mp_signer self)"
      using prof [unfolded own_profile_ready_def] by (metis fst_conv snd_conv)
    from join_hosted [OF net(1-4) self home [unfolded me]]
    have "join_home (bt_client benv) p (home_id cx) None (client sv1) = Return (Inl RegistrationFailed, client sv1)" .
    from poll_init_refused [OF admin this] obtain s1 where "poll_init benv (Server_new cfg cx sv) = Return s1"
      "server_fut s1 = OpeningSession" "accepting s1 = None" by blast
    with accepting_run [of benv _ s1] show ?thesis by (auto simp: serving_def)
  qed
  with first_start [OF net prof] show ?thesis by blast
qed

section \<open>A call to the server\<close>

text \<open>The stream of calls of a session as it arrives over its connection, and the answer on its way
  back: both carry what they are given.\<close>

definition net_next_call :: "event_stream \<Rightarrow> ('d, 'b) net \<Rightarrow> (ProfileId \<times> Call, string) result poll \<times> ('d, 'b) net" where
  "net_next_call stream w =
     (case stream of
        (h, None) \<Rightarrow> (Item (Err ''Call delegation failed''), w)
      | (h, Some c) \<Rightarrow>
          (case w h of
             None \<Rightarrow> (Finished, w)
           | Some st \<Rightarrow>
               (case call_chans st c of
                  Some ch \<Rightarrow>
                    (case queue ch of
                       m # ms \<Rightarrow> (Item (map_ok (Pair h) m), w(h \<mapsto> st\<lparr>call_chans := (call_chans st)(c \<mapsto> ch\<lparr>queue := ms\<rparr>)\<rparr>))
                     | [] \<Rightarrow> (NotReady, w))
                | None \<Rightarrow> (NotReady, w))))"

definition net_answer :: "ProfileId \<times> Call \<Rightarrow> AppMsgSink option \<Rightarrow> ('d, 'b) net \<Rightarrow> CallRequestDetails \<times> ('d, 'b) net" where
  "net_answer hc to_callee w =
     (case w (fst hc) of
        None \<Rightarrow> (request (snd hc), w)
      | Some st \<Rightarrow> (case answer (snd hc) to_callee st of (details, st') \<Rightarrow> (details, w(fst hc \<mapsto> st'))))"

text \<open>What the server's next turn does to the node \<open>h\<close> of the network.\<close>

definition turn_of ::
  "('p, 'r, 'h, 's, event_stream, ('d, 'b) net, 'i) ButtonEnv \<Rightarrow> ('p, 'r, 's, event_stream, ('d, 'b) net) ButtonServer
     \<Rightarrow> ('d, 'b) net \<Rightarrow> ProfileId \<Rightarrow> ('d, 'b) HomeServer \<Rightarrow> ('d, 'b) HomeServer" where
  "turn_of benv s w h n =
     (case button_run benv [Elsewhere (w(h \<mapsto> n)), PollDapp] s of
        Return s' \<Rightarrow> (case remote (client (bt_service s')) h of Some n' \<Rightarrow> n' | None \<Rightarrow> n)
      | Panic \<Rightarrow> n)"

lemma call_sent:
  assumes "peer_id (relation req) (ctx_peer_id ctx) = Inr i" and "kv_get (db_ops env) (hosted_profile_db st) i = Inr own"
    and "validate_relation_proof (bincode_ser env) (validator env) (relation req) (ctx_peer_id ctx) (peer_pubkey ctx)
      (profile_id (profile own)) (public_key (profile own)) = Inr ()"
    and "sessions st i = Some sid" "session_heap st sid = Some s" and "map_of (apps s) app = Some (Sender c)"
    and "call_chans st c = Some ch" "\<not> closed ch"
  shows "call env ctx app req (Inr ()) st = (Inr (next_id st), st\<lparr>oneshots := (oneshots st)(next_id st \<mapsto> Pending), next_id := next_id st + 1,
    call_chans := (call_chans st)(c \<mapsto> ch\<lparr>queue := queue ch @ [Inr (Call_new req (next_id st))]\<rparr>)\<rparr>)"
  using assms
  by (simp add: call_def Let_def check_relation_def push_call_def get_live_session_def session_push_call_def chan_send_def)

lemma server_takes_call:
  assumes ops: "bt_next_call benv = net_next_call" "bt_answer benv = net_answer"
    and server: "server_fut s = Listening d (h, Some c) l flag" "listeners (client (bt_service s)) l = Some lch" "pending_events lch = []"
    and node: "call_chans n c = Some ch" "queue ch = [Inr cl]" "to_caller (request cl) = Some sink"
  shows "\<exists>s'. button_run benv [Elsewhere (w(h \<mapsto> n)), PollDapp] s = Return s' \<and> serving s' \<and> press_state s' = press_state s
    \<and> active_calls s' = active_calls s @ [\<lparr>outgoing = sink, incoming = client_next (client (bt_service s))\<rparr>]
    \<and> remote (client (bt_service s')) = w(h \<mapsto> snd (answer cl (Some (client_next (client (bt_service s)))) (n\<lparr>call_chans := (call_chans n)(c \<mapsto> ch\<lparr>queue := []\<rparr>)\<rparr>)))"
proof -
  let ?c = "(client (bt_service s))\<lparr>remote := w(h \<mapsto> n)\<rparr>" and ?n = "n\<lparr>call_chans := (call_chans n)(c \<mapsto> ch\<lparr>queue := []\<rparr>)\<rparr>"
  have "net_next_call (h, Some c) (remote ?c) = (Item (Inr (h, cl)), w(h \<mapsto> ?n))"
    using node by (simp add: net_next_call_def)
  from poll_select_call [of ?c l lch net_next_call, OF _ server(3) this, of d flag] server(2)
  obtain flag' where sel: "poll_select net_next_call d (h, Some c) l flag ?c
      = (SrcItem (DAppEvent_Call (h, cl)), flag', ?c\<lparr>remote := w(h \<mapsto> ?n)\<rparr>)" by auto
  show ?thesis
    using server(1) node(3) by (simp add: poll_dapp_def sel ops on_dapp_event_def net_answer_def answer_def Let_def serving_def set_bt_client_def press_state_def)
qed

text \<open>The profile \<open>i\<close> with key \<open>pk\<close> is hosted and logged in, and its application's calls go to the empty
  channel \<open>c\<close>.\<close>

definition line_open ::
  "('d, 'b) HomeEnv \<Rightarrow> ('d, 'b) HomeServer \<Rightarrow> ProfileId \<Rightarrow> PublicKey \<Rightarrow> ApplicationId \<Rightarrow> nat \<Rightarrow> bool" where
  "line_open env st i pk app c \<longleftrightarrow> (\<exists>own sid s ch. kv_get (db_ops env) (hosted_profile_db st) i = Inr own
     \<and> profile_id (profile own) = i \<and> public_key (profile own) = pk
     \<and> sessions st i = Some sid \<and> session_heap st sid = Some s \<and> map_of (apps s) app = Some (Sender c)
     \<and> call_chans st c = Some ch \<and> \<not> closed ch \<and> queue ch = [])"

text \<open>A server between two presses that listens on the channel \<open>c\<close> of its home \<open>h\<close>.\<close>

definition awaits_calls :: "('p, 'r, 's, event_stream, ('d, 'b) net) ButtonServer \<Rightarrow> ProfileId \<Rightarrow> nat \<Rightarrow> bool" where
  "awaits_calls s h c \<longleftrightarrow> (\<exists>d l flag ch. server_fut s = Listening d (h, Some c) l flag
     \<and> listeners (client (bt_service s)) l = Some ch \<and> pending_events ch = [])
     \<and> button_presses s = 0 \<and> spawned_sends s = []"

text \<open>A call that finds the server waiting is answered in the server's next turn.\<close>

lemma turn_answers:
  assumes ops: "bt_next_call benv = net_next_call" "bt_answer benv = net_answer"
    and "awaits_calls s h c" and req: "to_caller req = Some sink"
    and call: "peer_id (relation req) (ctx_peer_id ctx) = Inr i" "line_open env nst i pk app c"
      "validate_relation_proof (bincode_ser env) (validator env) (relation req) (ctx_peer_id ctx) (peer_pubkey ctx) i pk = Inr ()"
  shows "\<exists>n s'. call env ctx app req (Inr ()) nst = (Inr (next_id nst), n)
    \<and> button_run benv [Elsewhere (w(h \<mapsto> n)), PollDapp] s = Return s' \<and> serving s' \<and> press_state s' = press_state s
    \<and> active_calls s' = active_calls s @ [\<lparr>outgoing = sink, incoming = client_next (client (bt_service s))\<rparr>]
    \<and> remote (client (bt_service s')) = w(h \<mapsto> turn_of benv s w h n)
    \<and> await_answer (turn_of benv s w h n) (next_id nst) True = Some (Inr (Some (client_next (client (bt_service s)))))"
proof -
  obtain own sid ss ch where node: "kv_get (db_ops env) (hosted_profile_db nst) i = Inr own" "profile_id (profile own) = i" "public_key (profile own) = pk"
    "sessions nst i = Some sid" "session_heap nst sid = Some ss" "map_of (apps ss) app = Some (Sender c)"
    "call_chans nst c = Some ch" "\<not> closed ch" "queue ch = []"
    using call(2) by (auto simp: line_open_def)
  obtain d l flag lch where server: "server_fut s = Listening d (h, Some c) l flag" "listeners (client (bt_service s)) l = Some lch" "pending_events lch = []"
    using assms(3) by (auto simp: awaits_calls_def)
  let ?cl = "Call_new req (next_id nst)" and ?k = "client_next (client (bt_service s))"
  let ?n = "nst\<lparr>oneshots := (oneshots nst)(next_id nst \<mapsto> Pending), next_id := next_id nst + 1,
    call_chans := (call_chans nst)(c \<mapsto> ch\<lparr>queue := queue ch @ [Inr ?cl]\<rparr>)\<rparr>"
  have sent: "call env ctx app req (Inr ()) nst = (Inr (next_id nst), ?n)"
    by (rule call_sent [OF call(1) node(1) _ node(4-8)]) (simp add: node(2,3) call(3))
  obtain s' where s': "button_run benv [Elsewhere (w(h \<mapsto> ?n)), PollDapp] s = Return s'" "serving s'" "press_state s' = press_state s"
    "active_calls s' = active_calls s @ [\<lparr>outgoing = sink, incoming = ?k\<rparr>]"
    "remote (client (bt_service s')) = w(h \<mapsto> snd (answer ?cl (Some ?k) (?n\<lparr>call_chans := (call_chans ?n)(c \<mapsto> (ch\<lparr>queue := queue ch @ [Inr ?cl]\<rparr>)\<lparr>queue := []\<rparr>)\<rparr>)))"
    using server_takes_call [where w = w and n = ?n and cl = ?cl and sink = sink, OF ops server, of "ch\<lparr>queue := queue ch @ [Inr ?cl]\<rparr>"] node(9) req
    by (auto simp: Call_new_def)
  have "turn_of benv s w h ?n = snd (answer ?cl (Some ?k) (?n\<lparr>call_chans := (call_chans ?n)(c \<mapsto> (ch\<lparr>queue := queue ch @ [Inr ?cl]\<rparr>)\<lparr>queue := []\<rparr>)\<rparr>))"
    using s'(1,5) by (simp only: turn_of_def run.case fun_upd_same option.case)
  moreover from this have "await_answer (turn_of benv s w h ?n) (next_id nst) True = Some (Inr (Some ?k))"
    by (simp add: await_answer_def answer_def Call_new_def)
  ultimately show ?thesis using sent s' by auto
qed


section \<open>Witnesses\<close>

type_synonym own_store = "(ProfileId, OwnProfile) InMemoryStore"

definition net_button_senv :: "u8 \<Rightarrow> (own_store, (ProfileId, Profile) InMemoryStore, home_session, event_stream, mem_net) ServiceEnv" where
  "net_button_senv k = ConnectService_new (DummyUserInterface_select_profile [ProfileId [27, k]]) [ProfileId [27, k]] InMemoryStore_ops
     (SignerFactory_new [ProfileId [27, k] \<mapsto> sample_signer [k]])"

definition net_button_env :: "u8 \<Rightarrow> (own_store, ProfileId \<times> Call) net_button_env" where
  "net_button_env k = \<lparr>bt_client = net_client_env, bt_senv = net_button_senv k, bt_next_call = net_next_call, bt_answer = net_answer,
     bt_drop_call = (\<lambda>hc w. case w (fst hc) of None \<Rightarrow> w | Some st \<Rightarrow> w(fst hc \<mapsto> drop_call (snd hc) st))\<rparr>"

definition net_button_ctx :: AppContext where
  "net_button_ctx = \<lparr>client_id = ProfileId [27, 1], home_id = ProfileId [8], app_id = ApplicationId ''chat''\<rparr>"

text \<open>The service of a program that starts, at the home \<open>[8]\<close> in the given state.\<close>

definition net_button_service :: "((ProfileId, Profile) InMemoryStore, own_store) HomeServer \<Rightarrow> own_store net_service" where
  "net_button_service nst = MyProfileFactory_new \<lparr>imap = [ProfileId [8] \<mapsto> net_home_profile 8]\<rparr> [ProfileId [8] \<mapsto> nst]
     \<lparr>imap = [ProfileId [27, 1] \<mapsto> OwnProfile_new (net_profile 1 []) []]\<rparr>"

lemma net_button_ready:
  "\<exists>sv1. own_profile_ready (net_button_env 1) (sample_multihash, sample_ed25519) net_button_ctx (PublicKey [1]) (net_button_service nst) 0 sv1
     \<and> repo (client sv1) = \<lparr>imap = [ProfileId [8] \<mapsto> net_home_profile 8]\<rparr> \<and> remote (client sv1) = [ProfileId [8] \<mapsto> nst]"
  using sample_owns [of "[1]"]
  by (simp add: own_profile_ready_def net_button_env_def net_button_senv_def ConnectService_new_def net_button_ctx_def net_button_service_def
      MyProfileFactory_new_def AdminSession_profile_def InMemoryStore_get_def MyProfileFactory_create_def OwnProfile_new_def SignerFactory_signer_def
      SignerFactory_new_def alloc_profile_def client_init_def homeless_def MyProfileImpl_new_def Let_def)

theorem restarted_server_deaf_witness:
  "(\<exists>s1 l. poll_init (net_button_env 1) (Server_new \<lparr>event_timer = None\<rparr> net_button_ctx
       (net_button_service (HomeServer_new InMemoryStore_new InMemoryStore_new))) = Return s1 \<and> accepting s1 = Some (0, l))
   \<and> (\<exists>s1. poll_init (net_button_env 1) (Server_new \<lparr>event_timer = None\<rparr> net_button_ctx (net_button_service (party_home 1 8))) = Return s1
       \<and> serving s1 \<and> accepting s1 = None)"
proof
  have net: "on_net sample_net_env (bt_client (net_button_env 1))" "repo_ops (bt_client (net_button_env 1)) = InMemoryStore_ops"
    "iter_order (bt_client (net_button_env 1)) [] = []"
    using net_sample_ok by (simp_all add: net_button_env_def net_client_env_def)
  have env: "node_env sample_net_env = memory_env sample_bincode (default_validator sample_multihash sample_ed25519)"
    by (simp add: net_sample_ok(2) duo_env_def)
  note deaf = restarted_server_deaf [OF net(1) sample_ok(1) env net(2,3), where cfg = "\<lparr>event_timer = None\<rparr>"]
  let ?new = "HomeServer_new InMemoryStore_new InMemoryStore_new" and ?old = "party_home 1 8"
  obtain sv1 where sv1: "own_profile_ready (net_button_env 1) (sample_multihash, sample_ed25519) net_button_ctx (PublicKey [1]) (net_button_service ?new) 0 sv1"
    "repo (client sv1) = \<lparr>imap = [ProfileId [8] \<mapsto> net_home_profile 8]\<rparr>" "remote (client sv1) = [ProfileId [8] \<mapsto> ?new]"
    using net_button_ready by blast
  have "free_home sample_net_env (client sv1) (client_id net_button_ctx) (home_id net_button_ctx)" "client_id net_button_ctx \<noteq> home_id net_button_ctx"
    by (simp_all add: free_home_def sv1 net_button_ctx_def sample_net_env_def net_home_profile_def Profile_new_def wire_inv_def HomeServer_new_def InMemoryStore_new_def)
  with deaf [OF sv1(1)] show "\<exists>s1 l. poll_init (net_button_env 1) (Server_new \<lparr>event_timer = None\<rparr> net_button_ctx (net_button_service ?new)) = Return s1
      \<and> accepting s1 = Some (0, l)" by blast
  obtain sv2 where sv2: "own_profile_ready (net_button_env 1) (sample_multihash, sample_ed25519) net_button_ctx (PublicKey [1]) (net_button_service ?old) 0 sv2"
    "repo (client sv2) = \<lparr>imap = [ProfileId [8] \<mapsto> net_home_profile 8]\<rparr>" "remote (client sv2) = [ProfileId [8] \<mapsto> ?old]"
    using net_button_ready by blast
  have "hosting_home sample_net_env (client sv2) (client_id net_button_ctx) (home_id net_button_ctx)"
    by (auto simp: hosting_home_def sv2 net_button_ctx_def sample_net_env_def net_home_profile_def Profile_new_def wire_inv_def party_home_def
        HomeServer_new_def OwnProfile_new_def net_home_proof_def)
  with deaf [OF sv2(1)] obtain s1 where "poll_init (net_button_env 1) (Server_new \<lparr>event_timer = None\<rparr> net_button_ctx (net_button_service ?old)) = Return s1"
    "serving s1" "\<forall>es s'. button_run (net_button_env 1) es s1 = Return s' \<longrightarrow> accepting s' = None" by blast
  moreover from this(3) have "accepting s1 = None" by (metis button_run.simps(1))
  ultimately show "\<exists>s1. poll_init (net_button_env 1) (Server_new \<lparr>event_timer = None\<rparr> net_button_ctx (net_button_service ?old)) = Return s1
      \<and> serving s1 \<and> accepting s1 = None" by blast
qed

text \<open>A server that waits for calls at the home \<open>[9]\<close>, and a client of the home \<open>[8]\<close> that calls it.\<close>

definition ring_home :: "((ProfileId, Profile) InMemoryStore, own_store) HomeServer" where
  "ring_home = (party_home 2 9)\<lparr>session_heap := [0 \<mapsto> \<lparr>ss_context = sample_ctx 2, events_sink = Sender 1, apps = [(ApplicationId ''chat'', Sender 5)]\<rparr>],
     call_chans := [5 \<mapsto> new_channel], next_id := 6\<rparr>"

definition ring_client :: "u8 \<Rightarrow> u8 \<Rightarrow> ((ProfileId, Profile) InMemoryStore, home_session, event_stream, mem_net) Client" where
  "ring_client k h = (party k h)\<lparr>remote := (remote (party k h))(ProfileId [9] \<mapsto> ring_home),
     listeners := (listeners (party k h))(7 \<mapsto> \<lparr>pending_events = [], listener_closed = False\<rparr>)\<rparr>"

definition ring_server :: "(own_store, (ProfileId, Profile) InMemoryStore, home_session, event_stream, mem_net) ButtonServer" where
  "ring_server = (Server_new \<lparr>event_timer = None\<rparr> net_button_ctx \<lparr>client = ring_client 2 9, factory_cache = [ProfileId [27, 2] \<mapsto> 0], profile_store = InMemoryStore_new\<rparr>)
     \<lparr>server_fut := Listening (DAppSessionImpl_new 0 (ApplicationId ''chat'')) (ProfileId [9], Some 5) 7 False\<rparr>"

definition ring_net :: "((ProfileId, Profile) InMemoryStore, own_store) NetEnv" where
  "ring_net = sample_net_env\<lparr>while_waiting := turn_of (net_button_env 2) ring_server (remote (ring_client 1 8)) (ProfileId [9])\<rparr>"

definition ring_env :: "((ProfileId, Profile) InMemoryStore, home_conn, home_session, event_stream, mem_net) ClientEnv" where
  "ring_env = net_client_env\<lparr>home_ops := net_ops ring_net, home_connector := net_connector ring_net\<rparr>"


end
