(* ===== verification/Storage_Tests.thy ===== *)
theory Storage_Tests
  imports Address_Resolver
begin

text \<open>
  The unit tests of the storage crate (the \<^verbatim>\<open>tests\<close> modules of \<^verbatim>\<open>storage/src\<close>), run on the
  model: a test is a computation that panics when an assertion fails.  What the tests take from
  packages stays a parameter, so that a test that passes does so for every hash function, base
  encoding and serialisation with the documented properties.
\<close>

section \<open>Tests\<close>

definition assert :: "bool \<Rightarrow> unit run" where
  "assert b = (if b then Return () else Panic)"

fun unwrap :: "('a, 'e) result \<Rightarrow> 'a run" where
  "unwrap (Inl e) = Panic"
| "unwrap (Inr a) = Return a"

fun unwrap_some :: "'a option \<Rightarrow> 'a run" where
  "unwrap_some None = Panic"
| "unwrap_some (Some a) = Return a"

lemma assert_Return [simp]: "assert b = Return u \<longleftrightarrow> b"
  by (simp add: assert_def)

lemma unwrap_Return [simp]: "unwrap r = Return a \<longleftrightarrow> r = Inr a"
  by (cases r) auto

definition str_bytes :: "string \<Rightarrow> bytes" where
  "str_bytes s = map of_char s"

record Person =
  person_name :: string
  phone :: string
  age :: "16 word"

definition aladar :: Person where
  "aladar = \<lparr>person_name = ''Aladar'', phone = ''+36202020202'', age = 28\<rparr>"

section \<open>Serializer, hasher and coder\<close>

definition test_serializer ::
  "(Person \<Rightarrow> (string, string) result) \<Rightarrow> (string \<Rightarrow> (Person, string) result) \<Rightarrow> (string \<Rightarrow> bytes)
     \<Rightarrow> (bytes \<Rightarrow> (string, string) result) \<Rightarrow> unit run" where
  "test_serializer json_to_string json_from_str into_bytes from_utf8 =
     (let ser_obj = SerdeJsonSerializer_serialize json_to_string into_bytes aladar in
      run_bind (assert (is_ok ser_obj)) (\<lambda>_.
      run_bind (unwrap ser_obj) (\<lambda>bs.
      let deser_res = SerdeJsonSerializer_deserialize json_from_str from_utf8 bs in
      run_bind (assert (is_ok deser_res)) (\<lambda>_.
      run_bind (unwrap deser_res) (\<lambda>obj. assert (aladar = obj))))))"

definition test_hasher :: "('alg \<Rightarrow> bytes \<Rightarrow> (bytes, multihash_error) result) \<Rightarrow> 'alg \<Rightarrow> unit run" where
  "test_hasher mh keccak256 =
     (let ser_obj = [1, 2, 3, 4, 5, 6, 7, 8, 9];
          hasher = MultiHasher_new mh keccak256;
          hash = get_hash hasher ser_obj
      in run_bind (assert (is_ok hash)) (\<lambda>_.
         run_bind (unwrap hash) (\<lambda>h. assert (is_ok (validate_hash hasher ser_obj h)))))"

definition test_hash_coder ::
  "('base \<Rightarrow> bytes \<Rightarrow> string) \<Rightarrow> (string \<Rightarrow> ('base \<times> bytes, string) result) \<Rightarrow> 'base \<Rightarrow> unit run" where
  "test_hash_coder mb_enc mb_dec base64 =
     (let hash_bytes = [1, 2, 3, 4, 5, 6, 7, 8, 9];
          coder = MultiBaseHashCoder_new mb_enc mb_dec base64;
          hash_str = encode_hash coder hash_bytes
      in run_bind (assert (is_ok hash_str)) (\<lambda>_.
         run_bind (unwrap hash_str) (\<lambda>s.
         let decode_res = decode_hash coder s in
         run_bind (assert (is_ok decode_res)) (\<lambda>_.
         run_bind (unwrap decode_res) (\<lambda>bs. assert (hash_bytes = bs))))))"

section \<open>Stores and hash spaces\<close>

definition test_inmemory_storage :: "unit run" where
  "test_inmemory_storage =
     (let (store_res, storage) = InMemoryStore_set InMemoryStore_new ''key'' aladar in
      run_bind (assert (is_ok store_res)) (\<lambda>_.
      let lookup_res = InMemoryStore_get storage ''key'' in
      run_bind (assert (is_ok lookup_res)) (\<lambda>_.
      run_bind (unwrap lookup_res) (\<lambda>obj. assert (obj = aladar)))))"

definition test_hashspace ::
  "('alg \<Rightarrow> bytes \<Rightarrow> (bytes, multihash_error) result) \<Rightarrow> 'alg \<Rightarrow> ('base \<Rightarrow> bytes \<Rightarrow> string)
     \<Rightarrow> (string \<Rightarrow> ('base \<times> bytes, string) result) \<Rightarrow> 'base \<Rightarrow> unit run" where
  "test_hashspace mh keccak512 mb_enc mb_dec base64 =
     (let hashspace = ModularHashSpace_new (MultiHasher_new mh keccak512) InMemoryStore_ops (MultiBaseHashCoder_new mb_enc mb_dec base64);
          object = str_bytes ''What do you get if you multiply six by nine?'';
          (store_res, s) = ModularHashSpace_store hashspace InMemoryStore_new object
      in run_bind (assert (is_ok store_res)) (\<lambda>_.
         run_bind (unwrap store_res) (\<lambda>hash.
         let lookup_res = ModularHashSpace_resolve hashspace s hash in
         run_bind (assert (is_ok lookup_res)) (\<lambda>_.
         run_bind (unwrap lookup_res) (\<lambda>obj.
         run_bind (assert (obj = object)) (\<lambda>_.
         let validate_res = ModularHashSpace_validate hashspace s object hash in
         run_bind (assert (is_ok validate_res)) (\<lambda>_.
         run_bind (unwrap validate_res) assert)))))))"

definition test_hashweb ::
  "('alg \<Rightarrow> bytes \<Rightarrow> (bytes, multihash_error) result) \<Rightarrow> 'alg \<Rightarrow> ('base \<Rightarrow> bytes \<Rightarrow> string)
     \<Rightarrow> (string \<Rightarrow> ('base \<times> bytes, string) result) \<Rightarrow> 'base \<Rightarrow> unit run" where
  "test_hashweb mh keccak512 mb_enc mb_dec base64 =
     (let cache_space = ModularHashSpace_new (MultiHasher_new mh keccak512) InMemoryStore_ops (MultiBaseHashCoder_new mb_enc mb_dec base64);
          default_space = ''cache'';
          spaces = [default_space \<mapsto> ModularHashSpace_ops cache_space];
          hashweb = HashWeb_new spaces default_space;
          content = str_bytes (''There's over a dozen netrunners Netwatch Cops would love to brain burn ''
            @ ''and Rache Bartmoss is at least two of them'');
          (link_res, st) = HashWeb_store hashweb (\<lambda>_. InMemoryStore_new) content
      in run_bind (unwrap link_res) (\<lambda>link.
         run_bind (assert (take (length (default_space @ ''/'')) link = default_space @ ''/'')) (\<lambda>_.
         run_bind (unwrap (HashWeb_resolve hashweb st link)) (\<lambda>bytes. assert (bytes = content)))))"

text \<open>The synchronous crate.\<close>

definition sync_test_storage :: "unit run" where
  "sync_test_storage =
     (let hash = [1, 2, 3, 4, 5, 6, 7, 8, 9] :: bytes;
          (store_res, storage) = sync_InMemoryStore_store InMemoryStore_new hash aladar
      in run_bind (assert (is_ok store_res)) (\<lambda>_.
         let lookup_res = sync_InMemoryStore_lookup storage hash in
         run_bind (assert (is_ok lookup_res)) (\<lambda>_.
         run_bind (unwrap lookup_res) (\<lambda>obj. assert (obj = aladar)))))"

definition sync_InMemoryStore_ops :: "(('k, 'v) InMemoryStore, 'k, 'v) KeyValueStore" where
  "sync_InMemoryStore_ops = \<lparr>kv_set = sync_InMemoryStore_store, kv_get = sync_InMemoryStore_lookup,
     kv_clear_local = InMemoryStore_clear_local\<rparr>"

definition sync_test_hashspace ::
  "('alg \<Rightarrow> bytes \<Rightarrow> (bytes, multihash_error) result) \<Rightarrow> 'alg \<Rightarrow> ('base \<Rightarrow> bytes \<Rightarrow> string)
     \<Rightarrow> (string \<Rightarrow> ('base \<times> bytes, string) result) \<Rightarrow> 'base \<Rightarrow> unit run" where
  "sync_test_hashspace mh keccak512 mb_enc mb_dec base64 =
     (let hashspace = \<lparr>hasher = MultiHasher_new mh keccak512, storage = sync_InMemoryStore_ops,
            hash_coder = MultiBaseHashCoder_new mb_enc mb_dec base64\<rparr>;
          object = str_bytes ''Don't nobody touch nothing'';
          (store_res, s) = sync_ModularHashSpace_store hashspace InMemoryStore_new object
      in run_bind (assert (is_ok store_res)) (\<lambda>_.
         run_bind (unwrap store_res) (\<lambda>hash.
         let lookup_res = sync_ModularHashSpace_resolve hashspace s hash in
         run_bind (assert (is_ok lookup_res)) (\<lambda>_.
         run_bind (unwrap lookup_res) (\<lambda>obj. assert (obj = object))))))"

section \<open>File store\<close>

text \<open>\<^verbatim>\<open>i.to_string()\<close>.\<close>

fun decimal :: "nat \<Rightarrow> string" where
  "decimal n = (if n < 10 then [char_of (48 + n)] else decimal (n div 10) @ [char_of (48 + n mod 10)])"

fun file_store_writes :: "(fs, string, string) KeyValueStore \<Rightarrow> string \<Rightarrow> nat list \<Rightarrow> fs \<Rightarrow> fs run" where
  "file_store_writes store content [] w = Return w"
| "file_store_writes store content (i # is) w =
     (case kv_set store w (decimal i) content of (write, w) \<Rightarrow>
        run_bind (unwrap write) (\<lambda>_.
        run_bind (unwrap (kv_get store w (decimal i))) (\<lambda>read.
        run_bind (assert (read = content)) (\<lambda>_. file_store_writes store content is w))))"

fun file_store_clears :: "(fs, string, string) KeyValueStore \<Rightarrow> string \<Rightarrow> nat list \<Rightarrow> fs \<Rightarrow> fs run" where
  "file_store_clears store content [] w = Return w"
| "file_store_clears store content (i # is) w =
     run_bind (unwrap (kv_get store w (decimal i))) (\<lambda>read.
       case kv_clear_local store w (decimal i) of (del, w) \<Rightarrow>
         run_bind (unwrap del) (\<lambda>_.
         run_bind (assert (read = content)) (\<lambda>_. file_store_clears store content is w)))"

definition test_file_store :: "(string \<Rightarrow> (bytes, string) result) \<Rightarrow> (bytes \<Rightarrow> (string, string) result) \<Rightarrow> fs \<Rightarrow> fs run" where
  "test_file_store to_vec from_slice w =
     (let storage = BlockingFileStore_ops to_vec from_slice ''./filetest/store/'';
          content = ''my_application''
      in run_bind (file_store_writes storage content [0..<100] w) (file_store_clears storage content [0..<100]))"

section \<open>Attributes and addresses\<close>

text \<open>The implementation of \<^verbatim>\<open>Attribute\<close> and \<^verbatim>\<open>Data\<close> the tests use.\<close>

datatype MetaAttrVal =
    BOOL bool
  | INT_V "64 word"
  | FLOAT f64
  | TIMESTAMP int
  | LOCATION GpsLocation
  | STRING string
  | LINK string
  | BLOB bytes
  | ARRAY "MetaAttrVal list"
  | OBJECT "MetaAttr list"
and MetaAttr = MetaAttr (attr_name: string) (attr_val: MetaAttrVal)

fun to_attr_val :: "MetaAttrVal \<Rightarrow> AttributeValue" and as_attribute :: "MetaAttr \<Rightarrow> Attribute" where
  "to_attr_val (BOOL v) = Boolean v"
| "to_attr_val (INT_V v) = Integer v"
| "to_attr_val (FLOAT v) = Float v"
| "to_attr_val (TIMESTAMP v) = Timestamp v"
| "to_attr_val (LOCATION v) = Location v"
| "to_attr_val (STRING v) = StringValue v"
| "to_attr_val (BLOB v) = Blob v"
| "to_attr_val (LINK v) = Link v"
| "to_attr_val (ARRAY v) = Array (map to_attr_val v)"
| "to_attr_val (OBJECT v) = Object (map as_attribute v)"
| "as_attribute (MetaAttr n v) = (n, to_attr_val v)"

record MetaData =
  md_blob :: bytes
  md_hash :: bytes
  md_attrs :: "MetaAttr list"

definition MetaData_new :: "bytes \<Rightarrow> bytes \<Rightarrow> MetaAttr list \<Rightarrow> MetaData" where
  "MetaData_new b h attrs = \<lparr>md_blob = b, md_hash = h, md_attrs = attrs\<rparr>"

definition MetaData_data :: "MetaData \<Rightarrow> Data" where
  "MetaData_data m = \<lparr>blob = md_blob m, attributes = map as_attribute (md_attrs m)\<rparr>"

text \<open>\<open>near\<close> is the comparison \<^verbatim>\<open>(val - pi) < 2E-16\<close> of floats, \<open>now\<close> is \<^verbatim>\<open>SystemTime::now()\<close>.\<close>

definition test_metadata :: "(f64 \<Rightarrow> f64 \<Rightarrow> bool) \<Rightarrow> int \<Rightarrow> unit run" where
  "test_metadata near now =
     (let spoon = ''There is no Rust''; answer = 42; pi = 4614256656552045841;
          linkhash = ''Far/far/away/in/another/storage/network'';
          famous = [STRING spoon, INT_V answer, FLOAT pi];
          color = [MetaAttr ''red'' (INT_V 90), MetaAttr ''green'' (INT_V 60), MetaAttr ''blue'' (INT_V 90)];
          attrs = [MetaAttr ''works'' (BOOL True), MetaAttr ''timestamp'' (TIMESTAMP now),
            MetaAttr ''link'' (LINK (''magnet/'' @ linkhash)), MetaAttr ''famous'' (ARRAY famous), MetaAttr ''color'' (OBJECT color)];
          metadata = MetaData_data (MetaData_new (str_bytes ''1234567890abcdef'') (str_bytes ''qwerty'') attrs)
      in run_bind (unwrap_some (first_attrval_by_name metadata ''works'')) (\<lambda>v.
           run_bind (case v of Boolean b \<Rightarrow> assert b | _ \<Rightarrow> Panic) (\<lambda>_.
         run_bind (unwrap_some (first_attrval_by_name metadata ''famous'')) (\<lambda>v.
           run_bind (case v of
             Array arr \<Rightarrow>
               run_bind (assert (length arr = 3)) (\<lambda>_.
               run_bind (case arr ! 0 of StringValue val \<Rightarrow> assert (val = spoon) | _ \<Rightarrow> Panic) (\<lambda>_.
               run_bind (case arr ! 1 of Integer val \<Rightarrow> assert (val = answer) | _ \<Rightarrow> Panic) (\<lambda>_.
               case arr ! 2 of Float val \<Rightarrow> assert (near val pi) | _ \<Rightarrow> Panic)))
           | _ \<Rightarrow> Panic) (\<lambda>_.
         run_bind (unwrap_some (first_attrval_by_path metadata [''color'', ''red''])) (\<lambda>v.
           run_bind (case v of Integer val \<Rightarrow> assert (val = 90) | _ \<Rightarrow> Panic) (\<lambda>_.
         run_bind (unwrap_some (first_attrval_by_path metadata [''color'', ''green''])) (\<lambda>v.
           run_bind (case v of Integer val \<Rightarrow> assert (val = 60) | _ \<Rightarrow> Panic) (\<lambda>_.
         assert (first_attrval_by_path metadata [''color'', ''purple''] = None))))))))))"

definition DummyFormatParser_parse :: "MetaAttr \<Rightarrow> bytes \<Rightarrow> (Data, FormatParserError) result" where
  "DummyFormatParser_parse link_attr bs =
     Ok (MetaData_data (MetaData_new bs (str_bytes ''dummy_hash'') [link_attr]))"

definition test_blob_address_resolution ::
  "('alg \<Rightarrow> bytes \<Rightarrow> (bytes, multihash_error) result) \<Rightarrow> 'alg \<Rightarrow> ('base \<Rightarrow> bytes \<Rightarrow> string)
     \<Rightarrow> (string \<Rightarrow> ('base \<times> bytes, string) result) \<Rightarrow> 'base \<Rightarrow> unit run" where
  "test_blob_address_resolution mh keccak512 mb_enc mb_dec base64 =
     (let cache_space = ModularHashSpace_new (MultiHasher_new mh keccak512) InMemoryStore_ops (MultiBaseHashCoder_new mb_enc mb_dec base64);
          myblob = str_bytes ''This is my custom binary data'';
          (hash_res, s) = ModularHashSpace_store cache_space InMemoryStore_new myblob
      in run_bind (unwrap hash_res) (\<lambda>myblob_hash.
         let default_space = ''mystore'';
             hashweb = HashWeb_new [default_space \<mapsto> ModularHashSpace_ops cache_space] default_space;
             hashlink_str = default_space @ ''/'' @ myblob_hash
         in run_bind (unwrap (HashWeb_resolve hashweb (\<lambda>_. s) hashlink_str)) (\<lambda>resolved.
            run_bind (assert (resolved = myblob)) (\<lambda>_.
            let link_attr = MetaAttr ''hashweblink'' (LINK (default_space @ ''/'' @ myblob_hash));
                container_attr = MetaAttr ''attributes'' (OBJECT [link_attr]);
                registry = FormatRegistry_new [''myformat'' \<mapsto> DummyFormatParser_parse container_attr];
                link_address = hashlink_str @ ''#'' @ ''myformat'' @ ''@'' @ attr_name container_attr @ ''/'' @ attr_name link_attr;
                resolver = AddressResolver_new registry hashweb
            in run_bind (resolve_blob resolver (\<lambda>_. s) link_address) (\<lambda>res.
               run_bind (unwrap res) (\<lambda>resolved. assert (resolved = myblob)))))))"

section \<open>The tests pass\<close>

lemma test_serializer_passes:
  assumes "\<And>p. is_ok (js p)" and "\<And>p t. js p = Inr t \<Longrightarrow> jp t = Inr p" and "\<And>t. utf (ib t) = Inr t"
  shows "test_serializer js jp ib utf = Return ()"
proof -
  obtain t where "js aladar = Inr t" using assms(1) by (auto simp: is_ok_iff)
  then show ?thesis
    using assms(2,3) by (simp add: test_serializer_def SerdeJsonSerializer_serialize_def SerdeJsonSerializer_deserialize_def)
qed

lemma test_hasher_passes: "is_ok (mh k [1, 2, 3, 4, 5, 6, 7, 8, 9]) \<Longrightarrow> test_hasher mh k = Return ()"
  by (auto simp: test_hasher_def MultiHasher_new_def MultiHasher_validate_def get_hash_bytes_def is_ok_iff)

lemma test_hash_coder_passes: "(\<And>b x. mb_dec (mb_enc b x) = Inr (b, x)) \<Longrightarrow> test_hash_coder mb_enc mb_dec b = Return ()"
  by (simp add: test_hash_coder_def MultiBaseHashCoder_new_def MultiBaseHashCoder_encode_def MultiBaseHashCoder_decode_def)

lemma test_inmemory_storage_passes: "test_inmemory_storage = Return ()" "sync_test_storage = Return ()"
  by (simp_all add: test_inmemory_storage_def sync_test_storage_def InMemoryStore_set_def InMemoryStore_get_def InMemoryStore_new_def
      sync_InMemoryStore_store_def sync_InMemoryStore_lookup_def)

lemma test_metadata_passes: "near 4614256656552045841 4614256656552045841 \<Longrightarrow> test_metadata near now = Return ()"
  by (simp add: test_metadata_def MetaData_data_def MetaData_new_def first_attrval_by_name_def first_attrval_by_path_def
      iter_first_attrval_by_name_def)

text \<open>An object stored in a hash space of a multihash and a multibase is found under its hash.\<close>

lemma space_stores:
  fixes mh k mb_enc mb_dec b s x hb
  defines "m \<equiv> ModularHashSpace_new (MultiHasher_new mh k) InMemoryStore_ops (MultiBaseHashCoder_new mb_enc mb_dec b)"
  assumes "\<And>b x. mb_dec (mb_enc b x) = Inr (b, x)" and "mh k x = Inr hb"
  shows "ModularHashSpace_store m s x = (Inr (mb_enc b hb), s\<lparr>imap := (imap s)(hb \<mapsto> x)\<rparr>)"
    and "imap s' hb = Some x \<Longrightarrow> ModularHashSpace_resolve m s' (mb_enc b hb) = Inr x"
    and "ModularHashSpace_validate m s' x (mb_enc b hb) = Inr True"
  using assms(2,3)
  by (simp_all add: m_def ModularHashSpace_new_def ModularHashSpace_store_def ModularHashSpace_resolve_def ModularHashSpace_validate_def
      sync_validate_def MultiHasher_new_def MultiHasher_validate_def get_hash_bytes_def MultiBaseHashCoder_new_def
      MultiBaseHashCoder_encode_def MultiBaseHashCoder_decode_def InMemoryStore_set_def InMemoryStore_get_def)

lemma test_hashspace_passes:
  assumes "\<And>b x. mb_dec (mb_enc b x) = Inr (b, x)" and "\<And>x. is_ok (mh k x)"
  shows "test_hashspace mh k mb_enc mb_dec b = Return ()" and "sync_test_hashspace mh k mb_enc mb_dec b = Return ()"
proof -
  have "\<exists>hb. mh k x = Inr hb" for x using assms(2) [of x] by (simp add: is_ok_iff)
  then obtain h where h: "\<And>x. mh k x = Inr (h x)" by metis
  note st = space_stores [OF assms(1), where mh = mh and k = k, OF h]
  show "test_hashspace mh k mb_enc mb_dec b = Return ()"
    by (simp add: test_hashspace_def st)
  show "sync_test_hashspace mh k mb_enc mb_dec b = Return ()"
    by (simp add: sync_test_hashspace_def sync_ModularHashSpace_store_def sync_ModularHashSpace_resolve_def MultiHasher_new_def
        MultiHasher_validate_def get_hash_bytes_def MultiBaseHashCoder_new_def MultiBaseHashCoder_encode_def MultiBaseHashCoder_decode_def
        sync_InMemoryStore_ops_def sync_InMemoryStore_store_def sync_InMemoryStore_lookup_def h assms(1))
qed

lemma cache_resolves:
  assumes "link_id i" and "ModularHashSpace_resolve m (st i) h = Inr x"
  shows "HashWeb_resolve (HashWeb_new [i \<mapsto> ModularHashSpace_ops m] i) st (i @ ''/'' @ h) = Inr x"
  using assms HashWebLink_parse_print(1) [OF assms(1), of h]
  by (simp add: HashWeb_resolve_def HashWeb_new_def ModularHashSpace_ops_def)

lemma test_hashweb_passes:
  assumes "\<And>b x. mb_dec (mb_enc b x) = Inr (b, x)" and "\<And>x. is_ok (mh k x)"
  shows "test_hashweb mh k mb_enc mb_dec b = Return ()"
proof -
  have "\<exists>hb. mh k x = Inr hb" for x using assms(2) [of x] by (simp add: is_ok_iff)
  then obtain h where h: "\<And>x. mh k x = Inr (h x)" by metis
  note st = space_stores [OF assms(1), where mh = mh and k = k, OF h]
  let ?m = "ModularHashSpace_new (MultiHasher_new mh k) InMemoryStore_ops (MultiBaseHashCoder_new mb_enc mb_dec b)"
  have store: "HashWeb_store (HashWeb_new [''cache'' \<mapsto> ModularHashSpace_ops ?m] ''cache'') (\<lambda>_. InMemoryStore_new) x
      = (Inr (''cache'' @ ''/'' @ mb_enc b (h x)), (\<lambda>_. InMemoryStore_new)(''cache'' := \<lparr>imap = [h x \<mapsto> x]\<rparr>))" for x
    by (simp add: HashWeb_store_def HashWeb_new_def ModularHashSpace_ops_def st InMemoryStore_new_def)
  have resolve: "HashWeb_resolve (HashWeb_new [''cache'' \<mapsto> ModularHashSpace_ops ?m] ''cache'') ((\<lambda>_. InMemoryStore_new)(''cache'' := \<lparr>imap = [h x \<mapsto> x]\<rparr>))
      (''cache'' @ ''/'' @ mb_enc b (h x)) = Inr x" for x
    by (rule cache_resolves) (simp_all add: link_id_def st)
  show ?thesis unfolding test_hashweb_def Let_def store prod.case using resolve by simp
qed

lemma test_blob_address_resolution_passes:
  assumes "\<And>b x. mb_dec (mb_enc b x) = Inr (b, x)" and "\<And>x. is_ok (mh k x)" and "\<And>x. CHR ''#'' \<notin> set (mb_enc b x)"
  shows "test_blob_address_resolution mh k mb_enc mb_dec b = Return ()"
proof -
  have "\<exists>hb. mh k x = Inr hb" for x using assms(2) [of x] by (simp add: is_ok_iff)
  then obtain h where h: "\<And>x. mh k x = Inr (h x)" by metis
  note st = space_stores [OF assms(1), where mh = mh and k = k, OF h]
  let ?m = "ModularHashSpace_new (MultiHasher_new mh k) InMemoryStore_ops (MultiBaseHashCoder_new mb_enc mb_dec b)"
  define x where "x = str_bytes ''This is my custom binary data''"
  let ?w = "HashWeb_new [''mystore'' \<mapsto> ModularHashSpace_ops ?m] ''mystore''" and ?st = "\<lambda>_. \<lparr>imap = [h x \<mapsto> x]\<rparr>"
    and ?link = "''mystore'' @ ''/'' @ mb_enc b (h x)"
  have resolve: "HashWeb_resolve ?w ?st ?link = Inr x" by (rule cache_resolves) (simp_all add: link_id_def st)
  let ?reg = "FormatRegistry_new [''myformat'' \<mapsto> DummyFormatParser_parse (MetaAttr ''attributes'' (OBJECT [MetaAttr ''hashweblink'' (LINK ?link)]))]"
  have "resolve_blob (AddressResolver_new ?reg ?w) ?st (?link @ CHR ''#'' # ''myformat@attributes/hashweblink'')
      = resolve_attributes (AddressResolver_new ?reg ?w) ?st [''myformat@attributes/hashweblink''] (Inr x)"
    using resolve assms(3) [of "h x"] by (subst resolve_blob_eq) (simp_all add: AddressResolver_new_def)
  also have "\<dots> = Return (Inr x)"
    using resolve resolve_attr_link_found [of "''myformat''" ?reg x "''attributes/hashweblink''"]
    by (simp add: resolve_next_def AddressResolver_new_def attr_link_def resolve_format_def FormatRegistry_new_def DummyFormatParser_parse_def
        MetaData_data_def MetaData_new_def first_attrval_by_path_def iter_first_attrval_by_name_def)
  finally have blob: "resolve_blob (AddressResolver_new ?reg ?w) ?st (?link @ CHR ''#'' # ''myformat@attributes/hashweblink'') = Return (Inr x)" .
  show ?thesis
    unfolding test_blob_address_resolution_def Let_def x_def [symmetric] st(1) prod.case
    using resolve blob by (simp add: InMemoryStore_new_def)
qed

text \<open>The keys of the file store test are different files.\<close>

definition decimal_value :: "string \<Rightarrow> nat" where
  "decimal_value = foldl (\<lambda>n c. 10 * n + (of_char c - 48)) 0"

lemma of_char_digit: "d < 10 \<Longrightarrow> of_char (char_of (48 + d)) = (48 + d :: nat)"
  by simp

declare decimal.simps [simp del]

lemma decimal_value: "decimal_value (decimal n) = n"
proof (induction n rule: decimal.induct)
  case (1 n)
  show ?case
  proof (cases "n < 10")
    case True
    then show ?thesis using of_char_digit [of n] by (simp add: decimal.simps [of n] decimal_value_def)
  next
    case False
    with 1 show ?thesis using of_char_digit [of "n mod 10"] by (simp add: decimal.simps [of n] decimal_value_def)
  qed
qed

lemma decimal_relative: "relative_key (decimal n)"
proof (induction n rule: decimal.induct)
  case (1 n)
  have "char_of (48 + d) \<noteq> CHR ''/''" if "d < 10" for d :: nat
  proof
    assume "char_of (48 + d) = CHR ''/''"
    then have "of_char (char_of (48 + d) :: char) = (47 :: nat)" by simp
    then show False using of_char_digit [OF that] by simp
  qed
  with 1 show ?case by (subst decimal.simps) (auto simp: relative_key_def hd_append)
qed

lemma decimal_path: "path_join base (decimal i) = path_join base (decimal j) \<longleftrightarrow> i = j"
  by (metis decimal_relative decimal_value path_join_inj)

lemma writes_pass:
  assumes "healthy w" and "to_vec v = Inr bs" and "from_slice bs = Inr v"
  shows "\<exists>w'. file_store_writes (BlockingFileStore_ops to_vec from_slice base) v is w = Return w' \<and> healthy w'
    \<and> files w' = (\<lambda>p. if p \<in> (\<lambda>i. path_join base (decimal i)) ` set is then Some bs else files w p)"
  using assms(1)
proof (induction "is" arbitrary: w)
  case (Cons i "is")
  obtain w1 where w1: "BlockingFileStore_set to_vec base w (decimal i) v = (Inr (), w1)" "healthy w1"
    "files w1 = (files w)(path_join base (decimal i) \<mapsto> bs)"
    using healthy_set [of w to_vec v bs base "decimal i", OF Cons(2) assms(2)] by blast
  moreover have "BlockingFileStore_get from_slice base w1 (decimal i) = Inr v"
    by (rule healthy_get [of _ _ _ bs]) (simp_all add: w1 assms(3))
  ultimately show ?case using Cons(1) [OF w1(2)] by (auto simp: fun_eq_iff)
qed auto

lemma clears_pass:
  assumes "healthy w" and "from_slice bs = Inr v" and "distinct is" and "\<forall>i \<in> set is. files w (path_join base (decimal i)) = Some bs"
  shows "\<exists>w'. file_store_clears (BlockingFileStore_ops to_vec from_slice base) v is w = Return w'
    \<and> files w' = (\<lambda>p. if p \<in> (\<lambda>i. path_join base (decimal i)) ` set is then None else files w p)"
  using assms(1,3,4)
proof (induction "is" arbitrary: w)
  case (Cons i "is")
  let ?w = "w\<lparr>files := (files w)(path_join base (decimal i) := None)\<rparr>"
  have "BlockingFileStore_get from_slice base w (decimal i) = Inr v"
    by (rule healthy_get [of _ _ _ bs]) (use Cons(2,4) assms(2) in simp_all)
  moreover have "BlockingFileStore_clear_local base w (decimal i) = (Inr (), ?w)"
    using Cons(2,4) by (simp add: BlockingFileStore_clear_local_def fs_remove_file_def healthy_def)
  moreover have "healthy ?w" using Cons(2) by (simp add: healthy_def)
  moreover have "\<forall>j \<in> set is. files ?w (path_join base (decimal j)) = Some bs" using Cons(3,4) by (auto simp: decimal_path)
  ultimately show ?case using Cons(1) [of ?w] Cons(3) by (auto simp: fun_eq_iff)
qed auto

lemma test_file_store_passes:
  assumes "healthy w" and "to_vec ''my_application'' = Inr bs" and "from_slice bs = Inr ''my_application''"
  shows "\<exists>w'. test_file_store to_vec from_slice w = Return w'
    \<and> (\<forall>p. files w' p = (if p \<in> (\<lambda>i. path_join ''./filetest/store/'' (decimal i)) ` {0..<100} then None else files w p))"
proof -
  let ?base = "''./filetest/store/''"
  obtain w1 where w1: "file_store_writes (BlockingFileStore_ops to_vec from_slice ?base) ''my_application'' [0..<100] w = Return w1" "healthy w1"
    "files w1 = (\<lambda>p. if p \<in> (\<lambda>i. path_join ?base (decimal i)) ` set [0..<100] then Some bs else files w p)"
    using writes_pass [of w to_vec "''my_application''" bs from_slice ?base "[0..<100]"] assms by blast
  have "distinct [0..<100 :: nat]" by simp
  moreover have "\<forall>i \<in> set [0..<100]. files w1 (path_join ?base (decimal i)) = Some bs" by (simp add: w1(3))
  ultimately obtain w2 where "file_store_clears (BlockingFileStore_ops to_vec from_slice ?base) ''my_application'' [0..<100] w1 = Return w2"
    "files w2 = (\<lambda>p. if p \<in> (\<lambda>i. path_join ?base (decimal i)) ` set [0..<100] then None else files w1 p)"
    using clears_pass [of w1 from_slice bs "''my_application''" "[0..<100]" ?base to_vec] w1(2) assms(3) by blast
  then show ?thesis using w1 by (simp add: test_file_store_def)
qed

end
