(* ===== verification/Protocol_Tests.thy ===== *)
theory Protocol_Tests
  imports Storage_Tests Capnp_Messages Connect_Net Future_Results
begin

text \<open>
  The unit tests of the protocol crate and of the client library on the model: collecting results
  (\<^verbatim>\<open>home-protocol/src/future.rs\<close>), the encoding of half proofs
  (\<^verbatim>\<open>home-protocol/src/mercury_capnp/mod.rs\<close>) and the conversion of addresses
  (\<^verbatim>\<open>connect/src/net.rs\<close>).
\<close>

section \<open>Collecting results\<close>

text \<open>A result as a future is ready from the start.\<close>

definition into_future :: "('a, 'e) result \<Rightarrow> ('a, 'e) fut" where
  "into_future r = \<lparr>ready_at = 0, outcome = r\<rparr>"

type_synonym ('a, 'e) selector = "(nat \<times> ('a, 'e) fut) list \<Rightarrow> (nat \<times> ('a, 'e) fut) \<times> (nat \<times> ('a, 'e) fut) list"

definition test_collect_empty :: "(unit, unit) selector \<Rightarrow> unit run" where
  "test_collect_empty select_all =
     run_bind (unwrap_some (collect_results select_all [])) (\<lambda>res. assert (res = []))"

definition test_collect_few :: "(int, int) selector \<Rightarrow> unit run" where
  "test_collect_few select_all =
     (let futs = [Inr 1, Inl 2, Inr 3, Inl 4]
      in run_bind (unwrap_some (collect_results select_all (map into_future futs))) (\<lambda>res. assert (res = futs)))"

text \<open>The first future waits for the end of the stream into which the second sends and then lets go of.\<close>

definition test_collect_order :: "(int, unit) selector \<Rightarrow> unit run" where
  "test_collect_order select_all =
     run_bind (unwrap_some (collect_results select_all [\<lparr>ready_at = 1, outcome = Inr 1\<rparr>, \<lparr>ready_at = 0, outcome = Inr 2\<rparr>]))
       (\<lambda>res. assert (res = [Inr 1, Inr 2]))"

lemma test_collect_passes:
  "selects sel0 \<Longrightarrow> test_collect_empty sel0 = Return ()"
  "selects sel1 \<Longrightarrow> test_collect_few sel1 = Return ()"
  "selects sel2 \<Longrightarrow> test_collect_order sel2 = Return ()"
  by (simp_all add: test_collect_empty_def test_collect_few_def test_collect_order_def collect_results_eq into_future_def)

section \<open>Encoding of half proofs\<close>

text \<open>Writing a message to bytes and reading it again are parameters.\<close>

definition relation_half_proof_encoding ::
  "(relation_half_proof_msg \<Rightarrow> (bytes, capnp_error) result) \<Rightarrow> (bytes \<Rightarrow> (relation_half_proof_msg, capnp_error) result) \<Rightarrow> unit run" where
  "relation_half_proof_encoding write_message read_message =
     (let half_proof = \<lparr>hp_relation_type = ''friend'', hp_signer_id = ProfileId (str_bytes ''me''),
            hp_peer_id = ProfileId (str_bytes ''you''), hp_signature = Signature (str_bytes ''i signed'')\<rparr>
      in run_bind (unwrap (write_message (RelationHalfProof_fill_from half_proof))) (\<lambda>buffer.
         run_bind (unwrap (read_message buffer)) (\<lambda>obj_reader.
         run_bind (unwrap (RelationHalfProof_try_from obj_reader)) (\<lambda>recoded.
         assert (recoded = half_proof)))))"

lemma relation_half_proof_encoding_passes:
  assumes "\<And>msg. is_ok (write_message msg)" and "\<And>msg buffer. write_message msg = Inr buffer \<Longrightarrow> read_message buffer = Inr msg"
  shows "relation_half_proof_encoding write_message read_message = Return ()"
proof -
  have "\<exists>buffer. write_message msg = Inr buffer" for msg using assms(1) [of msg] by (simp add: is_ok_iff)
  then obtain buffer where "\<And>msg. write_message msg = Inr (buffer msg)" by metis
  then show ?thesis using assms(2) by (simp add: relation_half_proof_encoding_def Let_def)
qed

section \<open>Addresses\<close>

definition test_multiaddr_conversion :: "(string \<Rightarrow> (Multiaddr, string) result) \<Rightarrow> unit run" where
  "test_multiaddr_conversion parse =
     run_bind (unwrap (parse ''/ip4/127.0.0.1/tcp/22'')) (\<lambda>multiaddr.
     run_bind (unwrap (multiaddr_to_socketaddr multiaddr)) (\<lambda>socketaddr.
     run_bind (assert (socketaddr = \<lparr>ip = V4 [127, 0, 0, 1], port = 22\<rparr>)) (\<lambda>_.
     run_bind (unwrap (parse ''/ip4/127.0.0.1/utp'')) (\<lambda>multiaddr.
     assert (multiaddr_to_socketaddr multiaddr = Inl AddressConversionFailed)))))"

lemma test_multiaddr_conversion_passes:
  assumes "parse ''/ip4/127.0.0.1/tcp/22'' = Inr [IP4 [127, 0, 0, 1], TCP 22]"
    and "parse ''/ip4/127.0.0.1/utp'' = Inr [IP4 [127, 0, 0, 1], OtherComponent utp]"
  shows "test_multiaddr_conversion parse = Return ()"
  using assms by (simp add: test_multiaddr_conversion_def multiaddr_to_socketaddr_def)

end
