(* ===== verification/Home_Tests.thy ===== *)
theory Home_Tests
  imports Network_Properties Storage_Tests
begin

text \<open>
  The integration tests of the home (\<^verbatim>\<open>test/src/home.rs\<close> with the helpers of \<^verbatim>\<open>test/src/lib.rs\<close>):
  registration, claiming, login, events and calls, each against a node in the same process and over a
  connection through proxies and dispatchers.  The keys that the tests generate are arguments, so the
  theorem at the end says that the tests pass whatever keys they draw.  A test that would wait for an
  item that does not come counts as failed.
\<close>

section \<open>Set-up\<close>

type_synonym test_server = "((ProfileId, Profile) InMemoryStore, (ProfileId, OwnProfile) InMemoryStore) HomeServer"
type_synonym test_env = "((ProfileId, Profile) InMemoryStore, (ProfileId, OwnProfile) InMemoryStore) HomeEnv"

text \<open>A profile for a generated key; the key is inside the signer.\<close>

definition generate_ownprofile :: "ProfileFacet \<Rightarrow> bytes \<Rightarrow> Signer \<Rightarrow> OwnProfile" where
  "generate_ownprofile f private_data signer =
     OwnProfile_new (Profile_new (signer_profile_id signer) (signer_public_key signer) f) private_data"

definition generate_persona :: "Signer \<Rightarrow> OwnProfile" where
  "generate_persona = generate_ownprofile (Persona \<lparr>homes = [], persona_data = []\<rparr>) []"

definition generate_home :: "Signer \<Rightarrow> Profile" where
  "generate_home signer = profile (generate_ownprofile (Home \<lparr>addrs = [], home_data = []\<rparr>) [] signer)"

definition default_home_server :: test_server where
  "default_home_server = HomeServer_new InMemoryStore_new InMemoryStore_new"

definition first_home_of :: "OwnProfile \<Rightarrow> RelationProof run" where
  "first_home_of own =
     (case facet (profile own) of
        Persona persona \<Rightarrow> (case homes persona of [] \<Rightarrow> Panic | p # _ \<Rightarrow> Return p)
      | _ \<Rightarrow> Panic)"

datatype TestMode = Direct | Memsocket

text \<open>The connection is the mode with the context the node has for it.\<close>

record TestClient =
  tc_ownprofile :: OwnProfile
  tc_home_context :: PeerContext
  tc_mode :: TestMode
  tc_conn :: PeerContext

definition TestClient_new :: "test_env \<Rightarrow> TestMode \<Rightarrow> OwnProfile \<Rightarrow> Signer \<Rightarrow> Signer \<Rightarrow> Profile \<Rightarrow> TestClient run" where
  "TestClient_new env mode own client_signer home_signer home_profile =
     run_bind (unwrap (HomeConnectionServer_new env (PeerContext_new home_signer (public_key (profile own)) (profile_id (profile own))))) (\<lambda>conn.
       Return \<lparr>tc_ownprofile = own, tc_home_context = PeerContext_new_from_profile client_signer home_profile, tc_mode = mode, tc_conn = conn\<rparr>)"

record TestSetup =
  ts_mode :: TestMode
  ts_home_signer :: Signer
  ts_home_profile :: Profile
  ts_testclient :: TestClient
  ts_home_server :: test_server

definition TestSetup_init :: "test_env \<Rightarrow> Signer \<Rightarrow> Signer \<Rightarrow> TestMode \<Rightarrow> TestSetup run" where
  "TestSetup_init env home_signer testclient_signer mode =
     run_bind (TestClient_new env mode (generate_persona testclient_signer) testclient_signer home_signer (generate_home home_signer)) (\<lambda>testclient.
       Return \<lparr>ts_mode = mode, ts_home_signer = home_signer, ts_home_profile = generate_home home_signer,
         ts_testclient = testclient, ts_home_server = default_home_server\<rparr>)"

section \<open>The connection\<close>

text \<open>\<open>later\<close> is what happens at the node while a call waits.\<close>

definition conn_home :: "test_env \<Rightarrow> TestClient \<Rightarrow> (test_server \<Rightarrow> test_server) \<Rightarrow> (nat, test_server) HomeTrait" where
  "conn_home env c later = HomeConnection_trait env (tc_conn c) (Inr ()) later"

definition conn_register ::
  "test_env \<Rightarrow> TestClient \<Rightarrow> OwnProfile \<Rightarrow> RelationHalfProof \<Rightarrow> HomeInvitation option \<Rightarrow> test_server
     \<Rightarrow> ((OwnProfile, OwnProfile \<times> ErrorKind) result \<times> test_server) run" where
  "conn_register env c own half invite st =
     (case tc_mode c of
        Direct \<Rightarrow> Return (register env (tc_conn c) own half invite st)
      | Memsocket \<Rightarrow> client_register (\<lambda>ps. rpc_send Up (dispatch_register (\<lambda>_. []) (conn_home env c (\<lambda>st. st)) ps)) own half invite st)"

definition conn_claim :: "test_env \<Rightarrow> TestClient \<Rightarrow> ProfileId \<Rightarrow> test_server \<Rightarrow> ((OwnProfile, ErrorKind) result \<times> test_server) run" where
  "conn_claim env c i st =
     (case tc_mode c of
        Direct \<Rightarrow> Return (claim env (tc_conn c) st i, st)
      | Memsocket \<Rightarrow> client_claim (\<lambda>ps. rpc_send Up (dispatch_claim (\<lambda>_. []) (conn_home env c (\<lambda>st. st)) ps)) i st)"

definition conn_login :: "test_env \<Rightarrow> TestClient \<Rightarrow> RelationProof \<Rightarrow> test_server \<Rightarrow> ((nat, ErrorKind) result \<times> test_server) run" where
  "conn_login env c p st =
     (case tc_mode c of
        Direct \<Rightarrow> Return (login env (tc_conn c) p st)
      | Memsocket \<Rightarrow> client_login (\<lambda>ps. rpc_send Up (dispatch_login (\<lambda>_. []) (conn_home env c (\<lambda>st. st)) ps)) p st)"

definition conn_pair_request :: "test_env \<Rightarrow> TestClient \<Rightarrow> RelationHalfProof \<Rightarrow> test_server \<Rightarrow> ((unit, ErrorKind) result \<times> test_server) run" where
  "conn_pair_request env c half st =
     (case tc_mode c of
        Direct \<Rightarrow> Return (pair_request env (tc_conn c) half st)
      | Memsocket \<Rightarrow> client_pair_request (\<lambda>ps. rpc_send Up (dispatch_pair_request (\<lambda>_. []) (conn_home env c (\<lambda>st. st)) ps)) half st)"

definition conn_pair_response :: "test_env \<Rightarrow> TestClient \<Rightarrow> RelationProof \<Rightarrow> test_server \<Rightarrow> ((unit, ErrorKind) result \<times> test_server) run" where
  "conn_pair_response env c rel st =
     (case tc_mode c of
        Direct \<Rightarrow> Return (pair_response env (tc_conn c) rel st)
      | Memsocket \<Rightarrow> client_pair_response (\<lambda>ps. rpc_send Up (dispatch_pair_response (\<lambda>_. []) (conn_home env c (\<lambda>st. st)) ps)) rel st)"

definition conn_call ::
  "test_env \<Rightarrow> TestClient \<Rightarrow> (test_server \<Rightarrow> test_server) \<Rightarrow> ApplicationId \<Rightarrow> CallRequestDetails \<Rightarrow> test_server
     \<Rightarrow> ((AppMsgSink option, ErrorKind) result \<times> test_server) run" where
  "conn_call env c later app req st =
     (case tc_mode c of
        Direct \<Rightarrow> Return (trait_call (conn_home env c later) app req st)
      | Memsocket \<Rightarrow> client_call (\<lambda>ps. rpc_send Up (dispatch_call (\<lambda>_. []) (conn_home env c later) ps)) app req st)"

text \<open>Operations of a session, which the client has by its name.\<close>

definition conn_ping :: "test_env \<Rightarrow> TestClient \<Rightarrow> string \<Rightarrow> test_server \<Rightarrow> ((string, ErrorKind) result \<times> test_server) run" where
  "conn_ping env c txt st =
     (case tc_mode c of
        Direct \<Rightarrow> Return (ping txt, st)
      | Memsocket \<Rightarrow> client_ping (\<lambda>ps. rpc_send Up (dispatch_ping (\<lambda>_. []) (HomeSession_trait env (tc_conn c)) ps)) txt st)"

definition on_heap :: "nat \<Rightarrow> (HomeSessionServer \<Rightarrow> test_server \<Rightarrow> 'a) \<Rightarrow> test_server \<Rightarrow> 'a run" where
  "on_heap sid f st = (case session_heap st sid of None \<Rightarrow> Panic | Some s \<Rightarrow> Return (f s st))"

text \<open>The first item of an event stream; over a connection it comes through the listener of the proxy.\<close>

definition take_event :: "TestMode \<Rightarrow> channel_id \<Rightarrow> test_server \<Rightarrow> (ProfileEvent \<times> test_server) run" where
  "take_event mode c st =
     (case receive_event c st of
        (None, st) \<Rightarrow> Panic
      | (Some item, st) \<Rightarrow>
          (case (case mode of Direct \<Rightarrow> [item] | Memsocket \<Rightarrow> queue (client_events (dispatch_events [item]))) of
             Inr event # _ \<Rightarrow> Return (event, st)
           | _ \<Rightarrow> Panic))"

section \<open>The tests\<close>

definition register_client :: "test_env \<Rightarrow> TestClient \<Rightarrow> TestSetup \<Rightarrow> (OwnProfile \<times> TestSetup) run" where
  "register_client env c su =
     (let half_proof = RelationHalfProof_new (bincode_ser env) RELATION_TYPE_HOSTED_ON_HOME
            (ctx_peer_id (tc_home_context (ts_testclient su))) (my_signer (tc_home_context c))
      in run_bind (conn_register env c (tc_ownprofile c) half_proof None (ts_home_server su)) (\<lambda>(r, st).
         run_bind (unwrap r) (\<lambda>own. Return (own, su\<lparr>ts_home_server := st\<rparr>))))"

definition register_client_from_setup :: "test_env \<Rightarrow> TestSetup \<Rightarrow> (OwnProfile \<times> TestSetup) run" where
  "register_client_from_setup env su = register_client env (ts_testclient su) su"

definition test_home_register :: "test_env \<Rightarrow> TestSetup \<Rightarrow> unit run" where
  "test_home_register env su =
     run_bind (register_client_from_setup env su) (\<lambda>(registered, su).
     let c = ts_testclient su in
     case facet (profile registered) of
       Persona f \<Rightarrow>
         (case homes f of
            [] \<Rightarrow> Panic
          | home_proof # _ \<Rightarrow>
              assert (validate_relation_proof (bincode_ser env) (validator env) home_proof
                (ctx_peer_id (tc_home_context c)) (peer_pubkey (tc_home_context c))
                (profile_id (profile (tc_ownprofile c))) (public_key (profile (tc_ownprofile c))) = Inr ()))
     | _ \<Rightarrow> Panic)"

definition test_home_claim :: "test_env \<Rightarrow> TestSetup \<Rightarrow> unit run" where
  "test_home_claim env su =
     run_bind (register_client_from_setup env su) (\<lambda>(registered, su).
     let c = ts_testclient su in
     run_bind (conn_claim env c (profile_id (profile (tc_ownprofile c))) (ts_home_server su)) (\<lambda>(r, st).
     run_bind (unwrap r) (\<lambda>claimed. assert (registered = claimed))))"

definition test_home_login :: "test_env \<Rightarrow> TestSetup \<Rightarrow> unit run" where
  "test_home_login env su =
     run_bind (register_client_from_setup env su) (\<lambda>(own, su).
     let c = ts_testclient su in
     run_bind (first_home_of own) (\<lambda>p.
     run_bind (conn_login env c p (ts_home_server su)) (\<lambda>(r, st).
     run_bind (unwrap r) (\<lambda>_.
     run_bind (conn_ping env c ''ping'' st) (\<lambda>(r, st).
     run_bind (unwrap r) (\<lambda>pong. assert (''ping'' = pong)))))))"

definition login_first :: "test_env \<Rightarrow> TestClient \<Rightarrow> OwnProfile \<Rightarrow> test_server \<Rightarrow> (nat \<times> test_server) run" where
  "login_first env c own st =
     run_bind (first_home_of own) (\<lambda>p.
     run_bind (conn_login env c p st) (\<lambda>(r, st).
     run_bind (unwrap r) (\<lambda>sid. Return (sid, st))))"

definition test_home_events :: "test_env \<Rightarrow> Signer \<Rightarrow> TestSetup \<Rightarrow> unit run" where
  "test_home_events env signer2 su =
     run_bind (register_client_from_setup env su) (\<lambda>(ownprofile1, su).
     run_bind (TestClient_new env (ts_mode su) (generate_persona signer2) signer2 (ts_home_signer su) (ts_home_profile su)) (\<lambda>testclient2.
     run_bind (register_client env testclient2 su) (\<lambda>(ownprofile2, su).
     let c = ts_testclient su in
     run_bind (login_first env c ownprofile1 (ts_home_server su)) (\<lambda>(session1, st).
     run_bind (login_first env testclient2 ownprofile2 st) (\<lambda>(session2, st).
     run_bind (on_heap session1 (events session1) st) (\<lambda>(events1, st).
     run_bind (on_heap session2 (events session2) st) (\<lambda>(events2, st).
     let half_proof = RelationHalfProof_new (bincode_ser env) ''friend'' (profile_id (profile ownprofile2)) (my_signer (tc_home_context c)) in
     run_bind (conn_pair_request env c half_proof st) (\<lambda>(r, st).
     run_bind (unwrap r) (\<lambda>_.
     run_bind (take_event (ts_mode su) events2 st) (\<lambda>(event, st).
     run_bind (case event of
         PairingRequest half_proof \<Rightarrow>
           run_bind (assert (hp_peer_id half_proof = profile_id (profile ownprofile2))) (\<lambda>_.
           run_bind (unwrap (sign_remaining_half (bincode_ser env) half_proof signer2)) (\<lambda>rel.
           run_bind (conn_pair_response env testclient2 rel st) (\<lambda>(r, st).
           run_bind (unwrap r) (\<lambda>_. Return st))))
       | _ \<Rightarrow> Panic) (\<lambda>st.
     run_bind (take_event (ts_mode su) events1 st) (\<lambda>(event, st).
     case event of
       PairingResponse rel \<Rightarrow>
         run_bind (unwrap (validate_relation_proof (bincode_ser env) (validator env) rel
           (profile_id (profile ownprofile1)) (public_key (profile ownprofile1))
           (profile_id (profile ownprofile2)) (public_key (profile ownprofile2)))) Return
     | _ \<Rightarrow> Panic))))))))))))"

text \<open>The callee takes the call, checks it and answers with its sink; over a connection the call comes
  through the listener of the proxy.  The sink of the caller and the node with the answer.\<close>

definition callee_answers ::
  "TestMode \<Rightarrow> channel_id \<Rightarrow> string \<Rightarrow> AppMessageFrame \<Rightarrow> AppMsgSink \<Rightarrow> test_server \<Rightarrow> (AppMsgSink \<times> test_server) run" where
  "callee_answers mode calls rel_type payload forward_sink st =
     (case call_chans st calls of
        None \<Rightarrow> Panic
      | Some ch \<Rightarrow>
          (case queue ch of
             Inr cl # cls \<Rightarrow>
               (let st = st\<lparr>call_chans := (call_chans st)(calls \<mapsto> ch\<lparr>queue := cls\<rparr>)\<rparr>;
                    (details, reply) = (case mode of
                      Direct \<Rightarrow> ([Inr (request cl)], Some (Some forward_sink))
                    | Memsocket \<Rightarrow> (case dispatch_call_item (Inr ()) (CalleeAnswers (Some forward_sink)) (Inr (request cl)) new_channel of
                        (_, reply, listener) \<Rightarrow> (queue listener, reply)))
                in case (details, reply) of
                     (Inr d # _, Some a) \<Rightarrow>
                       run_bind (assert (relation_type (relation d) = rel_type)) (\<lambda>_.
                       run_bind (assert (init_payload d = payload)) (\<lambda>_.
                       run_bind (unwrap_some (to_caller d)) (\<lambda>sink. Return (sink, snd (answer cl a st)))))
                   | _ \<Rightarrow> Panic)
           | _ \<Rightarrow> Panic))"

text \<open>A message into a sink; over a connection it is forwarded to the sink's owner.\<close>

definition app_send :: "TestMode \<Rightarrow> AppMsgSink \<Rightarrow> AppMessageFrame \<Rightarrow> (AppMsgSink \<Rightarrow> AppMessageFrame channel) \<Rightarrow> AppMsgSink \<Rightarrow> AppMessageFrame channel" where
  "app_send mode sink msg chans = chans(sink :=
     (case mode of Direct \<Rightarrow> snd (sink_send [] (Inr msg) (chans sink)) | Memsocket \<Rightarrow> fwd_appmsg [Inr msg] (chans sink)))"

definition test_home_call :: "test_env \<Rightarrow> Signer \<Rightarrow> TestSetup \<Rightarrow> unit run" where
  "test_home_call env caller_signer su =
     run_bind (register_client_from_setup env su) (\<lambda>(callee_ownprofile, su).
     run_bind (TestClient_new env (ts_mode su) (generate_persona caller_signer) caller_signer (ts_home_signer su) (ts_home_profile su)) (\<lambda>caller_testclient.
     run_bind (register_client env caller_testclient su) (\<lambda>(_, su).
     let app = ApplicationId ''chat''; c = ts_testclient su in
     run_bind (login_first env c callee_ownprofile (ts_home_server su)) (\<lambda>(callee_session, st).
     run_bind (on_heap callee_session (\<lambda>s. checkin_app callee_session s app) st) (\<lambda>(callee_calls, st).
     let half_proof = RelationHalfProof_new (bincode_ser env) ''friend'' (profile_id (profile callee_ownprofile)) caller_signer in
     run_bind (unwrap (sign_remaining_half (bincode_ser env) half_proof (my_signer (tc_home_context c)))) (\<lambda>rel.
     let payload = AppMessageFrame (str_bytes ''hello''); forward_sink = 0; backwards_sink = 1; chans = (\<lambda>_. new_channel);
         req = \<lparr>relation = rel, init_payload = payload, to_caller = Some backwards_sink\<rparr>;
         callee = callee_answers (ts_mode su) callee_calls ''friend'' payload forward_sink;
         later = (\<lambda>st. case callee st of Return (_, st) \<Rightarrow> st | Panic \<Rightarrow> st)
     in run_bind (conn_call env caller_testclient later app req st) (\<lambda>(r, st2).
     run_bind (unwrap r) (\<lambda>forward_sink_returned.
     run_bind (callee (snd (call env (tc_conn caller_testclient) app req (Inr ()) st))) (\<lambda>(backwards_sink_returned, _).
     let banana = AppMessageFrame (str_bytes ''banana''); orange = AppMessageFrame (str_bytes ''orange'') in
     run_bind (unwrap_some forward_sink_returned) (\<lambda>sink.
     let chans = app_send (ts_mode su) sink banana chans in
     run_bind (assert (queue (chans forward_sink) = [Inr banana])) (\<lambda>_.
     let chans = app_send (ts_mode su) backwards_sink_returned orange chans in
     assert (queue (chans backwards_sink) = [Inr orange]))))))))))))"

text \<open>\<^verbatim>\<open>do_test\<close>: in one mode after the other, each with keys of its own.\<close>

definition do_test :: "test_env \<Rightarrow> (TestMode \<Rightarrow> Signer) \<Rightarrow> (TestMode \<Rightarrow> Signer) \<Rightarrow> (TestSetup \<Rightarrow> unit run) \<Rightarrow> unit run" where
  "do_test env home_signer client_signer test_fn =
     run_bind (run_bind (TestSetup_init env (home_signer Direct) (client_signer Direct) Direct) test_fn) (\<lambda>_.
     run_bind (TestSetup_init env (home_signer Memsocket) (client_signer Memsocket) Memsocket) test_fn)"

section \<open>Operations that succeed do so in both modes\<close>

lemma conn_login_ok: "login env (tc_conn c) p st = (Inr sid, st') \<Longrightarrow> conn_login env c p st = Return (Inr sid, st')"
  using remote_login [of "conn_home env c (\<lambda>st. st)" p st "Inr sid" st' "\<lambda>_. []"]
  by (simp add: conn_login_def conn_home_def HomeConnection_trait_def split: TestMode.split)

lemma conn_pair_request_ok: "pair_request env (tc_conn c) half st = (Inr (), st') \<Longrightarrow> conn_pair_request env c half st = Return (Inr (), st')"
  using remote_pair_request [of "conn_home env c (\<lambda>st. st)" half st "Inr ()" st' "\<lambda>_. []"]
  by (simp add: conn_pair_request_def conn_home_def HomeConnection_trait_def split: TestMode.split)

lemma conn_pair_response_ok: "pair_response env (tc_conn c) rel st = (Inr (), st') \<Longrightarrow> conn_pair_response env c rel st = Return (Inr (), st')"
  using remote_pair_response [of "conn_home env c (\<lambda>st. st)" rel st "Inr ()" st' "\<lambda>_. []"]
  by (simp add: conn_pair_response_def conn_home_def HomeConnection_trait_def split: TestMode.split)

lemma conn_call_ok:
  "call env (tc_conn c) app req (Inr ()) st = (Inr recv, st1) \<Longrightarrow> await_answer (later st1) recv True = Some (Inr a)
     \<Longrightarrow> conn_call env c later app req st = Return (Inr a, later st1)"
  using remote_call [of "conn_home env c later" app req st "Inr a" "later st1" "\<lambda>_. []"]
  by (simp add: conn_call_def conn_home_def HomeConnection_trait_def split: TestMode.split)

lemma conn_ping_ok: "conn_ping env c txt st = Return (Inr txt, st)"
  by (simp add: conn_ping_def ping_def client_ping_def dispatch_ping_def Capnp_Rpc.respond_def rpc_send_def pry_def dispatch_def
      HomeSession_trait_def split: TestMode.split)

lemma conn_register_ok:
  fixes ser v c own half st own' st'
  defines "env \<equiv> memory_env ser v"
  assumes "wire_inv imap st" and "sendable (profile own)" and "carried_own own = own" and "carried_own own' = own'"
    and "\<And>invite. register env (tc_conn c) own half invite st = (Inr own', st')"
  shows "conn_register env c own half None st = Return (Inr own', st')"
proof -
  have "client_register (\<lambda>ps. rpc_send Up (dispatch_register (\<lambda>_. []) (conn_home env c (\<lambda>st. st)) ps)) own half None st
      = Return (map_err (\<lambda>_. (own, RegisterFailed)) (map_ok carried_own (Inr own')), st')"
    unfolding conn_home_def env_def
    using memory_home.wire.remote_register [OF assms(2,3), of ser v "tc_conn c" "Inr ()" "\<lambda>st. st" half "Inr own'" st' "\<lambda>_. []" None]
    by (simp add: HomeConnection_trait_def assms(4,6) [unfolded env_def])
  then show ?thesis using assms(5,6) by (simp add: conn_register_def split: TestMode.split)
qed

lemma conn_claim_ok:
  fixes ser v c i st own
  defines "env \<equiv> memory_env ser v"
  assumes "wire_inv imap st" and "carried_own own = own" and "claim env (tc_conn c) st i = Inr own"
  shows "conn_claim env c i st = Return (Inr own, st)"
proof -
  have "client_claim (\<lambda>ps. rpc_send Up (dispatch_claim (\<lambda>_. []) (conn_home env c (\<lambda>st. st)) ps)) i st
      = Return (map_err (\<lambda>_. ErrorKind.FailedToClaimProfile) (map_ok carried_own (Inr own)), st)"
    unfolding conn_home_def env_def
    using memory_home.wire.remote_claim [OF assms(2), of ser v "tc_conn c" "Inr ()" "\<lambda>st. st" i "Inr own" st "\<lambda>_. []"]
    by (simp add: HomeConnection_trait_def assms(4) [unfolded env_def])
  then show ?thesis using assms(3,4) by (simp add: conn_claim_def split: TestMode.split)
qed

lemma take_event_ok:
  assumes "receive_event c st = (Some (Inr ev), st')" and "carried_event ev = ev"
  shows "take_event mode c st = Return (ev, st')"
  using assms dispatch_event_open [of new_channel "Inr ev"]
  by (simp add: take_event_def client_events_def dispatch_events_def new_channel_def split: TestMode.split)

section \<open>Set-up and registration\<close>

definition test_client :: "TestMode \<Rightarrow> Signer \<Rightarrow> Signer \<Rightarrow> TestClient" where
  "test_client mode hs s = \<lparr>tc_ownprofile = generate_persona s, tc_home_context = PeerContext_new s (signer_public_key hs) (signer_profile_id hs),
     tc_mode = mode, tc_conn = PeerContext_new hs (signer_public_key s) (signer_profile_id s)\<rparr>"

lemma persona_sel [simp]:
  "profile_id (profile (generate_persona s)) = signer_profile_id s" "public_key (profile (generate_persona s)) = signer_public_key s"
  "facet (profile (generate_persona s)) = Persona \<lparr>homes = [], persona_data = []\<rparr>" "priv_data (generate_persona s) = []"
  by (simp_all add: generate_persona_def generate_ownprofile_def OwnProfile_new_def Profile_new_def)

lemma test_client_sel [simp]:
  "tc_ownprofile (test_client mode hs s) = generate_persona s" "tc_mode (test_client mode hs s) = mode"
  "tc_conn (test_client mode hs s) = PeerContext_new hs (signer_public_key s) (signer_profile_id s)"
  "my_signer (tc_home_context (test_client mode hs s)) = s" "ctx_peer_id (tc_home_context (test_client mode hs s)) = signer_profile_id hs"
  "peer_pubkey (tc_home_context (test_client mode hs s)) = signer_public_key hs"
  by (simp_all add: test_client_def PeerContext_new_def)

lemma test_client_new:
  assumes "multihash_ok mh" and "ed_owns mh ed pk s"
  shows "TestClient_new (memory_env ser (default_validator mh ed)) mode (generate_persona s) s hs (generate_home hs) = Return (test_client mode hs s)"
proof -
  have "validator (memory_env ser (default_validator mh ed)) = default_validator mh ed" by simp
  from owner_accepted [OF assms this] show ?thesis
    by (simp add: TestClient_new_def test_client_def PeerContext_new_from_profile_def generate_home_def generate_ownprofile_def OwnProfile_new_def Profile_new_def)
qed

definition home_half :: "bincode \<Rightarrow> Signer \<Rightarrow> Signer \<Rightarrow> RelationHalfProof" where
  "home_half ser hs s = RelationHalfProof_new ser RELATION_TYPE_HOSTED_ON_HOME (signer_profile_id hs) s"

definition hosted_on :: "test_env \<Rightarrow> Signer \<Rightarrow> Signer \<Rightarrow> RelationProof" where
  "hosted_on env hs s = home_proof_of env (PeerContext_new hs (signer_public_key s) (signer_profile_id s)) (home_half (bincode_ser env) hs s)"

definition hosted_own :: "test_env \<Rightarrow> Signer \<Rightarrow> Signer \<Rightarrow> OwnProfile" where
  "hosted_own env hs s = add_home (hosted_on env hs s) (generate_persona s)"

lemma hosted_own_sel [simp]:
  "profile_id (profile (hosted_own env hs s)) = signer_profile_id s" "public_key (profile (hosted_own env hs s)) = signer_public_key s"
  "facet (profile (hosted_own env hs s)) = Persona \<lparr>homes = [hosted_on env hs s], persona_data = []\<rparr>"
  by (simp_all add: hosted_own_def)

definition with_hosted :: "test_env \<Rightarrow> Signer \<Rightarrow> Signer \<Rightarrow> test_server \<Rightarrow> test_server" where
  "with_hosted env hs s st = st\<lparr>public_profile_dht := (public_profile_dht st)\<lparr>imap := (imap (public_profile_dht st))(signer_profile_id s \<mapsto> profile (hosted_own env hs s))\<rparr>,
     hosted_profile_db := (hosted_profile_db st)\<lparr>imap := (imap (hosted_profile_db st))(signer_profile_id s \<mapsto> hosted_own env hs s)\<rparr>\<rparr>"

lemma hosted_registrable:
  fixes env :: test_env
  assumes "ed_owns mh ed pk s" and "signer_public_key s = pk" and "validator env = default_validator mh ed"
  shows "registrable env (PeerContext_new hs (signer_public_key s) (signer_profile_id s)) (generate_persona s) (home_half (bincode_ser env) hs s)"
  using ed25519.half_proof_valid [OF assms(1)] assms(2,3)
  by (simp add: registrable_def PeerContext_new_def home_half_def RelationHalfProof_new_def Let_def)

lemma register_client_ok:
  fixes ser mh ed and su :: TestSetup
  defines "env \<equiv> memory_env ser (default_validator mh ed)"
  assumes keys: "multihash_ok mh" "ed_owns mh ed pk s"
    and su: "ctx_peer_id (tc_home_context (ts_testclient su)) = signer_profile_id hs" "wire_inv imap (ts_home_server su)"
      "imap (hosted_profile_db (ts_home_server su)) (signer_profile_id s) = None"
  shows "register_client env (test_client mode hs s) su
    = Return (hosted_own env hs s, su\<lparr>ts_home_server := with_hosted env hs s (ts_home_server su)\<rparr>)"
proof -
  have v: "validator env = default_validator mh ed" by (simp add: env_def)
  note pk = owner_accepted(1) [OF keys v]
  note reg = hosted_registrable [OF keys(2) pk v, of hs]
  have "register env (tc_conn (test_client mode hs s)) (generate_persona s) (home_half ser hs s) invite (ts_home_server su)
      = (Inr (hosted_own env hs s), with_hosted env hs s (ts_home_server su))" for invite
    using su(3) reg register_eq [OF reg, of invite "ts_home_server su"]
    by (simp add: env_def register_store_def Let_def InMemoryStore_get_def InMemoryStore_set_def with_hosted_def hosted_own_def hosted_on_def)
  then have "conn_register env (test_client mode hs s) (generate_persona s) (home_half ser hs s) None (ts_home_server su)
      = Return (Inr (hosted_own env hs s), with_hosted env hs s (ts_home_server su))"
    unfolding env_def
    by (intro conn_register_ok su(2)) (simp_all add: sendable_def carried_own_def carried_def carried_facet_def)
  then show ?thesis using su(1) by (simp add: register_client_def home_half_def env_def)
qed

lemma setup_ok:
  assumes "multihash_ok mh" and "ed_owns mh ed pk s"
  shows "TestSetup_init (memory_env ser (default_validator mh ed)) hs s mode
    = Return \<lparr>ts_mode = mode, ts_home_signer = hs, ts_home_profile = generate_home hs, ts_testclient = test_client mode hs s, ts_home_server = default_home_server\<rparr>"
  by (simp add: TestSetup_init_def test_client_new [OF assms])

lemma default_server_sel [simp]:
  "imap (hosted_profile_db default_home_server) = Map.empty" "sessions default_home_server = Map.empty" "session_heap default_home_server = Map.empty"
  "next_id default_home_server = 0" "wire_inv imap default_home_server"
  by (simp_all add: default_home_server_def HomeServer_new_def InMemoryStore_new_def wire_inv_def)

lemma with_hosted_sel [simp]:
  "imap (hosted_profile_db (with_hosted env hs s st)) = (imap (hosted_profile_db st))(signer_profile_id s \<mapsto> hosted_own env hs s)"
  "sessions (with_hosted env hs s st) = sessions st" "session_heap (with_hosted env hs s st) = session_heap st"
  "next_id (with_hosted env hs s st) = next_id st"
  "wire_inv imap st \<Longrightarrow> wire_inv imap (with_hosted env hs s st)"
  by (auto simp: with_hosted_def wire_inv_def)

lemma hosted_on_peer:
  fixes env :: test_env
  assumes "ed_owns mh ed pk s" and "signer_public_key s = pk" and "validator env = default_validator mh ed"
  shows "peer_id (hosted_on env hs s) (signer_profile_id hs) = Inr (signer_profile_id s)"
    and "relation_type (hosted_on env hs s) = RELATION_TYPE_HOSTED_ON_HOME"
  using home_proof_peer(1,3) [OF hosted_registrable [OF assms, of hs]] by (simp_all add: hosted_on_def PeerContext_new_def)

text \<open>Logging in with the home that registration has given.\<close>

definition with_session :: "Signer \<Rightarrow> Signer \<Rightarrow> test_server \<Rightarrow> test_server" where
  "with_session hs s st = st\<lparr>session_heap := (session_heap st)(next_id st \<mapsto> HomeSessionServer_new (PeerContext_new hs (signer_public_key s) (signer_profile_id s))),
     sessions := (sessions st)(signer_profile_id s \<mapsto> next_id st), next_id := next_id st + 1\<rparr>"

lemma login_first_ok:
  fixes ser mh ed and st :: test_server
  defines "env \<equiv> memory_env ser (default_validator mh ed)"
  assumes keys: "multihash_ok mh" "ed_owns mh ed pk s"
    and st: "imap (hosted_profile_db st) (signer_profile_id s) = Some own" "sessions st (signer_profile_id s) = None"
  shows "login_first env (test_client mode hs s) (hosted_own env hs s) st = Return (next_id st, with_session hs s st)"
proof -
  have v: "validator env = default_validator mh ed" by (simp add: env_def)
  note p = hosted_on_peer [OF keys(2) owner_accepted(1) [OF keys v] v, of hs]
  have "login env (tc_conn (test_client mode hs s)) (hosted_on env hs s) st = (Inr (next_id st), with_session hs s st)"
    using p st by (simp add: login_def PeerContext_new_def env_def InMemoryStore_get_def with_session_def)
  from conn_login_ok [OF this] show ?thesis by (simp add: login_first_def first_home_of_def)
qed

section \<open>The tests pass\<close>

lemma test_home_register_ok:
  fixes ser mh ed
  defines "env \<equiv> memory_env ser (default_validator mh ed)"
  assumes keys: "multihash_ok mh" "ed_owns mh ed pkh hs" "ed_owns mh ed pk s" "signer_profile_id s \<noteq> signer_profile_id hs"
  shows "run_bind (TestSetup_init env hs s mode) (test_home_register env) = Return ()"
    and "run_bind (TestSetup_init env hs s mode) (test_home_claim env) = Return ()"
    and "run_bind (TestSetup_init env hs s mode) (test_home_login env) = Return ()"
proof -
  have v: "validator env = default_validator mh ed" by (simp add: env_def)
  note pk = owner_accepted(1) [OF keys(1,3) v] and pkh = owner_accepted(1) [OF keys(1,2) v]
  note init = setup_ok [OF keys(1,3), of ser hs mode, folded env_def]
  let ?su = "\<lparr>ts_mode = mode, ts_home_signer = hs, ts_home_profile = generate_home hs, ts_testclient = test_client mode hs s, ts_home_server = default_home_server\<rparr>"
  have reg: "register_client_from_setup env ?su = Return (hosted_own env hs s, ?su\<lparr>ts_home_server := with_hosted env hs s default_home_server\<rparr>)"
    using register_client_ok [OF keys(1,3), of ?su hs ser mode] by (simp add: register_client_from_setup_def env_def)
  have "validate_relation_proof (bincode_ser env) (validator env) (hosted_on env hs s) (signer_profile_id s) (signer_public_key s) (signer_profile_id hs) pkh = Inr ()"
    using home_proof_valid [OF hosted_registrable [OF keys(3) pk v, of hs], of pkh] keys(4) ed25519.accepts [OF keys(2)]
    by (simp add: hosted_on_def PeerContext_new_def v)
  with validate_relation_proof_swap [OF keys(4)] pkh
  show "run_bind (TestSetup_init env hs s mode) (test_home_register env) = Return ()"
    by (simp add: init test_home_register_def reg)
  have "claim env (tc_conn (test_client mode hs s)) (with_hosted env hs s default_home_server) (signer_profile_id s) = Inr (hosted_own env hs s)"
    by (simp add: claim_def PeerContext_new_def env_def InMemoryStore_get_def)
  then have "conn_claim env (test_client mode hs s) (signer_profile_id s) (with_hosted env hs s default_home_server)
      = Return (Inr (hosted_own env hs s), with_hosted env hs s default_home_server)"
    unfolding env_def by (intro conn_claim_ok) (simp_all add: carried_own_def carried_def carried_facet_def)
  then show "run_bind (TestSetup_init env hs s mode) (test_home_claim env) = Return ()"
    by (simp add: init test_home_claim_def reg)
  have "login_first env (test_client mode hs s) (hosted_own env hs s) (with_hosted env hs s default_home_server)
      = Return (0, with_session hs s (with_hosted env hs s default_home_server))"
    using login_first_ok [OF keys(1,3), of "with_hosted env hs s default_home_server" "hosted_own env hs s" ser mode hs] by (simp add: env_def)
  then show "run_bind (TestSetup_init env hs s mode) (test_home_login env) = Return ()"
    by (auto simp: init test_home_login_def reg login_first_def conn_ping_ok)
qed

lemma push_to:
  fixes st :: test_server
  assumes "imap (hosted_profile_db st) i = Some own" and "sessions st i = Some sid" and "session_heap st sid = Some s"
    and "events_sink s = Sender c" and "event_chans st c = Some ch" and "\<not> closed ch"
  shows "push_event (memory_env ser v) i ev st = (Inr (), st\<lparr>event_chans := (event_chans st)(c \<mapsto> ch\<lparr>queue := queue ch @ [Inr ev]\<rparr>)\<rparr>)"
  using assms by (simp add: push_event_def get_live_session_def session_push_event_def chan_send_def InMemoryStore_get_def)

text \<open>Both clients registered, logged in and listening.\<close>

definition both_online :: "test_env \<Rightarrow> Signer \<Rightarrow> Signer \<Rightarrow> Signer \<Rightarrow> test_server" where
  "both_online env hs s1 s2 =
     (let st = with_session hs s2 (with_session hs s1 (with_hosted env hs s2 (with_hosted env hs s1 default_home_server)));
          st = snd (events 0 (HomeSessionServer_new (PeerContext_new hs (signer_public_key s1) (signer_profile_id s1))) st)
      in snd (events 1 (HomeSessionServer_new (PeerContext_new hs (signer_public_key s2) (signer_profile_id s2))) st))"

lemma both_online_sel:
  assumes "signer_profile_id s1 \<noteq> signer_profile_id s2"
  shows "imap (hosted_profile_db (both_online env hs s1 s2)) (signer_profile_id s1) = Some (hosted_own env hs s1)"
    "imap (hosted_profile_db (both_online env hs s1 s2)) (signer_profile_id s2) = Some (hosted_own env hs s2)"
    "sessions (both_online env hs s1 s2) (signer_profile_id s1) = Some 0" "sessions (both_online env hs s1 s2) (signer_profile_id s2) = Some 1"
    "\<exists>s. session_heap (both_online env hs s1 s2) 0 = Some s \<and> events_sink s = Sender 2"
    "\<exists>s. session_heap (both_online env hs s1 s2) 1 = Some s \<and> events_sink s = Sender 3"
    "event_chans (both_online env hs s1 s2) 2 = Some new_channel" "event_chans (both_online env hs s1 s2) 3 = Some new_channel"
  using assms by (simp_all add: both_online_def with_session_def events_def Let_def HomeSessionServer_new_def)

abbreviation test_setup :: "TestMode \<Rightarrow> Signer \<Rightarrow> Signer \<Rightarrow> test_server \<Rightarrow> TestSetup" where
  "test_setup mode hs s st \<equiv> \<lparr>ts_mode = mode, ts_home_signer = hs, ts_home_profile = generate_home hs, ts_testclient = test_client mode hs s, ts_home_server = st\<rparr>"

text \<open>Two clients register one after the other.\<close>

lemma two_registered:
  fixes ser mh ed
  defines "env \<equiv> memory_env ser (default_validator mh ed)"
  assumes keys: "multihash_ok mh" "ed_owns mh ed pk1 s1" "ed_owns mh ed pk2 s2" "signer_profile_id s1 \<noteq> signer_profile_id s2"
  shows "TestSetup_init env hs s1 mode = Return (test_setup mode hs s1 default_home_server)"
    and "TestClient_new env mode (generate_persona s2) s2 hs (generate_home hs) = Return (test_client mode hs s2)"
    and "register_client_from_setup env (test_setup mode hs s1 default_home_server) = Return (hosted_own env hs s1, test_setup mode hs s1 (with_hosted env hs s1 default_home_server))"
    and "register_client env (test_client mode hs s2) (test_setup mode hs s1 (with_hosted env hs s1 default_home_server))
      = Return (hosted_own env hs s2, test_setup mode hs s1 (with_hosted env hs s2 (with_hosted env hs s1 default_home_server)))"
    and "login_first env (test_client mode hs s1) (hosted_own env hs s1) (with_hosted env hs s2 (with_hosted env hs s1 default_home_server))
      = Return (0, with_session hs s1 (with_hosted env hs s2 (with_hosted env hs s1 default_home_server)))"
proof -
  let ?st1 = "with_hosted env hs s1 default_home_server"
  show "TestSetup_init env hs s1 mode = Return (test_setup mode hs s1 default_home_server)" using setup_ok [OF keys(1,2)] by (simp add: env_def)
  show "TestClient_new env mode (generate_persona s2) s2 hs (generate_home hs) = Return (test_client mode hs s2)"
    using test_client_new [OF keys(1,3)] by (simp add: env_def)
  show "register_client_from_setup env (test_setup mode hs s1 default_home_server) = Return (hosted_own env hs s1, test_setup mode hs s1 ?st1)"
    using register_client_ok [OF keys(1,2), of "test_setup mode hs s1 default_home_server" hs ser mode] by (simp add: register_client_from_setup_def env_def)
  show "register_client env (test_client mode hs s2) (test_setup mode hs s1 ?st1) = Return (hosted_own env hs s2, test_setup mode hs s1 (with_hosted env hs s2 ?st1))"
    using register_client_ok [OF keys(1,3), of "test_setup mode hs s1 ?st1" hs ser mode] keys(4) by (simp add: env_def)
  show "login_first env (test_client mode hs s1) (hosted_own env hs s1) (with_hosted env hs s2 ?st1) = Return (0, with_session hs s1 (with_hosted env hs s2 ?st1))"
    using login_first_ok [OF keys(1,2), of "with_hosted env hs s2 ?st1" "hosted_own env hs s1" ser mode hs] keys(4) by (simp add: env_def)
qed

lemma both_listening:
  fixes ser mh ed
  defines "env \<equiv> memory_env ser (default_validator mh ed)"
  assumes keys: "multihash_ok mh" "ed_owns mh ed pk1 s1" "ed_owns mh ed pk2 s2" "signer_profile_id s1 \<noteq> signer_profile_id s2"
  obtains st4 st5 where "login_first env (test_client mode hs s2) (hosted_own env hs s2) (with_session hs s1 (with_hosted env hs s2 (with_hosted env hs s1 default_home_server)))
      = Return (1, st4)" "on_heap 0 (events 0) st4 = Return (2, st5)" "on_heap 1 (events 1) st5 = Return (3, both_online env hs s1 s2)"
proof -
  let ?st3 = "with_session hs s1 (with_hosted env hs s2 (with_hosted env hs s1 default_home_server))"
  have "login_first env (test_client mode hs s2) (hosted_own env hs s2) ?st3 = Return (1, with_session hs s2 ?st3)"
    using login_first_ok [OF keys(1,3), of ?st3 "hosted_own env hs s2" ser mode hs] keys(4) by (simp add: env_def with_session_def)
  moreover obtain st5 where "on_heap 0 (events 0) (with_session hs s2 ?st3) = Return (2, st5)" "on_heap 1 (events 1) st5 = Return (3, both_online env hs s1 s2)"
    by (simp add: on_heap_def with_session_def both_online_def events_def Let_def HomeSessionServer_new_def)
  ultimately show ?thesis by (rule that)
qed

text \<open>The request and the response arrive.\<close>

lemma both_paired:
  fixes ser mh ed
  defines "env \<equiv> memory_env ser (default_validator mh ed)"
  assumes keys: "multihash_ok mh" "ed_owns mh ed pk1 s1" "ed_owns mh ed pk2 s2" "signer_profile_id s1 \<noteq> signer_profile_id s2"
  obtains half st7 st8 rel st9 st10 where "half = RelationHalfProof_new ser ''friend'' (signer_profile_id s2) s1"
    "conn_pair_request env (test_client mode hs s1) half (both_online env hs s1 s2) = Return (Inr (), st7)"
    "take_event mode 3 st7 = Return (PairingRequest half, st8)" "sign_remaining_half ser half s2 = Inr rel"
    "conn_pair_response env (test_client mode hs s2) rel st8 = Return (Inr (), st9)" "take_event mode 2 st9 = Return (PairingResponse rel, st10)"
    "validate_relation_proof ser (default_validator mh ed) rel (signer_profile_id s1) (signer_public_key s1) (signer_profile_id s2) (signer_public_key s2) = Inr ()"
proof -
  have v: "validator env = default_validator mh ed" and ser: "bincode_ser env = ser" by (simp_all add: env_def)
  note pk = owner_accepted(1) [OF keys(1,2) v] owner_accepted(1) [OF keys(1,3) v]
  let ?i1 = "signer_profile_id s1" and ?i2 = "signer_profile_id s2" and ?c1 = "test_client mode hs s1" and ?c2 = "test_client mode hs s2"
  let ?half = "RelationHalfProof_new ser ''friend'' ?i2 s1" and ?st6 = "both_online env hs s1 s2"
  let ?st7 = "?st6\<lparr>event_chans := (event_chans ?st6)(3 \<mapsto> new_channel\<lparr>queue := [Inr (PairingRequest ?half)]\<rparr>)\<rparr>"
  let ?st8 = "?st6\<lparr>event_chans := (event_chans ?st6)(3 \<mapsto> new_channel)\<rparr>"
  note on = both_online_sel [OF keys(4), of env hs]
  have request: "conn_pair_request env ?c1 ?half ?st6 = Return (Inr (), ?st7)"
    using on ed25519.half_proof_valid [OF keys(2)] push_to [OF on(2,4), of _ 3 new_channel ser "default_validator mh ed" "PairingRequest ?half"] pk(1)
    by (intro conn_pair_request_ok) (auto simp: pair_request_def PeerContext_new_def v ser new_channel_def, simp add: env_def)
  have take1: "take_event mode 3 ?st7 = Return (PairingRequest ?half, ?st8)"
    by (rule take_event_ok) (simp_all add: receive_event_def new_channel_def carried_event_def)
  obtain rel where rel: "sign_remaining_half ser ?half s2 = Inr rel" "peer_id rel ?i1 = Inr ?i2"
    "validate_relation_proof ser (default_validator mh ed) rel ?i1 pk1 ?i2 pk2 = Inr ()"
    using ed25519.completed_valid [OF keys(2,3,4)] by blast
  let ?st9 = "?st8\<lparr>event_chans := (event_chans ?st8)(2 \<mapsto> new_channel\<lparr>queue := [Inr (PairingResponse rel)]\<rparr>)\<rparr>"
  have push: "push_event env ?i1 (PairingResponse rel) ?st8 = (Inr (), ?st9)"
    using on push_to [of ?st8 ?i1 "hosted_own env hs s1" 0 _ 2 new_channel ser "default_validator mh ed" "PairingResponse rel"]
    by (auto simp: env_def new_channel_def)
  have "pair_response env (tc_conn ?c2) rel ?st8 = (Inr (), ?st9)"
    using push on(1) peer_id_involutive [OF rel(2)] rel(3) validate_relation_proof_swap [OF keys(4)] pk
    by (simp add: pair_response_def check_relation_def PeerContext_new_def v ser) (simp add: env_def InMemoryStore_get_def)
  note response = conn_pair_response_ok [OF this]
  have take2: "take_event mode 2 ?st9 = Return (PairingResponse rel, ?st9\<lparr>event_chans := (event_chans ?st9)(2 \<mapsto> new_channel)\<rparr>)"
    by (rule take_event_ok) (simp_all add: receive_event_def new_channel_def carried_event_def)
  from that [OF refl request take1 rel(1) response take2] rel(3) pk show ?thesis by simp
qed

lemma test_home_events_ok:
  fixes ser mh ed
  defines "env \<equiv> memory_env ser (default_validator mh ed)"
  assumes keys: "multihash_ok mh" "ed_owns mh ed pk1 s1" "ed_owns mh ed pk2 s2" "signer_profile_id s1 \<noteq> signer_profile_id s2"
  shows "run_bind (TestSetup_init env hs s1 mode) (test_home_events env s2) = Return ()"
proof -
  have env: "bincode_ser env = ser" "validator env = default_validator mh ed" by (simp_all add: env_def)
  note start = two_registered [OF keys, where ser = ser and hs = hs and mode = mode, folded env_def]
  obtain st4 st5 where listening: "login_first env (test_client mode hs s2) (hosted_own env hs s2) (with_session hs s1 (with_hosted env hs s2 (with_hosted env hs s1 default_home_server)))
      = Return (1, st4)" "on_heap 0 (events 0) st4 = Return (2, st5)" "on_heap 1 (events 1) st5 = Return (3, both_online env hs s1 s2)"
    using both_listening [OF keys, where ser = ser and hs = hs and mode = mode, folded env_def] by blast
  obtain half st7 st8 rel st9 st10 where paired: "RelationHalfProof_new ser ''friend'' (signer_profile_id s2) s1 = half"
    "conn_pair_request env (test_client mode hs s1) half (both_online env hs s1 s2) = Return (Inr (), st7)"
    "take_event mode 3 st7 = Return (PairingRequest half, st8)" "sign_remaining_half ser half s2 = Inr rel"
    "conn_pair_response env (test_client mode hs s2) rel st8 = Return (Inr (), st9)" "take_event mode 2 st9 = Return (PairingResponse rel, st10)"
    "validate_relation_proof ser (default_validator mh ed) rel (signer_profile_id s1) (signer_public_key s1) (signer_profile_id s2) (signer_public_key s2) = Inr ()"
    using both_paired [OF keys, where ser = ser and hs = hs and mode = mode, folded env_def] by metis
  have "hp_peer_id half = signer_profile_id s2" using paired(1) by auto
  with start listening paired show ?thesis by (simp add: test_home_events_def env)
qed

text \<open>The callee is logged in and takes calls for \<^verbatim>\<open>chat\<close>.\<close>

definition callee_online :: "test_env \<Rightarrow> Signer \<Rightarrow> Signer \<Rightarrow> Signer \<Rightarrow> test_server" where
  "callee_online env hs s1 s2 = snd (checkin_app 0 (HomeSessionServer_new (PeerContext_new hs (signer_public_key s1) (signer_profile_id s1)))
     (ApplicationId ''chat'') (with_session hs s1 (with_hosted env hs s2 (with_hosted env hs s1 default_home_server))))"

lemma callee_online_sel:
  assumes "signer_profile_id s1 \<noteq> signer_profile_id s2"
  shows "imap (hosted_profile_db (callee_online env hs s1 s2)) (signer_profile_id s1) = Some (hosted_own env hs s1)"
    "sessions (callee_online env hs s1 s2) (signer_profile_id s1) = Some 0" "next_id (callee_online env hs s1 s2) = 2"
    "\<exists>s. session_heap (callee_online env hs s1 s2) 0 = Some s \<and> map_of (apps s) (ApplicationId ''chat'') = Some (Sender 1)"
    "call_chans (callee_online env hs s1 s2) 1 = Some new_channel"
    "on_heap 0 (\<lambda>s. checkin_app 0 s (ApplicationId ''chat'')) (with_session hs s1 (with_hosted env hs s2 (with_hosted env hs s1 default_home_server)))
      = Return (1, callee_online env hs s1 s2)"
  using assms by (simp_all add: callee_online_def with_session_def checkin_app_def Let_def HomeSessionServer_new_def on_heap_def)

lemma push_call_to:
  fixes st :: test_server
  assumes "imap (hosted_profile_db st) i = Some own" and "sessions st i = Some sid" and "session_heap st sid = Some s"
    and "map_of (apps s) app = Some (Sender c)" and "call_chans st c = Some ch" and "\<not> closed ch"
  shows "push_call (memory_env ser v) i app cl st = (Inr (), st\<lparr>call_chans := (call_chans st)(c \<mapsto> ch\<lparr>queue := queue ch @ [Inr cl]\<rparr>)\<rparr>)"
  using assms by (simp add: push_call_def get_live_session_def session_push_call_def chan_send_def InMemoryStore_get_def)

lemma callee_answers_ok:
  fixes st :: test_server
  assumes "call_chans st calls = Some ch" and "queue ch = [Inr cl]" and "relation_type (relation (request cl)) = rel_type"
    and "init_payload (request cl) = payload" and "to_caller (request cl) = Some sink"
  obtains st' where "callee_answers mode calls rel_type payload forward st = Return (sink, st')"
    "oneshots st' (answer_to cl) = Some (Answered (Some forward))"
  using assms by (cases mode) (simp_all add: callee_answers_def Let_def answer_def dispatch_call_item_open new_channel_def)

lemma app_send_ok: "\<not> closed (chans sink) \<Longrightarrow> app_send mode sink msg chans = chans(sink := (chans sink)\<lparr>queue := queue (chans sink) @ [Inr msg]\<rparr>)"
  by (simp add: app_send_def sink_send_def fwd_appmsg_def fwd_message_open split: TestMode.split)

text \<open>The call of the test arrives.\<close>

lemma call_arrives:
  fixes ser mh ed
  defines "env \<equiv> memory_env ser (default_validator mh ed)"
  assumes keys: "multihash_ok mh" "ed_owns mh ed pk1 s1" "ed_owns mh ed pk2 s2" "signer_profile_id s1 \<noteq> signer_profile_id s2"
  obtains rel where "sign_remaining_half ser (RelationHalfProof_new ser ''friend'' (signer_profile_id s1) s2) s1 = Inr rel"
    "relation_type rel = ''friend''"
    "\<And>payload sink. \<exists>st1 ch. call env (tc_conn (test_client mode hs s2)) (ApplicationId ''chat'') \<lparr>relation = rel, init_payload = payload, to_caller = sink\<rparr> (Inr ())
        (callee_online env hs s1 s2) = (Inr 2, st1)
      \<and> call_chans st1 1 = Some ch \<and> queue ch = [Inr \<lparr>request = \<lparr>relation = rel, init_payload = payload, to_caller = sink\<rparr>, answer_to = 2\<rparr>]"
proof -
  have v: "validator env = default_validator mh ed" and ser: "bincode_ser env = ser" by (simp_all add: env_def)
  note pk = owner_accepted(1) [OF keys(1,2) v] owner_accepted(1) [OF keys(1,3) v]
  let ?half = "RelationHalfProof_new ser ''friend'' (signer_profile_id s1) s2" and ?st = "callee_online env hs s1 s2"
  obtain rel where rel: "sign_remaining_half ser ?half s1 = Inr rel" "peer_id rel (signer_profile_id s2) = Inr (signer_profile_id s1)"
    "validate_relation_proof ser (default_validator mh ed) rel (signer_profile_id s2) pk2 (signer_profile_id s1) pk1 = Inr ()"
    using ed25519.completed_valid [OF keys(3,2) keys(4)[symmetric]] by blast
  have t: "relation_type rel = ''friend''" using rel(1) by (auto simp: sign_remaining_half_def RelationHalfProof_new_def Let_def split: if_splits)
  note on = callee_online_sel [OF keys(4), where env = env and hs = hs]
  have "\<exists>st1 ch. call env (tc_conn (test_client mode hs s2)) (ApplicationId ''chat'') req (Inr ()) ?st = (Inr 2, st1)
      \<and> call_chans st1 1 = Some ch \<and> queue ch = [Inr \<lparr>request = req, answer_to = 2\<rparr>]" if "relation req = rel" for req
  proof -
    let ?st1 = "?st\<lparr>oneshots := (oneshots ?st)(2 \<mapsto> Pending), next_id := 2 + 1\<rparr>"
    have "check_relation env (tc_conn (test_client mode hs s2)) rel (signer_profile_id s1) ?st1 = Inr ()"
      using rel(3) on(1) pk by (simp add: check_relation_def PeerContext_new_def v ser) (simp add: env_def InMemoryStore_get_def)
    moreover have "\<exists>st1. push_call env (signer_profile_id s1) (ApplicationId ''chat'') (Call_new req 2) ?st1 = (Inr (), st1)
        \<and> call_chans st1 1 = Some (new_channel\<lparr>queue := [Inr (Call_new req 2)]\<rparr>)"
      using on push_call_to [of ?st1 "signer_profile_id s1" "hosted_own env hs s1" 0 _ "ApplicationId ''chat''" 1 new_channel ser "default_validator mh ed" "Call_new req 2"]
      by (auto simp: env_def new_channel_def)
    ultimately show ?thesis using rel(2) on(3) that by (auto simp: call_def Let_def PeerContext_new_def Call_new_def)
  qed
  then show ?thesis using that [OF rel(1) t] by simp
qed

lemma test_home_call_ok:
  fixes ser mh ed
  defines "env \<equiv> memory_env ser (default_validator mh ed)"
  assumes keys: "multihash_ok mh" "ed_owns mh ed pk1 s1" "ed_owns mh ed pk2 s2" "signer_profile_id s1 \<noteq> signer_profile_id s2"
  shows "run_bind (TestSetup_init env hs s1 mode) (test_home_call env s2) = Return ()"
proof -
  have env: "bincode_ser env = ser" by (simp add: env_def)
  note start = two_registered [OF keys, where ser = ser and hs = hs and mode = mode, folded env_def]
  note on = callee_online_sel(6) [OF keys(4), where env = env and hs = hs]
  let ?payload = "AppMessageFrame (str_bytes ''hello'')" and ?c = "test_client mode hs s2" and ?st = "callee_online env hs s1 s2"
  obtain rel where rel: "sign_remaining_half ser (RelationHalfProof_new ser ''friend'' (signer_profile_id s1) s2) s1 = Inr rel" "relation_type rel = ''friend''"
    and arrives: "\<And>payload sink. \<exists>st1 ch. call env (tc_conn ?c) (ApplicationId ''chat'') \<lparr>relation = rel, init_payload = payload, to_caller = sink\<rparr> (Inr ()) ?st = (Inr 2, st1)
      \<and> call_chans st1 1 = Some ch \<and> queue ch = [Inr \<lparr>request = \<lparr>relation = rel, init_payload = payload, to_caller = sink\<rparr>, answer_to = 2\<rparr>]"
    using call_arrives [OF keys, where ser = ser and hs = hs and mode = mode, folded env_def] by metis
  let ?req = "\<lparr>relation = rel, init_payload = ?payload, to_caller = Some 1\<rparr>"
  obtain st1 ch where call: "call env (tc_conn ?c) (ApplicationId ''chat'') ?req (Inr ()) ?st = (Inr 2, st1)"
    "call_chans st1 1 = Some ch" "queue ch = [Inr \<lparr>request = ?req, answer_to = 2\<rparr>]" using arrives by blast
  let ?callee = "callee_answers mode 1 ''friend'' ?payload 0"
  let ?later = "\<lambda>st. case ?callee st of Return (_, st) \<Rightarrow> st | Panic \<Rightarrow> st"
  obtain st2 where answered: "?callee st1 = Return (1, st2)" "oneshots st2 2 = Some (Answered (Some 0))"
    using callee_answers_ok [OF call(2,3)] rel(2) by (metis Call.select_convs CallRequestDetails.select_convs)
  have "conn_call env ?c ?later (ApplicationId ''chat'') ?req ?st = Return (Inr (Some 0), st2)"
    using conn_call_ok [OF call(1), of ?later "Some 0"] answered by (simp add: await_answer_def)
  with start on rel call(1) answered show ?thesis
    by (simp add: test_home_call_def env Let_def app_send_ok new_channel_def)
qed

section \<open>Every test\<close>

text \<open>C15: the integration tests of the home pass, whatever keys they draw.  If the signers of the node,
  of the first and of the second client are made by \<^verbatim>\<open>Ed25519Signer\<close> and have different profile
  ids, then the registration, claim, login, event and call tests finish without a panic and with every
  assertion true, first against the node itself and then through proxies and dispatchers.\<close>

theorem home_tests_pass:
  fixes ser mh ed
  defines "env \<equiv> memory_env ser (default_validator mh ed)"
  assumes "multihash_ok mh"
    and "\<And>mode. ed_owns mh ed (pkh mode) (hs mode) \<and> ed_owns mh ed (pk1 mode) (s1 mode) \<and> ed_owns mh ed (pk2 mode) (s2 mode)"
    and "\<And>mode. signer_profile_id (s1 mode) \<noteq> signer_profile_id (hs mode) \<and> signer_profile_id (s1 mode) \<noteq> signer_profile_id (s2 mode)"
  shows "do_test env hs s1 (test_home_register env) = Return () \<and> do_test env hs s1 (test_home_claim env) = Return ()
    \<and> do_test env hs s1 (test_home_login env) = Return ()
    \<and> do_test env hs s1 (\<lambda>su. test_home_events env (s2 (ts_mode su)) su) = Return ()
    \<and> do_test env hs s1 (\<lambda>su. test_home_call env (s2 (ts_mode su)) su) = Return ()"
proof -
  note keys = assms(2) assms(3) [THEN conjunct1] assms(3) [THEN conjunct2, THEN conjunct1] assms(3) [THEN conjunct2, THEN conjunct2]
    assms(4) [THEN conjunct1] assms(4) [THEN conjunct2]
  have mode: "run_bind (TestSetup_init env (hs m) (s1 m) m) f = f (test_setup m (hs m) (s1 m) default_home_server)" for m f
    using setup_ok [OF keys(1,3), of ser "hs m" m m] by (simp add: env_def)
  have "test_home_register env (test_setup m (hs m) (s1 m) default_home_server) = Return ()"
    "test_home_claim env (test_setup m (hs m) (s1 m) default_home_server) = Return ()"
    "test_home_login env (test_setup m (hs m) (s1 m) default_home_server) = Return ()"
    "test_home_events env (s2 m) (test_setup m (hs m) (s1 m) default_home_server) = Return ()"
    "test_home_call env (s2 m) (test_setup m (hs m) (s1 m) default_home_server) = Return ()" for m
    using test_home_register_ok [OF keys(1) keys(2) [of m] keys(3) [of m] keys(5) [of m], where ser = ser and mode = m, folded env_def]
      test_home_events_ok [OF keys(1) keys(3) [of m] keys(4) [of m] keys(6) [of m], where ser = ser and hs = "hs m" and mode = m, folded env_def]
      test_home_call_ok [OF keys(1) keys(3) [of m] keys(4) [of m] keys(6) [of m], where ser = ser and hs = "hs m" and mode = m, folded env_def]
    by (simp_all only: mode)
  then show ?thesis by (simp add: do_test_def mode)
qed

theorem home_tests_pass_witness:
  "do_test (memory_env sample_bincode (default_validator sample_multihash sample_ed25519)) (\<lambda>_. sample_signer [9]) (\<lambda>_. sample_signer [1])
     (\<lambda>su. test_home_call (memory_env sample_bincode (default_validator sample_multihash sample_ed25519)) (sample_signer [2]) su) = Return ()"
proof -
  have "signer_profile_id (sample_signer [1]) \<noteq> signer_profile_id (sample_signer [9])" "signer_profile_id (sample_signer [1]) \<noteq> signer_profile_id (sample_signer [2])"
    by (simp_all add: sample_signer_def)
  with home_tests_pass [OF sample_ok(1), of sample_ed25519 "\<lambda>_. PublicKey [9]" "\<lambda>_. sample_signer [9]" "\<lambda>_. PublicKey [1]" "\<lambda>_. sample_signer [1]"
      "\<lambda>_. PublicKey [2]" "\<lambda>_. sample_signer [2]" sample_bincode] sample_owns
  show ?thesis by simp
qed

end
