(* ===== verification/Spec2Isabelle.thy ===== *)
theory Spec2Isabelle
  imports Address_Resolver Async_File_Store Home_Properties Future_Results Client_Properties Capnp_Properties
    Network_Calls Session_Cache System Uds_Server Protocol_Sample Button_Network
    Protocol_Tests Home_Tests
begin

text \<open>
  A verification of Mercury: content-addressed storage, the home protocol, the home node that hosts
  profiles, the client library with its sessions, the JSON-RPC service for applications, and the
  programs built from these.

  \<^bold>\<open>The program.\<close>  A person has a \<^emph>\<open>profile\<close>, an identity made of a key and an id that is the hash
  of the key.  A profile is hosted by \<^emph>\<open>homes\<close>.  Two profiles become related by a \<^emph>\<open>relation
  proof\<close> signed by both: one sends a half proof as a pairing request to a home of the other, the
  other completes it and sends it back as a pairing response.  Related profiles can call each other.
  A client logs in to its home, listens to the events of its session, and serves applications, which see
  the relations made for them.  Profiles are kept in key-value stores and found through a distributed
  store.

  \<^bold>\<open>Conventions\<close> (theory Mercury_Prelude).  A Rust \<^verbatim>\<open>Result\<close> is a sum with the error on the
  left.  Code that can panic has the type \<open>'a run\<close>, where \<open>Panic\<close> is a value.  Bytes are
  \<open>8 word\<close>, lengths on the wire are \<open>32 word\<close>.  State that the code shares through
  \<^verbatim>\<open>Rc<RefCell<..>>\<close> is a record that operations take and return; objects are named by numbers
  taken from a counter, and \<^verbatim>\<open>Weak::upgrade\<close> looks the number up.  A future that runs to its end
  without interleaving is a function on the state; spawned futures and streams are tasks in the
  state, polled one step at a time by a definition of their own (\<open>reactor_poll\<close>,
  \<open>client_poll\<close>, \<open>runtime_turn\<close>, \<open>rpc_poll\<close>, \<open>serve_duplex_stream\<close>, \<open>button_step\<close>), so that theorems about all
  interleavings are theorems about all sequences of polls.  Packages that are not part of the
  repository (multihash, multibase, serde, bincode, Ed25519, capnp, tokio, ipfs, jsonrpc, clap, toml) are
  parameters; what is relied on is stated as a predicate (\<open>multihash_ok\<close>, \<open>ed25519_ok\<close>,
  \<open>selects\<close>, \<open>completes_all\<close>) that a sample instance satisfies.

  \<^bold>\<open>Storage\<close> (\<^verbatim>\<open>src/storage\<close>).  Storage_Errors has the error types.  Key_Value_Store has
  the trait \<^verbatim>\<open>KeyValueStore\<close> as a record of operations, its contract as the locales
  \<open>kv_store\<close> and \<open>total_kv_store\<close>, and the implementations \<^verbatim>\<open>InMemoryStore\<close>,
  \<^verbatim>\<open>KeyAdapter\<close> and \<^verbatim>\<open>BlockingFileStore\<close> (\<^verbatim>\<open>async/fs.rs\<close>, \<^verbatim>\<open>async/imp.rs\<close>), each an
  interpretation.  Async_File_Store has \<^verbatim>\<open>AsyncFileStore\<close>: tasks on a runtime, interleaved at
  every file operation; it is equivalent to the blocking store, concurrent writes are all stored,
  every task ends, and a dropped future makes its worker panic.  Hash_Space has hashers, coders,
  serializers and the asynchronous and synchronous \<^verbatim>\<open>ModularHashSpace\<close> (\<^verbatim>\<open>async/mod.rs\<close>,
  \<^verbatim>\<open>sync/mod.rs\<close>, \<^verbatim>\<open>common\<close>): what is stored resolves, and nothing resolves that does not
  match its hash.  Hash_Web has links and the web of hash spaces.  Address_Resolver has attributes
  (\<^verbatim>\<open>meta\<close>), formats (\<^verbatim>\<open>format\<close>) and \<^verbatim>\<open>AddressResolver::resolve_blob\<close>, which refines
  following links one by one and panics on an address without an attribute part.

  \<^bold>\<open>Protocol\<close> (\<^verbatim>\<open>src/home-protocol\<close>).  Home_Types has the data and errors of
  \<^verbatim>\<open>lib.rs\<close> and \<^verbatim>\<open>error.rs\<close>; Relations the half proofs and proofs with their validation,
  and the locale \<open>signature_scheme\<close>; Crypto the Ed25519 signer and the validators
  (\<^verbatim>\<open>crypto.rs\<close>), which interpret it.  Handshake has \<^verbatim>\<open>handshake.rs\<close> and Future_Results
  \<^verbatim>\<open>future.rs\<close>, where the fuel of \<open>collect_results2\<close> counts polls and enough polls are shown to
  give the result.  Capnp_Messages, Capnp_Rpc and Capnp_Streams are \<^verbatim>\<open>mercury_capnp\<close>: the
  conversions between data and messages, the client proxies, the server dispatchers and the
  streams between them; a reader is the record of what its getters return, errors included, and a
  connection delivers a request, loses it, or loses the response.  Capnp_Home states with the locale
  \<open>servable\<close> what a home must promise to be served, and Capnp_Properties shows that a remote home behaves
  as the home itself and that no message makes a node panic.

  \<^bold>\<open>The home node\<close> (\<^verbatim>\<open>src/home-node\<close>).  Home_Server has \<^verbatim>\<open>server.rs\<close>: the record
  \<open>HomeServer\<close> is the node's two stores, its session table, the sessions, their channels, the
  pending answers of calls and the spawned tasks; there is one definition per method of \<^verbatim>\<open>Home\<close>
  and \<^verbatim>\<open>HomeSession\<close>.  Home_Invariants has the step relation \<open>home_step\<close> (requests on validated
  connections, polls, receivers and sessions that go away, in any order), the locale
  \<open>home_node\<close> with its interpretation \<open>memory_home\<close>, and what holds in every reachable state;
  Home_Events follows an event from \<^verbatim>\<open>push_event\<close> to the receiver.  Home_Properties has
  registration and its inverse, delivery of events, calls, and what login does and does not check.
  Home_Samples is a concrete run.

  \<^bold>\<open>The client\<close> (\<^verbatim>\<open>src/connect\<close>).  Connect_Types has errors and futures, Connect_Net the
  TCP connector (\<^verbatim>\<open>net.rs\<close>) and the profile repository, My_Profile all of
  \<^verbatim>\<open>profile.rs\<close>: joining and leaving homes, logging in, relations, calls and the futures that
  distribute events.  Client_Invariants is the client as a state machine with its invariant,
  My_Profile_Properties and Client_Properties what the operations do.  Connect_Service has
  \<^verbatim>\<open>service.rs\<close> and \<^verbatim>\<open>sdk.rs\<close>.

  \<^bold>\<open>Applications\<close> (\<^verbatim>\<open>src/connect/src/jsonrpc\<close>).  Json_Rpc has the sessions of
  connections and the handlers \<^verbatim>\<open>get_session\<close>, \<^verbatim>\<open>subscribe_events\<close> and
  \<^verbatim>\<open>unsubscribe_events\<close> with the future of a subscription; Json_Rpc_Properties shows that a
  connection has at most one live subscription and what a subscription forwards.  Json_Server has
  the three futures that serve a connection: responses come in the order of the requests, the
  requests waiting are bounded, the responses are not.  Uds_Server has the listening socket, the
  registered methods and any number of connections on one service; the locale \<open>session_host\<close>
  says what serving them relies on, the service interprets it, and every run is shown to be the
  same as doing one thing at a time.

  \<^bold>\<open>The whole\<close>.  Network puts clients and homes together: every operation a client calls on a
  home goes through the proxy, the dispatcher and the node it reaches, over a connection that
  \<^verbatim>\<open>mercury-home.rs\<close> accepted.  Network_Properties shows that a client can join a home and log
  in, and that two clients at any two homes can pair and end up with the same relation, valid for
  both; Network_Calls that a call reaches the application of the callee and brings its answer back.
  Session_Cache lets clients and the network move in any order, homes that restart included: leaving a
  home, and what becomes of the sessions a client has cached.
  System is the whole as one transition system: any number of clients, strangers that send what they
  like, and nodes that start and restart, each step labelled with the ids of the peers that act.  It rests on
  three theories.  Client_Acts states with the locale \<open>outside\<close> what a client relies on of its
  connections and shows, with triples over futures, that no operation of a client does anything under
  an identity that is not one of its profiles.  Node_Acts shows that what a peer does at a node
  leaves the hosted profiles of all others alone.  Network_Acts interprets \<open>outside\<close> on the network.
  So a hosted profile stays as it is until its owner acts, and the sessions a client holds are its own.

  \<^bold>\<open>Programs\<close>.  Configuration has the configuration files, the arguments and the numbers in them
  (\<^verbatim>\<open>util.rs\<close>, \<^verbatim>\<open>config.rs\<close>, \<^verbatim>\<open>server_config.rs\<close>, \<^verbatim>\<open>client_config.rs\<close>).  Home_Node is
  the program \<^verbatim>\<open>mercury-home.rs\<close>, with its store on disk: registrations survive a restart,
  published profiles do not.  Connect_Daemon is the start-up of \<^verbatim>\<open>service-daemon.rs\<close>, whose
  \<^verbatim>\<open>main\<close> is in Uds_Server, and Protocol_Sample is \<^verbatim>\<open>protocol-sample.rs\<close> on the network.
  Button is the example \<^verbatim>\<open>TheButton\<close>: the record \<open>ButtonServer\<close> with one definition per future
  and the record \<open>ButtonClient\<close> with the stages of its one future.  Button_Properties shows that
  every press reaches every caller once and how pairing goes wrong; Button_Network runs the server
  and its callers on the network, from the first start to the ring of the button at a caller.

  \<^bold>\<open>Tests\<close>.  The tests of the repository are computations on the model that panic when an assertion
  fails, with the keys they generate and the packages they use as arguments, and each is shown to
  pass.  Storage_Tests has the unit tests of \<^verbatim>\<open>src/storage\<close>, Protocol_Tests those of
  \<^verbatim>\<open>src/home-protocol\<close> and \<^verbatim>\<open>src/connect\<close>, and Home_Tests the integration tests
  \<^verbatim>\<open>src/test/src/home.rs\<close>, against a node in the same process and through proxies and dispatchers.

  \<^bold>\<open>Bounds and fuel\<close>.  All definitions are total functions; the only fuel is the number of polls
  in Future_Results and in the runs of the reactors, and wherever a theorem says that something is
  delivered or ends it says after how many polls.  The capacity of channels only decides when a send
  completes; it is modelled where it is observable, in Json_Server.

  \<^bold>\<open>Not modelled\<close>.  Logging, the texts of the command line help and the terminal signal that ends
  the example are input and output; the package that parses arguments is a parameter.
  The code generated from the capnp schema and the transport are of the capnp packages.
  \<^verbatim>\<open>TcpHomeConnector\<close>, \<^verbatim>\<open>StunTurnTcpConnector\<close>, \<^verbatim>\<open>create_profile\<close>,
  \<^verbatim>\<open>remove_profile\<close> and \<^verbatim>\<open>app_storage\<close> are unimplemented in the source, and PostgreSQL,
  MagnetDht and the key-value interface of IPFS are commented out there.  The traits
  \<^verbatim>\<open>KeyVault\<close>, \<^verbatim>\<open>Bip32PathMapper\<close> and \<^verbatim>\<open>AccessManager\<close> have no implementation.
  Of the tests, those of the channels of the futures package and of a running IPFS node are left out; the
  client tests and the dummy home under \<^verbatim>\<open>src/test\<close> are commented out in the source.
\<close>

end
